(* ===== verification/Prelude.thy ===== *)
theory Prelude
  imports Main "HOL-Library.Word" "HOL-Library.Char_ord"
begin

text \<open>
  Shared vocabulary of the development: Go strings as byte lists, the functions of the
  standard packages \<open>strings\<close> and \<open>strconv\<close> the repository uses, 64-bit signed
  arithmetic with its wrap-around, error values, and the outcome of a call that may panic.
  Go strings are byte sequences, so a \<open>string\<close> here is a list of bytes; case folding is
  the ASCII one, which is what the package computes on ASCII input.
\<close>

named_theorems go_str \<open>facts about the models of package strings\<close>
named_theorems go_num \<open>facts about fixed-width integers and decimal text\<close>

section \<open>Errors, panics, outcomes\<close>

text \<open>
  \<open>Errorf s\<close> is an error built from a text at run time; \<open>Sentinel s\<close> is a
  package-level error variable, which the code compares by identity.
\<close>

datatype goerr = Errorf string | Sentinel string

fun err_text :: "goerr \<Rightarrow> string" where
  "err_text (Errorf s) = s"
| "err_text (Sentinel s) = s"

text \<open>A panic carries either an error value or a message of the run time.\<close>

datatype panic_value = PanicErr goerr | PanicMsg string

definition nil_deref :: panic_value where
  "nil_deref = PanicMsg ''invalid memory address or nil pointer dereference''"

datatype 'a outcome = Returns 'a | Panics panic_value

fun is_panic :: "'a outcome \<Rightarrow> bool" where
  "is_panic (Returns _) = False"
| "is_panic (Panics _) = True"

fun map_outcome_value :: "('a \<Rightarrow> 'b) \<Rightarrow> 'a outcome \<Rightarrow> 'b outcome" where
  "map_outcome_value f (Returns x) = Returns (f x)"
| "map_outcome_value f (Panics p) = Panics p"

section \<open>Integers of 64 bits\<close>

text \<open>\<open>i64\<close> reduces a mathematical integer to the value a Go \<open>int64\<close> holds.\<close>

definition i64 :: "int \<Rightarrow> int" where
  "i64 x = (x + 2 ^ 63) mod 2 ^ 64 - 2 ^ 63"

definition in_i64 :: "int \<Rightarrow> bool" where
  "in_i64 x \<longleftrightarrow> - (2 ^ 63) \<le> x \<and> x < 2 ^ 63"

lemma i64_range [go_num]: "in_i64 (i64 x)"
  by (simp add: in_i64_def i64_def)

lemma i64_id [simp]: "in_i64 x \<Longrightarrow> i64 x = x"
  by (simp add: in_i64_def i64_def)

lemma i64_small [simp]: "0 \<le> x \<Longrightarrow> x < 2 ^ 63 \<Longrightarrow> i64 x = x"
  by (simp add: in_i64_def)

lemma i64_i64 [simp]: "i64 (i64 x) = i64 x"
  by (simp add: i64_range)

text \<open>Go's \<open>/\<close> and \<open>%\<close> truncate towards zero.\<close>

definition go_div :: "int \<Rightarrow> int \<Rightarrow> int" where
  "go_div a b = sgn a * sgn b * (\<bar>a\<bar> div \<bar>b\<bar>)"

definition go_mod :: "int \<Rightarrow> int \<Rightarrow> int" where
  "go_mod a b = a - b * go_div a b"

lemma go_mod_nonneg [go_num]: "0 \<le> a \<Longrightarrow> 0 < b \<Longrightarrow> go_mod a b = a mod b"
  by (cases "a = 0") (simp_all add: go_mod_def go_div_def minus_mult_div_eq_mod)

section \<open>Package strings\<close>

definition has_prefix :: "string \<Rightarrow> string \<Rightarrow> bool" where
  "has_prefix s p \<longleftrightarrow> take (length p) s = p"

definition has_suffix :: "string \<Rightarrow> string \<Rightarrow> bool" where
  "has_suffix s p \<longleftrightarrow> length p \<le> length s \<and> drop (length s - length p) s = p"

fun contains :: "string \<Rightarrow> string \<Rightarrow> bool" where
  "contains [] p = (p = [])"
| "contains (c # cs) p = (has_prefix (c # cs) p \<or> contains cs p)"

definition trim_suffix :: "string \<Rightarrow> string \<Rightarrow> string" where
  "trim_suffix s p = (if has_suffix s p then take (length s - length p) s else s)"

definition trim_prefix :: "string \<Rightarrow> string \<Rightarrow> string" where
  "trim_prefix s p = (if has_prefix s p then drop (length p) s else s)"

text \<open>\<open>strings.Trim(s, cutset)\<close>: both ends, with the cut set as a string of bytes.\<close>

definition trim_cut :: "string \<Rightarrow> string \<Rightarrow> string" where
  "trim_cut s cs = rev (dropWhile (\<lambda>c. c \<in> set cs) (rev (dropWhile (\<lambda>c. c \<in> set cs) s)))"

text \<open>A byte in an interval of the ASCII table, bounds included.\<close>

abbreviation in_range :: "char \<Rightarrow> char \<Rightarrow> char \<Rightarrow> bool" where
  "in_range lo hi c \<equiv> lo \<le> c \<and> c \<le> hi"

definition lower_char :: "char \<Rightarrow> char" where
  "lower_char c = (if CHR ''A'' \<le> c \<and> c \<le> CHR ''Z'' then char_of (of_char c + (32::nat)) else c)"

definition to_lower :: "string \<Rightarrow> string" where
  "to_lower s = map lower_char s"

definition upper_char :: "char \<Rightarrow> char" where
  "upper_char c = (if CHR ''a'' \<le> c \<and> c \<le> CHR ''z'' then char_of (of_char c - (32::nat)) else c)"

definition to_upper :: "string \<Rightarrow> string" where
  "to_upper s = map upper_char s"

text \<open>\<open>strings.Split\<close> and \<open>strings.ReplaceAll\<close>, for a separator that is not empty.\<close>

function split_from :: "string \<Rightarrow> string \<Rightarrow> string \<Rightarrow> string list" where
  "split_from sep acc [] = [rev acc]"
| "split_from sep acc (c # cs) =
     (if has_prefix (c # cs) sep then rev acc # split_from sep [] (drop (length sep - 1) cs)
      else split_from sep (c # acc) cs)"
  by pat_completeness auto
termination
  by (relation "measure (\<lambda>(sep, acc, s). length s)") auto

definition split_go :: "string \<Rightarrow> string \<Rightarrow> string list" where
  "split_go s sep = split_from sep [] s"

fun join_go :: "string list \<Rightarrow> string \<Rightarrow> string" where
  "join_go [] sep = []"
| "join_go [x] sep = x"
| "join_go (x # y # ys) sep = x @ sep @ join_go (y # ys) sep"

definition replace_all :: "string \<Rightarrow> string \<Rightarrow> string \<Rightarrow> string" where
  "replace_all s old new = join_go (split_go s old) new"

definition is_space :: "char \<Rightarrow> bool" where
  "is_space c \<longleftrightarrow> c \<in> {CHR '' '', CHR 0x09, CHR 0x0A, CHR 0x0B, CHR 0x0C, CHR 0x0D}"

definition trim_space :: "string \<Rightarrow> string" where
  "trim_space s = rev (dropWhile is_space (rev (dropWhile is_space s)))"

fun fields_from :: "string \<Rightarrow> string \<Rightarrow> string list" where
  "fields_from acc [] = (if acc = [] then [] else [rev acc])"
| "fields_from acc (c # cs) =
     (if is_space c then (if acc = [] then fields_from [] cs else rev acc # fields_from [] cs)
      else fields_from (c # acc) cs)"

definition fields_go :: "string \<Rightarrow> string list" where
  "fields_go s = fields_from [] s"

definition equal_fold :: "string \<Rightarrow> string \<Rightarrow> bool" where
  "equal_fold a b \<longleftrightarrow> to_lower a = to_lower b"

subsection \<open>Facts about prefixes and suffixes\<close>

lemma has_prefix_self [simp]: "has_prefix (p @ s) p"
  by (simp add: has_prefix_def)

lemma has_prefix_nil [simp]: "has_prefix s []"
  by (simp add: has_prefix_def)

lemma has_prefix_cons [simp]: "has_prefix (c # s) (d # p) \<longleftrightarrow> c = d \<and> has_prefix s p"
  by (auto simp: has_prefix_def)

lemma has_prefix_nil_cons [simp]: "\<not> has_prefix [] (d # p)"
  by (simp add: has_prefix_def)

lemma has_prefix_iff [go_str]: "has_prefix s p \<longleftrightarrow> (\<exists>t. s = p @ t)"
  unfolding has_prefix_def by (metis append_eq_conv_conj append_take_drop_id)

lemma has_prefix_append: "has_prefix s p \<Longrightarrow> has_prefix (s @ t) p"
  by (auto simp: has_prefix_iff)

lemma has_suffix_self [simp]: "has_suffix (s @ p) p"
  by (simp add: has_suffix_def)

lemma trim_suffix_append [simp]: "trim_suffix (s @ p) p = s"
  by (simp add: trim_suffix_def)

lemma trim_prefix_append [simp]: "trim_prefix (p @ s) p = s"
  by (simp add: trim_prefix_def)

lemma contains_nil [simp]: "contains s []"
  by (cases s) auto

lemma contains_single [go_str]: "contains s [c] \<longleftrightarrow> c \<in> set s"
  by (induction s) auto

lemma contains_append_left [go_str]: "contains s p \<Longrightarrow> contains (s @ t) p"
proof (induction s)
  case (Cons c s)
  then show ?case using has_prefix_append [of "c # s" p t] by auto
qed auto

lemma contains_append_right [go_str]: "contains t p \<Longrightarrow> contains (s @ t) p"
  by (induction s) auto

subsection \<open>Facts about Split and Join\<close>

lemma split_from_not_nil [simp]: "split_from sep acc s \<noteq> []"
  by (induction sep acc s rule: split_from.induct) auto

lemma split_go_not_nil [simp]: "split_go s sep \<noteq> []"
  by (simp add: split_go_def)

lemma join_go_cons: "ys \<noteq> [] \<Longrightarrow> join_go (x # ys) sep = x @ sep @ join_go ys sep"
  by (cases ys) auto

lemma join_split_from:
  "sep \<noteq> [] \<Longrightarrow> join_go (split_from sep acc s) sep = rev acc @ s"
proof (induction sep acc s rule: split_from.induct)
  case (2 sep acc c cs)
  show ?case
  proof (cases "has_prefix (c # cs) sep")
    case True
    then obtain t where t: "c # cs = sep @ t" by (auto simp: has_prefix_iff)
    with \<open>sep \<noteq> []\<close> have d: "drop (length sep - 1) cs = t"
      by (cases sep) auto
    with 2 True have "join_go (split_from sep [] t) sep = t" by simp
    moreover from True d have "split_from sep acc (c # cs) = rev acc # split_from sep [] t"
      by simp
    ultimately show ?thesis using t by (simp only: join_go_cons [OF split_from_not_nil])
  next
    case False
    with 2 show ?thesis by simp
  qed
qed simp

lemma join_split [simp]: "sep \<noteq> [] \<Longrightarrow> join_go (split_go s sep) sep = s"
  by (simp add: split_go_def join_split_from)

lemma split_from_free: "c \<notin> set s \<Longrightarrow> split_from [c] acc s = [rev acc @ s]"
  by (induction "[c]" acc s rule: split_from.induct) auto

lemma split_from_sep:
  "c \<notin> set s \<Longrightarrow> split_from [c] acc (s @ c # t) = (rev acc @ s) # split_from [c] [] t"
  by (induction s arbitrary: acc) auto

lemma split_free [go_str]: "c \<notin> set s \<Longrightarrow> split_go s [c] = [s]"
  by (simp add: split_go_def split_from_free)

lemma split_cons [go_str]: "c \<notin> set s \<Longrightarrow> split_go (s @ c # t) [c] = s # split_go t [c]"
  by (simp add: split_go_def split_from_sep)

lemma split_join:
  "xs \<noteq> [] \<Longrightarrow> \<forall>x \<in> set xs. c \<notin> set x \<Longrightarrow> split_go (join_go xs [c]) [c] = xs"
  by (induction xs "[c]" rule: join_go.induct) (auto simp: split_free split_cons)

lemma split_from_parts: "c \<notin> set acc \<Longrightarrow> \<forall>x \<in> set (split_from [c] acc s). c \<notin> set x"
  by (induction "[c]" acc s rule: split_from.induct) auto

lemma split_parts [go_str]: "x \<in> set (split_go s [c]) \<Longrightarrow> c \<notin> set x"
  using split_from_parts [of c "[]" s] by (auto simp: split_go_def)

subsection \<open>Facts about case folding and trimming\<close>

lemma lower_char_idem [simp]: "lower_char (lower_char c) = lower_char c"
proof (cases "CHR ''A'' \<le> c \<and> c \<le> CHR ''Z''")
  case True
  then have "65 \<le> (of_char c :: nat)" "(of_char c :: nat) \<le> 90"
    by (simp_all add: less_eq_char_def)
  then have "\<not> char_of (of_char c + (32::nat)) \<le> CHR ''Z''"
    by (simp add: less_eq_char_def)
  with True show ?thesis by (simp add: lower_char_def)
next
  case False
  then have e: "lower_char c = c" by (auto simp: lower_char_def)
  show ?thesis by (simp only: e)
qed

lemma to_lower_idem [simp]: "to_lower (to_lower s) = to_lower s"
  by (simp add: to_lower_def)

lemma to_lower_append [simp]: "to_lower (s @ t) = to_lower s @ to_lower t"
  by (simp add: to_lower_def)

lemma to_lower_eq_nil [simp]: "to_lower s = [] \<longleftrightarrow> s = []"
  by (simp add: to_lower_def)

lemma dropWhile_rev_dropWhile:
  "dropWhile P (rev (dropWhile P (rev (dropWhile P s)))) = rev (dropWhile P (rev (dropWhile P s)))"
proof (cases "dropWhile P s")
  case (Cons a t)
  then have "\<not> P a" using hd_dropWhile [of P s] by simp
  with Cons show ?thesis by (simp add: dropWhile_append)
next
  case Nil
  show ?thesis unfolding Nil by simp
qed

lemma trim_cut_idem [simp]: "trim_cut (trim_cut s cs) cs = trim_cut s cs"
  by (simp add: trim_cut_def dropWhile_rev_dropWhile)

section \<open>Package strconv\<close>

definition digit_char :: "nat \<Rightarrow> char" where
  "digit_char d = char_of (48 + d)"

fun nat_dec :: "nat \<Rightarrow> string" where
  "nat_dec n = (if n < 10 then [digit_char n] else nat_dec (n div 10) @ [digit_char (n mod 10)])"

declare nat_dec.simps [simp del]

text \<open>\<open>strconv.Itoa\<close> and the verb \<open>%d\<close>.\<close>

definition int_dec :: "int \<Rightarrow> string" where
  "int_dec i = (if i < 0 then CHR ''-'' # nat_dec (nat (- i)) else nat_dec (nat i))"

definition is_digit :: "char \<Rightarrow> bool" where
  "is_digit c \<longleftrightarrow> CHR ''0'' \<le> c \<and> c \<le> CHR ''9''"

definition digit_value :: "char \<Rightarrow> nat" where
  "digit_value c = of_char c - 48"

fun dec_value :: "nat \<Rightarrow> string \<Rightarrow> nat option" where
  "dec_value acc [] = Some acc"
| "dec_value acc (c # cs) =
     (if is_digit c then dec_value (10 * acc + digit_value c) cs else None)"

definition ErrSyntax :: goerr where "ErrSyntax = Sentinel ''invalid syntax''"
definition ErrRange :: goerr where "ErrRange = Sentinel ''value out of range''"

text \<open>
  \<open>strconv.Atoi\<close> on a 64-bit platform: an optional sign and at least one digit. The value is
  0 after a syntax error and the nearest bound after a range error.
\<close>

definition atoi_unsigned :: "bool \<Rightarrow> string \<Rightarrow> int \<times> goerr option" where
  "atoi_unsigned neg s =
     (if s = [] then (0, Some ErrSyntax)
      else case dec_value 0 s of
        None \<Rightarrow> (0, Some ErrSyntax)
      | Some n \<Rightarrow>
          if neg then (if n > 2 ^ 63 then (- (2 ^ 63), Some ErrRange) else (- int n, None))
          else if n \<ge> 2 ^ 63 then (2 ^ 63 - 1, Some ErrRange) else (int n, None))"

fun atoi :: "string \<Rightarrow> int \<times> goerr option" where
  "atoi [] = (0, Some ErrSyntax)"
| "atoi (c # cs) =
     (if c = CHR ''-'' then atoi_unsigned True cs
      else if c = CHR ''+'' then atoi_unsigned False cs
      else atoi_unsigned False (c # cs))"

lemma digit_char_digit [simp]: "d < 10 \<Longrightarrow> is_digit (digit_char d)"
  by (simp add: is_digit_def digit_char_def less_eq_char_def)

lemma digit_char_value [simp]: "d < 10 \<Longrightarrow> digit_value (digit_char d) = d"
  by (simp add: digit_value_def digit_char_def)

lemma digit_char_lits:
  "digit_char 0 = CHR ''0''"
  "digit_char 1 = CHR ''1''" "digit_char (Suc 0) = CHR ''1''"
  "digit_char 2 = CHR ''2''"
  "digit_char 3 = CHR ''3''"
  "digit_char 4 = CHR ''4''"
  "digit_char 5 = CHR ''5''"
  "digit_char 6 = CHR ''6''"
  "digit_char 7 = CHR ''7''"
  "digit_char 8 = CHR ''8''"
  "digit_char 9 = CHR ''9''"
  by code_simp+

lemma digit_char_not_sign [simp]:
  "d < 10 \<Longrightarrow> digit_char d \<noteq> CHR ''-''" "d < 10 \<Longrightarrow> digit_char d \<noteq> CHR ''+''"
  using digit_char_digit [of d] by (auto simp: is_digit_def less_eq_char_def)

lemma dec_value_append:
  "dec_value acc (s @ [c]) =
     (case dec_value acc s of None \<Rightarrow> None
      | Some n \<Rightarrow> if is_digit c then Some (10 * n + digit_value c) else None)"
  by (induction acc s rule: dec_value.induct) auto

lemma nat_dec_less: "n < 10 \<Longrightarrow> nat_dec n = [digit_char n]"
  by (subst nat_dec.simps) simp

lemma nat_dec_step: "10 \<le> n \<Longrightarrow> nat_dec n = nat_dec (n div 10) @ [digit_char (n mod 10)]"
  by (subst nat_dec.simps) simp

lemmas nat_dec_eval = nat_dec_less nat_dec_step digit_char_lits

lemma nat_dec_not_nil [simp]: "nat_dec n \<noteq> []"
  by (subst nat_dec.simps) simp

lemma nat_dec_digits: "\<forall>c \<in> set (nat_dec n). is_digit c"
proof (induction n rule: nat_dec.induct)
  case (1 n)
  then show ?case by (subst nat_dec.simps) auto
qed

lemma dec_value_nat_dec [go_num]: "dec_value 0 (nat_dec n) = Some n"
proof (induction n rule: nat_dec.induct)
  case (1 n)
  then show ?case
    by (subst nat_dec.simps) (auto simp: dec_value_append)
qed

lemma digit_not_sign: "is_digit c \<Longrightarrow> c \<noteq> CHR ''-'' \<and> c \<noteq> CHR ''+''"
  by (auto simp: is_digit_def less_eq_char_def)

lemma atoi_int_dec [go_num]:
  assumes "in_i64 i"
  shows "atoi (int_dec i) = (i, None)"
proof (cases "i < 0")
  case True
  with assms show ?thesis
    by (simp add: int_dec_def atoi_unsigned_def dec_value_nat_dec in_i64_def)
next
  case False
  obtain c cs where c: "nat_dec (nat i) = c # cs" by (cases "nat_dec (nat i)") auto
  with nat_dec_digits [of "nat i"] have "c \<noteq> CHR ''-''" "c \<noteq> CHR ''+''"
    by (auto dest: digit_not_sign)
  with False c assms show ?thesis
    using dec_value_nat_dec [of "nat i"]
    by (simp add: int_dec_def atoi_unsigned_def in_i64_def)
qed

lemma atoi_range [go_num]: "in_i64 (fst (atoi s))"
  by (cases s) (auto simp: atoi_unsigned_def in_i64_def split: option.splits)

lemma int_dec_chars: "c \<in> set (int_dec i) \<Longrightarrow> c = CHR ''-'' \<or> is_digit c"
  using nat_dec_digits by (auto simp: int_dec_def split: if_splits)

end
