(* ===== verification/Interfaces.thy ===== *)
theory Interfaces
  imports Prelude
begin

text \<open>
  The contracts that several components share, as locales. \<open>keyed_cache\<close> is the
  get-or-create table behind a mutex that the repository writes again for every kind of
  connection (Redis pools, Consul clients, resolvers, SSH connections): the provider promises
  what a hit, a miss and a failure do to the table, the client facts say that instances are
  shared and stable. \<open>codec\<close> is an encoder with its decoder; \<open>codec_pair\<close> composes
  two of them. \<open>guarded_counter\<close> is a counter raised on entry and lowered on exit.
\<close>

section \<open>Get-or-create tables\<close>

locale keyed_cache =
  fixes acquire :: "'c \<Rightarrow> 's \<Rightarrow> (goerr + 'i) \<times> 's"
    and cache_key :: "'c \<Rightarrow> 'k"
    and cached :: "'s \<Rightarrow> 'k \<Rightarrow> 'i option"
    and usable :: "'c \<Rightarrow> bool"
  assumes acquire_hit: "usable c \<Longrightarrow> cached s (cache_key c) = Some i \<Longrightarrow> acquire c s = (Inr i, s)"
    and acquire_ok: "acquire c s = (Inr i, s') \<Longrightarrow> cached s' = (cached s)(cache_key c \<mapsto> i)"
    and acquire_hit_same: "acquire c s = (Inr i, s') \<Longrightarrow> cached s (cache_key c) = Some j \<Longrightarrow> i = j"
    and acquire_err: "acquire c s = (Inl e, s') \<Longrightarrow> cached s' = cached s"
begin

primrec acquire_all :: "'c list \<Rightarrow> 's \<Rightarrow> 's" where
  "acquire_all [] s = s"
| "acquire_all (c # cs) s = acquire_all cs (snd (acquire c s))"

lemma acquire_keeps:
  assumes "cached s k = Some i"
  shows "cached (snd (acquire c s)) k = Some i"
proof (cases "acquire c s")
  case (Pair r s')
  show ?thesis
  proof (cases r)
    case (Inl e)
    with Pair assms show ?thesis by (simp add: acquire_err)
  next
    case (Inr j)
    with Pair assms have "k = cache_key c \<Longrightarrow> j = i" by (auto intro: acquire_hit_same)
    with Pair Inr assms show ?thesis using acquire_ok [of c s j s'] by simp
  qed
qed

lemma acquire_all_keeps: "cached s k = Some i \<Longrightarrow> cached (acquire_all cs s) k = Some i"
  by (induction cs arbitrary: s) (auto simp: acquire_keeps)

lemma acquire_other:
  assumes "k \<noteq> cache_key c"
  shows "cached (snd (acquire c s)) k = cached s k"
proof (cases "acquire c s")
  case (Pair r s')
  with assms show ?thesis by (cases r) (auto dest!: acquire_ok acquire_err)
qed

lemma acquire_all_other:
  "k \<notin> cache_key ` set cs \<Longrightarrow> cached (acquire_all cs s) k = cached s k"
  by (induction cs arbitrary: s) (auto simp: acquire_other)

text \<open>
  Whatever is acquired in between, a second acquisition under the same key returns the first
  instance and changes nothing.
\<close>

lemma acquire_shared:
  assumes "acquire c s = (Inr i, s')" and "usable d" and "cache_key d = cache_key c"
  shows "acquire d (acquire_all cs s') = (Inr i, acquire_all cs s')"
proof -
  from assms(1) have "cached s' (cache_key c) = Some i" by (simp add: acquire_ok)
  then have "cached (acquire_all cs s') (cache_key d) = Some i"
    by (simp add: assms(3) acquire_all_keeps)
  with assms(2) show ?thesis by (rule acquire_hit)
qed

end

section \<open>Encoders and decoders\<close>

locale codec =
  fixes enc :: "'a \<Rightarrow> 'b" and dec :: "'b \<Rightarrow> 'a option" and valid :: "'a \<Rightarrow> bool"
  assumes dec_enc: "valid x \<Longrightarrow> dec (enc x) = Some x"
begin

lemma enc_inj: "valid x \<Longrightarrow> valid y \<Longrightarrow> enc x = enc y \<Longrightarrow> x = y"
  by (metis dec_enc option.inject)

lemma enc_inj_on: "inj_on enc {x. valid x}"
  by (auto intro: inj_onI enc_inj)

end

locale codec_pair = inner: codec enc1 dec1 valid1 + outer: codec enc2 dec2 valid2
  for enc1 :: "'a \<Rightarrow> 'b" and dec1 and valid1
    and enc2 :: "'b \<Rightarrow> 'c" and dec2 and valid2 +
  assumes enc1_valid2: "valid1 x \<Longrightarrow> valid2 (enc1 x)"
begin

lemma chain_dec_enc: "valid1 x \<Longrightarrow> Option.bind (dec2 (enc2 (enc1 x))) dec1 = Some x"
  by (simp add: outer.dec_enc inner.dec_enc enc1_valid2)

end

sublocale codec_pair \<subseteq> codec "\<lambda>x. enc2 (enc1 x)" "\<lambda>y. Option.bind (dec2 y) dec1" valid1
  by unfold_locales (rule chain_dec_enc)

section \<open>Counters raised on entry and lowered on exit\<close>

text \<open>
  An operation that raises a counter while it runs leaves it where it was, when the code it
  calls is \<open>ok\<close>, so that any sequence of such operations does.
\<close>

locale guarded_counter =
  fixes run :: "'o \<Rightarrow> 's \<Rightarrow> 's" and count :: "'s \<Rightarrow> 'n" and ok :: "'o \<Rightarrow> bool"
  assumes run_count: "ok x \<Longrightarrow> count (run x s) = count s"
begin

lemma run_all_count: "\<forall>x \<in> set xs. ok x \<Longrightarrow> count (fold run xs s) = count s"
  by (induction xs arbitrary: s) (simp_all add: run_count)

end

section \<open>Refinement step by step\<close>

text \<open>
  Each event changes the state of the implementation as it changes what the state stands
  for, so that a history of events does.
\<close>

locale simulation =
  fixes step :: "'e \<Rightarrow> 's \<Rightarrow> 's" and spec :: "'e \<Rightarrow> 'a \<Rightarrow> 'a" and repr :: "'s \<Rightarrow> 'a"
    and inv :: "'s \<Rightarrow> bool" and ok :: "'e \<Rightarrow> bool"
  assumes inv_step: "ok e \<Longrightarrow> inv s \<Longrightarrow> inv (step e s)"
    and repr_step: "ok e \<Longrightarrow> inv s \<Longrightarrow> repr (step e s) = spec e (repr s)"
begin

lemma inv_run: "\<forall>e \<in> set es. ok e \<Longrightarrow> inv s \<Longrightarrow> inv (fold step es s)"
  by (induction es arbitrary: s) (simp_all add: inv_step)

lemma repr_run: "\<forall>e \<in> set es. ok e \<Longrightarrow> inv s \<Longrightarrow> repr (fold step es s) = fold spec es (repr s)"
  by (induction es arbitrary: s) (simp_all add: inv_step repr_step)

end

end
