(* ===== verification/NetHttp.thy ===== *)
theory NetHttp
  imports Prelude
begin

text \<open>
  What the repository uses of \<open>net/http\<close>: header maps with canonical keys, the request
  fields it reads, and a response writer. \<open>WriteHeader\<close> fixes status and headers: what is
  set later does not reach the client.
\<close>

section \<open>Headers\<close>

text \<open>\<open>textproto.CanonicalMIMEHeaderKey\<close>: a key with a byte that is no token byte is kept.\<close>

definition token_extra :: string where
  "token_extra = ''!#$%&*+-.^_`|~'' @ [CHR 0x27]"

definition is_token :: "char \<Rightarrow> bool" where
  "is_token c \<longleftrightarrow>
     is_digit c \<or> in_range CHR ''a'' CHR ''z'' c \<or> in_range CHR ''A'' CHR ''Z'' c \<or> c \<in> set token_extra"

fun canon_from :: "bool \<Rightarrow> string \<Rightarrow> string" where
  "canon_from up [] = []"
| "canon_from up (c # cs) =
     (if up then upper_char c else lower_char c) # canon_from (c = CHR ''-'') cs"

definition canonical_key :: "string \<Rightarrow> string" where
  "canonical_key k = (if list_all is_token k then canon_from True k else k)"

type_synonym header = "string \<rightharpoonup> string list"

definition Header_Get :: "header \<Rightarrow> string \<Rightarrow> string" where
  "Header_Get h k =
     (case h (canonical_key k) of Some (v # vs) \<Rightarrow> v | _ \<Rightarrow> [])"

definition Header_Set :: "string \<Rightarrow> string \<Rightarrow> header \<Rightarrow> header" where
  "Header_Set k v h = h(canonical_key k \<mapsto> [v])"

definition Header_Add :: "string \<Rightarrow> string \<Rightarrow> header \<Rightarrow> header" where
  "Header_Add k v h =
     h(canonical_key k \<mapsto> (case h (canonical_key k) of None \<Rightarrow> [v] | Some vs \<Rightarrow> vs @ [v]))"

definition Header_Del :: "string \<Rightarrow> header \<Rightarrow> header" where
  "Header_Del k h = h(canonical_key k := None)"

lemma Header_Get_Set [simp]: "Header_Get (Header_Set k v h) k = v"
  by (simp add: Header_Get_def Header_Set_def)

lemma Header_Get_Set_other [simp]:
  "canonical_key k \<noteq> canonical_key j \<Longrightarrow> Header_Get (Header_Set k v h) j = Header_Get h j"
  by (simp add: Header_Get_def Header_Set_def)

lemma Header_Get_Del [simp]: "Header_Get (Header_Del k h) k = []"
  by (simp add: Header_Get_def Header_Del_def)

lemma Header_Get_Del_other [simp]:
  "canonical_key k \<noteq> canonical_key j \<Longrightarrow> Header_Get (Header_Del k h) j = Header_Get h j"
  by (simp add: Header_Get_def Header_Del_def)

section \<open>Requests\<close>

record http_request =
  rq_method :: string
  rq_proto_major :: nat
  rq_host :: string
  rq_scheme :: string
  rq_url_host :: string
  rq_path :: string
  rq_raw_query :: string
  rq_query :: "(string \<times> string) list"
  rq_form :: "(string \<times> string) list"
  rq_header :: header
  rq_cookies :: "(string \<times> string) list"
  rq_remote_addr :: string

text \<open>\<open>url.Values.Get\<close> and \<open>FormValue\<close>: the first value of the key, or the empty string.\<close>

definition first_value :: "(string \<times> string) list \<Rightarrow> string \<Rightarrow> string" where
  "first_value kvs k = (case map_of kvs k of None \<Rightarrow> [] | Some v \<Rightarrow> v)"

section \<open>Response writers\<close>

record response_writer =
  rw_header :: header
  rw_status :: "nat option"
  rw_sent :: "header option"
  rw_body :: "string list"

definition new_writer :: response_writer where
  "new_writer = \<lparr>rw_header = Map.empty, rw_status = None, rw_sent = None, rw_body = []\<rparr>"

definition WriteHeader :: "nat \<Rightarrow> response_writer \<Rightarrow> response_writer" where
  "WriteHeader code w =
     (case rw_status w of
        Some _ \<Rightarrow> w
      | None \<Rightarrow> w\<lparr>rw_status := Some code, rw_sent := Some (rw_header w)\<rparr>)"

text \<open>A write before any \<open>WriteHeader\<close> sends status 200 first.\<close>

definition write_body :: "string \<Rightarrow> response_writer \<Rightarrow> response_writer" where
  "write_body b w = (let w' = WriteHeader 200 w in w'\<lparr>rw_body := rw_body w' @ [b]\<rparr>)"

definition on_header :: "(header \<Rightarrow> header) \<Rightarrow> response_writer \<Rightarrow> response_writer" where
  "on_header f w = w\<lparr>rw_header := f (rw_header w)\<rparr>"

text \<open>The status the client sees once the handler has returned: 200 when none was written.\<close>

definition final_status :: "response_writer \<Rightarrow> nat" where
  "final_status w = (case rw_status w of None \<Rightarrow> 200 | Some c \<Rightarrow> c)"

lemma WriteHeader_first: "rw_status w = None \<Longrightarrow> rw_status (WriteHeader c w) = Some c"
  by (simp add: WriteHeader_def)

lemma WriteHeader_again: "rw_status w = Some d \<Longrightarrow> WriteHeader c w = w"
  by (simp add: WriteHeader_def)

lemma on_header_fields [simp]:
  "rw_status (on_header f w) = rw_status w" "rw_body (on_header f w) = rw_body w"
  "rw_header (on_header f w) = f (rw_header w)" "rw_sent (on_header f w) = rw_sent w"
  by (simp_all add: on_header_def)

lemma write_body_status: "rw_status w = Some c \<Longrightarrow> rw_status (write_body b w) = Some c"
  by (simp add: write_body_def WriteHeader_def)

section \<open>Cookies\<close>

definition cookie_name_ok :: "string \<Rightarrow> bool" where
  "cookie_name_ok n \<longleftrightarrow> n \<noteq> [] \<and> list_all is_token n"

definition cookie_byte_ok :: "char \<Rightarrow> bool" where
  "cookie_byte_ok c \<longleftrightarrow> (of_char c :: nat) \<ge> 32 \<and> (of_char c :: nat) < 127 \<and> c \<notin> {CHR 0x22, CHR '';'', CHR 0x5C}"

definition cookie_value :: "string \<Rightarrow> string" where
  "cookie_value v =
     (let u = filter cookie_byte_ok v in
      if CHR '' '' \<in> set u \<or> CHR '','' \<in> set u then CHR 0x22 # u @ [CHR 0x22] else u)"

text \<open>\<open>Cookie.String\<close> for the cookies of this program: path \<open>/\<close> and \<open>HttpOnly\<close>.\<close>

definition cookie_string :: "string \<Rightarrow> string \<Rightarrow> bool \<Rightarrow> string" where
  "cookie_string name val secure =
     (if \<not> cookie_name_ok name then []
      else name @ ''='' @ cookie_value val @ ''; Path=/; HttpOnly'' @ (if secure then ''; Secure'' else []))"

definition http_SetCookie :: "string \<Rightarrow> string \<Rightarrow> bool \<Rightarrow> response_writer \<Rightarrow> response_writer" where
  "http_SetCookie name val secure w =
     (let t = cookie_string name val secure in
      if t = [] then w else on_header (Header_Add ''Set-Cookie'' t) w)"

definition Request_Cookie :: "http_request \<Rightarrow> string \<Rightarrow> string option" where
  "Request_Cookie r name = map_of (rq_cookies r) name"

end
