(* ===== verification/Common.thy ===== *)
theory Common
  imports Interfaces NetHttp
begin

text \<open>
  Package \<open>common\<close>: the helpers of \<open>common.go\<close>, \<open>array.go\<close> and
  \<open>grpc_tools.go\<close>. UUIDs and gRPC metadata come from third-party packages and are
  arguments; the file system is a function that answers \<open>os.Stat\<close>.
\<close>

unbundle bit_operations_syntax

section \<open>Values of type interface\<close>

text \<open>
  The dynamic types the repository's type switches distinguish. A finite float is
  \<open>mantissa * 2 ^ exponent\<close>. \<open>VObj\<close> is any other value, known by its \<open>%v\<close> text.
\<close>

datatype goval =
  VNil
| VU8 "8 word" | VU16 "16 word" | VU32 "32 word" | VU64 "64 word" | VUint "64 word"
| VI8 "8 word" | VI16 "16 word" | VI32 "32 word" | VI64 "64 word" | VInt "64 word"
| VF64 int int | VF32 int int
| VStr string | VBytes string | VStrs "string list" | VBool bool | VMap "(string \<times> goval) list" | VObj string

section \<open>array.go\<close>

fun IsInStringArray :: "string \<Rightarrow> string list \<Rightarrow> bool" where
  "IsInStringArray val [] = False"
| "IsInStringArray val (v # arr) = (if val = v then True else IsInStringArray val arr)"

section \<open>common.go\<close>

fun go_Max :: "int \<Rightarrow> int list \<Rightarrow> int" where
  "go_Max i [] = i"
| "go_Max i (v # j) = go_Max (if v > i then v else i) j"

fun go_Min :: "int \<Rightarrow> int list \<Rightarrow> int" where
  "go_Min i [] = i"
| "go_Min i (v # j) = go_Min (if v < i then v else i) j"

datatype stat_result = StatOk bool | StatErr string bool
  \<comment> \<open>\<open>StatOk is_dir\<close>; \<open>StatErr text is_not_exist\<close>\<close>

type_synonym file_stat = "string \<Rightarrow> stat_result"

definition IsExist :: "file_stat \<Rightarrow> string \<Rightarrow> bool" where
  "IsExist stat filepath =
     (case stat filepath of
        StatOk _ \<Rightarrow> True
      | StatErr msg not_exist \<Rightarrow>
          if contains msg ''file name too long'' then False else \<not> not_exist)"

definition IsDir :: "file_stat \<Rightarrow> string \<Rightarrow> bool" where
  "IsDir stat filepath =
     (case stat filepath of StatOk is_dir \<Rightarrow> is_dir | StatErr _ _ \<Rightarrow> False)"

definition GetClientIP :: "http_request \<Rightarrow> string" where
  "GetClientIP r =
     (let ip = Header_Get (rq_header r) ''X-Forwarded-For'';
          ip = (if contains ip ''127.0.0.1'' \<or> ip = [] then Header_Get (rq_header r) ''X-Real-IP''
                else ip)
      in if ip = [] then rq_remote_addr r else ip)"

fun ConvertToInt :: "goval \<Rightarrow> int" where
  "ConvertToInt (VU8 w) = uint w"
| "ConvertToInt (VU16 w) = uint w"
| "ConvertToInt (VU32 w) = uint w"
| "ConvertToInt (VU64 w) = sint w"
| "ConvertToInt (VUint w) = sint w"
| "ConvertToInt (VI8 w) = sint w"
| "ConvertToInt (VI16 w) = sint w"
| "ConvertToInt (VI32 w) = sint w"
| "ConvertToInt (VI64 w) = sint w"
| "ConvertToInt (VInt w) = sint w"
| "ConvertToInt _ = 0"

definition GetPureUUID :: "string \<Rightarrow> string list \<Rightarrow> string" where
  "GetPureUUID uuid oldS =
     (let s = replace_all uuid ''-'' [] in
      case oldS of
        o1 # _ \<Rightarrow> if o1 \<noteq> [] then o1 @ ''_'' @ s else s
      | [] \<Rightarrow> s)"

definition Uuid :: "string \<Rightarrow> string" where
  "Uuid uuid = GetPureUUID uuid []"

definition GrpcTraceIDKey :: string where "GrpcTraceIDKey = ''trace_id''"
definition GrpcHTTPTraceIDKey :: string where "GrpcHTTPTraceIDKey = ''Trace_id''"

definition GetTraceIDFromRequest :: "string \<Rightarrow> http_request \<Rightarrow> string" where
  "GetTraceIDFromRequest uuid r =
     (let t = Header_Get (rq_header r) GrpcHTTPTraceIDKey;
          t = (if t = [] then Header_Get (rq_header r) ''Trace-Id'' else t);
          t = (if t = [] then first_value (rq_query r) ''trace_id'' else t)
      in if t = [] then GetPureUUID uuid [] else t)"

section \<open>grpc\_tools.go\<close>

text \<open>\<open>md\<close> is what \<open>metadata.FromIncomingContext\<close> (or outgoing) returned.\<close>

definition GetTraceIDFromIncomingContext :: "string \<Rightarrow> (string \<Rightarrow> string list) \<Rightarrow> string" where
  "GetTraceIDFromIncomingContext uuid md =
     (case md GrpcTraceIDKey of t # _ \<Rightarrow> t | [] \<Rightarrow> GetPureUUID uuid [])"

definition GetTraceIDFromOutgoingContext :: "string \<Rightarrow> (string \<Rightarrow> string list) \<Rightarrow> string" where
  "GetTraceIDFromOutgoingContext uuid md =
     (case md GrpcTraceIDKey of t # _ \<Rightarrow> t | [] \<Rightarrow> GetPureUUID uuid [])"

section \<open>UtfToUnicode\<close>

text \<open>\<open>utf8.DecodeRune\<close>: the rune and its width; an invalid sequence is U+FFFD of width 1.\<close>

definition RuneError :: nat where "RuneError = 0xFFFD"

definition cont_byte :: "nat \<Rightarrow> bool" where
  "cont_byte b \<longleftrightarrow> 0x80 \<le> b \<and> b \<le> 0xBF"

definition second_ok :: "nat \<Rightarrow> nat \<Rightarrow> bool" where
  "second_ok b0 b1 \<longleftrightarrow>
     (if b0 = 0xE0 then 0xA0 else if b0 = 0xF0 then 0x90 else 0x80) \<le> b1 \<and>
     b1 \<le> (if b0 = 0xED then 0x9F else if b0 = 0xF4 then 0x8F else 0xBF)"

fun DecodeRune :: "nat list \<Rightarrow> nat \<times> nat" where
  "DecodeRune [] = (RuneError, 0)"
| "DecodeRune (b0 # bs) =
     (if b0 < 0x80 then (b0, 1)
      else if 0xC2 \<le> b0 \<and> b0 \<le> 0xDF then
        (case bs of
           b1 # _ \<Rightarrow> if cont_byte b1 then (b0 mod 32 * 64 + b1 mod 64, 2) else (RuneError, 1)
         | _ \<Rightarrow> (RuneError, 1))
      else if 0xE0 \<le> b0 \<and> b0 \<le> 0xEF then
        (case bs of
           b1 # b2 # _ \<Rightarrow>
             if second_ok b0 b1 \<and> cont_byte b2
             then (b0 mod 16 * 4096 + b1 mod 64 * 64 + b2 mod 64, 3) else (RuneError, 1)
         | _ \<Rightarrow> (RuneError, 1))
      else if 0xF0 \<le> b0 \<and> b0 \<le> 0xF4 then
        (case bs of
           b1 # b2 # b3 # _ \<Rightarrow>
             if second_ok b0 b1 \<and> cont_byte b2 \<and> cont_byte b3
             then (b0 mod 8 * 262144 + b1 mod 64 * 4096 + b2 mod 64 * 64 + b3 mod 64, 4)
             else (RuneError, 1)
         | _ \<Rightarrow> (RuneError, 1))
      else (RuneError, 1))"

definition hex_digit :: "nat \<Rightarrow> nat" where
  "hex_digit d = (if d < 10 then 48 + d else 87 + d)"

text \<open>
  \<open>Md5\<close> prints the sixteen bytes of the digest, which is the argument \<open>digest\<close>; \<open>ToOsCode\<close>
  leaves a text as it is but on Windows, where \<open>gbk\<close> is the third-party encoder; \<open>GetStack\<close>
  keeps 4096 bytes of the stack.
\<close>

definition Md5 :: "(string \<Rightarrow> nat list) \<Rightarrow> string \<Rightarrow> string" where
  "Md5 digest str =
     concat (map (\<lambda>b. [char_of (hex_digit (b div 16)), char_of (hex_digit (b mod 16))]) (digest str))"

definition ToOsCode :: "string \<Rightarrow> (string \<Rightarrow> string) \<Rightarrow> string \<Rightarrow> string" where
  "ToOsCode goos gbk txt = (if goos = ''windows'' then gbk txt else txt)"

definition GetStack :: "string \<Rightarrow> string" where "GetStack stack = take 4096 stack"

fun hex_of :: "nat \<Rightarrow> nat list" where
  "hex_of n = (if n < 16 then [hex_digit n] else hex_of (n div 16) @ [hex_digit (n mod 16)])"

declare hex_of.simps [simp del]

text \<open>The bytes of \<open>fmt.Sprintf("%s%04x", `\u`, r)\<close>.\<close>

definition escape_rune :: "nat \<Rightarrow> nat list" where
  "escape_rune r =
     (let h = hex_of r in [92, 117] @ replicate (4 - length h) 48 @ h)"

lemma DecodeRune_size: "d \<noteq> [] \<Longrightarrow> 0 < snd (DecodeRune d)"
  by (cases d) (auto split: list.split)

text \<open>The loop of \<open>UtfToUnicode\<close>; writing to a \<open>bytes.Buffer\<close> never fails.\<close>

function UtfToUnicode :: "nat list \<Rightarrow> nat list" where
  "UtfToUnicode d =
     (if d = [] then []
      else (let (r, size) = DecodeRune d in
            (if r < 128 then [r] else escape_rune r) @ UtfToUnicode (drop size d)))"
  by pat_completeness auto
termination
proof (relation "measure length")
  fix d :: "nat list" and x r size
  assume d: "d \<noteq> []" and x: "x = DecodeRune d" and p: "(r, size) = x"
  from d have "0 < snd (DecodeRune d)" by (rule DecodeRune_size)
  with x p have "0 < size" by (metis snd_conv)
  with d show "(drop size d, d) \<in> measure length" by simp
qed simp

declare UtfToUnicode.simps [simp del]

section \<open>Facts\<close>

lemma IsInStringArray_iff [simp]: "IsInStringArray val arr \<longleftrightarrow> val \<in> set arr"
  by (induction arr) auto

lemma go_Max_upper: "i \<le> go_Max i j \<and> (\<forall>v \<in> set j. v \<le> go_Max i j)"
  by (induction i j rule: go_Max.induct) fastforce+

lemma go_Max_in: "go_Max i j \<in> insert i (set j)"
  by (induction i j rule: go_Max.induct) (auto split: if_splits)

lemma go_Min_lower: "go_Min i j \<le> i \<and> (\<forall>v \<in> set j. go_Min i j \<le> v)"
  by (induction i j rule: go_Min.induct) fastforce+

lemma go_Min_in: "go_Min i j \<in> insert i (set j)"
  by (induction i j rule: go_Min.induct) (auto split: if_splits)

lemma GetPureUUID_nonempty:
  "replace_all uuid ''-'' [] \<noteq> [] \<Longrightarrow> GetPureUUID uuid oldS \<noteq> []"
  by (auto simp: GetPureUUID_def Let_def split: list.splits)

lemma GetTraceIDFromRequest_nonempty:
  "replace_all uuid ''-'' [] \<noteq> [] \<Longrightarrow> GetTraceIDFromRequest uuid r \<noteq> []"
  by (simp add: GetTraceIDFromRequest_def Let_def GetPureUUID_nonempty)

lemma uint_in_i64: "LENGTH('a::len) \<le> 32 \<Longrightarrow> in_i64 (uint (w :: 'a word))"
proof -
  assume "LENGTH('a) \<le> 32"
  then have "(2::int) ^ LENGTH('a) \<le> 2 ^ 32" by (rule power_increasing) simp
  then have "uint w < 2 ^ 32" by (rule less_le_trans [OF uint_lt2p])
  then have "uint w < 4294967296" by simp
  moreover have "- 9223372036854775808 \<le> uint w" using uint_ge_0 [of w] by linarith
  ultimately show ?thesis by (simp add: in_i64_def)
qed

lemma sint_in_i64: "LENGTH('a::len) \<le> 64 \<Longrightarrow> in_i64 (sint (w :: 'a word))"
proof -
  assume "LENGTH('a) \<le> 64"
  then have "(2::int) ^ (LENGTH('a) - 1) \<le> 2 ^ 63" by (intro power_increasing) simp_all
  then show ?thesis using sint_lt [of w] sint_ge [of w] unfolding in_i64_def by linarith
qed

lemma ConvertToInt_range: "in_i64 (ConvertToInt v)"
proof (cases v)
  case (VU8 w) then show ?thesis by (simp add: uint_in_i64)
next
  case (VU16 w) then show ?thesis by (simp add: uint_in_i64)
next
  case (VU32 w) then show ?thesis by (simp add: uint_in_i64)
next
  case (VI8 w) then show ?thesis by (simp add: sint_in_i64)
next
  case (VI16 w) then show ?thesis by (simp add: sint_in_i64)
next
  case (VI32 w) then show ?thesis by (simp add: sint_in_i64)
next
  case (VU64 w) then show ?thesis by (simp add: sint_in_i64)
next
  case (VUint w) then show ?thesis by (simp add: sint_in_i64)
next
  case (VI64 w) then show ?thesis by (simp add: sint_in_i64)
next
  case (VInt w) then show ?thesis by (simp add: sint_in_i64)
qed (simp_all add: in_i64_def)

subsection \<open>UTF-8\<close>

text \<open>The encoding of a Unicode scalar value, to say what the input of the loop means.\<close>

definition scalar_value :: "nat \<Rightarrow> bool" where
  "scalar_value c \<longleftrightarrow> c < 0xD800 \<or> 0xE000 \<le> c \<and> c \<le> 0x10FFFF"

definition EncodeRune :: "nat \<Rightarrow> nat list" where
  "EncodeRune c =
     (if c < 0x80 then [c]
      else if c < 0x800 then [0xC0 + c div 64, 0x80 + c mod 64]
      else if c < 0x10000 then [0xE0 + c div 4096, 0x80 + c div 64 mod 64, 0x80 + c mod 64]
      else [0xF0 + c div 262144, 0x80 + c div 4096 mod 64, 0x80 + c div 64 mod 64, 0x80 + c mod 64])"

lemma div_mult_mod_64: "(q::nat) div 64 * 64 + q mod 64 = q"
  by simp

lemma mod_64_le [simp]: "(x::nat) mod 64 \<le> 63"
  using mod_less_divisor [of 64 x] by linarith

lemma cont_mod_64 [simp]: "(128 + (x::nat) mod 64) mod 64 = x mod 64"
  by (simp add: mod_add_eq [symmetric, of _ _ 64])

lemma base64_digits3: "(c::nat) div 4096 * 4096 + c div 64 mod 64 * 64 + c mod 64 = c"
proof -
  have "c div 4096 = c div 64 div 64" by (simp add: div_mult2_eq [symmetric])
  then show ?thesis using div_mult_mod_64 [of c] div_mult_mod_64 [of "c div 64"] by linarith
qed

lemma base64_digits4:
  "(c::nat) div 262144 * 262144 + c div 4096 mod 64 * 4096 + c div 64 mod 64 * 64 + c mod 64 = c"
proof -
  have "c div 262144 = c div 4096 div 64" by (simp add: div_mult2_eq [symmetric])
  then show ?thesis using base64_digits3 [of c] div_mult_mod_64 [of "c div 4096"] by linarith
qed

lemma decode2:
  assumes "0x80 \<le> c" and "c < 0x800"
  shows "DecodeRune (EncodeRune c @ t) = (c, length (EncodeRune c))"
proof -
  have "0x80 div 64 \<le> c div 64" using assms(1) by (rule div_le_mono)
  then have a: "2 \<le> c div 64" by simp
  have b: "c div 64 < 32" using assms(2) by (simp add: less_mult_imp_div_less)
  then have "(0xC0 + c div 64) mod 32 = c div 64" by (simp add: mod_add_eq [symmetric, of _ _ 32])
  with a b assms show ?thesis by (simp add: EncodeRune_def cont_byte_def)
qed

lemma second_ok3:
  assumes "0x800 \<le> c" and "c < 0x10000" and "scalar_value c"
  shows "second_ok (0xE0 + c div 4096) (0x80 + c div 64 mod 64)"
proof -
  let ?q = "c div 64"
  have q: "c div 4096 = ?q div 64" by (simp add: div_mult2_eq [symmetric])
  have d: "?q div 64 * 64 + ?q mod 64 = ?q" by simp
  have "0x800 div 64 \<le> ?q" using assms(1) by (rule div_le_mono)
  with d have e0: "c div 4096 = 0 \<Longrightarrow> 32 \<le> ?q mod 64" by (simp add: q)
  have ed: "?q mod 64 < 32" if "c div 4096 = 13"
  proof -
    from that have "c < 0xE000" using div_mult_mod_eq [of c 4096] mod_less_divisor [of 4096 c]
      by linarith
    with assms(3) have "c < 864 * 64" by (simp add: scalar_value_def)
    then have "?q < 864" by (rule less_mult_imp_div_less)
    with d that q show ?thesis by linarith
  qed
  have a: "c div 4096 < 16" using assms(2) by (simp add: less_mult_imp_div_less)
  have "?q mod 64 < 64" by simp
  with e0 ed a show ?thesis by (auto simp: second_ok_def)
qed

lemma decode3:
  assumes "0x800 \<le> c" and "c < 0x10000" and "scalar_value c"
  shows "DecodeRune (EncodeRune c @ t) = (c, length (EncodeRune c))"
proof -
  have a: "c div 4096 < 16" using assms(2) by (simp add: less_mult_imp_div_less)
  then have "(0xE0 + c div 4096) mod 16 = c div 4096" by (simp add: mod_add_eq [symmetric, of _ _ 16])
  then show ?thesis using a second_ok3 [OF assms] assms base64_digits3 [of c]
    by (simp add: EncodeRune_def cont_byte_def)
qed

lemma second_ok4:
  assumes "0x10000 \<le> c" and "c \<le> 0x10FFFF"
  shows "second_ok (0xF0 + c div 262144) (0x80 + c div 4096 mod 64)"
proof -
  let ?q = "c div 4096"
  have q: "c div 262144 = ?q div 64" by (simp add: div_mult2_eq [symmetric])
  have d: "?q div 64 * 64 + ?q mod 64 = ?q" by simp
  have "0x10000 div 4096 \<le> ?q" using assms(1) by (rule div_le_mono)
  with d have f0: "c div 262144 = 0 \<Longrightarrow> 16 \<le> ?q mod 64" by (simp add: q)
  have "c < 272 * 4096" using assms(2) by simp
  then have "?q < 272" by (rule less_mult_imp_div_less)
  with d q have f4: "c div 262144 = 4 \<Longrightarrow> ?q mod 64 < 16" by linarith
  have "?q mod 64 < 64" by simp
  with f0 f4 show ?thesis by (auto simp: second_ok_def)
qed

lemma decode4:
  assumes "0x10000 \<le> c" and "c \<le> 0x10FFFF"
  shows "DecodeRune (EncodeRune c @ t) = (c, length (EncodeRune c))"
proof -
  have "c < 5 * 262144" using assms(2) by simp
  then have a: "c div 262144 < 5" by (rule less_mult_imp_div_less)
  then have "(0xF0 + c div 262144) mod 8 = c div 262144"
    by (simp add: mod_add_eq [symmetric, of _ _ 8])
  then show ?thesis using a second_ok4 [OF assms] assms base64_digits4 [of c]
    by (simp add: EncodeRune_def cont_byte_def)
qed

lemma DecodeRune_EncodeRune:
  assumes "scalar_value c"
  shows "DecodeRune (EncodeRune c @ t) = (c, length (EncodeRune c))"
proof -
  consider "c < 0x80" | "0x80 \<le> c" "c < 0x800" | "0x800 \<le> c" "c < 0x10000" | "0x10000 \<le> c"
    by linarith
  then show ?thesis
  proof cases
    case 1
    then show ?thesis by (simp add: EncodeRune_def)
  next
    case 2
    then show ?thesis by (rule decode2)
  next
    case 3
    then show ?thesis using assms by (rule decode3)
  next
    case 4
    moreover have "c \<le> 0x10FFFF" using assms 4 by (auto simp: scalar_value_def)
    ultimately show ?thesis by (rule decode4)
  qed
qed

text \<open>What the loop is meant to compute from the decoded text.\<close>

definition escape_text :: "nat list \<Rightarrow> nat list" where
  "escape_text cs = concat (map (\<lambda>c. if c < 128 then [c] else escape_rune c) cs)"

lemma EncodeRune_not_nil: "EncodeRune c \<noteq> []"
  by (simp add: EncodeRune_def)

lemma UtfToUnicode_step:
  "scalar_value c \<Longrightarrow>
   UtfToUnicode (EncodeRune c @ t) = (if c < 128 then [c] else escape_rune c) @ UtfToUnicode t"
  by (subst UtfToUnicode.simps) (simp add: DecodeRune_EncodeRune EncodeRune_not_nil)

lemma UtfToUnicode_text:
  "\<forall>c \<in> set cs. scalar_value c \<Longrightarrow> UtfToUnicode (concat (map EncodeRune cs)) = escape_text cs"
proof (induction cs)
  case Nil
  show ?case by (simp add: escape_text_def UtfToUnicode.simps)
next
  case (Cons c cs)
  then show ?case by (simp add: escape_text_def UtfToUnicode_step)
qed

lemma hex_of_ascii: "\<forall>b \<in> set (hex_of n). b < 128"
proof (induction n rule: hex_of.induct)
  case (1 n)
  then show ?case by (subst hex_of.simps) (auto simp: hex_digit_def)
qed

lemma escape_rune_ascii: "\<forall>b \<in> set (escape_rune r). b < 128"
  using hex_of_ascii [of r] by (auto simp: escape_rune_def Let_def)

lemma UtfToUnicode_ascii: "\<forall>b \<in> set (UtfToUnicode d). b < 128"
proof (induction d rule: UtfToUnicode.induct)
  case (1 d)
  show ?case
  proof (cases "d = []")
    case True
    then show ?thesis by (simp add: UtfToUnicode.simps)
  next
    case False
    obtain r size where rs: "DecodeRune d = (r, size)" by (cases "DecodeRune d")
    have "\<forall>b \<in> set (UtfToUnicode (drop size d)). b < 128"
      using "1.IH" [OF False] rs by simp
    with False rs escape_rune_ascii [of r] show ?thesis
      by (subst UtfToUnicode.simps) auto
  qed
qed

lemma hex_of_small: "n < 16 \<Longrightarrow> hex_of n = [hex_digit n]"
  by (subst hex_of.simps) simp

lemma hex_of_step: "16 \<le> n \<Longrightarrow> hex_of n = hex_of (n div 16) @ [hex_digit (n mod 16)]"
  by (subst hex_of.simps) simp

lemmas escape_eval = escape_text_def escape_rune_def hex_of_small hex_of_step hex_digit_def

section \<open>Properties\<close>

text \<open>
  \<open>UtfToUnicode\<close> ends on every input; on the UTF-8 encoding of a text it writes, code
  point by code point, the ASCII character itself or its escape, and its output is always
  ASCII.
\<close>

theorem UtfToUnicode_spec:
  assumes "\<forall>c \<in> set cs. scalar_value c"
  shows "UtfToUnicode (concat (map EncodeRune cs)) = escape_text cs \<and>
         (\<forall>b \<in> set (escape_text cs). b < 128)"
  using UtfToUnicode_text [OF assms] UtfToUnicode_ascii [of "concat (map EncodeRune cs)"] by simp

theorem UtfToUnicode_spec_witness:
  "UtfToUnicode [65, 0xE4, 0xB8, 0xAD] = [65, 92, 117, 52, 101, 50, 100]"
proof -
  have "escape_text [65, 0x4E2D] = [65, 92, 117, 52, 101, 50, 100]"
    by (simp add: escape_eval)
  moreover have "concat (map EncodeRune [65, 0x4E2D]) = [65, 0xE4, 0xB8, 0xAD]"
    by (simp add: EncodeRune_def)
  ultimately show ?thesis
    using UtfToUnicode_spec [of "[65, 0x4E2D]"] by (simp add: scalar_value_def)
qed

text \<open>
  Beyond the basic plane the escape is not injective: U+1F600 and the two characters
  U+1F60, \<open>0\<close> give the same text.
\<close>

theorem UtfToUnicode_collision:
  "UtfToUnicode (EncodeRune 0x1F600) = UtfToUnicode (EncodeRune 0x1F60 @ EncodeRune 48)"
  using UtfToUnicode_text [of "[0x1F600]"] UtfToUnicode_text [of "[0x1F60, 48]"]
  by (simp add: scalar_value_def escape_eval)

end
