(* ===== verification/Filepath.thy ===== *)
theory Filepath
  imports Prelude
begin

text \<open>
  \<open>path/filepath\<close> on Unix: \<open>IsAbs\<close>, \<open>Clean\<close>, \<open>Join\<close>, \<open>Base\<close>, \<open>Dir\<close>. \<open>Clean\<close> is
  the lexical one of the standard library: empty and \<open>.\<close> elements go, an inner
  \<open>..\<close> takes the element before it away, a leading \<open>..\<close> of a rooted path goes.
\<close>

definition is_abs :: "string \<Rightarrow> bool" where
  "is_abs p \<longleftrightarrow> has_prefix p ''/''"

fun clean_elems :: "bool \<Rightarrow> string list \<Rightarrow> string list \<Rightarrow> string list" where
  "clean_elems rooted acc [] = rev acc"
| "clean_elems rooted acc (e # es) =
     (if e = [] \<or> e = ''.'' then clean_elems rooted acc es
      else if e = ''..'' then
        (case acc of
           [] \<Rightarrow> clean_elems rooted (if rooted then [] else [e]) es
         | a # as \<Rightarrow> if a = ''..'' then clean_elems rooted (e # acc) es else clean_elems rooted as es)
      else clean_elems rooted (e # acc) es)"

definition path_clean :: "string \<Rightarrow> string" where
  "path_clean p =
     (let es = clean_elems (is_abs p) [] (split_go p ''/'') in
      if is_abs p then CHR ''/'' # join_go es ''/''
      else if es = [] then ''.'' else join_go es ''/'')"

definition path_join :: "string list \<Rightarrow> string" where
  "path_join elems =
     (case filter (\<lambda>e. e \<noteq> []) elems of
        [] \<Rightarrow> []
      | es \<Rightarrow> path_clean (join_go es ''/''))"

definition path_base :: "string \<Rightarrow> string" where
  "path_base p =
     (if p = [] then ''.''
      else (let q = rev (dropWhile (\<lambda>c. c = CHR ''/'') (rev p)) in
        if q = [] then ''/'' else last (split_go q ''/'')))"

definition path_dir :: "string \<Rightarrow> string" where
  "path_dir p = path_clean (rev (dropWhile (\<lambda>c. c \<noteq> CHR ''/'') (rev p)))"

section \<open>Facts\<close>

lemma is_abs_iff: "is_abs p \<longleftrightarrow> (\<exists>t. p = CHR ''/'' # t)"
  by (auto simp: is_abs_def has_prefix_iff)

lemma is_abs_clean [go_str]: "is_abs p \<Longrightarrow> is_abs (path_clean p)"
  by (simp add: path_clean_def Let_def is_abs_def)

lemma is_abs_append: "is_abs p \<Longrightarrow> is_abs (p @ q)"
  by (auto simp: is_abs_iff)

lemma is_abs_join [go_str]:
  assumes "is_abs a" shows "is_abs (path_join (a # es))"
proof -
  have a: "a \<noteq> []" using assms by (auto simp: is_abs_iff)
  have "is_abs (join_go (a # filter (\<lambda>e. e \<noteq> []) es) ''/'')"
    using assms by (cases "filter (\<lambda>e. e \<noteq> []) es") (auto simp: is_abs_append)
  with a show ?thesis by (simp add: path_join_def is_abs_clean)
qed

lemma is_abs_not_nil: "is_abs p \<Longrightarrow> p \<noteq> []"
  by (auto simp: is_abs_iff)

section \<open>Base, Dir and proper names\<close>

text \<open>A name of a file: not empty, not special, without a separator.\<close>

definition proper_name :: "string \<Rightarrow> bool" where
  "proper_name v \<longleftrightarrow> v \<noteq> [] \<and> v \<noteq> ''.'' \<and> v \<noteq> ''..'' \<and> CHR ''/'' \<notin> set v"

lemma split_snoc: "c \<notin> set t \<Longrightarrow> split_go (s @ c # t) [c] = split_go s [c] @ [t]"
proof -
  assume "c \<notin> set t"
  then have "\<forall>x \<in> set (split_go s [c] @ [t]). c \<notin> set x" by (auto dest: split_parts)
  moreover have "join_go (split_go s [c] @ [t]) [c] = s @ c # t"
  proof -
    have "xs \<noteq> [] \<Longrightarrow> join_go (xs @ [t]) [c] = join_go xs [c] @ c # t" for xs
      by (induction xs "[c]" rule: join_go.induct) auto
    then show ?thesis by simp
  qed
  ultimately show ?thesis using split_join [of "split_go s [c] @ [t]" c] by simp
qed

lemma clean_elems_snoc: "proper_name v \<Longrightarrow> clean_elems r acc (es @ [v]) = clean_elems r acc es @ [v]"
  by (induction r acc es rule: clean_elems.induct) (auto simp: proper_name_def split: list.splits)

lemma clean_elems_parts: "set (clean_elems r acc es) \<subseteq> set acc \<union> set es"
  by (induction r acc es rule: clean_elems.induct) (auto split: list.splits if_splits)

lemma path_base_join:
  assumes "proper_name v" and "a \<noteq> []"
  shows "path_base (path_join [a, v]) = v"
proof -
  have v: "v \<noteq> []" "CHR ''/'' \<notin> set v" using assms(1) by (auto simp: proper_name_def)
  let ?es = "clean_elems (is_abs a) [] (split_go a ''/'') @ [v]"
  have "is_abs (a @ CHR ''/'' # v) = is_abs a" using assms(2) by (cases a) (auto simp: is_abs_def)
  then have c: "path_clean (a @ CHR ''/'' # v) = (if is_abs a then CHR ''/'' # join_go ?es ''/'' else join_go ?es ''/'')"
    by (simp add: path_clean_def Let_def split_snoc [OF v(2)] clean_elems_snoc [OF assms(1)])
  obtain q where q: "path_clean (a @ CHR ''/'' # v) = v \<or> path_clean (a @ CHR ''/'' # v) = q @ CHR ''/'' # v"
  proof -
    have "join_go (xs @ [v]) ''/'' = (if xs = [] then v else join_go xs ''/'' @ CHR ''/'' # v)" for xs
      by (induction xs "''/''" rule: join_go.induct) auto
    then have "path_clean (a @ CHR ''/'' # v) \<in> {v} \<union> range (\<lambda>q. q @ CHR ''/'' # v)"
      unfolding c by (auto simp: image_iff)
    with that show thesis by blast
  qed
  obtain u x where u: "v = u @ [x]" "x \<noteq> CHR ''/''" using v by (cases v rule: rev_cases) auto
  have l: "rev (dropWhile (\<lambda>c. c = CHR ''/'') (rev v)) = v" "rev (dropWhile (\<lambda>c. c = CHR ''/'') (rev (q @ CHR ''/'' # v))) = q @ CHR ''/'' # v"
    by (simp_all add: u)
  have "path_base v = v" "path_base (q @ CHR ''/'' # v) = v"
    using v l by (simp_all add: path_base_def split_free split_snoc)
  with q have "path_base (path_clean (a @ CHR ''/'' # v)) = v" by metis
  with assms v show ?thesis by (simp add: path_join_def)
qed

text \<open>\<open>Dir\<close> shortens a path until it is a root or a dot.\<close>

definition weight :: "string list \<Rightarrow> nat" where
  "weight es = sum_list (map (\<lambda>e. length e + 1) es)"

lemma weight_simps [simp]: "weight [] = 0" "weight (e # es) = length e + 1 + weight es"
  "weight (xs @ ys) = weight xs + weight ys" "weight (rev xs) = weight xs"
  by (simp_all add: weight_def flip: rev_map)

lemma weight_join: "xs \<noteq> [] \<Longrightarrow> weight xs = length (join_go xs [c]) + 1"
  by (induction xs "[c]" rule: join_go.induct) auto

lemma weight_clean: "weight (clean_elems r acc es) \<le> weight acc + weight es"
  by (induction r acc es rule: clean_elems.induct) (auto split: list.splits)

lemma length_clean: "length (path_clean p) \<le> max 1 (length p)"
proof -
  let ?es = "clean_elems (is_abs p) [] (split_go p ''/'')"
  have s: "weight (split_go p ''/'') = length p + 1" using weight_join [of "split_go p ''/''" "CHR ''/''"] by simp
  show ?thesis
  proof (cases "is_abs p")
    case True
    then obtain t where t: "p = CHR ''/'' # t" by (auto simp: is_abs_iff)
    have "split_go p ''/'' = [] # split_go t ''/''" using split_cons [of "CHR ''/''" "[]" t] by (simp add: t)
    then have "weight ?es \<le> length p" using weight_clean [of True "[]" "split_go t ''/''"] s True by simp
    then show ?thesis
      using weight_join [of ?es "CHR ''/''"] True by (cases "?es = []") (auto simp: path_clean_def Let_def)
  next
    case False
    have "weight ?es \<le> length p + 1" using weight_clean [of False "[]" "split_go p ''/''"] s False by simp
    then show ?thesis
      using weight_join [of ?es "CHR ''/''"] False by (cases "?es = []") (auto simp: path_clean_def Let_def)
  qed
qed

lemma clean_elems_empty: "clean_elems r acc (es @ [[]]) = clean_elems r acc es"
  by (induction r acc es rule: clean_elems.induct) (auto split: list.splits)

lemma clean_trailing: "q \<noteq> [] \<Longrightarrow> path_clean (q @ ''/'') = path_clean q"
proof -
  assume q: "q \<noteq> []"
  then have "is_abs (q @ ''/'') = is_abs q" by (cases q) (auto simp: is_abs_def)
  then show ?thesis
    using split_snoc [of "CHR ''/''" "[]" q] by (simp add: path_clean_def Let_def clean_elems_empty)
qed

lemma path_dir_shorter: "1 < length p \<Longrightarrow> length (path_dir p) < length p"
proof -
  assume l: "1 < length p"
  let ?d = "rev (dropWhile (\<lambda>c. c \<noteq> CHR ''/'') (rev p))"
  have le: "length ?d \<le> length p" using length_dropWhile_le [of _ "rev p"] by simp
  show ?thesis
  proof (cases "?d")
    case Nil
    have "path_clean [] = ''.''" by (simp add: path_clean_def is_abs_def split_go_def)
    with l show ?thesis unfolding path_dir_def Nil by simp
  next
    case (Cons x xs)
    then have "dropWhile (\<lambda>c. c \<noteq> CHR ''/'') (rev p) \<noteq> []" by (metis list.distinct(1) rev.simps(1))
    then have "hd (dropWhile (\<lambda>c. c \<noteq> CHR ''/'') (rev p)) = CHR ''/''"
      using hd_dropWhile [of "\<lambda>c. c \<noteq> CHR ''/''" "rev p"] by simp
    then obtain q where q: "?d = q @ ''/''"
      using Cons by (cases "dropWhile (\<lambda>c. c \<noteq> CHR ''/'') (rev p)") auto
    show ?thesis
    proof (cases "q = []")
      case True
      have "path_clean ''/'' = ''/''" by (simp add: path_clean_def is_abs_def split_go_def)
      with l q True show ?thesis by (simp add: path_dir_def)
    next
      case False
      then have "1 \<le> length q" by (cases q) auto
      with length_clean [of q] le q False show ?thesis by (simp add: path_dir_def clean_trailing)
    qed
  qed
qed

end
