(* ===== verification/Configs.thy ===== *)
theory Configs
  imports Common Filepath
begin

text \<open>
  Package \<open>configs\<close>: the configuration records of \<open>config.go\<close>, the loader and the
  defaults of \<open>util.go\<close>. \<open>toml.DecodeFile\<close> is third-party code and an argument;
  \<open>app_env\<close> holds what \<open>common/env.go\<close> and the file system answer.
\<close>

section \<open>config.go\<close>

record redis_config =
  rc_IsCluster :: bool
  rc_Server :: string
  rc_Addresses :: "string list"
  rc_Prefix :: string
  rc_Expiration :: int
  rc_PoolSize :: int
  rc_Db :: int
  rc_Password :: string

record session_config =
  sc_IsEnable :: bool
  sc_CookieName :: string
  sc_ReName :: bool
  sc_CacheType :: string
  sc_Expiration :: int

record prometheus_config =
  pc_IsEnable :: bool
  pc_RoutePath :: string
  pc_RequestsTotal :: string
  pc_RequestsCosttime :: string
  pc_Tags :: "string list"

record server_config =
  sv_Address :: string
  sv_CertFile :: string
  sv_KeyFile :: string
  sv_Phrase :: string
  sv_MaxRecvMsgSize :: int
  sv_MaxSendMsgSize :: int
  sv_ResolverType :: string
  sv_ResolverAddresses :: "string list"
  sv_ServerName :: string
  sv_UpdateInterval :: int
  sv_Interface :: string
  sv_Tags :: "string list"

record http_server_config = server_config +
  hs_Concurrence :: nat
  hs_ReadTimeout :: int
  hs_WriteTimeout :: int

type_synonym grpc_server_config = server_config

record logger_config =
  lc_LogGoID :: bool
  lc_LogFile :: string
  lc_LogLevel :: string
  lc_IsConsole :: bool
  lc_LogType :: string
  lc_LogMaxNum :: int
  lc_LogSize :: int
  lc_LogUnit :: string

record db_std_config =
  ds_Driver :: string
  ds_Username :: string
  ds_Password :: string
  ds_Protocol :: string
  ds_Address :: string
  ds_Port :: string
  ds_Dbname :: string
  ds_Params :: string

record db_config = db_std_config +
  dc_MaxIdleConns :: int
  dc_MaxOpenConns :: int
  dc_KeepAlive :: int
  dc_CacheType :: string
  dc_CacheMaxSize :: int
  dc_CacheTimeout :: int
  dc_Slaves :: "db_std_config list"

record mongo_config =
  mc_Address :: string
  mc_Dbname :: string

record cache_config =
  cc_Type :: string
  cc_Servers :: "string list"
  cc_Prefix :: string
  cc_Expiration :: int

record template_config =
  tc_StaticPath :: string
  tc_HTMLPath :: string
  tc_WidgetsPath :: string
  tc_IsCache :: bool

record route_config =
  rt_DefaultController :: string
  rt_DefaultAction :: string

record grpc_config =
  gc_ServerName :: string
  gc_Tag :: string
  gc_ResolverType :: string
  gc_ResolverScheme :: string
  gc_ResolverAddresses :: "string list"
  gc_BalancerName :: string
  gc_Addresses :: "string list"
  gc_CertFile :: string
  gc_IsAuth :: bool

record all_config =
  ac_AppID :: int
  ac_EnableSession :: bool
  ac_ErrorBase :: int
  ac_Server :: http_server_config
  ac_GrpcServer :: grpc_server_config
  ac_Logger :: logger_config
  ac_Db :: db_config
  ac_Mongo :: mongo_config
  ac_Cache :: cache_config
  ac_Template :: template_config
  ac_Route :: route_config
  ac_Redis :: redis_config
  ac_Session :: session_config
  ac_Prometheus :: prometheus_config
  ac_Custom :: "string \<rightharpoonup> string"

section \<open>util.go: loading\<close>

record app_env =
  ae_app_path :: string
  ae_env :: string
  ae_go_run :: bool
  ae_go_test :: bool
  ae_stat :: file_stat
  ae_glob :: "string \<Rightarrow> goerr + string list"

definition ErrConfigPathNotExist :: goerr where
  "ErrConfigPathNotExist = Sentinel ''config path not exist''"

text \<open>
  A decoder fills the configuration from one file; the configuration it leaves behind after an
  error stays.
\<close>

type_synonym 'c decoder = "string \<Rightarrow> 'c \<Rightarrow> 'c \<times> goerr option"

fun decode_files :: "'c decoder \<Rightarrow> string list \<Rightarrow> 'c \<Rightarrow> 'c \<times> goerr option" where
  "decode_files decode [] c = (c, None)"
| "decode_files decode (f # fs) c =
     (case decode f c of
        (c', Some e) \<Rightarrow> (c', Some e)
      | (c', None) \<Rightarrow> decode_files decode fs c')"

definition loadFromFile ::
  "app_env \<Rightarrow> 'c decoder \<Rightarrow> string \<Rightarrow> 'c \<Rightarrow> 'c \<times> (goerr + string list)" where
  "loadFromFile env decode configPath c =
     (if \<not> IsExist (ae_stat env) configPath then (c, Inl ErrConfigPathNotExist)
      else (let files = (case ae_glob env (path_join [configPath, ''*.toml'']) of
                           Inl _ \<Rightarrow> [] | Inr fs \<Rightarrow> fs)
        in case decode_files decode files c of
             (c', Some e) \<Rightarrow> (c', Inl e)
           | (c', None) \<Rightarrow> (c', Inr files)))"

text \<open>The three stages of \<open>Load\<close>: the application's directory, \<open>config\<close>, \<open>config/ENV\<close>.\<close>

definition load_env :: "app_env \<Rightarrow> 'c decoder \<Rightarrow> string \<Rightarrow> 'c \<Rightarrow> 'c \<times> goerr option" where
  "load_env env decode configPath c =
     (if ae_env env = [] then (c, None)
      else (let envConfigPath = path_join [configPath, ae_env env] in
        if \<not> (ae_go_run env \<or> ae_go_test env) \<and> \<not> IsExist (ae_stat env) envConfigPath
        then (c, Some (Errorf (''config path: '' @ envConfigPath @ '' not exist'')))
        else case loadFromFile env decode envConfigPath c of
               (c', Inl e) \<Rightarrow> (c', Some e)
             | (c', Inr _) \<Rightarrow> (c', None)))"

definition load_config :: "app_env \<Rightarrow> 'c decoder \<Rightarrow> 'c \<Rightarrow> 'c \<times> goerr option" where
  "load_config env decode c =
     (let configPath = path_join [ae_app_path env, ''config''] in
      case loadFromFile env decode configPath c of
        (c', Inl e) \<Rightarrow> (c', Some e)
      | (c', Inr _) \<Rightarrow> load_env env decode configPath c')"

definition Load :: "app_env \<Rightarrow> 'c decoder \<Rightarrow> 'c \<Rightarrow> 'c \<times> goerr option" where
  "Load env decode c =
     (let (c', err) =
        (case loadFromFile env decode (ae_app_path env) c of
           (c', Inl e) \<Rightarrow> (c', Some e)
         | (c', Inr _) \<Rightarrow> load_config env decode c')
      in (c', if err = Some ErrConfigPathNotExist then None else err))"

section \<open>util.go: defaults\<close>

text \<open>\<open>int64(math.Pow10(n))\<close>, for \<open>n < 10\<close>: a negative power truncates to 0.\<close>

definition pow10 :: "int \<Rightarrow> int" where
  "pow10 n = (if n < 0 then 0 else 10 ^ nat n)"

definition default_error_base :: "int \<Rightarrow> int" where
  "default_error_base b =
     (let b1 = (if b = 0 then 6 else b) in if b1 < 10 then pow10 b1 else b1)"

definition default_lower :: "string \<Rightarrow> string \<Rightarrow> string" where
  "default_lower d s = (if s = [] then d else to_lower s)"

definition default_str :: "string \<Rightarrow> string \<Rightarrow> string" where
  "default_str d s = (if s = [] then d else s)"

definition abs_path :: "app_env \<Rightarrow> string \<Rightarrow> string" where
  "abs_path env p = (if is_abs p then p else path_join [ae_app_path env, p])"

definition default_route :: "route_config \<Rightarrow> route_config" where
  "default_route r =
     r\<lparr>rt_DefaultController := default_lower ''index'' (rt_DefaultController r),
       rt_DefaultAction := default_lower ''index'' (rt_DefaultAction r)\<rparr>"

definition default_certs :: "app_env \<Rightarrow> http_server_config \<Rightarrow> http_server_config" where
  "default_certs env s =
     (if sv_CertFile s \<noteq> [] \<and> sv_KeyFile s \<noteq> []
      then s\<lparr>sv_CertFile := abs_path env (sv_CertFile s), sv_KeyFile := abs_path env (sv_KeyFile s)\<rparr>
      else s)"

definition default_session :: "bool \<Rightarrow> session_config \<Rightarrow> session_config" where
  "default_session enable s =
     (if enable
      then s\<lparr>sc_CookieName := default_str ''sessionid'' (sc_CookieName s),
             sc_CacheType := default_str ''redis'' (sc_CacheType s)\<rparr>
      else s)"

definition default_redis :: "redis_config \<Rightarrow> redis_config" where
  "default_redis r =
     (if rc_Addresses r = [] \<and> rc_Server r \<noteq> [] then r\<lparr>rc_Addresses := [rc_Server r]\<rparr> else r)"

definition default_prometheus :: "prometheus_config \<Rightarrow> prometheus_config" where
  "default_prometheus p =
     p\<lparr>pc_RequestsTotal := default_str ''requests_total'' (pc_RequestsTotal p),
       pc_RequestsCosttime := default_str ''requests_costtime'' (pc_RequestsCosttime p),
       pc_RoutePath := default_str ''/metrics'' (pc_RoutePath p),
       pc_Tags := (if pc_Tags p = [] then [''prometheus''] else pc_Tags p)\<rparr>"

text \<open>The labelled loop: every tag that the server's list does not hold yet is appended.\<close>

fun merge_tags :: "string list \<Rightarrow> string list \<Rightarrow> string list" where
  "merge_tags [] server = server"
| "merge_tags (val # tags) server =
     merge_tags tags (if val \<in> set server then server else server @ [val])"

definition default_template :: "app_env \<Rightarrow> template_config \<Rightarrow> template_config \<times> goerr option" where
  "default_template env t =
     (let t1 = t\<lparr>tc_HTMLPath := abs_path env (tc_HTMLPath t)\<rparr> in
      if tc_WidgetsPath t1 = [] then (t1, None)
      else (let t2 = t1\<lparr>tc_WidgetsPath := abs_path env (tc_WidgetsPath t1)\<rparr> in
        (t2, (case ae_glob env (tc_WidgetsPath t2) of
                Inr (m # ms) \<Rightarrow> None
              | _ \<Rightarrow> Some (Errorf ''error WidgetsPath'')))))"

definition initDefaultConfig :: "app_env \<Rightarrow> all_config \<Rightarrow> all_config \<times> goerr option" where
  "initDefaultConfig env c =
     (let c1 = c\<lparr>ac_ErrorBase := default_error_base (ac_ErrorBase c),
                  ac_Route := default_route (ac_Route c)\<rparr>;
          (t, err) = default_template env (ac_Template c1);
          c2 = c1\<lparr>ac_Template := t\<rparr>
      in case err of
           Some e \<Rightarrow> (c2, Some e)
         | None \<Rightarrow>
             (let c3 = c2\<lparr>ac_Server := default_certs env (ac_Server c2),
                          ac_Session := default_session (ac_EnableSession c2) (ac_Session c2),
                          ac_Redis := default_redis (ac_Redis c2)\<rparr>
              in if pc_IsEnable (ac_Prometheus c3)
                 then (let p = default_prometheus (ac_Prometheus c3); s = ac_Server c3 in
                       (c3\<lparr>ac_Prometheus := p,
                           ac_Server := s\<lparr>sv_Tags := merge_tags (pc_Tags p) (sv_Tags s)\<rparr>\<rparr>, None))
                 else (c3, None)))"

definition LoadDefaultConfig ::
  "app_env \<Rightarrow> all_config decoder \<Rightarrow> all_config \<Rightarrow> all_config \<times> goerr option" where
  "LoadDefaultConfig env decode c =
     (case Load env decode c of
        (c', Some e) \<Rightarrow> (c', Some e)
      | (c', None) \<Rightarrow> initDefaultConfig env c')"

section \<open>Facts\<close>

lemma default_error_base_ge: "0 \<le> b \<Longrightarrow> 10 \<le> default_error_base b"
proof -
  assume "0 \<le> b"
  moreover have "(10::int) \<le> 10 ^ nat b" if "0 < b"
    using that power_increasing [of 1 "nat b" "10::int"] by simp
  ultimately show ?thesis by (auto simp: default_error_base_def pow10_def)
qed

lemma default_error_base_idem: "10 \<le> b \<Longrightarrow> default_error_base b = b"
  by (simp add: default_error_base_def)

lemma default_lower_idem:
  "d \<noteq> [] \<Longrightarrow> to_lower d = d \<Longrightarrow> default_lower d (default_lower d s) = default_lower d s"
  by (simp add: default_lower_def)

lemma default_str_idem [simp]: "default_str d (default_str d s) = default_str d s"
  by (simp add: default_str_def)

lemma default_str_not_nil [simp]: "d \<noteq> [] \<Longrightarrow> default_str d s \<noteq> []"
  by (simp add: default_str_def)

lemma abs_path_abs: "is_abs (ae_app_path env) \<Longrightarrow> is_abs (abs_path env p)"
  by (simp add: abs_path_def is_abs_join)

lemma abs_path_idem: "is_abs (ae_app_path env) \<Longrightarrow> abs_path env (abs_path env p) = abs_path env p"
  using abs_path_abs [of env p] by (simp add: abs_path_def [of env "abs_path env p"])

lemma merge_tags_set: "set (merge_tags tags server) = set tags \<union> set server"
  by (induction tags server rule: merge_tags.induct) auto

lemma merge_tags_prefix: "\<exists>new. merge_tags tags server = server @ new \<and> set new \<subseteq> set tags"
proof (induction tags server rule: merge_tags.induct)
  case (2 val tags server)
  then show ?case by fastforce
qed simp

lemma merge_tags_distinct: "distinct server \<Longrightarrow> distinct (merge_tags tags server)"
  by (induction tags server rule: merge_tags.induct) auto

lemma merge_tags_sub: "set tags \<subseteq> set server \<Longrightarrow> merge_tags tags server = server"
  by (induction tags) auto

lemma merge_tags_idem: "merge_tags tags (merge_tags tags server) = merge_tags tags server"
  by (simp add: merge_tags_set merge_tags_sub)

lemma default_route_idem: "default_route (default_route r) = default_route r"
  by (simp add: default_route_def default_lower_def to_lower_def lower_char_def less_eq_char_def)

lemma default_certs_idem:
  "is_abs (ae_app_path env) \<Longrightarrow> default_certs env (default_certs env s) = default_certs env s"
  by (auto simp: default_certs_def abs_path_idem)

lemma default_session_idem: "default_session b (default_session b s) = default_session b s"
  by (simp add: default_session_def)

lemma default_redis_idem: "default_redis (default_redis r) = default_redis r"
  by (simp add: default_redis_def)

lemma default_prometheus_idem: "default_prometheus (default_prometheus p) = default_prometheus p"
  by (simp add: default_prometheus_def)

lemma default_template_idem:
  assumes "is_abs (ae_app_path env)" and "default_template env t = (t', None)"
  shows "default_template env t' = (t', None)"
  using assms is_abs_not_nil [OF abs_path_abs [OF assms(1)]]
  by (auto simp: default_template_def Let_def abs_path_idem split: if_splits sum.splits list.splits)

lemma default_template_abs:
  assumes "default_template env t = (t', None)" and "is_abs (ae_app_path env)"
  shows "is_abs (tc_HTMLPath t')"
proof -
  from assms(1) have "tc_HTMLPath t' = abs_path env (tc_HTMLPath t)"
    by (auto simp: default_template_def Let_def split: if_splits)
  with assms(2) show ?thesis by (simp add: abs_path_abs)
qed

lemma initDefaultConfig_ok:
  assumes "initDefaultConfig env c = (c', None)"
  shows "ac_ErrorBase c' = default_error_base (ac_ErrorBase c)"
    and "ac_Route c' = default_route (ac_Route c)"
    and "default_template env (ac_Template c) = (ac_Template c', None)"
    and "ac_Redis c' = default_redis (ac_Redis c)"
    and "ac_Session c' = default_session (ac_EnableSession c) (ac_Session c)"
    and "ac_EnableSession c' = ac_EnableSession c"
    and "ac_Prometheus c' = (if pc_IsEnable (ac_Prometheus c) then default_prometheus (ac_Prometheus c)
                             else ac_Prometheus c)"
    and "ac_Server c' =
           (let s = default_certs env (ac_Server c) in
            if pc_IsEnable (ac_Prometheus c)
            then s\<lparr>sv_Tags := merge_tags (pc_Tags (default_prometheus (ac_Prometheus c))) (sv_Tags s)\<rparr>
            else s)"
  using assms
  by (auto simp: initDefaultConfig_def Let_def split: prod.splits option.splits if_splits)

lemma default_certs_tags:
  "default_certs env (s\<lparr>sv_Tags := t\<rparr>) = (default_certs env s)\<lparr>sv_Tags := t\<rparr>"
  by (simp add: default_certs_def)

lemma initDefaultConfig_again:
  assumes "is_abs (ae_app_path env)" and "initDefaultConfig env c = (c', None)"
    and "0 \<le> ac_ErrorBase c"
  shows "initDefaultConfig env c' = (c', None)"
proof -
  note ok = initDefaultConfig_ok [OF assms(2)]
  have t: "default_template env (ac_Template c') = (ac_Template c', None)"
    by (rule default_template_idem [OF assms(1) ok(3)])
  have e: "default_error_base (ac_ErrorBase c') = ac_ErrorBase c'"
    using default_error_base_ge [OF assms(3)] by (simp add: ok(1) default_error_base_idem)
  have r: "default_route (ac_Route c') = ac_Route c'" by (simp add: ok(2) default_route_idem)
  have s: "default_session (ac_EnableSession c') (ac_Session c') = ac_Session c'"
    by (simp add: ok(5,6) default_session_idem)
  have d: "default_redis (ac_Redis c') = ac_Redis c'" by (simp add: ok(4) default_redis_idem)
  have p: "pc_IsEnable (ac_Prometheus c') \<Longrightarrow> default_prometheus (ac_Prometheus c') = ac_Prometheus c'"
    by (simp add: ok(7) default_prometheus_idem split: if_splits)
  have c: "default_certs env (ac_Server c') = ac_Server c'"
    by (simp add: ok(8) Let_def default_certs_tags default_certs_idem [OF assms(1)])
  have g: "pc_IsEnable (ac_Prometheus c') \<Longrightarrow>
           (ac_Server c')\<lparr>sv_Tags := merge_tags (pc_Tags (ac_Prometheus c')) (sv_Tags (ac_Server c'))\<rparr>
           = ac_Server c'"
    by (simp add: ok(7,8) Let_def merge_tags_idem default_prometheus_def split: if_splits)
  show ?thesis
    using t e r s d p c g by (simp add: initDefaultConfig_def Let_def)
qed

lemma decode_files_fold:
  "(\<And>f c. decode f c = (d f c, None)) \<Longrightarrow> decode_files decode fs c = (fold d fs c, None)"
  by (induction fs arbitrary: c) simp_all

definition config_files :: "app_env \<Rightarrow> string \<Rightarrow> string list" where
  "config_files env dir =
     (case ae_glob env (path_join [dir, ''*.toml'']) of Inl _ \<Rightarrow> [] | Inr fs \<Rightarrow> fs)"

lemma loadFromFile_fold:
  assumes "\<And>f c. decode f c = (d f c, None)" and "IsExist (ae_stat env) dir"
  shows "loadFromFile env decode dir c = (fold d (config_files env dir) c, Inr (config_files env dir))"
  using assms(2) by (simp add: loadFromFile_def decode_files_fold [OF assms(1)] config_files_def Let_def)

section \<open>Properties\<close>


definition zero_server :: http_server_config where
  "zero_server =
     \<lparr>sv_Address = [], sv_CertFile = [], sv_KeyFile = [], sv_Phrase = [], sv_MaxRecvMsgSize = 0,
      sv_MaxSendMsgSize = 0, sv_ResolverType = [], sv_ResolverAddresses = [], sv_ServerName = [],
      sv_UpdateInterval = 0, sv_Interface = [], sv_Tags = [], hs_Concurrence = 0,
      hs_ReadTimeout = 0, hs_WriteTimeout = 0\<rparr>"

text \<open>The zero value of the configuration, from which \<open>toml\<close> starts.\<close>

definition zero_config :: all_config where
  "zero_config =
     \<lparr>ac_AppID = 0, ac_EnableSession = False, ac_ErrorBase = 0, ac_Server = zero_server,
      ac_GrpcServer = server_config.truncate zero_server,
      ac_Logger = \<lparr>lc_LogGoID = False, lc_LogFile = [], lc_LogLevel = [], lc_IsConsole = False,
        lc_LogType = [], lc_LogMaxNum = 0, lc_LogSize = 0, lc_LogUnit = []\<rparr>,
      ac_Db = \<lparr>ds_Driver = [], ds_Username = [], ds_Password = [], ds_Protocol = [],
        ds_Address = [], ds_Port = [], ds_Dbname = [], ds_Params = [], dc_MaxIdleConns = 0,
        dc_MaxOpenConns = 0, dc_KeepAlive = 0, dc_CacheType = [], dc_CacheMaxSize = 0,
        dc_CacheTimeout = 0, dc_Slaves = []\<rparr>,
      ac_Mongo = \<lparr>mc_Address = [], mc_Dbname = []\<rparr>,
      ac_Cache = \<lparr>cc_Type = [], cc_Servers = [], cc_Prefix = [], cc_Expiration = 0\<rparr>,
      ac_Template = \<lparr>tc_StaticPath = [], tc_HTMLPath = [], tc_WidgetsPath = [], tc_IsCache = False\<rparr>,
      ac_Route = \<lparr>rt_DefaultController = [], rt_DefaultAction = []\<rparr>,
      ac_Redis = \<lparr>rc_IsCluster = False, rc_Server = [], rc_Addresses = [], rc_Prefix = [],
        rc_Expiration = 0, rc_PoolSize = 0, rc_Db = 0, rc_Password = []\<rparr>,
      ac_Session = \<lparr>sc_IsEnable = False, sc_CookieName = [], sc_ReName = False,
        sc_CacheType = [], sc_Expiration = 0\<rparr>,
      ac_Prometheus = \<lparr>pc_IsEnable = False, pc_RoutePath = [], pc_RequestsTotal = [],
        pc_RequestsCosttime = [], pc_Tags = []\<rparr>,
      ac_Custom = Map.empty\<rparr>"

definition sample_env :: app_env where
  "sample_env =
     \<lparr>ae_app_path = ''/opt/app'', ae_env = ''prod'', ae_go_run = False, ae_go_test = False,
      ae_stat = (\<lambda>p. StatOk True),
      ae_glob = (\<lambda>p. Inr (if p = ''/opt/app/config/prod/*.toml'' then [''prod.toml''] else [''base.toml'']))\<rparr>"


text \<open>
  Order of the files: when the three directories exist and every file decodes, \<open>Load\<close>
  applies the files of the application's directory, then those of \<open>config\<close>, then those of
  the environment's directory, so that the environment's settings win.
\<close>

theorem Load_applies_in_order:
  assumes "\<forall>f c. decode f c = (d f c, None)" and "ae_env env \<noteq> []"
    and "IsExist (ae_stat env) (ae_app_path env)"
    and "IsExist (ae_stat env) (path_join [ae_app_path env, ''config''])"
    and "IsExist (ae_stat env) (path_join [path_join [ae_app_path env, ''config''], ae_env env])"
  shows "Load env decode c =
    (fold d (config_files env (ae_app_path env)
             @ config_files env (path_join [ae_app_path env, ''config''])
             @ config_files env (path_join [path_join [ae_app_path env, ''config''], ae_env env])) c, None)"
  using assms(2-5)
  by (simp add: Load_def load_config_def load_env_def Let_def
      loadFromFile_fold [OF assms(1) [THEN spec, THEN spec]])

theorem Load_applies_in_order_witness:
  "Load sample_env (\<lambda>f c. (c @ [f], None)) [] = ([''base.toml'', ''base.toml'', ''prod.toml''], None)"
  by (subst Load_applies_in_order [where d = "\<lambda>f c. c @ [f]"])
    (simp_all add: sample_env_def IsExist_def config_files_def path_join_def path_clean_def
      is_abs_def has_prefix_def split_go_def)

end
