(* ===== verification/Redis.thy ===== *)
theory Redis
  imports Configs
begin

text \<open>
  Package \<open>redis\<close>, \<open>new.go\<close> and \<open>client.go\<close>: the pool table, the client and its
  operations. radix, the server behind it and the JSON codec are third-party code: the record
  \<open>radix\<close> carries what the client calls of them, over a state \<open>'s\<close> that is theirs.
  A pool is known by its number. Slices that the code overwrites in place
  (\<open>args[0]\<close>, \<open>keys[k]\<close>) are rebuilt, so the model does not show the caller's slice.
\<close>

section \<open>Actions, receivers, replies\<close>

datatype redis_action = Cmd string "string list" | FlatCmd string string "goval list"

datatype receiver =
  RcvNone | RcvBool | RcvInt | RcvString | RcvBytes | RcvMaybeBytes | RcvMaybeAny | RcvFloat
| RcvBytesList | RcvStrings | RcvScores | RcvFloatLists | RcvValLists

text \<open>What radix stored in the receiver; \<open>RNil\<close> is a nil reply seen through \<open>MaybeNil\<close>.\<close>

datatype reply =
  RNil | RUnset | RBool bool | RInt int | RStr string | RBytes string | RVal goval
| RBytesList "string list" | RStrings "string list" | RScores "(string \<times> int) list"
| RValLists "goval list list"

fun as_bool :: "reply \<Rightarrow> bool" where "as_bool (RBool b) = b" | "as_bool _ = False"
fun as_int :: "reply \<Rightarrow> int" where "as_int (RInt i) = i" | "as_int _ = 0"
fun as_str :: "reply \<Rightarrow> string" where "as_str (RStr s) = s" | "as_str _ = []"
fun as_bytes :: "reply \<Rightarrow> string" where "as_bytes (RBytes s) = s" | "as_bytes _ = []"
fun as_val :: "reply \<Rightarrow> goval" where "as_val (RVal v) = v" | "as_val _ = VNil"
fun as_bytes_list :: "reply \<Rightarrow> string list" where
  "as_bytes_list (RBytesList l) = l" | "as_bytes_list _ = []"
fun as_strings :: "reply \<Rightarrow> string list" where
  "as_strings (RStrings l) = l" | "as_strings _ = []"
fun as_scores :: "reply \<Rightarrow> (string \<times> int) list" where
  "as_scores (RScores l) = l" | "as_scores _ = []"
fun as_val_lists :: "reply \<Rightarrow> goval list list" where
  "as_val_lists (RValLists l) = l" | "as_val_lists _ = []"

record 's radix =
  rx_json :: "redis_config \<Rightarrow> goerr + string"
  rx_marshal :: "goval \<Rightarrow> goerr + string"
  rx_unmarshal :: "string \<Rightarrow> goerr + goval"
  rx_new_pool :: "string \<Rightarrow> redis_config \<Rightarrow> 's \<Rightarrow> (goerr + nat) \<times> 's"
  rx_new_cluster :: "string list \<Rightarrow> redis_config \<Rightarrow> 's \<Rightarrow> (goerr + nat) \<times> 's"
  rx_do :: "nat \<Rightarrow> receiver \<Rightarrow> redis_action \<Rightarrow> 's \<Rightarrow> (goerr + reply) \<times> 's"
  rx_close :: "nat \<Rightarrow> 's \<Rightarrow> 's"

record client =
  cl_client :: "nat option"
  cl_prefix :: string
  cl_config :: redis_config
  cl_Marshal :: "(goval \<Rightarrow> goerr + string) option"
  cl_Unmarshal :: "(string \<Rightarrow> goerr + goval) option"

definition ErrNotSupportCluster :: goerr where
  "ErrNotSupportCluster = Sentinel ''not support cluster''"
definition ErrParmasNotEnough :: goerr where
  "ErrParmasNotEnough = Sentinel ''params not enough''"
definition OK :: string where "OK = ''OK''"

section \<open>new.go\<close>

text \<open>The package state: the table of pools by marshalled configuration, and the server's.\<close>

record 's redis_state =
  rs_insMap :: "string \<rightharpoonup> nat"
  rs_srv :: 's

definition fresh_client :: "'s radix \<Rightarrow> redis_config \<Rightarrow> nat option \<Rightarrow> client" where
  "fresh_client rx cfg p =
     \<lparr>cl_client = p, cl_prefix = rc_Prefix cfg, cl_config = cfg,
      cl_Marshal = Some (rx_marshal rx), cl_Unmarshal = Some (rx_unmarshal rx)\<rparr>"

text \<open>The client is returned together with a dial error, without a pool.\<close>

definition newClient ::
  "'s radix \<Rightarrow> redis_config \<Rightarrow> 's redis_state \<Rightarrow> (client option \<times> goerr option) \<times> 's redis_state" where
  "newClient rx cfg st =
     (if rc_Addresses cfg = [] then ((None, Some (Errorf ''err redis config'')), st)
      else case rx_json rx cfg of
        Inl e \<Rightarrow> ((None, Some e), st)
      | Inr key \<Rightarrow>
          (case rs_insMap st key of
             Some i \<Rightarrow> ((Some (fresh_client rx cfg (Some i)), None), st)
           | None \<Rightarrow>
               (let cfg' = (if rc_PoolSize cfg \<le> 0 then cfg\<lparr>rc_PoolSize := 10\<rparr> else cfg);
                    (r, srv) = (if rc_IsCluster cfg'
                                then rx_new_cluster rx (rc_Addresses cfg') cfg' (rs_srv st)
                                else rx_new_pool rx (hd (rc_Addresses cfg')) cfg' (rs_srv st))
                in case r of
                     Inl e \<Rightarrow> ((Some (fresh_client rx cfg None), Some e), st\<lparr>rs_srv := srv\<rparr>)
                   | Inr i \<Rightarrow> ((Some (fresh_client rx cfg (Some i)), None),
                               st\<lparr>rs_insMap := (rs_insMap st)(key \<mapsto> i), rs_srv := srv\<rparr>))))"

definition New ::
  "'s radix \<Rightarrow> redis_config \<Rightarrow> 's redis_state \<Rightarrow> (client option \<times> goerr option) \<times> 's redis_state" where
  "New rx cfg st = newClient rx cfg st"

text \<open>\<open>dst\<close> is the nil result variable when its fields are assigned.\<close>

definition Clone :: "client option \<Rightarrow> client list \<Rightarrow> client outcome" where
  "Clone d0 src =
     (let c = (case src of [] \<Rightarrow> d0 | c # _ \<Rightarrow> Some c); dst = (None :: client option) in
      case (c, dst) of
        (Some c', Some d) \<Rightarrow> Returns (d\<lparr>cl_client := cl_client c', cl_prefix := cl_prefix c',
            cl_Marshal := cl_Marshal c', cl_Unmarshal := cl_Unmarshal c', cl_config := cl_config c'\<rparr>)
      | _ \<Rightarrow> Panics nil_deref)"

definition closeClient ::
  "'s radix \<Rightarrow> client option \<Rightarrow> 's redis_state \<Rightarrow> (client option \<times> goerr option) \<times> 's redis_state" where
  "closeClient rx ins st =
     (case ins of
        None \<Rightarrow> ((ins, None), st)
      | Some c \<Rightarrow>
          (case cl_client c of
             None \<Rightarrow> ((ins, None), st)
           | Some p \<Rightarrow>
               (case rx_json rx (cl_config c) of
                  Inl e \<Rightarrow> ((ins, Some e), st)
                | Inr key \<Rightarrow> ((Some (c\<lparr>cl_client := None\<rparr>), None),
                    st\<lparr>rs_insMap := (rs_insMap st)(key := None), rs_srv := rx_close rx p (rs_srv st)\<rparr>))))"

section \<open>client.go\<close>

definition Client_Do ::
  "'s radix \<Rightarrow> client option \<Rightarrow> receiver \<Rightarrow> redis_action \<Rightarrow> 's \<Rightarrow> (goerr + reply) \<times> 's" where
  "Client_Do rx c rcv a s =
     (case Option.bind c cl_client of
        None \<Rightarrow> (Inl (Errorf ''redis instance not init''), s)
      | Some p \<Rightarrow> rx_do rx p rcv a s)"

definition Client_AddPrefix :: "client \<Rightarrow> string \<Rightarrow> string" where
  "Client_AddPrefix c s = cl_prefix c @ s"

definition Client_GetPrefix :: "client \<Rightarrow> string" where
  "Client_GetPrefix c = cl_prefix c"

text \<open>A value that keeps its zero when the call fails, next to the error.\<close>

definition fill :: "(reply \<Rightarrow> 'a) \<Rightarrow> 'a \<Rightarrow> (goerr + reply) \<times> 's \<Rightarrow> ('a \<times> goerr option) \<times> 's" where
  "fill get zero r =
     (case r of (Inl e, s) \<Rightarrow> ((zero, Some e), s) | (Inr v, s) \<Rightarrow> ((get v, None), s))"

definition marshal_arg :: "client \<Rightarrow> goval \<Rightarrow> goerr + goval" where
  "marshal_arg c v =
     (case cl_Marshal c of
        None \<Rightarrow> Inr v
      | Some m \<Rightarrow> (case m v of Inl e \<Rightarrow> Inl e | Inr b \<Rightarrow> Inr (VBytes b)))"

fun marshal_args :: "client \<Rightarrow> goval list \<Rightarrow> goerr + goval list" where
  "marshal_args c [] = Inr []"
| "marshal_args c (v # vs) =
     (case marshal_arg c v of
        Inl e \<Rightarrow> Inl e
      | Inr v' \<Rightarrow> (case marshal_args c vs of Inl e \<Rightarrow> Inl e | Inr vs' \<Rightarrow> Inr (v' # vs')))"

definition Client_Set ::
  "'s radix \<Rightarrow> client \<Rightarrow> string \<Rightarrow> goval list \<Rightarrow> 's \<Rightarrow> (bool \<times> goerr option) \<times> 's" where
  "Client_Set rx c key args s =
     (case args of
        [] \<Rightarrow> ((False, Some ErrParmasNotEnough), s)
      | a # rest \<Rightarrow>
          (case marshal_arg c a of
             Inl e \<Rightarrow> ((False, Some e), s)
           | Inr v \<Rightarrow> fill (\<lambda>r. as_str r = OK) False
               (Client_Do rx (Some c) RcvString (FlatCmd ''SET'' (Client_AddPrefix c key) (v # rest)) s)))"

text \<open>
  The body that \<open>Get\<close>, \<open>HGet\<close>, \<open>LPop\<close> and \<open>RPop\<close> share, with the content of the
  receiver as the first component.
\<close>

definition get_maybe ::
  "'s radix \<Rightarrow> client \<Rightarrow> redis_action \<Rightarrow> 's \<Rightarrow> (goval option \<times> bool \<times> goerr option) \<times> 's" where
  "get_maybe rx c a s =
     (case Client_Do rx (Some c) (if cl_Unmarshal c = None then RcvMaybeAny else RcvMaybeBytes) a s of
        (Inl e, s') \<Rightarrow> ((None, False, Some e), s')
      | (Inr RNil, s') \<Rightarrow> ((None, False, None), s')
      | (Inr r, s') \<Rightarrow>
          (case cl_Unmarshal c of
             None \<Rightarrow> ((Some (as_val r), True, None), s')
           | Some u \<Rightarrow>
               if as_bytes r = [] then ((None, True, None), s')
               else (case u (as_bytes r) of
                       Inl e \<Rightarrow> ((None, True, Some e), s')
                     | Inr v \<Rightarrow> ((Some v, True, None), s'))))"

definition Client_Get where
  "Client_Get rx c key s = get_maybe rx c (Cmd ''GET'' [Client_AddPrefix c key]) s"

text \<open>
  \<open>DefaultIns\<close> may be nil; a method then fails at its first access to a field of the
  client, after the checks on its arguments, whose result is \<open>early\<close>.
\<close>

definition with_default ::
  "client option \<Rightarrow> 'r option \<Rightarrow> (client \<Rightarrow> 's \<Rightarrow> 'r \<times> 's) \<Rightarrow> 's \<Rightarrow> 'r outcome \<times> 's" where
  "with_default d early f s =
     (case early of
        Some r \<Rightarrow> (Returns r, s)
      | None \<Rightarrow> (case d of
          None \<Rightarrow> (Panics nil_deref, s)
        | Some c \<Rightarrow> (let (r, s') = f c s in (Returns r, s'))))"

definition Redis_Set ::
  "'s radix \<Rightarrow> client option \<Rightarrow> string \<Rightarrow> goval list \<Rightarrow> 's \<Rightarrow> (bool \<times> goerr option) outcome \<times> 's" where
  "Redis_Set rx d key args =
     with_default d (if args = [] then Some (False, Some ErrParmasNotEnough) else None)
       (\<lambda>c. Client_Set rx c key args)"

definition Client_IsExist where
  "Client_IsExist rx c key s =
     fill as_bool False (Client_Do rx (Some c) RcvBool (Cmd ''EXISTS'' [Client_AddPrefix c key]) s)"

definition Redis_IsExist where
  "Redis_IsExist rx d key = with_default d None (\<lambda>c. Client_IsExist rx c key)"

text \<open>The loop of \<open>MSet\<close> on a cluster, which goes through the package's \<open>Set\<close>.\<close>

definition not_string :: panic_value where
  "not_string = PanicMsg ''interface conversion: interface {} is not string''"

fun mset_each :: "'s radix \<Rightarrow> client option \<Rightarrow> goval list \<Rightarrow> 's \<Rightarrow> goerr option outcome \<times> 's" where
  "mset_each rx d (k # v # rest) s =
     (case k of
        VStr key \<Rightarrow>
          (case Redis_Set rx d key [v] s of
             (Panics p, s') \<Rightarrow> (Panics p, s')
           | (Returns (_, Some e), s') \<Rightarrow> (Returns (Some e), s')
           | (Returns (_, None), s') \<Rightarrow> mset_each rx d rest s')
      | _ \<Rightarrow> (Panics not_string, s))"
| "mset_each rx d _ s = (Returns None, s)"

fun mset_args :: "client \<Rightarrow> goval list \<Rightarrow> (goerr + goval list) outcome" where
  "mset_args c (k # v # rest) =
     (case k of
        VStr key \<Rightarrow>
          (case marshal_arg c v of
             Inl e \<Rightarrow> Returns (Inl e)
           | Inr v' \<Rightarrow>
               (case mset_args c rest of
                  Returns (Inr vs) \<Rightarrow> Returns (Inr (VStr (Client_AddPrefix c key) # v' # vs))
                | r \<Rightarrow> r))
      | _ \<Rightarrow> Panics not_string)"
| "mset_args c _ = Returns (Inr [])"

definition Client_MSet ::
  "'s radix \<Rightarrow> client option \<Rightarrow> client \<Rightarrow> goval list \<Rightarrow> 's \<Rightarrow> goerr option outcome \<times> 's" where
  "Client_MSet rx d c items s =
     (if odd (length items) then (Returns (Some ErrParmasNotEnough), s)
      else if rc_IsCluster (cl_config c) then mset_each rx d items s
      else case mset_args c items of
        Panics p \<Rightarrow> (Panics p, s)
      | Returns (Inl e) \<Rightarrow> (Returns (Some e), s)
      | Returns (Inr (VStr k # vs)) \<Rightarrow>
          (let (r, s') = Client_Do rx (Some c) RcvNone (FlatCmd ''MSET'' k vs) s in
           (Returns (case r of Inl e \<Rightarrow> Some e | Inr _ \<Rightarrow> None), s'))
      | Returns (Inr _) \<Rightarrow> (Panics (PanicMsg ''index out of range''), s))"

text \<open>The results of the loop before an error stay, the slots after it are empty.\<close>

fun mget_each ::
  "'s radix \<Rightarrow> client \<Rightarrow> string list \<Rightarrow> 's \<Rightarrow> (string list \<times> goerr option) \<times> 's" where
  "mget_each rx c [] s = (([], None), s)"
| "mget_each rx c (v # vs) s =
     (case Client_Do rx (Some c) RcvBytes (Cmd ''GET'' [Client_AddPrefix c v]) s of
        (Inl e, s') \<Rightarrow> ((replicate (Suc (length vs)) [], Some e), s')
      | (Inr r, s') \<Rightarrow>
          (let ((ds, err), s'') = mget_each rx c vs s' in ((as_bytes r # ds, err), s'')))"

definition Client_MGet ::
  "'s radix \<Rightarrow> client \<Rightarrow> string list \<Rightarrow> 's \<Rightarrow> (string list \<times> goerr option) \<times> 's" where
  "Client_MGet rx c keys s =
     (if rc_IsCluster (cl_config c) then mget_each rx c keys s
      else fill as_bytes_list []
        (Client_Do rx (Some c) RcvBytesList (Cmd ''MGET'' (map (Client_AddPrefix c) keys)) s))"

definition vint :: "int \<Rightarrow> goval" where "vint i = VI64 (word_of_int i)"

definition Client_Incr where
  "Client_Incr rx c key s =
     fill as_int 0 (Client_Do rx (Some c) RcvInt (Cmd ''INCR'' [Client_AddPrefix c key]) s)"
definition Client_Decr where
  "Client_Decr rx c key s =
     fill as_int 0 (Client_Do rx (Some c) RcvInt (Cmd ''DECR'' [Client_AddPrefix c key]) s)"
definition Client_IncrBy where
  "Client_IncrBy rx c key delta s =
     fill as_int 0 (Client_Do rx (Some c) RcvInt (FlatCmd ''INCRBY'' (Client_AddPrefix c key) [vint delta]) s)"
definition Client_DecrBy where
  "Client_DecrBy rx c key delta s =
     fill as_int 0 (Client_Do rx (Some c) RcvInt (FlatCmd ''DECRBY'' (Client_AddPrefix c key) [vint delta]) s)"

fun del_each :: "'s radix \<Rightarrow> client \<Rightarrow> string list \<Rightarrow> int \<Rightarrow> 's \<Rightarrow> (int \<times> goerr option) \<times> 's" where
  "del_each rx c [] num s = ((num, None), s)"
| "del_each rx c (v # vs) num s =
     (case Client_Do rx (Some c) RcvInt (Cmd ''DEL'' [Client_AddPrefix c v]) s of
        (Inl e, s') \<Rightarrow> ((num, Some e), s')
      | (Inr r, s') \<Rightarrow> del_each rx c vs (i64 (num + as_int r)) s')"

definition Client_Del ::
  "'s radix \<Rightarrow> client \<Rightarrow> string list \<Rightarrow> 's \<Rightarrow> (int \<times> goerr option) \<times> 's" where
  "Client_Del rx c keys s =
     (if rc_IsCluster (cl_config c) then del_each rx c keys 0 s
      else fill as_int 0 (Client_Do rx (Some c) RcvInt (Cmd ''DEL'' (map (Client_AddPrefix c) keys)) s))"

text \<open>These three methods call the package's \<open>Set\<close>, not the receiver's.\<close>

definition Client_SetNx where
  "Client_SetNx rx d (c::client) key value = Redis_Set rx d key [value, VStr ''NX'']"

definition Client_SetEx where
  "Client_SetEx rx d (c::client) key value expiration s =
     (let (r, s') = Redis_Set rx d key [value, VStr ''EX'', vint expiration] s in
      (map_outcome_value snd r, s'))"

definition Client_SetNxEx where
  "Client_SetNxEx rx d (c::client) key value expiration =
     Redis_Set rx d key [value, VStr ''NX'', VStr ''EX'', vint expiration]"

definition as_err :: "(goerr + reply) \<times> 's \<Rightarrow> goerr option \<times> 's" where
  "as_err r = (case r of (Inl e, s) \<Rightarrow> (Some e, s) | (Inr _, s) \<Rightarrow> (None, s))"

definition Client_HSet ::
  "'s radix \<Rightarrow> client \<Rightarrow> string \<Rightarrow> string \<Rightarrow> goval \<Rightarrow> 's \<Rightarrow> goerr option \<times> 's" where
  "Client_HSet rx c key field value s =
     (case marshal_arg c value of
        Inl e \<Rightarrow> (Some e, s)
      | Inr v \<Rightarrow> as_err (Client_Do rx (Some c) RcvNone
                         (FlatCmd ''HSET'' (Client_AddPrefix c key) [VStr field, v]) s))"

definition Client_HGet where
  "Client_HGet rx c key field s = get_maybe rx c (Cmd ''HGET'' [Client_AddPrefix c key, field]) s"

definition Client_HExists where
  "Client_HExists rx c key field s =
     fill as_bool False (Client_Do rx (Some c) RcvBool (Cmd ''HEXISTS'' [Client_AddPrefix c key, field]) s)"

definition Client_HIncrBy where
  "Client_HIncrBy rx c key field delta s =
     fill as_int 0 (Client_Do rx (Some c) RcvInt
       (FlatCmd ''HINCRBY'' (Client_AddPrefix c key) [VStr field, vint delta]) s)"

definition Client_HDel where
  "Client_HDel rx c key fs s =
     fill as_int 0 (Client_Do rx (Some c) RcvInt (FlatCmd ''HDEL'' (Client_AddPrefix c key) [VStrs fs]) s)"

definition Client_SAdd where
  "Client_SAdd rx c key args s =
     fill as_int 0 (Client_Do rx (Some c) RcvInt (FlatCmd ''SADD'' (Client_AddPrefix c key) args) s)"
definition Client_SDiffStore where
  "Client_SDiffStore rx c key args s =
     fill as_int 0 (Client_Do rx (Some c) RcvInt (FlatCmd ''SDIFFSTORE'' (Client_AddPrefix c key) args) s)"
definition Client_SCard where
  "Client_SCard rx c key s =
     fill as_int 0 (Client_Do rx (Some c) RcvInt (Cmd ''SCARD'' [Client_AddPrefix c key]) s)"
definition Client_SIsMember where
  "Client_SIsMember rx c key member s =
     fill as_bool False (Client_Do rx (Some c) RcvBool (Cmd ''SISMEMBER'' [Client_AddPrefix c key, member]) s)"

definition Client_ZAdd where
  "Client_ZAdd rx c key args s =
     fill as_int 0 (Client_Do rx (Some c) RcvInt (FlatCmd ''ZADD'' (Client_AddPrefix c key) args) s)"
definition Client_ZRem where
  "Client_ZRem rx c key members s =
     fill as_int 0 (Client_Do rx (Some c) RcvInt (FlatCmd ''ZREM'' (Client_AddPrefix c key) members) s)"
definition Client_ZIncrBy where
  "Client_ZIncrBy rx c key member increment s =
     fill as_int 0 (Client_Do rx (Some c) RcvInt
       (FlatCmd ''ZINCRBY'' (Client_AddPrefix c key) [vint increment, VStr member]) s)"
definition Client_ZRange where
  "Client_ZRange rx c key start stop s =
     fill as_scores [] (Client_Do rx (Some c) RcvScores
       (FlatCmd ''ZRANGE'' (Client_AddPrefix c key) [vint start, vint stop, VStr ''WITHSCORES'']) s)"
definition Client_ZRevRange where
  "Client_ZRevRange rx c key start stop s =
     fill as_scores [] (Client_Do rx (Some c) RcvScores
       (FlatCmd ''ZREVRANGE'' (Client_AddPrefix c key) [vint start, vint stop, VStr ''WITHSCORES'']) s)"

text \<open>
  On a cluster the existence check goes through the package's \<open>IsExist\<close>; \<open>copy_key\<close>
  is the common part of the two renames, which copies the value and keeps the old key.
\<close>

definition not_exist_err :: "string \<Rightarrow> goerr" where
  "not_exist_err key = Errorf (''key: '' @ key @ '' not exist'')"

definition cluster_value ::
  "'s radix \<Rightarrow> client option \<Rightarrow> client \<Rightarrow> string \<Rightarrow> 's \<Rightarrow> ((bool \<times> goerr) + string) outcome \<times> 's" where
  "cluster_value rx d c oldKey s =
     (case Redis_IsExist rx d oldKey s of
        (Panics p, s1) \<Rightarrow> (Panics p, s1)
      | (Returns (b, Some e), s1) \<Rightarrow> (Returns (Inl (b, e)), s1)
      | (Returns (b, None), s1) \<Rightarrow>
          if \<not> b then (Returns (Inl (b, not_exist_err oldKey)), s1)
          else case Client_Do rx (Some c) RcvBytes (Cmd ''GET'' [Client_AddPrefix c oldKey]) s1 of
                 (Inl e, s2) \<Rightarrow> (Returns (Inl (b, e)), s2)
               | (Inr r, s2) \<Rightarrow> (Returns (Inr (as_bytes r)), s2))"

definition Client_Rename ::
  "'s radix \<Rightarrow> client option \<Rightarrow> client \<Rightarrow> string \<Rightarrow> string \<Rightarrow> 's \<Rightarrow> goerr option outcome \<times> 's" where
  "Client_Rename rx d c oldKey newKey s =
     (if oldKey = newKey then (Returns None, s)
      else if rc_IsCluster (cl_config c) then
        (case cluster_value rx d c oldKey s of
           (Panics p, s1) \<Rightarrow> (Panics p, s1)
         | (Returns (Inl (_, e)), s1) \<Rightarrow> (Returns (Some e), s1)
         | (Returns (Inr data), s1) \<Rightarrow>
             (let (e, s2) = as_err (Client_Do rx (Some c) RcvNone
                              (FlatCmd ''SET'' (Client_AddPrefix c newKey) [VBytes data]) s1)
              in (Returns e, s2)))
      else (let (e, s1) = as_err (Client_Do rx (Some c) RcvNone
                  (Cmd ''RENAME'' [Client_AddPrefix c oldKey, Client_AddPrefix c newKey]) s)
            in (Returns e, s1)))"

definition Client_RenameNx ::
  "'s radix \<Rightarrow> client option \<Rightarrow> client \<Rightarrow> string \<Rightarrow> string \<Rightarrow> 's \<Rightarrow> (bool \<times> goerr option) outcome \<times> 's" where
  "Client_RenameNx rx d c oldKey newKey s =
     (if oldKey = newKey then (Returns (False, None), s)
      else if rc_IsCluster (cl_config c) then
        (case cluster_value rx d c oldKey s of
           (Panics p, s1) \<Rightarrow> (Panics p, s1)
         | (Returns (Inl (b, e)), s1) \<Rightarrow> (Returns (b, Some e), s1)
         | (Returns (Inr data), s1) \<Rightarrow>
             (let (r, s2) = fill (\<lambda>r. as_str r = OK) False (Client_Do rx (Some c) RcvString
                              (FlatCmd ''SET'' (Client_AddPrefix c newKey) [VBytes data, VStr ''NX'']) s1)
              in (Returns r, s2)))
      else (let (r, s1) = fill as_bool False (Client_Do rx (Some c) RcvBool
                  (Cmd ''RENAMENX'' [Client_AddPrefix c oldKey, Client_AddPrefix c newKey]) s)
            in (Returns r, s1)))"

definition Client_Expire where
  "Client_Expire rx c key expiration s =
     (if 0 < expiration
      then fill as_bool False (Client_Do rx (Some c) RcvBool
             (FlatCmd ''EXPIRE'' (Client_AddPrefix c key) [vint expiration]) s)
      else fill as_bool False (Client_Do rx (Some c) RcvBool (Cmd ''PERSIST'' [Client_AddPrefix c key]) s))"

definition Client_Ttl where
  "Client_Ttl rx c key s =
     fill as_int 0 (Client_Do rx (Some c) RcvInt (Cmd ''TTL'' [Client_AddPrefix c key]) s)"

definition Client_GeoAdd where
  "Client_GeoAdd rx c key members s =
     (if members = [] \<or> length members mod 3 \<noteq> 0 then ((0, Some ErrParmasNotEnough), s)
      else fill as_int 0 (Client_Do rx (Some c) RcvInt (FlatCmd ''GEOADD'' (Client_AddPrefix c key) members) s))"
definition Client_GeoDist where
  "Client_GeoDist rx c key args s =
     (if length args < 2 \<or> length args > 3 then ((VF64 0 0, Some ErrParmasNotEnough), s)
      else fill as_val (VF64 0 0)
        (Client_Do rx (Some c) RcvFloat (FlatCmd ''GEODIST'' (Client_AddPrefix c key) args) s))"
definition Client_GeoHash where
  "Client_GeoHash rx c key members s =
     (if length members < 1 then (([], Some ErrParmasNotEnough), s)
      else fill as_strings []
        (Client_Do rx (Some c) RcvStrings (Cmd ''GEOHASH'' (Client_AddPrefix c key # members)) s))"
definition Client_GeoPos where
  "Client_GeoPos rx c key members s =
     (if length members < 1 then (([], Some ErrParmasNotEnough), s)
      else fill as_val_lists []
        (Client_Do rx (Some c) RcvFloatLists (Cmd ''GEOPOS'' (Client_AddPrefix c key # members)) s))"
definition Client_GeoRadius where
  "Client_GeoRadius rx c key args s =
     (if length args < 4 then (([], Some ErrParmasNotEnough), s)
      else fill as_val_lists []
        (Client_Do rx (Some c) RcvValLists (FlatCmd ''GEORADIUS'' (Client_AddPrefix c key) args) s))"
definition Client_GeoRadiusByMember where
  "Client_GeoRadiusByMember rx c key args s =
     (if length args < 3 then (([], Some ErrParmasNotEnough), s)
      else fill as_val_lists []
        (Client_Do rx (Some c) RcvValLists (FlatCmd ''GEORADIUSBYMEMBER'' (Client_AddPrefix c key) args) s))"

definition push_list ::
  "'s radix \<Rightarrow> client \<Rightarrow> string \<Rightarrow> string \<Rightarrow> goval list \<Rightarrow> 's \<Rightarrow> (int \<times> goerr option) \<times> 's" where
  "push_list rx c name key values s =
     (if values = [] then ((0, Some ErrParmasNotEnough), s)
      else case marshal_args c values of
        Inl e \<Rightarrow> ((0, Some e), s)
      | Inr vs \<Rightarrow> fill as_int 0 (Client_Do rx (Some c) RcvInt (FlatCmd name (Client_AddPrefix c key) vs) s))"

definition Client_LPush where "Client_LPush rx c key values = push_list rx c ''LPUSH'' key values"
definition Client_LPop where
  "Client_LPop rx c key s = get_maybe rx c (Cmd ''LPOP'' [Client_AddPrefix c key]) s"
definition Client_RPush where "Client_RPush rx c key values = push_list rx c ''RPUSH'' key values"
definition Client_RPop where
  "Client_RPop rx c key s = get_maybe rx c (Cmd ''RPOP'' [Client_AddPrefix c key]) s"
definition Client_LLen where
  "Client_LLen rx c key s =
     fill as_int 0 (Client_Do rx (Some c) RcvInt (Cmd ''LLEN'' [Client_AddPrefix c key]) s)"

end
