(* ===== verification/RedisFunc.thy ===== *)
theory RedisFunc
  imports Redis
begin

text \<open>
  \<open>redis/func.go\<close>: the package-level functions, each the method of \<open>DefaultIns\<close>. The
  variable is the argument \<open>d\<close>; \<open>None\<close> is a nil pointer, on which a method panics at
  its first field access, after the checks on its arguments.
\<close>

text \<open>
  \<open>DefaultIns\<close> as declared: without pool and prefix, with the JSON functions.
\<close>

definition zero_redis_config :: redis_config where
  "zero_redis_config =
     \<lparr>rc_IsCluster = False, rc_Server = [], rc_Addresses = [], rc_Prefix = [], rc_Expiration = 0,
      rc_PoolSize = 0, rc_Db = 0, rc_Password = []\<rparr>"

definition DefaultIns_init :: "'s radix \<Rightarrow> client" where
  "DefaultIns_init rx =
     \<lparr>cl_client = None, cl_prefix = [], cl_config = zero_redis_config,
      cl_Marshal = Some (rx_marshal rx), cl_Unmarshal = Some (rx_unmarshal rx)\<rparr>"

text \<open>Calling a nil function value panics as a nil dereference does.\<close>

definition Redis_Marshal :: "client option \<Rightarrow> goval \<Rightarrow> (goerr + string) outcome" where
  "Redis_Marshal d v =
     (case Option.bind d cl_Marshal of None \<Rightarrow> Panics nil_deref | Some m \<Rightarrow> Returns (m v))"

definition Redis_Unmarshal :: "client option \<Rightarrow> string \<Rightarrow> (goerr + goval) outcome" where
  "Redis_Unmarshal d data =
     (case Option.bind d cl_Unmarshal of None \<Rightarrow> Panics nil_deref | Some u \<Rightarrow> Returns (u data))"

definition Redis_Do where "Redis_Do rx d rcv a s = Client_Do rx d rcv a s"

definition Redis_Close where "Redis_Close rx d st = closeClient rx d st"

definition Redis_AddPrefix :: "client option \<Rightarrow> string \<Rightarrow> string outcome" where
  "Redis_AddPrefix d s =
     (case d of None \<Rightarrow> Panics nil_deref | Some c \<Rightarrow> Returns (Client_AddPrefix c s))"

definition Redis_GetPrefix :: "client option \<Rightarrow> string outcome" where
  "Redis_GetPrefix d =
     (case d of None \<Rightarrow> Panics nil_deref | Some c \<Rightarrow> Returns (Client_GetPrefix c))"

text \<open>Methods that may themselves panic.\<close>

definition default_call ::
  "client option \<Rightarrow> 'r option \<Rightarrow> (client \<Rightarrow> 's \<Rightarrow> 'r outcome \<times> 's) \<Rightarrow> 's \<Rightarrow> 'r outcome \<times> 's" where
  "default_call d early f s =
     (case early of
        Some r \<Rightarrow> (Returns r, s)
      | None \<Rightarrow> (case d of None \<Rightarrow> (Panics nil_deref, s) | Some c \<Rightarrow> f c s))"

definition Redis_Get where
  "Redis_Get rx d key =
     with_default d None (\<lambda>c. Client_Get rx c key)"

definition Redis_MGet where
  "Redis_MGet rx d keys =
     with_default d None (\<lambda>c. Client_MGet rx c keys)"

definition Redis_Incr where
  "Redis_Incr rx d key =
     with_default d None (\<lambda>c. Client_Incr rx c key)"

definition Redis_Decr where
  "Redis_Decr rx d key =
     with_default d None (\<lambda>c. Client_Decr rx c key)"

definition Redis_IncrBy where
  "Redis_IncrBy rx d key delta =
     with_default d None (\<lambda>c. Client_IncrBy rx c key delta)"

definition Redis_DecrBy where
  "Redis_DecrBy rx d key delta =
     with_default d None (\<lambda>c. Client_DecrBy rx c key delta)"

definition Redis_Del where
  "Redis_Del rx d keys =
     with_default d None (\<lambda>c. Client_Del rx c keys)"

definition Redis_HSet where
  "Redis_HSet rx d key field value =
     with_default d None (\<lambda>c. Client_HSet rx c key field value)"

definition Redis_HGet where
  "Redis_HGet rx d key field =
     with_default d None (\<lambda>c. Client_HGet rx c key field)"

definition Redis_HExists where
  "Redis_HExists rx d key field =
     with_default d None (\<lambda>c. Client_HExists rx c key field)"

definition Redis_HIncrBy where
  "Redis_HIncrBy rx d key field delta =
     with_default d None (\<lambda>c. Client_HIncrBy rx c key field delta)"

definition Redis_HDel where
  "Redis_HDel rx d key fs =
     with_default d None (\<lambda>c. Client_HDel rx c key fs)"

definition Redis_SAdd where
  "Redis_SAdd rx d key args =
     with_default d None (\<lambda>c. Client_SAdd rx c key args)"

definition Redis_SDiffStore where
  "Redis_SDiffStore rx d key args =
     with_default d None (\<lambda>c. Client_SDiffStore rx c key args)"

definition Redis_SCard where
  "Redis_SCard rx d key =
     with_default d None (\<lambda>c. Client_SCard rx c key)"

definition Redis_SIsMember where
  "Redis_SIsMember rx d key member =
     with_default d None (\<lambda>c. Client_SIsMember rx c key member)"

definition Redis_ZAdd where
  "Redis_ZAdd rx d key args =
     with_default d None (\<lambda>c. Client_ZAdd rx c key args)"

definition Redis_ZRem where
  "Redis_ZRem rx d key members =
     with_default d None (\<lambda>c. Client_ZRem rx c key members)"

definition Redis_ZIncrBy where
  "Redis_ZIncrBy rx d key member increment =
     with_default d None (\<lambda>c. Client_ZIncrBy rx c key member increment)"

definition Redis_ZRange where
  "Redis_ZRange rx d key start stop =
     with_default d None (\<lambda>c. Client_ZRange rx c key start stop)"

definition Redis_ZRevRange where
  "Redis_ZRevRange rx d key start stop =
     with_default d None (\<lambda>c. Client_ZRevRange rx c key start stop)"

definition Redis_Expire where
  "Redis_Expire rx d key expiration =
     with_default d None (\<lambda>c. Client_Expire rx c key expiration)"

definition Redis_Ttl where
  "Redis_Ttl rx d key =
     with_default d None (\<lambda>c. Client_Ttl rx c key)"

definition Redis_GeoAdd where
  "Redis_GeoAdd rx d key members =
     with_default d (if members = [] \<or> length members mod 3 \<noteq> 0 then Some (0, Some ErrParmasNotEnough) else None) (\<lambda>c. Client_GeoAdd rx c key members)"

definition Redis_GeoDist where
  "Redis_GeoDist rx d key args =
     with_default d (if length args < 2 \<or> length args > 3 then Some (VF64 0 0, Some ErrParmasNotEnough) else None) (\<lambda>c. Client_GeoDist rx c key args)"

definition Redis_GeoHash where
  "Redis_GeoHash rx d key members =
     with_default d (if length members < 1 then Some ([], Some ErrParmasNotEnough) else None) (\<lambda>c. Client_GeoHash rx c key members)"

definition Redis_GeoPos where
  "Redis_GeoPos rx d key members =
     with_default d (if length members < 1 then Some ([], Some ErrParmasNotEnough) else None) (\<lambda>c. Client_GeoPos rx c key members)"

definition Redis_GeoRadius where
  "Redis_GeoRadius rx d key args =
     with_default d (if length args < 4 then Some ([], Some ErrParmasNotEnough) else None) (\<lambda>c. Client_GeoRadius rx c key args)"

definition Redis_GeoRadiusByMember where
  "Redis_GeoRadiusByMember rx d key args =
     with_default d (if length args < 3 then Some ([], Some ErrParmasNotEnough) else None) (\<lambda>c. Client_GeoRadiusByMember rx c key args)"

definition Redis_LPush where
  "Redis_LPush rx d key values =
     with_default d (if values = [] then Some (0, Some ErrParmasNotEnough) else None) (\<lambda>c. Client_LPush rx c key values)"

definition Redis_LPop where
  "Redis_LPop rx d key =
     with_default d None (\<lambda>c. Client_LPop rx c key)"

definition Redis_RPush where
  "Redis_RPush rx d key values =
     with_default d (if values = [] then Some (0, Some ErrParmasNotEnough) else None) (\<lambda>c. Client_RPush rx c key values)"

definition Redis_RPop where
  "Redis_RPop rx d key =
     with_default d None (\<lambda>c. Client_RPop rx c key)"

definition Redis_LLen where
  "Redis_LLen rx d key =
     with_default d None (\<lambda>c. Client_LLen rx c key)"

definition Redis_MSet where
  "Redis_MSet rx d items =
     default_call d (if odd (length items) then Some (Some ErrParmasNotEnough) else None) (\<lambda>c. Client_MSet rx d c items)"

definition Redis_SetNx where
  "Redis_SetNx rx d key value = default_call d None (\<lambda>c. Client_SetNx rx d c key value)"

definition Redis_SetEx where
  "Redis_SetEx rx d key value expiration = default_call d None (\<lambda>c. Client_SetEx rx d c key value expiration)"

definition Redis_SetNxEx where
  "Redis_SetNxEx rx d key value expiration = default_call d None (\<lambda>c. Client_SetNxEx rx d c key value expiration)"

definition Redis_Rename where
  "Redis_Rename rx d oldKey newKey =
     default_call d (if oldKey = newKey then Some None else None) (\<lambda>c. Client_Rename rx d c oldKey newKey)"

definition Redis_RenameNx where
  "Redis_RenameNx rx d oldKey newKey =
     default_call d (if oldKey = newKey then Some (False, None) else None) (\<lambda>c. Client_RenameNx rx d c oldKey newKey)"

section \<open>Facts\<close>

lemma with_default_some: "with_default (Some c) None f s = (Returns (fst (f c s)), snd (f c s))"
  by (simp add: with_default_def split: prod.split)

text \<open>On the default instance itself the methods that go through the package are consistent.\<close>

lemma Client_SetNx_default:
  "Client_SetNx rx (Some c) c key value s =
     (Returns (fst (Client_Set rx c key [value, VStr ''NX''] s)), snd (Client_Set rx c key [value, VStr ''NX''] s))"
  by (simp add: Client_SetNx_def Redis_Set_def with_default_some)

text \<open>Before \<open>Init\<close> has connected, every call reports that there is no instance.\<close>

lemma DefaultIns_init_do:
  "Redis_Do rx (Some (DefaultIns_init rx)) rcv a s = (Inl (Errorf ''redis instance not init''), s)"
  by (simp add: Redis_Do_def Client_Do_def DefaultIns_init_def)

end
