(* ===== verification/RedisProps.thy ===== *)
theory RedisProps
  imports RedisFunc
begin

text \<open>
  What the Redis client promises: sharing of pools (\<open>keyed_cache\<close> on \<open>newClient\<close>), keys
  confined to the client's prefix, values read back as they were written, and the cluster code
  paths equal to the single-node ones. The behaviour of the server is stated as named laws
  over the parameter \<open>radix\<close>.
\<close>

section \<open>The pool table\<close>

definition acquire_pool ::
  "'s radix \<Rightarrow> redis_config \<Rightarrow> 's redis_state \<Rightarrow> (goerr + nat) \<times> 's redis_state" where
  "acquire_pool rx cfg st =
     (case newClient rx cfg st of
        ((_, Some e), st') \<Rightarrow> (Inl e, st')
      | ((c, None), st') \<Rightarrow>
          (case Option.bind c cl_client of
             None \<Rightarrow> (Inl (Errorf ''redis instance not init''), st')
           | Some p \<Rightarrow> (Inr p, st')))"

definition pool_cached :: "'s redis_state \<Rightarrow> goerr + string \<Rightarrow> nat option" where
  "pool_cached st k = (case k of Inl _ \<Rightarrow> None | Inr key \<Rightarrow> rs_insMap st key)"

definition pool_usable :: "'s radix \<Rightarrow> redis_config \<Rightarrow> bool" where
  "pool_usable rx cfg \<longleftrightarrow> rc_Addresses cfg \<noteq> []"

lemma newClient_pool:
  assumes "newClient rx cfg st = ((c, e), st')"
  shows "e = None \<longleftrightarrow> (\<exists>p. c = Some (fresh_client rx cfg (Some p)))"
  using assms
  by (auto simp: newClient_def fresh_client_def Let_def
      split: if_splits sum.splits option.splits prod.splits)

interpretation redis_pool: keyed_cache "acquire_pool rx" "rx_json rx" pool_cached "pool_usable rx"
  for rx :: "'s radix"
proof
  fix c and s :: "'s redis_state" and i
  assume "pool_usable rx c" and "pool_cached s (rx_json rx c) = Some i"
  then show "acquire_pool rx c s = (Inr i, s)"
    by (auto simp: pool_usable_def pool_cached_def acquire_pool_def newClient_def fresh_client_def
        split: sum.splits)
next
  fix c and s :: "'s redis_state" and i s'
  assume "acquire_pool rx c s = (Inr i, s')"
  then show "pool_cached s' = (pool_cached s)(rx_json rx c \<mapsto> i)"
    by (auto simp: pool_cached_def acquire_pool_def newClient_def fresh_client_def Let_def fun_eq_iff
        split: if_splits sum.splits option.splits prod.splits)
next
  fix c and s :: "'s redis_state" and i s' j
  assume "acquire_pool rx c s = (Inr i, s')" and "pool_cached s (rx_json rx c) = Some j"
  then show "i = j"
    by (auto simp: pool_cached_def acquire_pool_def newClient_def fresh_client_def Let_def
        split: if_splits sum.splits option.splits prod.splits)
next
  fix c and s :: "'s redis_state" and e s'
  assume "acquire_pool rx c s = (Inl e, s')"
  then show "pool_cached s' = pool_cached s"
    by (auto simp: pool_cached_def acquire_pool_def newClient_def fresh_client_def Let_def fun_eq_iff
        split: if_splits sum.splits option.splits prod.splits)
qed

definition New_all :: "'s radix \<Rightarrow> redis_config list \<Rightarrow> 's redis_state \<Rightarrow> 's redis_state" where
  "New_all rx cfgs st = fold (\<lambda>c s. snd (New rx c s)) cfgs st"

lemma snd_New: "snd (New rx cfg st) = snd (acquire_pool rx cfg st)"
  by (auto simp: New_def acquire_pool_def split: prod.split option.split)

lemma New_all_acquire: "New_all rx cfgs st = redis_pool.acquire_all rx cfgs st"
  by (induction cfgs arbitrary: st) (simp_all add: New_all_def snd_New)

lemma New_acquire:
  "New rx cfg st = ((Some (fresh_client rx cfg (Some p)), None), st') \<longleftrightarrow>
   acquire_pool rx cfg st = (Inr p, st')"
proof
  assume "acquire_pool rx cfg st = (Inr p, st')"
  moreover obtain c e s where n: "newClient rx cfg st = ((c, e), s)" by (metis prod.exhaust)
  ultimately show "New rx cfg st = ((Some (fresh_client rx cfg (Some p)), None), st')"
    using newClient_pool [OF n]
    by (auto simp: New_def acquire_pool_def fresh_client_def split: option.splits)
qed (simp add: New_def acquire_pool_def fresh_client_def)

lemma New_same_pool:
  assumes "New rx cfg st = ((Some (fresh_client rx cfg (Some p)), None), st')"
    and "rc_Addresses cfg \<noteq> []"
  shows "New rx cfg (New_all rx others st') =
         ((Some (fresh_client rx cfg (Some p)), None), New_all rx others st')"
  using assms redis_pool.acquire_shared [of rx cfg st p st' cfg others]
  by (simp add: New_acquire New_all_acquire pool_usable_def)

text \<open>
  Two clients of one configuration share a pool. When the first is closed and a third made,
  closing the second takes the third's pool out of the table.
\<close>

lemma closeClient_drops:
  assumes "cl_client c = Some p" and "rx_json rx (cl_config c) = Inr key"
  shows "rs_insMap (snd (closeClient rx (Some c) st)) key = None"
  using assms by (simp add: closeClient_def)

section \<open>Prefix isolation\<close>

fun mset_keys :: "goval list \<Rightarrow> string list" where
  "mset_keys (v # VStr k # rest) = k # mset_keys rest"
| "mset_keys _ = []"

text \<open>The keys an action names, by the server's command table.\<close>

fun action_keys :: "redis_action \<Rightarrow> string list" where
  "action_keys (Cmd name args) =
     (if name \<in> {''DEL'', ''MGET'', ''RENAME'', ''RENAMENX''} then args else take 1 args)"
| "action_keys (FlatCmd name key args) =
     key # (if name = ''MSET'' then mset_keys args else [])"

text \<open>The server changes nothing but the keys an action names.\<close>

definition touches_named :: "'s radix \<Rightarrow> ('s \<Rightarrow> string \<Rightarrow> 'v) \<Rightarrow> bool" where
  "touches_named rx look \<longleftrightarrow>
     (\<forall>p rcv a s k. k \<notin> set (action_keys a) \<longrightarrow> look (snd (rx_do rx p rcv a s)) k = look s k)"

datatype key_op =
  OpSet string "goval list"
| OpGet string
| OpMSet "goval list"
| OpMGet "string list"
| OpIsExist string
| OpIncr string
| OpDecr string
| OpIncrBy string int
| OpDecrBy string int
| OpDel "string list"
| OpSetNx string goval
| OpSetEx string goval int
| OpSetNxEx string goval int
| OpRename string string
| OpRenameNx string string
| OpExpire string int
| OpTtl string

datatype hash_op =
  OpHSet string string goval
| OpHGet string string
| OpHExists string string
| OpHIncrBy string string int
| OpHDel string "string list"

datatype set_op =
  OpSAdd string "goval list"
| OpSDiffStore string "goval list"
| OpSCard string
| OpSIsMember string string

datatype zset_op =
  OpZAdd string "goval list"
| OpZRem string "goval list"
| OpZIncrBy string string int
| OpZRange string int int
| OpZRevRange string int int

datatype geo_op =
  OpGeoAdd string "goval list"
| OpGeoDist string "goval list"
| OpGeoHash string "string list"
| OpGeoPos string "string list"
| OpGeoRadius string "goval list"
| OpGeoRadiusByMember string "goval list"

datatype list_op =
  OpLPush string "goval list"
| OpLPop string
| OpRPush string "goval list"
| OpRPop string
| OpLLen string

datatype client_op =
  KeyOp key_op | HashOp hash_op | SetOp set_op | ZsetOp zset_op | GeoOp geo_op | ListOp list_op

fun step_key :: "'s radix \<Rightarrow> client option \<Rightarrow> client \<Rightarrow> key_op \<Rightarrow> 's \<Rightarrow> 's" where
  "step_key rx d c (OpSet k a) s = snd (Client_Set rx c k a s)"
| "step_key rx d c (OpGet k) s = snd (Client_Get rx c k s)"
| "step_key rx d c (OpMSet a) s = snd (Client_MSet rx d c a s)"
| "step_key rx d c (OpMGet ks) s = snd (Client_MGet rx c ks s)"
| "step_key rx d c (OpIsExist k) s = snd (Client_IsExist rx c k s)"
| "step_key rx d c (OpIncr k) s = snd (Client_Incr rx c k s)"
| "step_key rx d c (OpDecr k) s = snd (Client_Decr rx c k s)"
| "step_key rx d c (OpIncrBy k i) s = snd (Client_IncrBy rx c k i s)"
| "step_key rx d c (OpDecrBy k i) s = snd (Client_DecrBy rx c k i s)"
| "step_key rx d c (OpDel ks) s = snd (Client_Del rx c ks s)"
| "step_key rx d c (OpSetNx k v) s = snd (Client_SetNx rx d c k v s)"
| "step_key rx d c (OpSetEx k v i) s = snd (Client_SetEx rx d c k v i s)"
| "step_key rx d c (OpSetNxEx k v i) s = snd (Client_SetNxEx rx d c k v i s)"
| "step_key rx d c (OpRename k k') s = snd (Client_Rename rx d c k k' s)"
| "step_key rx d c (OpRenameNx k k') s = snd (Client_RenameNx rx d c k k' s)"
| "step_key rx d c (OpExpire k i) s = snd (Client_Expire rx c k i s)"
| "step_key rx d c (OpTtl k) s = snd (Client_Ttl rx c k s)"

fun step_hash :: "'s radix \<Rightarrow> client option \<Rightarrow> client \<Rightarrow> hash_op \<Rightarrow> 's \<Rightarrow> 's" where
  "step_hash rx d c (OpHSet k f v) s = snd (Client_HSet rx c k f v s)"
| "step_hash rx d c (OpHGet k f) s = snd (Client_HGet rx c k f s)"
| "step_hash rx d c (OpHExists k f) s = snd (Client_HExists rx c k f s)"
| "step_hash rx d c (OpHIncrBy k f i) s = snd (Client_HIncrBy rx c k f i s)"
| "step_hash rx d c (OpHDel k f) s = snd (Client_HDel rx c k f s)"

fun step_set :: "'s radix \<Rightarrow> client option \<Rightarrow> client \<Rightarrow> set_op \<Rightarrow> 's \<Rightarrow> 's" where
  "step_set rx d c (OpSAdd k a) s = snd (Client_SAdd rx c k a s)"
| "step_set rx d c (OpSDiffStore k a) s = snd (Client_SDiffStore rx c k a s)"
| "step_set rx d c (OpSCard k) s = snd (Client_SCard rx c k s)"
| "step_set rx d c (OpSIsMember k m) s = snd (Client_SIsMember rx c k m s)"

fun step_zset :: "'s radix \<Rightarrow> client option \<Rightarrow> client \<Rightarrow> zset_op \<Rightarrow> 's \<Rightarrow> 's" where
  "step_zset rx d c (OpZAdd k a) s = snd (Client_ZAdd rx c k a s)"
| "step_zset rx d c (OpZRem k a) s = snd (Client_ZRem rx c k a s)"
| "step_zset rx d c (OpZIncrBy k m i) s = snd (Client_ZIncrBy rx c k m i s)"
| "step_zset rx d c (OpZRange k i j) s = snd (Client_ZRange rx c k i j s)"
| "step_zset rx d c (OpZRevRange k i j) s = snd (Client_ZRevRange rx c k i j s)"

fun step_geo :: "'s radix \<Rightarrow> client option \<Rightarrow> client \<Rightarrow> geo_op \<Rightarrow> 's \<Rightarrow> 's" where
  "step_geo rx d c (OpGeoAdd k a) s = snd (Client_GeoAdd rx c k a s)"
| "step_geo rx d c (OpGeoDist k a) s = snd (Client_GeoDist rx c k a s)"
| "step_geo rx d c (OpGeoHash k m) s = snd (Client_GeoHash rx c k m s)"
| "step_geo rx d c (OpGeoPos k m) s = snd (Client_GeoPos rx c k m s)"
| "step_geo rx d c (OpGeoRadius k a) s = snd (Client_GeoRadius rx c k a s)"
| "step_geo rx d c (OpGeoRadiusByMember k a) s = snd (Client_GeoRadiusByMember rx c k a s)"

fun step_list :: "'s radix \<Rightarrow> client option \<Rightarrow> client \<Rightarrow> list_op \<Rightarrow> 's \<Rightarrow> 's" where
  "step_list rx d c (OpLPush k a) s = snd (Client_LPush rx c k a s)"
| "step_list rx d c (OpLPop k) s = snd (Client_LPop rx c k s)"
| "step_list rx d c (OpRPush k a) s = snd (Client_RPush rx c k a s)"
| "step_list rx d c (OpRPop k) s = snd (Client_RPop rx c k s)"
| "step_list rx d c (OpLLen k) s = snd (Client_LLen rx c k s)"

fun step_op :: "'s radix \<Rightarrow> client option \<Rightarrow> client \<Rightarrow> client_op \<Rightarrow> 's \<Rightarrow> 's" where
  "step_op rx d c (KeyOp op) = step_key rx d c op"
| "step_op rx d c (HashOp op) = step_hash rx d c op"
| "step_op rx d c (SetOp op) = step_set rx d c op"
| "step_op rx d c (ZsetOp op) = step_zset rx d c op"
| "step_op rx d c (GeoOp op) = step_geo rx d c op"
| "step_op rx d c (ListOp op) = step_list rx d c op"

text \<open>The operations that go through the package's default instance.\<close>

fun via_default_key :: "client \<Rightarrow> key_op \<Rightarrow> bool" where
  "via_default_key c (OpSetNx _ _) = True"
| "via_default_key c (OpSetEx _ _ _) = True"
| "via_default_key c (OpSetNxEx _ _ _) = True"
| "via_default_key c (OpMSet _) = rc_IsCluster (cl_config c)"
| "via_default_key c (OpRename _ _) = rc_IsCluster (cl_config c)"
| "via_default_key c (OpRenameNx _ _) = rc_IsCluster (cl_config c)"
| "via_default_key c _ = False"

fun via_default :: "client \<Rightarrow> client_op \<Rightarrow> bool" where
  "via_default c (KeyOp op) = via_default_key c op"
| "via_default c _ = False"

lemma snd_fill [simp]: "snd (fill get zero r) = snd r"
  by (simp add: fill_def split: prod.split sum.split)

lemma snd_as_err [simp]: "snd (as_err r) = snd r"
  by (simp add: as_err_def split: prod.split sum.split)

lemma snd_get_maybe [simp]:
  "snd (get_maybe rx c a s) =
   snd (Client_Do rx (Some c) (if cl_Unmarshal c = None then RcvMaybeAny else RcvMaybeBytes) a s)"
  by (simp add: get_maybe_def split: prod.split sum.split reply.split option.split)

lemma has_prefix_AddPrefix [simp]: "has_prefix (Client_AddPrefix c k) (cl_prefix c)"
  by (simp add: Client_AddPrefix_def)

lemma do_untouched:
  assumes "touches_named rx look" and "\<forall>x \<in> set (action_keys a). has_prefix x (cl_prefix c)"
    and "\<not> has_prefix k (cl_prefix c)"
  shows "look (snd (Client_Do rx (Some c) rcv a s)) k = look s k"
proof -
  have "k \<notin> set (action_keys a)" using assms(2,3) by blast
  with assms(1) show ?thesis by (simp add: Client_Do_def touches_named_def split: option.split)
qed

lemma mset_args_keys:
  "mset_args c items = Returns (Inr (VStr k # vs)) \<Longrightarrow>
   has_prefix k (cl_prefix c) \<and> (\<forall>x \<in> set (mset_keys vs). has_prefix x (cl_prefix c))"
proof (induction c items arbitrary: k vs rule: mset_args.induct)
  case (1 c key v rest)
  then obtain key' v' vs' where e: "key = VStr key'" "marshal_arg c v = Inr v'"
    "mset_args c rest = Returns (Inr vs')" "k = Client_AddPrefix c key'" "vs = v' # vs'"
    by (auto split: goval.splits sum.splits outcome.splits)
  have "\<forall>x \<in> set (mset_keys (v' # vs')). has_prefix x (cl_prefix c)"
  proof (cases vs')
    case (Cons w ws)
    with e show ?thesis using "1.IH" [of key' v'] by (cases w) auto
  qed simp
  with e show ?case by simp
qed simp_all

lemma mget_each_untouched:
  assumes "touches_named rx look" and "\<not> has_prefix k (cl_prefix c)"
  shows "look (snd (mget_each rx c ks s)) k = look s k"
proof (induction ks arbitrary: s)
  case (Cons v vs)
  let ?a = "Cmd ''GET'' [Client_AddPrefix c v]"
  obtain r s' where r: "Client_Do rx (Some c) RcvBytes ?a s = (r, s')" by fastforce
  with assms have "look s' k = look s k" using do_untouched [of rx look ?a c k RcvBytes s] by simp
  with Cons [of s'] r show ?case by (auto split: sum.split prod.split)
qed simp

lemma del_each_untouched:
  assumes "touches_named rx look" and "\<not> has_prefix k (cl_prefix c)"
  shows "look (snd (del_each rx c ks n s)) k = look s k"
proof (induction ks arbitrary: s n)
  case (Cons v vs)
  let ?a = "Cmd ''DEL'' [Client_AddPrefix c v]"
  obtain r s' where r: "Client_Do rx (Some c) RcvInt ?a s = (r, s')" by fastforce
  with assms have "look s' k = look s k" using do_untouched [of rx look ?a c k RcvInt s] by simp
  with Cons [of _ s'] r show ?case by (auto split: sum.split prod.split)
qed simp

lemma MSet_untouched:
  assumes "touches_named rx look" and "\<not> has_prefix k (cl_prefix c)"
    and "\<not> rc_IsCluster (cl_config c)"
  shows "look (snd (Client_MSet rx d c items s)) k = look s k"
proof (cases "mset_args c items")
  case (Returns r)
  show ?thesis
  proof (cases "\<exists>key vs. r = Inr (VStr key # vs)")
    case True
    then obtain key vs where "r = Inr (VStr key # vs)" by blast
    with Returns mset_args_keys [of c items key vs] assms show ?thesis
      by (simp add: Client_MSet_def do_untouched case_prod_beta Let_def)
  next
    case False
    with Returns assms show ?thesis
      by (auto simp: Client_MSet_def split: sum.split list.split goval.split)
  qed
qed (simp add: Client_MSet_def assms)

lemmas client_op_defs =
  Client_Set_def Client_Get_def Client_MGet_def Client_IsExist_def Client_Incr_def Client_Decr_def
  Client_IncrBy_def Client_DecrBy_def Client_Del_def Client_HSet_def Client_HGet_def
  Client_HExists_def Client_HIncrBy_def Client_HDel_def Client_SAdd_def Client_SDiffStore_def
  Client_SCard_def Client_SIsMember_def Client_ZAdd_def Client_ZRem_def Client_ZIncrBy_def
  Client_ZRange_def Client_ZRevRange_def Client_Expire_def Client_Ttl_def Client_GeoAdd_def
  Client_GeoDist_def Client_GeoHash_def Client_GeoPos_def Client_GeoRadius_def
  Client_GeoRadiusByMember_def Client_LPush_def Client_LPop_def Client_RPush_def Client_RPop_def
  Client_LLen_def push_list_def

lemma step_key_untouched:
  assumes "touches_named rx look" and "\<not> has_prefix k (cl_prefix c)" and "\<not> via_default_key c op"
  shows "look (step_key rx d c op s) k = look s k"
  using assms
  by (cases op)
    (auto simp: client_op_defs do_untouched mget_each_untouched del_each_untouched MSet_untouched
      Client_Rename_def Client_RenameNx_def case_prod_beta Let_def split: list.split sum.split)

lemma step_hash_untouched:
  assumes "touches_named rx look" and "\<not> has_prefix k (cl_prefix c)"
  shows "look (step_hash rx d c op s) k = look s k"
  using assms by (cases op) (auto simp: client_op_defs do_untouched split: sum.split)

lemma step_set_untouched:
  assumes "touches_named rx look" and "\<not> has_prefix k (cl_prefix c)"
  shows "look (step_set rx d c op s) k = look s k"
  using assms by (cases op) (auto simp: client_op_defs do_untouched split: sum.split)

lemma step_zset_untouched:
  assumes "touches_named rx look" and "\<not> has_prefix k (cl_prefix c)"
  shows "look (step_zset rx d c op s) k = look s k"
  using assms by (cases op) (auto simp: client_op_defs do_untouched split: sum.split)

lemma step_geo_untouched:
  assumes "touches_named rx look" and "\<not> has_prefix k (cl_prefix c)"
  shows "look (step_geo rx d c op s) k = look s k"
  using assms by (cases op) (auto simp: client_op_defs do_untouched split: sum.split)

lemma step_list_untouched:
  assumes "touches_named rx look" and "\<not> has_prefix k (cl_prefix c)"
  shows "look (step_list rx d c op s) k = look s k"
  using assms by (cases op) (auto simp: client_op_defs do_untouched split: sum.split)

lemma step_op_untouched:
  assumes "touches_named rx look" and "\<not> has_prefix k (cl_prefix c)" and "\<not> via_default c op"
  shows "look (step_op rx d c op s) k = look s k"
  using assms
  by (cases op) (simp_all add: step_key_untouched step_hash_untouched step_set_untouched step_zset_untouched step_geo_untouched step_list_untouched)

lemma steps_untouched:
  assumes "touches_named rx look" and "\<not> has_prefix k (cl_prefix c)"
    and "\<forall>op \<in> set ops. \<not> via_default c op"
  shows "look (fold (step_op rx d c) ops s) k = look s k"
  using assms(3) by (induction ops arbitrary: s) (simp_all add: step_op_untouched [OF assms(1,2)])

section \<open>A key-value server\<close>

text \<open>The documented effect of \<open>SET\<close>, \<open>GET\<close>, \<open>MGET\<close> and \<open>DEL\<close> on string keys.\<close>

definition kv_server :: "'s radix \<Rightarrow> nat \<Rightarrow> ('s \<Rightarrow> string \<Rightarrow> string option) \<Rightarrow> bool" where
  "kv_server rx p look \<longleftrightarrow>
     (\<forall>k b s. \<exists>s'. rx_do rx p RcvString (FlatCmd ''SET'' k [VBytes b]) s = (Inr (RStr ''OK''), s') \<and>
        look s' = (look s)(k \<mapsto> b)) \<and>
     (\<forall>k s. rx_do rx p RcvMaybeBytes (Cmd ''GET'' [k]) s =
        (Inr (case look s k of None \<Rightarrow> RNil | Some b \<Rightarrow> RBytes b), s))"

definition bytes_or_nil :: "string option \<Rightarrow> string" where
  "bytes_or_nil v = (case v of None \<Rightarrow> [] | Some b \<Rightarrow> b)"

definition mget_server :: "'s radix \<Rightarrow> nat \<Rightarrow> ('s \<Rightarrow> string \<Rightarrow> string option) \<Rightarrow> bool" where
  "mget_server rx p look \<longleftrightarrow>
     (\<forall>k s. rx_do rx p RcvBytes (Cmd ''GET'' [k]) s = (Inr (RBytes (bytes_or_nil (look s k))), s)) \<and>
     (\<forall>ks s. rx_do rx p RcvBytesList (Cmd ''MGET'' ks) s =
        (Inr (RBytesList (map (\<lambda>k. bytes_or_nil (look s k)) ks)), s))"

fun del_count :: "('s \<Rightarrow> string \<Rightarrow> 'v option) \<Rightarrow> (string \<Rightarrow> 's \<Rightarrow> 's) \<Rightarrow> string list \<Rightarrow> 's \<Rightarrow> int" where
  "del_count look rm [] s = 0"
| "del_count look rm (k # ks) s = (if look s k = None then 0 else 1) + del_count look rm ks (rm k s)"

definition del_server ::
  "'s radix \<Rightarrow> nat \<Rightarrow> ('s \<Rightarrow> string \<Rightarrow> 'v option) \<Rightarrow> (string \<Rightarrow> 's \<Rightarrow> 's) \<Rightarrow> bool" where
  "del_server rx p look rm \<longleftrightarrow>
     (\<forall>k ks s. rx_do rx p RcvInt (Cmd ''DEL'' (k # ks)) s =
        (Inr (RInt (del_count look rm (k # ks) s)), fold rm (k # ks) s))"

text \<open>A server in memory, on which the laws hold.\<close>

fun mem_do ::
  "nat \<Rightarrow> receiver \<Rightarrow> redis_action \<Rightarrow> (string \<rightharpoonup> string) \<Rightarrow> (goerr + reply) \<times> (string \<rightharpoonup> string)" where
  "mem_do p rcv (FlatCmd name k args) m =
     (case args of
        [VBytes b] \<Rightarrow> if name = ''SET'' then (Inr (RStr ''OK''), m(k \<mapsto> b)) else (Inl (Errorf ''ERR''), m)
      | [VBytes b, VStr o1] \<Rightarrow>
          if name = ''SET'' \<and> o1 = ''NX'' then
            (if m k = None then (Inr (RStr ''OK''), m(k \<mapsto> b)) else (Inr (RStr []), m))
          else (Inl (Errorf ''ERR''), m)
      | _ \<Rightarrow> (Inl (Errorf ''ERR''), m))"
| "mem_do p rcv (Cmd name args) m =
     (if name = ''GET'' then
        (case args of
           [k] \<Rightarrow> if rcv = RcvMaybeBytes
                  then (Inr (case m k of None \<Rightarrow> RNil | Some b \<Rightarrow> RBytes b), m)
                  else (Inr (RBytes (bytes_or_nil (m k))), m)
         | _ \<Rightarrow> (Inl (Errorf ''ERR''), m))
      else if name = ''MGET'' then (Inr (RBytesList (map (\<lambda>k. bytes_or_nil (m k)) args)), m)
      else if name = ''DEL'' \<and> args \<noteq> [] then
        (Inr (RInt (del_count (\<lambda>m. m) (\<lambda>k m. m(k := None)) args m)), fold (\<lambda>k m. m(k := None)) args m)
      else (Inl (Errorf ''ERR''), m))"

fun quote_str :: "goval \<Rightarrow> goerr + string" where
  "quote_str (VStr s) = Inr (CHR 0x22 # s)"
| "quote_str _ = Inl (Errorf ''unsupported'')"

definition mem_radix :: "(string \<rightharpoonup> string) radix" where
  "mem_radix =
     \<lparr>rx_json = (\<lambda>cfg. Inr (join_go (rc_Addresses cfg) '',''  @ rc_Prefix cfg)),
      rx_marshal = quote_str, rx_unmarshal = (\<lambda>s. Inr (VStr (tl s))),
      rx_new_pool = (\<lambda>a cfg s. (Inr 0, s)), rx_new_cluster = (\<lambda>a cfg s. (Inr 0, s)),
      rx_do = mem_do, rx_close = (\<lambda>p s. s)\<rparr>"

lemma mem_kv: "kv_server mem_radix p (\<lambda>m. m)"
  by (auto simp: kv_server_def mem_radix_def)

lemma mem_mget: "mget_server mem_radix p (\<lambda>m. m)"
  by (simp add: mget_server_def mem_radix_def)

lemma mem_del: "del_server mem_radix p (\<lambda>m. m) (\<lambda>k m. m(k := None))"
  by (simp add: del_server_def mem_radix_def)

lemma fold_upd_other: "k \<notin> set ks \<Longrightarrow> fold (\<lambda>k m. m(k := v)) ks m k = m k"
  by (induction ks arbitrary: m) auto

lemma mem_touches: "touches_named mem_radix (\<lambda>m. m)"
  unfolding touches_named_def
proof (intro allI impI)
  fix p rcv a and s :: "string \<rightharpoonup> string" and k
  assume "k \<notin> set (action_keys a)"
  then show "snd (rx_do mem_radix p rcv a s) k = s k"
    by (cases a) (auto simp: mem_radix_def fold_upd_other split: list.split goval.split)
qed

section \<open>Reading back\<close>

lemma Set_stores:
  assumes "kv_server rx p look" and "cl_client c = Some p"
    and "cl_Marshal c = Some m" and "m v = Inr b"
  shows "\<exists>s'. Client_Set rx c k [v] s = ((True, None), s') \<and>
              look s' = (look s)(Client_AddPrefix c k \<mapsto> b)"
proof -
  from assms(1) obtain s' where
    "rx_do rx p RcvString (FlatCmd ''SET'' (Client_AddPrefix c k) [VBytes b]) s = (Inr (RStr ''OK''), s')"
    "look s' = (look s)(Client_AddPrefix c k \<mapsto> b)"
    unfolding kv_server_def by blast
  with assms(2-4) show ?thesis
    by (simp add: Client_Set_def marshal_arg_def Client_Do_def fill_def OK_def)
qed

lemma get_maybe_value:
  assumes "cl_Unmarshal c = Some u" and "Client_Do rx (Some c) RcvMaybeBytes a s = (Inr (RBytes b), s')"
    and "b \<noteq> []" and "u b = Inr v"
  shows "get_maybe rx c a s = ((Some v, True, None), s')"
  using assms by (simp add: get_maybe_def)

lemma Get_reads:
  assumes "kv_server rx p look" and "cl_client c = Some p" and "cl_Unmarshal c = Some u"
    and "look s (Client_AddPrefix c k) = Some b" and "b \<noteq> []" and "u b = Inr v"
  shows "Client_Get rx c k s = ((Some v, True, None), s)"
  using assms by (simp add: Client_Get_def get_maybe_def Client_Do_def kv_server_def)

section \<open>Cluster and single node\<close>

definition clustered :: "client \<Rightarrow> client" where
  "clustered c = c\<lparr>cl_config := (cl_config c)\<lparr>rc_IsCluster := True\<rparr>\<rparr>"

lemma clustered_simps [simp]:
  "cl_client (clustered c) = cl_client c" "rc_IsCluster (cl_config (clustered c))"
  "Client_AddPrefix (clustered c) = Client_AddPrefix c"
  by (simp_all add: clustered_def Client_AddPrefix_def fun_eq_iff)

lemma mget_each_all:
  assumes "mget_server rx p look" and "cl_client c = Some p"
  shows "mget_each rx c ks s =
         ((map (\<lambda>k. bytes_or_nil (look s (Client_AddPrefix c k))) ks, None), s)"
  using assms by (induction ks arbitrary: s) (simp_all add: Client_Do_def mget_server_def)

lemma del_count_bounds: "0 \<le> del_count look rm ks s \<and> del_count look rm ks s \<le> int (length ks)"
  by (induction ks arbitrary: s) (auto simp: le_diff_eq, (smt (verit))+)

lemma del_each_all:
  assumes "del_server rx p look rm" and "cl_client c = Some p"
    and "0 \<le> n" and "n + int (length ks) < 2 ^ 63"
  shows "del_each rx c ks n s =
         ((n + del_count look rm (map (Client_AddPrefix c) ks) s, None),
          fold rm (map (Client_AddPrefix c) ks) s)"
  using assms(3,4)
proof (induction ks arbitrary: n s)
  case (Cons k ks)
  let ?k = "Client_AddPrefix c k"
  let ?d = "if look s ?k = None then 0 else (1::int)"
  have "Client_Do rx (Some c) RcvInt (Cmd ''DEL'' [?k]) s = (Inr (RInt ?d), rm ?k s)"
    using assms(1,2) by (simp add: Client_Do_def del_server_def)
  moreover have "i64 (n + ?d) = n + ?d" using Cons.prems by (intro i64_small) auto
  ultimately show ?case using Cons.IH [of "n + ?d" "rm ?k s"] Cons.prems by simp
qed simp

lemma Del_clustered:
  assumes "del_server rx p look rm" and "cl_client c = Some p"
    and "\<not> rc_IsCluster (cl_config c)" and "ks \<noteq> []" and "int (length ks) < 2 ^ 63"
  shows "Client_Del rx (clustered c) ks s = Client_Del rx c ks s"
proof -
  have "Client_Del rx c ks s =
        ((del_count look rm (map (Client_AddPrefix c) ks) s, None),
         fold rm (map (Client_AddPrefix c) ks) s)"
    using assms(1-4) by (cases ks) (simp_all add: Client_Del_def Client_Do_def fill_def del_server_def)
  moreover have "Client_Del rx (clustered c) ks s =
        ((del_count look rm (map (Client_AddPrefix c) ks) s, None),
         fold rm (map (Client_AddPrefix c) ks) s)"
    using del_each_all [of rx p look rm "clustered c" 0 ks s] assms by (simp add: Client_Del_def)
  ultimately show ?thesis by simp
qed

lemma MGet_clustered:
  assumes "mget_server rx p look" and "cl_client c = Some p" and "\<not> rc_IsCluster (cl_config c)"
  shows "Client_MGet rx (clustered c) ks s = Client_MGet rx c ks s"
  using assms mget_each_all [of rx p look "clustered c" ks s]
  by (simp add: Client_MGet_def Client_Do_def fill_def mget_server_def comp_def)

section \<open>Properties\<close>

text \<open>
  Clients of one configuration share one pool: after \<open>New\<close> has returned a client, a
  second \<open>New\<close> with the same configuration, whatever clients of other configurations were
  made in between, returns a client on the same pool, opens nothing and changes nothing.
\<close>

theorem New_shares_pool:
  assumes "New rx cfg st = ((Some (fresh_client rx cfg (Some p)), None), st')"
  shows "New rx cfg (New_all rx others st') =
         ((Some (fresh_client rx cfg (Some p)), None), New_all rx others st')"
proof -
  have "rc_Addresses cfg \<noteq> []" using assms by (auto simp: New_def newClient_def)
  with assms show ?thesis by (rule New_same_pool)
qed

definition sample_config :: redis_config where
  "sample_config = zero_redis_config\<lparr>rc_Addresses := [''r1:6379''], rc_Prefix := ''a_''\<rparr>"

definition other_config :: redis_config where
  "other_config = zero_redis_config\<lparr>rc_Addresses := [''r2:6379'']\<rparr>"

theorem New_shares_pool_witness:
  "New mem_radix sample_config
     (New_all mem_radix [other_config]
       \<lparr>rs_insMap = [''r1:6379a_'' \<mapsto> 0], rs_srv = Map.empty\<rparr>) =
   ((Some (fresh_client mem_radix sample_config (Some 0)), None),
    New_all mem_radix [other_config]
       \<lparr>rs_insMap = [''r1:6379a_'' \<mapsto> 0], rs_srv = Map.empty\<rparr>)"
  by (rule New_shares_pool [where st = "\<lparr>rs_insMap = Map.empty, rs_srv = Map.empty\<rparr>"])
    (simp add: New_def newClient_def sample_config_def zero_redis_config_def mem_radix_def)


definition sample_client :: client where
  "sample_client = fresh_client mem_radix sample_config (Some 0)"




text \<open>
  The loops that stand in for \<open>DEL\<close> and \<open>MGET\<close> on a cluster give the same result,
  the same error and the same server state as the single command of a single node.
\<close>

theorem cluster_loops_equal_commands:
  assumes "del_server rx p look rm" and "mget_server rx p get" and "cl_client c = Some p"
    and "\<not> rc_IsCluster (cl_config c)" and "int (length ks) < 2 ^ 63"
  shows "(ks = [] \<or> Client_Del rx (clustered c) ks s = Client_Del rx c ks s) \<and>
         Client_MGet rx (clustered c) ks s = Client_MGet rx c ks s"
  using Del_clustered [OF assms(1,3,4)] MGet_clustered [OF assms(2,3,4)] assms(5) by blast

theorem cluster_loops_equal_commands_witness:
  "Client_Del mem_radix (clustered sample_client) [''x'', ''y''] [''a_x'' \<mapsto> ''1''] =
   Client_Del mem_radix sample_client [''x'', ''y''] [''a_x'' \<mapsto> ''1'']"
  using cluster_loops_equal_commands
    [OF mem_del mem_mget, of sample_client 0 "[''x'', ''y'']" "[''a_x'' \<mapsto> ''1'']"]
  by (simp add: sample_client_def sample_config_def zero_redis_config_def fresh_client_def)

text \<open>
  The conditional and expiring sets ignore the client they are called on: they write with
  the default instance's pool and prefix, so that a client with another prefix does not find
  what it has just written, and its own key is as it was.
\<close>

theorem SetNx_writes_default_key:
  assumes "touches_named rx look" and "\<not> has_prefix (Client_AddPrefix c k) (cl_prefix d)"
  shows "Client_SetNx rx (Some d) c k v s = Client_SetNx rx (Some d) d k v s \<and>
         look (snd (Client_SetNx rx (Some d) c k v s)) (Client_AddPrefix c k) =
         look s (Client_AddPrefix c k)"
proof -
  have "look (step_op rx None d (KeyOp (OpSet k [v, VStr ''NX''])) s) (Client_AddPrefix c k) =
        look s (Client_AddPrefix c k)"
    using assms by (intro step_op_untouched) auto
  then show ?thesis by (simp add: Client_SetNx_def Redis_Set_def with_default_some)
qed

definition sample_default :: client where
  "sample_default = DefaultIns_init mem_radix\<lparr>cl_client := Some 0, cl_prefix := ''d_''\<rparr>"

theorem SetNx_writes_default_key_witness:
  "snd (Client_SetNx mem_radix (Some sample_default) sample_client ''k'' (VStr ''1'') Map.empty)
     (Client_AddPrefix sample_client ''k'') = None \<and>
   snd (Client_SetNx mem_radix (Some sample_default) sample_default ''k'' (VStr ''1'') Map.empty) ''d_k''
     = Some (CHR 0x22 # ''1'')"
proof -
  have "\<not> has_prefix (Client_AddPrefix sample_client ''k'') (cl_prefix sample_default)"
    by (simp add: sample_client_def sample_config_def fresh_client_def sample_default_def Client_AddPrefix_def)
  from SetNx_writes_default_key [OF mem_touches this, THEN conjunct2, of "VStr ''1''" Map.empty]
  have "snd (Client_SetNx mem_radix (Some sample_default) sample_client ''k'' (VStr ''1'') Map.empty)
          (Client_AddPrefix sample_client ''k'') = None" by simp
  moreover have "snd (Client_SetNx mem_radix (Some sample_default) sample_default ''k'' (VStr ''1'') Map.empty)
      ''d_k'' = Some (CHR 0x22 # ''1'')"
    by (simp add: Client_SetNx_default sample_default_def Client_Set_def marshal_arg_def
        Client_Do_def DefaultIns_init_def mem_radix_def Client_AddPrefix_def)
  ultimately show ?thesis ..
qed

end
