(* ===== verification/Session.thy ===== *)
theory Session
  imports RedisProps
begin

text \<open>
  Package \<open>session\<close>: the session of a request and the Redis store behind it. The store is
  one object for the whole process (\<open>sync.Once\<close>), shared by pointer and changed by
  \<open>SetExpiration\<close>, so every operation takes it as state. \<open>d\<close> is
  \<open>redis.DefaultIns\<close>, which the cluster rename consults.
\<close>

section \<open>session\_store.go\<close>

record sess_store =
  ss_redisIns :: client
  ss_prefix :: string
  ss_expiration :: int

definition NewSessRedisStore ::
  "client \<Rightarrow> redis_config \<Rightarrow> sess_store option \<Rightarrow> sess_store \<times> sess_store option" where
  "NewSessRedisStore redisIns config ins =
     (case ins of
        Some st \<Rightarrow> (st, Some st)
      | None \<Rightarrow>
          (let st = \<lparr>ss_redisIns = redisIns, ss_prefix = ''sess_'', ss_expiration = rc_Expiration config\<rparr>
           in (st, Some st)))"

definition Store_SetExpiration :: "int \<Rightarrow> sess_store \<Rightarrow> sess_store" where
  "Store_SetExpiration expiration st = (if 0 < expiration then st\<lparr>ss_expiration := expiration\<rparr> else st)"

definition Store_IsExist where
  "Store_IsExist rx st sessid key s = Client_HExists rx (ss_redisIns st) (ss_prefix st @ sessid) key s"

definition Store_Put where
  "Store_Put rx st sessid key value s = Client_HSet rx (ss_redisIns st) (ss_prefix st @ sessid) key value s"

text \<open>The value and the error; whether there was one is dropped.\<close>

definition Store_Get ::
  "'s radix \<Rightarrow> sess_store \<Rightarrow> string \<Rightarrow> string \<Rightarrow> 's \<Rightarrow> (goval option \<times> goerr option) \<times> 's" where
  "Store_Get rx st sessid key s =
     (let ((v, b, err), s') = Client_HGet rx (ss_redisIns st) (ss_prefix st @ sessid) key s
      in ((v, err), s'))"

definition Store_Del :: "'s radix \<Rightarrow> sess_store \<Rightarrow> string \<Rightarrow> string \<Rightarrow> 's \<Rightarrow> goerr option \<times> 's" where
  "Store_Del rx st sessid key s =
     (let ((n, err), s') = Client_HDel rx (ss_redisIns st) (ss_prefix st @ sessid) [key] s in (err, s'))"

definition Store_Destroy :: "'s radix \<Rightarrow> sess_store \<Rightarrow> string \<Rightarrow> 's \<Rightarrow> goerr option \<times> 's" where
  "Store_Destroy rx st sessid s =
     (let ((n, err), s') = Client_Del rx (ss_redisIns st) [ss_prefix st @ sessid] s in (err, s'))"

definition Store_Rename ::
  "'s radix \<Rightarrow> client option \<Rightarrow> sess_store \<Rightarrow> string \<Rightarrow> string \<Rightarrow> 's \<Rightarrow> goerr option outcome \<times> 's" where
  "Store_Rename rx d st sessid newid s =
     (case Client_RenameNx rx d (ss_redisIns st) (ss_prefix st @ sessid) (ss_prefix st @ newid) s of
        (Panics p, s1) \<Rightarrow> (Panics p, s1)
      | (Returns (b, Some e), s1) \<Rightarrow> (Returns (Some e), s1)
      | (Returns (b, None), s1) \<Rightarrow>
          if \<not> b then (Returns (Some (Errorf (newid @ '' is exist''))), s1)
          else if 0 < ss_expiration st
          then (Returns None, snd (Client_Expire rx (ss_redisIns st) (ss_prefix st @ newid) (ss_expiration st) s1))
          else (Returns None, s1))"

section \<open>session.go\<close>

record session =
  se_id :: string
  se_newid :: string
  se_isNew :: bool
  se_cookieName :: string
  se_reName :: bool
  se_expiration :: int

definition NewSession ::
  "string \<Rightarrow> http_request \<Rightarrow> session_config \<Rightarrow> sess_store \<Rightarrow> session \<times> sess_store" where
  "NewSession uuid request config st =
     (let cookieName = (if sc_CookieName config = [] then ''sess_name'' else sc_CookieName config);
          newid = Uuid uuid;
          sessId = (case Request_Cookie request cookieName of None \<Rightarrow> [] | Some v \<Rightarrow> v)
      in (\<lparr>se_id = (if sessId = [] then newid else sessId), se_newid = newid, se_isNew = (sessId = []),
           se_cookieName = cookieName, se_reName = sc_ReName config, se_expiration = sc_Expiration config\<rparr>,
          Store_SetExpiration (sc_Expiration config) st))"

definition Session_Rename ::
  "'s radix \<Rightarrow> client option \<Rightarrow> sess_store \<Rightarrow> session \<Rightarrow> 's \<Rightarrow> goerr option outcome \<times> 's" where
  "Session_Rename rx d st se s =
     (if se_id se \<noteq> se_newid se then Store_Rename rx d st (se_id se) (se_newid se) s
      else (Returns None, s))"

definition session_cookie :: "http_request \<Rightarrow> session \<Rightarrow> response_writer \<Rightarrow> response_writer" where
  "session_cookie request se w = http_SetCookie (se_cookieName se) (se_id se) (rq_scheme request = ''https'') w"

definition Session_Close ::
  "'s radix \<Rightarrow> client option \<Rightarrow> sess_store \<Rightarrow> http_request \<Rightarrow> session \<Rightarrow> response_writer \<Rightarrow> 's
    \<Rightarrow> (session \<times> response_writer) outcome \<times> 's" where
  "Session_Close rx d st request se w s =
     (let (r, s') =
        (if \<not> se_isNew se \<and> se_reName se then
           (case Session_Rename rx d st se s of
              (Panics p, s1) \<Rightarrow> (Panics p, s1)
            | (Returns None, s1) \<Rightarrow> (Returns (se\<lparr>se_id := se_newid se, se_isNew := True\<rparr>), s1)
            | (Returns (Some e), s1) \<Rightarrow> (Returns se, s1))
         else (Returns se, s))
      in (map_outcome_value (\<lambda>se'. (se', if se_isNew se' then session_cookie request se' w else w)) r, s'))"

definition Session_IsExist where
  "Session_IsExist rx st se k s = (let ((v, err), s') = Store_IsExist rx st (se_id se) k s in (v, s'))"

definition Session_Set :: "'s radix \<Rightarrow> sess_store \<Rightarrow> session \<Rightarrow> string \<Rightarrow> goval \<Rightarrow> 's \<Rightarrow> 's" where
  "Session_Set rx st se k v s = snd (Store_Put rx st (se_id se) k v s)"

definition Session_Get :: "'s radix \<Rightarrow> sess_store \<Rightarrow> session \<Rightarrow> string \<Rightarrow> 's \<Rightarrow> goval option \<times> 's" where
  "Session_Get rx st se k s = (let ((v, err), s') = Store_Get rx st (se_id se) k s in (v, s'))"

definition Session_Del :: "'s radix \<Rightarrow> sess_store \<Rightarrow> session \<Rightarrow> string \<Rightarrow> 's \<Rightarrow> 's" where
  "Session_Del rx st se k s = snd (Store_Del rx st (se_id se) k s)"

definition Session_Destroy :: "'s radix \<Rightarrow> sess_store \<Rightarrow> session \<Rightarrow> 's \<Rightarrow> 's" where
  "Session_Destroy rx st se s = snd (Store_Destroy rx st (se_id se) s)"

section \<open>Facts\<close>

definition sess_key :: "sess_store \<Rightarrow> string \<Rightarrow> string" where
  "sess_key st sessid = Client_AddPrefix (ss_redisIns st) (ss_prefix st @ sessid)"

lemma sess_key_inj [simp]: "sess_key st a = sess_key st b \<longleftrightarrow> a = b"
  by (simp add: sess_key_def Client_AddPrefix_def)

text \<open>The hash commands, the conditional rename and the expiry on a hash store.\<close>

definition hash_server :: "'s radix \<Rightarrow> nat \<Rightarrow> ('s \<Rightarrow> string \<Rightarrow> string \<Rightarrow> string option) \<Rightarrow> bool" where
  "hash_server rx p look \<longleftrightarrow>
     (\<forall>k f b s. \<exists>r s'. rx_do rx p RcvNone (FlatCmd ''HSET'' k [VStr f, VBytes b]) s = (Inr r, s') \<and>
        look s' = (look s)(k := (look s k)(f \<mapsto> b))) \<and>
     (\<forall>k f s. rx_do rx p RcvMaybeBytes (Cmd ''HGET'' [k, f]) s =
        (Inr (case look s k f of None \<Rightarrow> RNil | Some b \<Rightarrow> RBytes b), s)) \<and>
     (\<forall>k k' s. k \<noteq> k' \<longrightarrow> look s k \<noteq> Map.empty \<longrightarrow>
        (\<exists>s'. rx_do rx p RcvBool (Cmd ''RENAMENX'' [k, k']) s = (Inr (RBool (look s k' = Map.empty)), s') \<and>
          look s' = (if look s k' = Map.empty then (look s)(k' := look s k, k := Map.empty) else look s))) \<and>
     (\<forall>k a s. look (snd (rx_do rx p RcvBool (FlatCmd ''EXPIRE'' k a) s)) = look s)"

lemma hash_get:
  "hash_server rx p look \<Longrightarrow>
   rx_do rx p RcvMaybeBytes (Cmd ''HGET'' [k, f]) s =
     (Inr (case look s k f of None \<Rightarrow> RNil | Some b \<Rightarrow> RBytes b), s)"
  by (simp add: hash_server_def)

text \<open>The configuration of a working store on one node with a JSON-like codec.\<close>

definition store_ok ::
  "'s radix \<Rightarrow> ('s \<Rightarrow> string \<Rightarrow> string \<Rightarrow> string option) \<Rightarrow> sess_store \<Rightarrow>
   (goval \<Rightarrow> goerr + string) \<Rightarrow> (string \<Rightarrow> goerr + goval) \<Rightarrow> bool" where
  "store_ok rx look st m u \<longleftrightarrow>
     (\<exists>p. cl_client (ss_redisIns st) = Some p \<and> hash_server rx p look) \<and>
     \<not> rc_IsCluster (cl_config (ss_redisIns st)) \<and>
     cl_Marshal (ss_redisIns st) = Some m \<and> cl_Unmarshal (ss_redisIns st) = Some u"

lemma Session_Set_look:
  assumes "store_ok rx look st m u" and "m v = Inr b"
  shows "look (Session_Set rx st se k v s) =
         (look s)(sess_key st (se_id se) := (look s (sess_key st (se_id se)))(k \<mapsto> b))"
proof -
  from assms(1) obtain p where p: "cl_client (ss_redisIns st) = Some p" "hash_server rx p look"
    by (auto simp: store_ok_def)
  from p(2) obtain r s' where
    "rx_do rx p RcvNone (FlatCmd ''HSET'' (sess_key st (se_id se)) [VStr k, VBytes b]) s = (Inr r, s')"
    "look s' = (look s)(sess_key st (se_id se) := (look s (sess_key st (se_id se)))(k \<mapsto> b))"
    unfolding hash_server_def by blast
  with p assms show ?thesis
    by (simp add: Session_Set_def Store_Put_def Client_HSet_def marshal_arg_def store_ok_def
        Client_Do_def sess_key_def)
qed

lemma Session_Get_look:
  assumes "store_ok rx look st m u" and "look s (sess_key st (se_id se)) k = Some b"
    and "b \<noteq> []" and "u b = Inr v"
  shows "Session_Get rx st se k s = (Some v, s)"
proof -
  from assms(1) obtain p where p: "cl_client (ss_redisIns st) = Some p" "hash_server rx p look"
    and u: "cl_Unmarshal (ss_redisIns st) = Some u"
    by (auto simp: store_ok_def)
  have "Client_Do rx (Some (ss_redisIns st)) RcvMaybeBytes (Cmd ''HGET'' [sess_key st (se_id se), k]) s
        = (Inr (RBytes b), s)"
    using p(1) assms(2) by (simp add: Client_Do_def hash_get [OF p(2)])
  from get_maybe_value [OF u this assms(3,4)] show ?thesis
    by (simp add: Session_Get_def Store_Get_def Client_HGet_def sess_key_def)
qed

lemma Store_Rename_look:
  assumes "store_ok rx look st m u" and "a \<noteq> b" and "look s (sess_key st a) \<noteq> Map.empty"
  shows "\<exists>err s'. Store_Rename rx d st a b s = (Returns err, s') \<and>
           (if look s (sess_key st b) = Map.empty
            then err = None \<and> look s' = (look s)(sess_key st b := look s (sess_key st a), sess_key st a := Map.empty)
            else err \<noteq> None \<and> look s' = look s)"
proof -
  from assms(1) obtain p where p: "cl_client (ss_redisIns st) = Some p" "hash_server rx p look"
    by (auto simp: store_ok_def)
  have e: "look (snd (rx_do rx p RcvBool (FlatCmd ''EXPIRE'' k' a') t)) = look t" for k' a' t
    using p(2) by (simp add: hash_server_def)
  from assms(2) have ne: "sess_key st a \<noteq> sess_key st b" by simp
  obtain s' where s': "rx_do rx p RcvBool (Cmd ''RENAMENX'' [sess_key st a, sess_key st b]) s =
      (Inr (RBool (look s (sess_key st b) = Map.empty)), s')"
    "look s' = (if look s (sess_key st b) = Map.empty
      then (look s)(sess_key st b := look s (sess_key st a), sess_key st a := Map.empty) else look s)"
    using p(2) ne assms(3) unfolding hash_server_def by blast
  have n: "\<not> rc_IsCluster (cl_config (ss_redisIns st))" using assms(1) by (simp add: store_ok_def)
  from s'(1) have r: "Client_RenameNx rx d (ss_redisIns st) (ss_prefix st @ a) (ss_prefix st @ b) s =
      (Returns (look s (sess_key st b) = Map.empty, None), s')"
    using p(1) n assms(2) by (simp add: Client_RenameNx_def Client_Do_def fill_def sess_key_def)
  show ?thesis
    unfolding Store_Rename_def r using s'(2) p(1)
    by (auto simp: Client_Expire_def Client_Do_def e)
qed

lemma Session_Close_kept:
  assumes "store_ok rx look st m u" and "look s (sess_key st (se_id se)) \<noteq> Map.empty"
  shows "\<exists>se' w' s'. Session_Close rx d st request se w s = (Returns (se', w'), s') \<and>
      look s' (sess_key st (se_id se')) = look s (sess_key st (se_id se)) \<and>
      se_cookieName se' = se_cookieName se \<and>
      (if se_isNew se' then w' = session_cookie request se' w else w' = w \<and> se_id se' = se_id se)"
proof (cases "\<not> se_isNew se \<and> se_reName se \<and> se_id se \<noteq> se_newid se")
  case True
  obtain err s' where r: "Store_Rename rx d st (se_id se) (se_newid se) s = (Returns err, s')"
    and l: "if look s (sess_key st (se_newid se)) = Map.empty
     then err = None \<and> look s' = (look s)(sess_key st (se_newid se) := look s (sess_key st (se_id se)),
            sess_key st (se_id se) := Map.empty)
     else err \<noteq> None \<and> look s' = look s"
    using Store_Rename_look [OF assms(1) _ assms(2)] True by blast
  show ?thesis
  proof (cases err)
    case None
    with True r have "Session_Close rx d st request se w s =
        (Returns (se\<lparr>se_id := se_newid se, se_isNew := True\<rparr>,
           session_cookie request (se\<lparr>se_id := se_newid se, se_isNew := True\<rparr>) w), s')"
      by (simp add: Session_Close_def Session_Rename_def)
    moreover have "look s' (sess_key st (se_newid se)) = look s (sess_key st (se_id se))"
      using l None True by (simp split: if_splits)
    ultimately show ?thesis by simp
  next
    case (Some e)
    with True r have "Session_Close rx d st request se w s = (Returns (se, w), s')"
      by (simp add: Session_Close_def Session_Rename_def)
    moreover have "look s' = look s" using l Some by (simp split: if_splits)
    ultimately show ?thesis using True by simp
  qed
next
  case False
  then show ?thesis by (auto simp: Session_Close_def Session_Rename_def)
qed

subsection \<open>Sessions of different ids\<close>

datatype session_op = SeIsExist string | SeSet string goval | SeGet string | SeDel string | SeDestroy

fun step_session :: "'s radix \<Rightarrow> sess_store \<Rightarrow> session \<Rightarrow> session_op \<Rightarrow> 's \<Rightarrow> 's" where
  "step_session rx st se (SeIsExist k) s = snd (Session_IsExist rx st se k s)"
| "step_session rx st se (SeSet k v) s = Session_Set rx st se k v s"
| "step_session rx st se (SeGet k) s = snd (Session_Get rx st se k s)"
| "step_session rx st se (SeDel k) s = Session_Del rx st se k s"
| "step_session rx st se SeDestroy s = Session_Destroy rx st se s"

lemma do_named:
  assumes "touches_named rx look" and "k \<notin> set (action_keys a)"
  shows "look (snd (Client_Do rx c rcv a s)) k = look s k"
  using assms by (simp add: Client_Do_def touches_named_def split: option.split)

lemma step_session_other:
  assumes "touches_named rx look" and "sessid \<noteq> se_id se"
  shows "look (step_session rx st se op s) (sess_key st sessid) = look s (sess_key st sessid)"
proof -
  have "sess_key st sessid \<noteq> Client_AddPrefix (ss_redisIns st) (ss_prefix st @ se_id se)"
    using assms(2) sess_key_inj [of st sessid "se_id se"] by (simp add: sess_key_def)
  then show ?thesis
    using assms(1)
    by (cases op)
      (simp_all add: Session_IsExist_def Session_Set_def Session_Get_def Session_Del_def
        Session_Destroy_def Store_IsExist_def Store_Put_def Store_Get_def Store_Del_def
        Store_Destroy_def Client_HExists_def Client_HSet_def Client_HGet_def Client_HDel_def
        Client_Del_def do_named case_prod_beta Let_def split: sum.split)
qed

lemma steps_session_other:
  assumes "touches_named rx look" and "sessid \<noteq> se_id se"
  shows "look (fold (step_session rx st se) ops s) (sess_key st sessid) = look s (sess_key st sessid)"
  by (induction ops arbitrary: s) (simp_all add: step_session_other [OF assms])

section \<open>Properties\<close>


text \<open>A hash server in memory, and a store on it.\<close>

fun hash_do ::
  "nat \<Rightarrow> receiver \<Rightarrow> redis_action \<Rightarrow> (string \<Rightarrow> string \<rightharpoonup> string) \<Rightarrow>
   (goerr + reply) \<times> (string \<Rightarrow> string \<rightharpoonup> string)" where
  "hash_do p rcv (FlatCmd name k args) m =
     (if name = ''HSET'' then
        (case args of
           [VStr f, VBytes b] \<Rightarrow> (Inr RUnset, m(k := (m k)(f \<mapsto> b)))
         | _ \<Rightarrow> (Inl (Errorf ''ERR''), m))
      else (Inr (RBool True), m))"
| "hash_do p rcv (Cmd name args) m =
     (case args of
        [k, x] \<Rightarrow>
          if name = ''HGET'' then (Inr (case m k x of None \<Rightarrow> RNil | Some b \<Rightarrow> RBytes b), m)
          else if name = ''RENAMENX'' then
            (Inr (RBool (m x = Map.empty)),
             if m x = Map.empty then m(x := m k, k := Map.empty) else m)
          else (Inl (Errorf ''ERR''), m)
      | _ \<Rightarrow> (Inl (Errorf ''ERR''), m))"

definition hash_radix :: "(string \<Rightarrow> string \<rightharpoonup> string) radix" where
  "hash_radix =
     \<lparr>rx_json = (\<lambda>cfg. Inr []), rx_marshal = quote_str, rx_unmarshal = (\<lambda>s. Inr (VStr (tl s))),
      rx_new_pool = (\<lambda>a cfg s. (Inr 0, s)), rx_new_cluster = (\<lambda>a cfg s. (Inr 0, s)),
      rx_do = hash_do, rx_close = (\<lambda>p s. s)\<rparr>"

lemma hash_mem: "hash_server hash_radix p (\<lambda>m. m)"
  by (simp add: hash_server_def hash_radix_def)

lemma hash_touches: "touches_named hash_radix (\<lambda>m. m)"
  unfolding touches_named_def
proof (intro allI impI)
  fix p rcv a k and s :: "string \<Rightarrow> string \<rightharpoonup> string"
  assume "k \<notin> set (action_keys a)"
  then show "snd (rx_do hash_radix p rcv a s) k = s k"
    by (cases a) (auto simp: hash_radix_def split: list.split goval.split)
qed

definition sample_store :: sess_store where
  "sample_store =
     \<lparr>ss_redisIns = fresh_client hash_radix sample_config (Some 0), ss_prefix = ''sess_'', ss_expiration = 60\<rparr>"

definition sample_session :: session where
  "sample_session =
     \<lparr>se_id = ''old'', se_newid = ''new'', se_isNew = False, se_cookieName = ''sid'',
      se_reName = True, se_expiration = 0\<rparr>"

lemma sample_store_ok:
  "store_ok hash_radix (\<lambda>m. m) sample_store quote_str (\<lambda>s. Inr (VStr (tl s)))"
  using hash_mem
  by (simp add: store_ok_def sample_store_def fresh_client_def sample_config_def zero_redis_config_def
      hash_radix_def)




end
