(* ===== verification/RedisCache.thy ===== *)
theory RedisCache
  imports Session
begin

text \<open>
  \<open>db/cache/redis.go\<close>: the ORM's cache in one Redis hash. The receiver may be nil, in which
  case every operation does nothing.
\<close>

record redis_cache =
  rca_redisIns :: client
  rca_key :: string

definition NewRedisCache ::
  "'s radix \<Rightarrow> redis_config \<Rightarrow> 's redis_state \<Rightarrow> (redis_cache option \<times> goerr option) \<times> 's redis_state" where
  "NewRedisCache rx cfg st =
     (case New rx cfg st of
        ((_, Some e), st') \<Rightarrow> ((None, Some e), st')
      | ((Some c, None), st') \<Rightarrow> ((Some \<lparr>rca_redisIns = c, rca_key = ''Xorm_Cache''\<rparr>, None), st')
      | ((None, None), st') \<Rightarrow> ((None, None), st'))"

definition RedisCache_Get ::
  "'s radix \<Rightarrow> redis_cache option \<Rightarrow> string \<Rightarrow> 's \<Rightarrow> (goval \<times> goerr option) \<times> 's" where
  "RedisCache_Get rx rc key s =
     (case rc of
        None \<Rightarrow> ((VNil, None), s)
      | Some r \<Rightarrow>
          (let ((v, b, err), s') = Client_HGet rx (rca_redisIns r) (rca_key r) key s
           in (((case v of None \<Rightarrow> VNil | Some x \<Rightarrow> x), err), s')))"

definition RedisCache_Put ::
  "'s radix \<Rightarrow> redis_cache option \<Rightarrow> string \<Rightarrow> goval \<Rightarrow> 's \<Rightarrow> goerr option \<times> 's" where
  "RedisCache_Put rx rc key value s =
     (case rc of None \<Rightarrow> (None, s)
      | Some r \<Rightarrow> Client_HSet rx (rca_redisIns r) (rca_key r) key value s)"

definition RedisCache_Del :: "'s radix \<Rightarrow> redis_cache option \<Rightarrow> string \<Rightarrow> 's \<Rightarrow> goerr option \<times> 's" where
  "RedisCache_Del rx rc key s =
     (case rc of None \<Rightarrow> (None, s)
      | Some r \<Rightarrow> (let ((n, err), s') = Client_HDel rx (rca_redisIns r) (rca_key r) [key] s in (err, s')))"

definition RedisCache_IsExist :: "'s radix \<Rightarrow> redis_cache option \<Rightarrow> string \<Rightarrow> 's \<Rightarrow> bool \<times> 's" where
  "RedisCache_IsExist rx rc key s =
     (case rc of None \<Rightarrow> (False, s)
      | Some r \<Rightarrow> (let ((b, err), s') = Client_HExists rx (rca_redisIns r) (rca_key r) key s in (b, s')))"

definition RedisCache_Incr ::
  "'s radix \<Rightarrow> redis_cache option \<Rightarrow> string \<Rightarrow> int \<Rightarrow> 's \<Rightarrow> goerr option \<times> 's" where
  "RedisCache_Incr rx rc key delta s =
     (case rc of None \<Rightarrow> (None, s)
      | Some r \<Rightarrow> (let ((n, err), s') = Client_HIncrBy rx (rca_redisIns r) (rca_key r) key delta s in (err, s')))"

definition RedisCache_Decr ::
  "'s radix \<Rightarrow> redis_cache option \<Rightarrow> string \<Rightarrow> int \<Rightarrow> 's \<Rightarrow> goerr option \<times> 's" where
  "RedisCache_Decr rx rc key delta s =
     (case rc of None \<Rightarrow> (None, s)
      | Some r \<Rightarrow>
          (let ((n, err), s') = Client_HIncrBy rx (rca_redisIns r) (rca_key r) key (i64 (- delta)) s in (err, s')))"

definition RedisCache_ClearAll :: "'s radix \<Rightarrow> redis_cache option \<Rightarrow> 's \<Rightarrow> goerr option \<times> 's" where
  "RedisCache_ClearAll rx rc s =
     (case rc of None \<Rightarrow> (None, s)
      | Some r \<Rightarrow> (let ((n, err), s') = Client_Del rx (rca_redisIns r) [rca_key r] s in (err, s')))"

section \<open>Facts\<close>

definition cache_hash :: "redis_cache \<Rightarrow> string" where
  "cache_hash r = Client_AddPrefix (rca_redisIns r) (rca_key r)"

definition cache_ok ::
  "'s radix \<Rightarrow> ('s \<Rightarrow> string \<Rightarrow> string \<Rightarrow> string option) \<Rightarrow> redis_cache \<Rightarrow>
   (goval \<Rightarrow> goerr + string) \<Rightarrow> (string \<Rightarrow> goerr + goval) \<Rightarrow> bool" where
  "cache_ok rx look r m u \<longleftrightarrow>
     (\<exists>p. cl_client (rca_redisIns r) = Some p \<and> hash_server rx p look) \<and>
     cl_Marshal (rca_redisIns r) = Some m \<and> cl_Unmarshal (rca_redisIns r) = Some u"

lemma Put_look:
  assumes "cache_ok rx look r m u" and "m v = Inr b"
  shows "\<exists>s'. RedisCache_Put rx (Some r) k v s = (None, s') \<and>
              look s' = (look s)(cache_hash r := (look s (cache_hash r))(k \<mapsto> b))"
proof -
  from assms(1) obtain p where p: "cl_client (rca_redisIns r) = Some p" "hash_server rx p look"
    by (auto simp: cache_ok_def)
  from p(2) obtain x s' where
    "rx_do rx p RcvNone (FlatCmd ''HSET'' (cache_hash r) [VStr k, VBytes b]) s = (Inr x, s')"
    "look s' = (look s)(cache_hash r := (look s (cache_hash r))(k \<mapsto> b))"
    unfolding hash_server_def by blast
  with p assms show ?thesis
    by (simp add: RedisCache_Put_def Client_HSet_def marshal_arg_def cache_ok_def
        Client_Do_def cache_hash_def as_err_def)
qed

lemma cache_Get_look:
  assumes "cache_ok rx look r m u" and "look s (cache_hash r) k = Some b"
    and "b \<noteq> []" and "u b = Inr v"
  shows "RedisCache_Get rx (Some r) k s = ((v, None), s)"
proof -
  from assms(1) obtain p where p: "cl_client (rca_redisIns r) = Some p" "hash_server rx p look"
    and u: "cl_Unmarshal (rca_redisIns r) = Some u"
    by (auto simp: cache_ok_def)
  have "Client_Do rx (Some (rca_redisIns r)) RcvMaybeBytes (Cmd ''HGET'' [cache_hash r, k]) s
        = (Inr (RBytes b), s)"
    using p(1) assms(2) by (simp add: Client_Do_def hash_get [OF p(2)])
  from get_maybe_value [OF u this assms(3,4)] show ?thesis
    by (simp add: RedisCache_Get_def Client_HGet_def cache_hash_def)
qed

lemma cache_Get_none:
  assumes "cache_ok rx look r m u" and "look s (cache_hash r) k = None"
  shows "RedisCache_Get rx (Some r) k s = ((VNil, None), s)"
proof -
  from assms(1) obtain p where p: "cl_client (rca_redisIns r) = Some p" "hash_server rx p look"
    and u: "cl_Unmarshal (rca_redisIns r) = Some u"
    by (auto simp: cache_ok_def)
  have "Client_Do rx (Some (rca_redisIns r)) RcvMaybeBytes (Cmd ''HGET'' [cache_hash r, k]) s
        = (Inr RNil, s)"
    using p(1) assms(2) by (simp add: Client_Do_def hash_get [OF p(2)])
  then show ?thesis
    by (simp add: RedisCache_Get_def Client_HGet_def cache_hash_def get_maybe_def u)
qed

text \<open>The contents of the cache as the caller sees them.\<close>

definition cache_view :: "'s radix \<Rightarrow> redis_cache \<Rightarrow> 's \<Rightarrow> string \<Rightarrow> goval \<times> goerr option" where
  "cache_view rx r s k = fst (RedisCache_Get rx (Some r) k s)"

lemma cache_view_cong:
  assumes "cache_ok rx look r m u" and "look s (cache_hash r) j = look t (cache_hash r) j"
  shows "cache_view rx r s j = cache_view rx r t j"
proof -
  from assms(1) obtain p where p: "cl_client (rca_redisIns r) = Some p" "hash_server rx p look"
    and u: "cl_Unmarshal (rca_redisIns r) = Some u"
    by (auto simp: cache_ok_def)
  have "Client_Do rx (Some (rca_redisIns r)) RcvMaybeBytes (Cmd ''HGET'' [cache_hash r, j]) x =
        (Inr (case look x (cache_hash r) j of None \<Rightarrow> RNil | Some b \<Rightarrow> RBytes b), x)" for x
    using p(1) by (simp add: Client_Do_def hash_get [OF p(2)])
  then show ?thesis
    using assms(2)
    by (simp add: cache_view_def RedisCache_Get_def Client_HGet_def cache_hash_def get_maybe_def u
        split: option.split sum.split)
qed

section \<open>Properties\<close>

text \<open>
  The cache refines a map: after \<open>Put\<close> the key holds the value and every other key
  holds what it held.
\<close>

theorem RedisCache_Put_view:
  assumes "cache_ok rx look r m u" and "m v = Inr b" and "b \<noteq> []" and "u b = Inr v"
  shows "fst (RedisCache_Put rx (Some r) k v s) = None \<and>
    cache_view rx r (snd (RedisCache_Put rx (Some r) k v s)) = (cache_view rx r s)(k := (v, None))"
proof -
  from Put_look [OF assms(1,2)] obtain s' where s': "RedisCache_Put rx (Some r) k v s = (None, s')"
    "look s' = (look s)(cache_hash r := (look s (cache_hash r))(k \<mapsto> b))" by blast
  have "cache_view rx r s' k = (v, None)"
    using cache_Get_look [OF assms(1) _ assms(3,4), of s' k] by (simp add: cache_view_def s'(2))
  moreover have "cache_view rx r s' j = cache_view rx r s j" if "j \<noteq> k" for j
    using that by (intro cache_view_cong [OF assms(1)]) (simp add: s'(2))
  ultimately show ?thesis using s'(1) by (auto simp: fun_eq_iff)
qed

definition sample_cache :: redis_cache where
  "sample_cache = \<lparr>rca_redisIns = fresh_client hash_radix sample_config (Some 0), rca_key = ''Xorm_Cache''\<rparr>"

theorem RedisCache_Put_view_witness:
  "cache_view hash_radix sample_cache
     (snd (RedisCache_Put hash_radix (Some sample_cache) ''k'' (VStr ''v'') (\<lambda>_. Map.empty))) =
   (cache_view hash_radix sample_cache (\<lambda>_. Map.empty))(''k'' := (VStr ''v'', None))"
proof -
  have "cache_ok hash_radix (\<lambda>m. m) sample_cache quote_str (\<lambda>s. Inr (VStr (tl s)))"
    using hash_mem
    by (simp add: cache_ok_def sample_cache_def fresh_client_def hash_radix_def)
  from RedisCache_Put_view [OF this, of "VStr ''v''" "CHR 0x22 # ''v''"] show ?thesis by simp
qed

end
