(* ===== verification/RespError.thy ===== *)
theory RespError
  imports Prelude
begin

text \<open>
  \<open>common/error.go\<close>: the process-wide table of error texts and \<open>RespErr\<close>, the error
  that carries a response code. \<open>RespErr\<close> values are shared by pointer and
  \<open>NewRespErr\<close> overwrites the number of one it is given, so they live in a store.
\<close>

section \<open>The error table\<close>

type_synonym error_map = "int \<rightharpoonup> string"

definition errorMap_init :: error_map where
  "errorMap_init = [400 \<mapsto> ''request error'', 500 \<mapsto> ''system error'']"

definition AddErrorMap :: "int \<Rightarrow> string \<Rightarrow> error_map \<Rightarrow> error_map" where
  "AddErrorMap errNo errMsg m = m(errNo \<mapsto> errMsg)"

text \<open>The argument map is given by its entries in the order the range loop visits them.\<close>

fun SetErrorMap :: "(int \<times> string) list \<Rightarrow> error_map \<Rightarrow> error_map" where
  "SetErrorMap [] m = m"
| "SetErrorMap ((k, v) # kvs) m = SetErrorMap kvs (m(k \<mapsto> v))"

definition GetErrorMap :: "error_map \<Rightarrow> int \<Rightarrow> string" where
  "GetErrorMap m errNo = (case m errNo of None \<Rightarrow> [] | Some s \<Rightarrow> s)"

lemma SetErrorMap_upd:
  "distinct (map fst kvs) \<Longrightarrow> SetErrorMap kvs m = m ++ map_of kvs"
proof (induction kvs m rule: SetErrorMap.induct)
  case (2 k v kvs m)
  then have "k \<notin> dom (map_of kvs)" by (simp add: dom_map_of_conv_image_fst)
  then have "m(k \<mapsto> v) ++ map_of kvs = m ++ map_of ((k, v) # kvs)"
    by (simp add: map_add_upd_left)
  with 2 show ?case by (metis SetErrorMap.simps(2) distinct.simps(2) list.simps(9))
qed simp

section \<open>RespErr\<close>

text \<open>
  The wrapped error is a plain error, or a nil \<open>*RespErr\<close> in an error interface, which
  is how \<open>NewRespErr\<close> stores one it is given.
\<close>

datatype resp_cause = CauseErr goerr | CauseNilResp

record resp_err =
  re_file :: string
  re_line :: int
  re_errNo :: int
  re_err :: resp_cause

type_synonym resp_ptr = "nat option"
type_synonym resp_store = "resp_err list"

text \<open>The dynamic value passed as \<open>i interface{}\<close>.\<close>

datatype err_arg =
  ArgNil
| ArgResp resp_ptr
| ArgErr goerr
| ArgStr string
| ArgOther string \<comment> \<open>its \<open>%v\<close> text\<close>

text \<open>An error as a caller tells it apart: the two of a context, a \<open>*RespErr\<close>, any other.\<close>

datatype call_err = ErrCanceled | ErrDeadlineExceeded | ErrResp resp_ptr | ErrPlain goerr

definition RespErr_ErrNo :: "resp_store \<Rightarrow> resp_ptr \<Rightarrow> int" where
  "RespErr_ErrNo h p = (case p of None \<Rightarrow> 0 | Some a \<Rightarrow> re_errNo (h ! a))"

definition RespErr_ErrMsg :: "resp_store \<Rightarrow> resp_ptr \<Rightarrow> string" where
  "RespErr_ErrMsg h p =
     (case p of None \<Rightarrow> []
      | Some a \<Rightarrow> (case re_err (h ! a) of CauseErr e \<Rightarrow> err_text e | CauseNilResp \<Rightarrow> []))"

definition RespErr_Err :: "resp_store \<Rightarrow> resp_ptr \<Rightarrow> resp_cause option" where
  "RespErr_Err h p = (case p of None \<Rightarrow> None | Some a \<Rightarrow> Some (re_err (h ! a)))"

definition RespErr_String :: "resp_store \<Rightarrow> resp_ptr \<Rightarrow> string" where
  "RespErr_String h p =
     (case p of None \<Rightarrow> []
      | Some a \<Rightarrow>
          ''[RespErr '' @ re_file (h ! a) @ '':'' @ int_dec (re_line (h ! a)) @ '' N:''
            @ int_dec (RespErr_ErrNo h p) @ '' M:'' @ RespErr_ErrMsg h p @ '']'')"

definition RespErr_Error :: "resp_store \<Rightarrow> resp_ptr \<Rightarrow> string" where
  "RespErr_Error h p = RespErr_String h p"

definition RespErr_Unwrap :: "resp_store \<Rightarrow> resp_ptr \<Rightarrow> resp_cause option" where
  "RespErr_Unwrap h p = (case p of None \<Rightarrow> None | Some a \<Rightarrow> Some (re_err (h ! a)))"

text \<open>\<open>runtime.Caller\<close> is the argument \<open>site\<close>; the GOPATH prefix is cut out of the file.\<close>

definition GetCaller :: "string \<Rightarrow> string \<times> int \<Rightarrow> string \<times> int" where
  "GetCaller gopath site =
     (let (file, line) = site in
      (if gopath \<noteq> [] then replace_all file gopath [] else file, line))"

fun arg_cause :: "err_arg \<Rightarrow> resp_cause" where
  "arg_cause (ArgErr e) = CauseErr e"
| "arg_cause (ArgStr s) = CauseErr (Errorf s)"
| "arg_cause (ArgResp p) = CauseNilResp"
| "arg_cause (ArgOther s) = CauseErr (Errorf s)"
| "arg_cause ArgNil = CauseErr (Errorf [])"

definition NewRespErr ::
  "string \<Rightarrow> string \<times> int \<Rightarrow> int \<Rightarrow> err_arg \<Rightarrow> resp_store \<Rightarrow> resp_ptr \<times> resp_store" where
  "NewRespErr gopath site errNo i h =
     (if errNo = 0 \<or> i = ArgNil then (None, h)
      else case i of
        ArgResp (Some a) \<Rightarrow> (Some a, h[a := (h ! a)\<lparr>re_errNo := errNo\<rparr>])
      | _ \<Rightarrow>
          (let (file, line) = GetCaller gopath site in
           (Some (length h),
            h @ [\<lparr>re_file = file, re_line = line, re_errNo = errNo, re_err = arg_cause i\<rparr>])))"

definition ptr_ok :: "resp_store \<Rightarrow> resp_ptr \<Rightarrow> bool" where
  "ptr_ok h p \<longleftrightarrow> (\<forall>a. p = Some a \<longrightarrow> a < length h)"

fun arg_ok :: "resp_store \<Rightarrow> err_arg \<Rightarrow> bool" where
  "arg_ok h (ArgResp p) = ptr_ok h p"
| "arg_ok h _ = True"

section \<open>Facts\<close>

lemma NewRespErr_nil: "errNo = 0 \<or> i = ArgNil \<Longrightarrow> NewRespErr gopath site errNo i h = (None, h)"
  by (simp add: NewRespErr_def)

lemma NewRespErr_shared:
  "errNo \<noteq> 0 \<Longrightarrow>
   NewRespErr gopath site errNo (ArgResp (Some a)) h = (Some a, h[a := (h ! a)\<lparr>re_errNo := errNo\<rparr>])"
  by (simp add: NewRespErr_def)

lemma NewRespErr_fresh:
  assumes "errNo \<noteq> 0" and "i \<noteq> ArgNil" and "\<forall>a. i \<noteq> ArgResp (Some a)"
  shows "\<exists>r. NewRespErr gopath site errNo i h = (Some (length h), h @ [r]) \<and>
             re_errNo r = errNo \<and> re_err r = arg_cause i"
  using assms
  by (cases i) (auto simp: NewRespErr_def split: prod.splits option.splits)

text \<open>What a caller gets back: a valid pointer to an error with the requested number.\<close>

lemma NewRespErr_result:
  assumes "NewRespErr gopath site errNo i h = (p, h')" and "arg_ok h i"
  shows "ptr_ok h' p" and "p \<noteq> None \<Longrightarrow> RespErr_ErrNo h' p = errNo"
    and "p = None \<longleftrightarrow> errNo = 0 \<or> i = ArgNil"
  using assms
  by (cases i; auto simp: NewRespErr_def ptr_ok_def RespErr_ErrNo_def
        split: if_splits option.splits prod.splits)+

lemma NewRespErr_keeps_msg:
  assumes "NewRespErr gopath site errNo i h = (p, h')" and "a < length h"
  shows "RespErr_ErrMsg h' (Some a) = RespErr_ErrMsg h (Some a)"
proof -
  have upd: "re_err (h[b := (h ! b)\<lparr>re_errNo := errNo\<rparr>] ! a) = re_err (h ! a)" for b
    using assms(2) by (cases "a = b") simp_all
  have "re_err (h' ! a) = re_err (h ! a)"
    using assms
    by (cases i) (auto simp: NewRespErr_def upd nth_append
        split: if_splits option.splits prod.splits)
  then show ?thesis by (simp add: RespErr_ErrMsg_def)
qed

section \<open>Properties\<close>

text \<open>
  \<open>NewRespErr\<close> returns nil exactly for the number 0 or a nil cause, and otherwise a
  valid error with the requested number, whose cause is kept; the texts of all errors that
  existed before are as they were.
\<close>

theorem NewRespErr_spec:
  assumes "NewRespErr gopath site errNo i h = (p, h')" and "arg_ok h i"
  shows "(p = None \<longleftrightarrow> errNo = 0 \<or> i = ArgNil)
    \<and> ptr_ok h' p
    \<and> (p \<noteq> None \<longrightarrow> RespErr_ErrNo h' p = errNo)
    \<and> (\<forall>s. i = ArgStr s \<longrightarrow> p \<noteq> None \<longrightarrow> RespErr_ErrMsg h' p = s)
    \<and> (\<forall>a < length h. RespErr_ErrMsg h' (Some a) = RespErr_ErrMsg h (Some a))"
proof -
  have "p \<noteq> None \<Longrightarrow> i = ArgStr s \<Longrightarrow> RespErr_ErrMsg h' p = s" for s
    using NewRespErr_fresh [of errNo i gopath site h] assms(1)
      NewRespErr_result(3) [OF assms] by (auto simp: RespErr_ErrMsg_def)
  then show ?thesis
    using NewRespErr_result [OF assms] NewRespErr_keeps_msg [OF assms(1)] by blast
qed

theorem NewRespErr_spec_witness:
  "let (p, h) = NewRespErr [] (''a.go'', 7) 404 (ArgStr ''missing'') [] in
   RespErr_ErrNo h p = 404 \<and> RespErr_ErrMsg h p = ''missing''"
proof -
  obtain p h where r: "NewRespErr [] (''a.go'', 7) 404 (ArgStr ''missing'') [] = (p, h)"
    by fastforce
  from NewRespErr_spec [OF r] r show ?thesis by simp
qed

end
