(* ===== verification/HTTPContext.thy ===== *)
theory HTTPContext
  imports RedisCache RespError
begin

text \<open>
  \<open>context.go\<close>: the per-request context and its operations. The process state that requests
  share is the record \<open>app\<close>; \<open>'s\<close> is the state of the Redis server behind the sessions,
  \<open>'t\<close> a parsed template.
  Log output is left out. \<open>context.Context\<close> is represented by whether its cancel function
  has been called.
\<close>

section \<open>Shared state\<close>

record ('s, 't) app =
  ap_online :: "32 word"
  ap_wg :: int \<comment> \<open>the wait group of the signal context\<close>
  ap_errors :: error_map
  ap_sess_store :: "sess_store option"
  ap_default :: "client option" \<comment> \<open>\<open>redis.DefaultIns\<close>\<close>
  ap_srv :: 's
  ap_templates :: "string \<rightharpoonup> 't" \<comment> \<open>\<open>templatesCache\<close>\<close>

section \<open>HTTPContext\<close>

record http_ctx =
  hc_cancelled :: bool
  hc_isCanceled :: bool
  hc_HTTPStatus :: nat
  hc_ResponseWriter :: response_writer
  hc_Request :: http_request
  hc_Session :: "session option"
  hc_Layout :: string
  hc_Controller :: string
  hc_Action :: string
  hc_Path :: string
  hc_IsZip :: bool
  hc_IsError :: bool
  hc_Template :: string
  hc_TemplateFile :: string
  hc_Data :: "(string \<times> goval) list"
  hc_FuncMap :: "string list"
  hc_IsJSON :: bool
  hc_HasHeader :: bool
  hc_IsOnlyResults :: bool
  hc_ErrNo :: int
  hc_ErrMsg :: string
  hc_Results :: goval
  hc_Header :: goval
  hc_IsCloseRender :: bool
  hc_hijacked :: bool
  hc_traceID :: string
  hc_prefix :: string

definition blank_ctx :: "response_writer \<Rightarrow> http_request \<Rightarrow> string \<Rightarrow> http_ctx" where
  "blank_ctx w r trace =
     \<lparr>hc_cancelled = False, hc_isCanceled = False, hc_HTTPStatus = 0, hc_ResponseWriter = w,
      hc_Request = r, hc_Session = None, hc_Layout = [], hc_Controller = [], hc_Action = [],
      hc_Path = [], hc_IsZip = False, hc_IsError = False, hc_Template = [], hc_TemplateFile = [],
      hc_Data = [], hc_FuncMap = [], hc_IsJSON = False, hc_HasHeader = False,
      hc_IsOnlyResults = False, hc_ErrNo = 0, hc_ErrMsg = [], hc_Results = VNil, hc_Header = VNil,
      hc_IsCloseRender = False, hc_hijacked = False, hc_traceID = trace, hc_prefix = []\<rparr>"

definition WgAdd :: "('s, 't) app \<Rightarrow> ('s, 't) app" where "WgAdd st = st\<lparr>ap_wg := ap_wg st + 1\<rparr>"
definition WgDone :: "('s, 't) app \<Rightarrow> ('s, 't) app" where "WgDone st = st\<lparr>ap_wg := ap_wg st - 1\<rparr>"

definition initCtx ::
  "string \<Rightarrow> response_writer \<Rightarrow> http_request \<Rightarrow> ('s, 't) app \<Rightarrow> http_ctx \<times> ('s, 't) app" where
  "initCtx uuid w r st =
     ((blank_ctx w r (GetTraceIDFromRequest uuid r))\<lparr>hc_HTTPStatus := 200\<rparr>, WgAdd st)"

text \<open>The contexts outside a request have neither writer nor request; \<open>w0\<close>, \<open>r0\<close> stand for nil.\<close>

definition NewHTTPContext ::
  "string \<Rightarrow> response_writer \<Rightarrow> http_request \<Rightarrow> ('s, 't) app \<Rightarrow> http_ctx \<times> ('s, 't) app" where
  "NewHTTPContext uuid w0 r0 st = (blank_ctx w0 r0 (GetPureUUID uuid []), WgAdd st)"

text \<open>
  \<open>ctx.Ctx\<close> is read before the test for nil, after the wait group was raised; a context made
  by the package always has a logger.
\<close>

definition NewHTTPContextWithCtx ::
  "string \<Rightarrow> response_writer \<Rightarrow> http_request \<Rightarrow> http_ctx option \<Rightarrow> ('s, 't) app \<Rightarrow> http_ctx outcome \<times> ('s, 't) app" where
  "NewHTTPContextWithCtx uuid w0 r0 ctx st =
     (case ctx of
        None \<Rightarrow> (Panics nil_deref, WgAdd st)
      | Some c \<Rightarrow>
          (Returns ((blank_ctx w0 r0 (GetPureUUID uuid [hc_traceID c]))
             \<lparr>hc_cancelled := hc_cancelled c, hc_prefix := hc_prefix c\<rparr>), WgAdd st))"

text \<open>A gRPC context is an \<open>HTTPContext\<close> already, or one with metadata.\<close>

datatype grpc_ctx = IsHTTPContext http_ctx | GrpcMeta "string \<Rightarrow> string list"

definition NewHTTPContextWithGrpcIncomingCtx ::
  "string \<Rightarrow> response_writer \<Rightarrow> http_request \<Rightarrow> grpc_ctx \<Rightarrow> ('s, 't) app \<Rightarrow> http_ctx \<times> ('s, 't) app" where
  "NewHTTPContextWithGrpcIncomingCtx uuid w0 r0 ctx st =
     (case ctx of
        IsHTTPContext h \<Rightarrow> (h, st)
      | GrpcMeta md \<Rightarrow> (blank_ctx w0 r0 (GetTraceIDFromIncomingContext uuid md), WgAdd st))"

definition NewHTTPContextWithGrpcOutgoingCtx ::
  "string \<Rightarrow> response_writer \<Rightarrow> http_request \<Rightarrow> grpc_ctx \<Rightarrow> ('s, 't) app \<Rightarrow> http_ctx \<times> ('s, 't) app" where
  "NewHTTPContextWithGrpcOutgoingCtx uuid w0 r0 ctx st =
     (case ctx of
        IsHTTPContext h \<Rightarrow> (h, st)
      | GrpcMeta md \<Rightarrow> (blank_ctx w0 r0 (GetTraceIDFromOutgoingContext uuid md), WgAdd st))"

definition HTTPContext_Cancel :: "http_ctx \<Rightarrow> ('s, 't) app \<Rightarrow> http_ctx \<times> ('s, 't) app" where
  "HTTPContext_Cancel ctx st =
     (if hc_isCanceled ctx then (ctx, st)
      else (ctx\<lparr>hc_isCanceled := True, hc_cancelled := True\<rparr>, WgDone st))"

definition GetForm :: "http_ctx \<Rightarrow> string \<Rightarrow> string" where
  "GetForm ctx key = trim_space (first_value (rq_form (hc_Request ctx)) key)"

definition GetFormInt :: "http_ctx \<Rightarrow> string \<Rightarrow> int" where
  "GetFormInt ctx key = fst (atoi (GetForm ctx key))"

definition ErrStopRun :: goerr where "ErrStopRun = Sentinel ''user stop run''"

definition StopRun :: panic_value where "StopRun = PanicErr ErrStopRun"

text \<open>
  An operation on a context and the process state that may panic; what it did before stays.
\<close>

type_synonym ('s, 't) handler = "http_ctx \<Rightarrow> ('s, 't) app \<Rightarrow> unit outcome \<times> http_ctx \<times> ('s, 't) app"

text \<open>
  \<open>http.Redirect\<close> with an absolute URL: location and status, and for \<open>GET\<close> a short body.
\<close>

definition html_escape_char :: "char \<Rightarrow> string" where
  "html_escape_char c =
     (if c = CHR ''&'' then ''&amp;'' else if c = CHR ''<'' then ''&lt;''
      else if c = CHR ''>'' then ''&gt;'' else if c = CHR 0x22 then ''&#34;''
      else if c = CHR 0x27 then ''&#39;'' else [c])"

definition redirect_body :: "string \<Rightarrow> string" where
  "redirect_body url =
     ''<a href='' @ [CHR 0x22] @ concat (map html_escape_char url) @ [CHR 0x22]
       @ ''>Found</a>.'' @ [CHR 0x0A, CHR 0x0A]"

definition http_Found :: "string \<Rightarrow> http_request \<Rightarrow> response_writer \<Rightarrow> response_writer" where
  "http_Found url r w =
     (let hadCT = rw_header w ''Content-Type'' \<noteq> None;
          w1 = on_header (Header_Set ''Location'' url) w;
          w2 = (if \<not> hadCT \<and> rq_method r \<in> {''GET'', ''HEAD''}
                then on_header (Header_Set ''Content-Type'' ''text/html; charset=utf-8'') w1 else w1);
          w3 = WriteHeader 302 w2
      in if \<not> hadCT \<and> rq_method r = ''GET'' then write_body (redirect_body url) w3 else w3)"

definition HTTPContext_Redirect :: "string \<Rightarrow> ('s, 't) handler" where
  "HTTPContext_Redirect url ctx st =
     (Panics StopRun,
      ctx\<lparr>hc_ResponseWriter := http_Found url (hc_Request ctx) (hc_ResponseWriter ctx)\<rparr>, st)"

text \<open>
  Number and text of an error argument; \<open>h\<close> is the store of \<open>RespErr\<close> values. The number
  of an error with a code of its own replaces the one given.
\<close>

definition arg_errno :: "resp_store \<Rightarrow> int \<Rightarrow> err_arg \<Rightarrow> int \<times> string" where
  "arg_errno h errNo i =
     (case i of
        ArgResp p \<Rightarrow> (RespErr_ErrNo h p, RespErr_ErrMsg h p)
      | ArgErr e \<Rightarrow> (errNo, err_text e)
      | ArgStr s \<Rightarrow> (errNo, s)
      | ArgOther s \<Rightarrow> (errNo, s)
      | ArgNil \<Rightarrow> (errNo, []))"

definition based_errno :: "all_config \<Rightarrow> int \<Rightarrow> int" where
  "based_errno cfg errNo =
     (if errNo < ac_ErrorBase cfg \<and> 0 < ac_AppID cfg
      then i64 (i64 (ac_AppID cfg * ac_ErrorBase cfg) + errNo) else errNo)"

definition ThrowCheck :: "all_config \<Rightarrow> resp_store \<Rightarrow> int \<Rightarrow> err_arg \<Rightarrow> ('s, 't) handler" where
  "ThrowCheck cfg h errNo i ctx st =
     (if i = ArgNil \<or> errNo = 0 then (Returns (), ctx, st)
      else (let (n, msg) = arg_errno h errNo i;
                known = GetErrorMap (ap_errors st) n
            in (Panics StopRun,
                ctx\<lparr>hc_ErrMsg := (if known = [] then msg else known), hc_ErrNo := based_errno cfg n\<rparr>,
                st)))"

definition CheckErr ::
  "all_config \<Rightarrow> resp_store \<Rightarrow> int \<Rightarrow> err_arg \<Rightarrow> http_ctx \<Rightarrow> ('s, 't) app \<Rightarrow> (int \<times> string) \<times> http_ctx" where
  "CheckErr cfg h errNo i ctx st =
     (if i = ArgNil \<or> errNo = 0 then ((0, []), ctx)
      else (let (n, msg) = arg_errno h errNo i;
                known = GetErrorMap (ap_errors st) n
            in ((based_errno cfg n, if known \<noteq> [] then known else msg), ctx\<lparr>hc_ErrMsg := known\<rparr>)))"

definition SetDownloadMode :: "string \<Rightarrow> http_ctx \<Rightarrow> http_ctx" where
  "SetDownloadMode filename ctx =
     ctx\<lparr>hc_ResponseWriter :=
           on_header (Header_Set ''Content-Disposition'' (''attachment;filename='' @ CHR 0x22 # filename @ [CHR 0x22]))
             (hc_ResponseWriter ctx),
         hc_IsCloseRender := True\<rparr>"

definition GetCookie :: "http_ctx \<Rightarrow> string \<Rightarrow> string" where
  "GetCookie ctx key = (case Request_Cookie (hc_Request ctx) key of None \<Rightarrow> [] | Some v \<Rightarrow> v)"

definition SetCookie :: "string \<Rightarrow> string \<Rightarrow> http_ctx \<Rightarrow> http_ctx" where
  "SetCookie key val ctx =
     ctx\<lparr>hc_ResponseWriter :=
       http_SetCookie key val (rq_scheme (hc_Request ctx) = ''https'') (hc_ResponseWriter ctx)\<rparr>"

text \<open>What the writer's \<open>Hijack\<close> gives, \<open>None\<close> for a writer without it.\<close>

definition Hijack :: "(goerr + 'conn) option \<Rightarrow> http_ctx \<Rightarrow> ('conn option \<times> goerr option) \<times> http_ctx" where
  "Hijack hj ctx =
     (case hj of
        None \<Rightarrow> ((None, None), ctx\<lparr>hc_HTTPStatus := 500\<rparr>)
      | Some (Inl e) \<Rightarrow> ((None, Some e), ctx\<lparr>hc_HTTPStatus := 500\<rparr>)
      | Some (Inr conn) \<Rightarrow> ((Some conn, None), ctx\<lparr>hc_hijacked := True\<rparr>))"

section \<open>Facts\<close>

text \<open>What a context still owes the wait group.\<close>

definition owed :: "http_ctx \<Rightarrow> int" where
  "owed ctx = (if hc_isCanceled ctx then 0 else 1)"

lemma Cancel_settles:
  "HTTPContext_Cancel ctx st = (ctx', st') \<Longrightarrow>
   hc_isCanceled ctx' \<and> ap_wg st' = ap_wg st - owed ctx \<and> ap_online st' = ap_online st"
  by (auto simp: HTTPContext_Cancel_def owed_def WgDone_def split: if_splits)

lemma Cancel_twice:
  "HTTPContext_Cancel (fst (HTTPContext_Cancel ctx st)) (snd (HTTPContext_Cancel ctx st)) =
   HTTPContext_Cancel ctx st"
  by (simp add: HTTPContext_Cancel_def)

lemma ThrowCheck_none: "errNo = 0 \<or> i = ArgNil \<Longrightarrow> ThrowCheck cfg h errNo i ctx st = (Returns (), ctx, st)"
  by (auto simp: ThrowCheck_def)

lemma GetFormInt_range: "in_i64 (GetFormInt ctx key)"
  by (simp add: GetFormInt_def atoi_range)

text \<open>
  With the defaults of the configuration, an application's numbers stay apart from the small
  ones: a number below the base goes into the application's own block.
\<close>

lemma based_errno_block:
  assumes "0 < ac_AppID cfg" and "0 \<le> n" and "n < ac_ErrorBase cfg"
    and "(ac_AppID cfg + 1) * ac_ErrorBase cfg < 2 ^ 63"
  shows "based_errno cfg n = ac_AppID cfg * ac_ErrorBase cfg + n"
    and "based_errno cfg n div ac_ErrorBase cfg = ac_AppID cfg"
    and "based_errno cfg n mod ac_ErrorBase cfg = n"
proof -
  have "0 \<le> ac_AppID cfg * ac_ErrorBase cfg" using assms by simp
  moreover have "ac_AppID cfg * ac_ErrorBase cfg + n < 2 ^ 63"
    using assms(3,4) by (simp add: distrib_right)
  ultimately show e: "based_errno cfg n = ac_AppID cfg * ac_ErrorBase cfg + n"
    using assms by (simp add: based_errno_def)
  show "based_errno cfg n div ac_ErrorBase cfg = ac_AppID cfg"
    using assms unfolding e by simp
  show "based_errno cfg n mod ac_ErrorBase cfg = n"
    using assms unfolding e by simp
qed

end
