(* ===== verification/Encoding.thy ===== *)
theory Encoding
  imports Common
begin

text \<open>
  Package \<open>encoding\<close>: \<open>Snake\<close> of \<open>cased.go\<close> and the tolerant \<open>Str\<close> and
  \<open>Int\<close> of \<open>type.go\<close>. \<open>strconv.Quote\<close> leaves bytes above 127 as they are, which is
  what it does with printable text in UTF-8; \<open>strconv.Unquote\<close> is the one for double quotes,
  the only ones JSON has.
\<close>

section \<open>cased.go\<close>

definition is_upper_ascii :: "char \<Rightarrow> bool" where
  "is_upper_ascii c \<longleftrightarrow> in_range CHR ''A'' CHR ''Z'' c"

fun snake_from :: "bool \<Rightarrow> string \<Rightarrow> string" where
  "snake_from first [] = []"
| "snake_from first (c # cs) =
     (if is_upper_ascii c
      then (if first then [] else ''_'') @ char_of (of_char c + (32::nat)) # snake_from False cs
      else c # snake_from False cs)"

definition Snake :: "string \<Rightarrow> string" where
  "Snake name = snake_from True name"

section \<open>type.go\<close>

definition Backslash :: char where "Backslash = CHR 0x5C"
definition DQuote :: char where "DQuote = CHR 0x22"

definition hex_char :: "nat \<Rightarrow> char" where
  "hex_char n = ''0123456789abcdef'' ! (n mod 16)"

definition quote_char :: "char \<Rightarrow> string" where
  "quote_char c =
     (let n = (of_char c :: nat) in
      if c = Backslash \<or> c = DQuote then [Backslash, c]
      else if 32 \<le> n \<and> n \<noteq> 127 then [c]
      else if n = 7 then [Backslash, CHR ''a''] else if n = 8 then [Backslash, CHR ''b'']
      else if n = 9 then [Backslash, CHR ''t''] else if n = 10 then [Backslash, CHR ''n'']
      else if n = 11 then [Backslash, CHR ''v''] else if n = 12 then [Backslash, CHR ''f'']
      else if n = 13 then [Backslash, CHR ''r'']
      else [Backslash, CHR ''x'', hex_char (n div 16), hex_char (n mod 16)])"

definition quote_body :: "string \<Rightarrow> string" where
  "quote_body s = concat (map quote_char s)"

definition strconv_Quote :: "string \<Rightarrow> string" where
  "strconv_Quote s = DQuote # quote_body s @ [DQuote]"

definition hex_digit_value :: "char \<Rightarrow> nat option" where
  "hex_digit_value c =
     (if is_digit c then Some (of_char c - 48)
      else if in_range CHR ''a'' CHR ''f'' c then Some (of_char c - 87)
      else if in_range CHR ''A'' CHR ''F'' c then Some (of_char c - 55) else None)"

fun digits_value :: "(char \<Rightarrow> nat option) \<Rightarrow> nat \<Rightarrow> nat \<Rightarrow> string \<Rightarrow> nat option" where
  "digits_value dig base acc [] = Some acc"
| "digits_value dig base acc (c # cs) =
     (case dig c of None \<Rightarrow> None | Some d \<Rightarrow> digits_value dig base (base * acc + d) cs)"

definition octal_value :: "char \<Rightarrow> nat option" where
  "octal_value c = (if in_range CHR ''0'' CHR ''7'' c then Some (of_char c - 48) else None)"

text \<open>
  One escape after the backslash: the bytes it stands for and the number of characters it takes.
\<close>

definition escape_bytes :: "string \<Rightarrow> (string \<times> nat) option" where
  "escape_bytes s =
     (case s of
        [] \<Rightarrow> None
      | d # ds \<Rightarrow>
          if d = Backslash \<or> d = DQuote then Some ([d], 1)
          else if d = CHR ''a'' then Some ([char_of (7::nat)], 1)
          else if d = CHR ''b'' then Some ([char_of (8::nat)], 1)
          else if d = CHR ''t'' then Some ([char_of (9::nat)], 1)
          else if d = CHR ''n'' then Some ([char_of (10::nat)], 1)
          else if d = CHR ''v'' then Some ([char_of (11::nat)], 1)
          else if d = CHR ''f'' then Some ([char_of (12::nat)], 1)
          else if d = CHR ''r'' then Some ([char_of (13::nat)], 1)
          else if d = CHR ''x'' then
            (if length ds < 2 then None
             else map_option (\<lambda>v. ([char_of v], 3)) (digits_value hex_digit_value 16 0 (take 2 ds)))
          else if d = CHR ''u'' \<or> d = CHR ''U'' then
            (let w = (if d = CHR ''u'' then 4 else 8) in
             if length ds < w then None
             else case digits_value hex_digit_value 16 0 (take w ds) of
               None \<Rightarrow> None
             | Some v \<Rightarrow> if scalar_value v then Some (map char_of (EncodeRune v), Suc w) else None)
          else if octal_value d \<noteq> None then
            (if length ds < 2 then None
             else case digits_value octal_value 8 0 (d # take 2 ds) of
               None \<Rightarrow> None
             | Some v \<Rightarrow> if v > 255 then None else Some ([char_of v], 3))
          else None)"

text \<open>The body of a quoted string up to the closing quote, which must be the last character.\<close>

function unquote_body :: "string \<Rightarrow> string option" where
  "unquote_body [] = None"
| "unquote_body (c # cs) =
     (if c = DQuote then (if cs = [] then Some [] else None)
      else if c = CHR 0x0A then None
      else if c = Backslash then
        (case escape_bytes cs of
           None \<Rightarrow> None
         | Some (b, n) \<Rightarrow> map_option (\<lambda>t. b @ t) (unquote_body (drop n cs)))
      else map_option (\<lambda>t. c # t) (unquote_body cs))"
  by pat_completeness auto
termination
  by (relation "measure length") auto

definition strconv_Unquote :: "string \<Rightarrow> goerr + string" where
  "strconv_Unquote s =
     (case s of
        q # t \<Rightarrow> if q = DQuote then (case unquote_body t of Some r \<Rightarrow> Inr r | None \<Rightarrow> Inl ErrSyntax)
                else Inl ErrSyntax
      | [] \<Rightarrow> Inl ErrSyntax)"

definition unescape_slash :: "string \<Rightarrow> string" where
  "unescape_slash s = replace_all s [Backslash, CHR ''/''] ''/''"

definition Str_UnmarshalJSON :: "string \<Rightarrow> string \<times> goerr option" where
  "Str_UnmarshalJSON data =
     (case strconv_Unquote (unescape_slash data) of
        Inr s \<Rightarrow> (s, None)
      | Inl _ \<Rightarrow> (data, None))"

definition Str_MarshalJSON :: "string \<Rightarrow> string \<times> goerr option" where
  "Str_MarshalJSON a = (strconv_Quote a, None)"

text \<open>The old value \<open>a\<close> stays after an error.\<close>

definition Int_UnmarshalJSON :: "int \<Rightarrow> string \<Rightarrow> int \<times> goerr option" where
  "Int_UnmarshalJSON a data =
     (let (i, err) = (case strconv_Unquote (unescape_slash data) of
                        Inr s \<Rightarrow> atoi s | Inl _ \<Rightarrow> atoi data)
      in case err of Some e \<Rightarrow> (a, Some e) | None \<Rightarrow> (i, None))"

definition Int_MarshalJSON :: "int \<Rightarrow> string \<times> goerr option" where
  "Int_MarshalJSON a = (int_dec a, None)"

section \<open>Facts\<close>

lemma special_chars [simp]:
  "Backslash \<noteq> DQuote" "DQuote \<noteq> Backslash" "Backslash \<noteq> CHR 0x0A" "DQuote \<noteq> CHR ''/''"
  "Backslash \<noteq> CHR ''/''"
  by (simp_all add: Backslash_def DQuote_def)

lemma hex_char_cases:
  assumes "n < 16"
  shows "hex_digit_value (hex_char n) = Some n"
proof -
  have "\<forall>n \<in> set [0..<16]. hex_digit_value (hex_char n) = Some n" by code_simp
  with assms show ?thesis by simp
qed

lemma hex_byte:
  "n < 256 \<Longrightarrow> digits_value hex_digit_value 16 0 [hex_char (n div 16), hex_char (n mod 16)] = Some n"
  by (simp add: hex_char_cases less_mult_imp_div_less)

lemma escape_not_special:
  "c \<in> {CHR ''a'', CHR ''b'', CHR ''t'', CHR ''n'', CHR ''v'', CHR ''f'', CHR ''r'', CHR ''x''} \<Longrightarrow>
   c \<noteq> Backslash \<and> c \<noteq> DQuote"
  by (auto simp: Backslash_def DQuote_def)

lemma append_single [simp]: "(@) [a] = (#) a"
  by (simp add: fun_eq_iff)

lemma unquote_char: "unquote_body (quote_char c @ t) = map_option (\<lambda>r. c # r) (unquote_body t)"
proof -
  let ?n = "of_char c :: nat"
  have c: "char_of k = c" if "?n = k" for k using that by auto
  have n: "?n < 256" by simp
  have nl: "c \<noteq> CHR 0x0A" if "32 \<le> ?n" using that by auto
  consider "c = Backslash \<or> c = DQuote" | "c \<noteq> Backslash" "c \<noteq> DQuote" "32 \<le> ?n" "?n \<noteq> 127"
    | "c \<noteq> Backslash" "c \<noteq> DQuote" "?n \<in> {7,8,9,10,11,12,13}"
    | "c \<noteq> Backslash" "c \<noteq> DQuote" "\<not> (32 \<le> ?n \<and> ?n \<noteq> 127)" "?n \<notin> {7,8,9,10,11,12,13}"
    by fastforce
  then show ?thesis
  proof cases
    case 1
    then show ?thesis by (auto simp: quote_char_def escape_bytes_def)
  next
    case 2
    then show ?thesis using nl by (simp add: quote_char_def)
  next
    case 3
    then show ?thesis
      by (auto simp: quote_char_def escape_bytes_def escape_not_special c)
  next
    case 4
    then show ?thesis using c [OF refl] n
      by (simp add: quote_char_def escape_bytes_def escape_not_special Let_def hex_byte
          del: digits_value.simps)
  qed
qed

lemma unquote_quote: "unquote_body (quote_body s @ [DQuote]) = Some s"
  by (induction s) (simp_all add: quote_body_def unquote_char)

lemma Unquote_Quote [simp]: "strconv_Unquote (strconv_Quote s) = Inr s"
  by (simp add: strconv_Unquote_def strconv_Quote_def unquote_quote)

lemma has_prefix_two: "has_prefix s [a, b] \<longleftrightarrow> (\<exists>t. s = a # b # t)"
  by (auto simp: has_prefix_iff)

lemma replace_all_free:
  assumes "\<not> contains s old" and "old \<noteq> []"
  shows "replace_all s old new = s"
proof -
  have "split_from old acc s = [rev acc @ s]" for acc
    using assms by (induction old acc s rule: split_from.induct) auto
  then show ?thesis by (simp add: replace_all_def split_go_def)
qed

lemma no_backslash_slash: "Backslash \<notin> set s \<Longrightarrow> \<not> contains s [Backslash, CHR ''/'']"
proof (induction s)
  case (Cons c s)
  then show ?case by (auto simp: has_prefix_two)
qed simp

text \<open>
  A quoted text has no backslash before a slash unless it stems from a backslash before a slash.
\<close>

lemma contains_bs_slash_cons:
  "contains (c # s) [Backslash, CHR ''/''] \<longleftrightarrow>
   c = Backslash \<and> (\<exists>t. s = CHR ''/'' # t) \<or> contains s [Backslash, CHR ''/'']"
  by (auto simp: has_prefix_two)

lemma hex_char_plain: "hex_char n \<noteq> CHR ''/'' \<and> hex_char n \<noteq> Backslash"
proof -
  have "\<forall>n \<in> set [0..<16]. hex_char n \<noteq> CHR ''/'' \<and> hex_char n \<noteq> Backslash" by code_simp
  then have "hex_char (n mod 16) \<noteq> CHR ''/'' \<and> hex_char (n mod 16) \<noteq> Backslash" by simp
  then show ?thesis by (simp add: hex_char_def)
qed

lemma quote_char_first: "\<exists>r. quote_char c = CHR ''/'' # r \<Longrightarrow> c = CHR ''/''"
  by (auto simp: quote_char_def Let_def split: if_splits)

lemma quote_char_slash:
  assumes "\<not> contains t [Backslash, CHR ''/'']" and "c = Backslash \<Longrightarrow> \<not> (\<exists>r. t = CHR ''/'' # r)"
  shows "\<not> contains (quote_char c @ t) [Backslash, CHR ''/'']"
  using assms hex_char_plain
  by (auto simp: quote_char_def Let_def contains_bs_slash_cons simp del: contains.simps)
    (auto simp: Backslash_def)

lemma quote_body_head: "\<exists>r. quote_body s @ [DQuote] = CHR ''/'' # r \<Longrightarrow> \<exists>r. s = CHR ''/'' # r"
proof (cases s)
  case (Cons c cs)
  assume "\<exists>r. quote_body s @ [DQuote] = CHR ''/'' # r"
  moreover have "quote_char c \<noteq> []" by (simp add: quote_char_def Let_def)
  ultimately have "\<exists>r. quote_char c = CHR ''/'' # r"
    using Cons by (cases "quote_char c") (auto simp: quote_body_def)
  with Cons show ?thesis using quote_char_first by blast
qed (simp add: quote_body_def)

lemma quote_body_free:
  "\<not> contains s [Backslash, CHR ''/''] \<Longrightarrow> \<not> contains (quote_body s @ [DQuote]) [Backslash, CHR ''/'']"
proof (induction s)
  case Nil
  then show ?case by (simp add: quote_body_def has_prefix_two)
next
  case (Cons c cs)
  then have ih: "\<not> contains (quote_body cs @ [DQuote]) [Backslash, CHR ''/'']"
    by (auto simp: contains_bs_slash_cons simp del: contains.simps)
  moreover have "c = Backslash \<Longrightarrow> \<not> (\<exists>r. quote_body cs @ [DQuote] = CHR ''/'' # r)"
    using Cons.prems quote_body_head [of cs] by (auto simp: contains_bs_slash_cons simp del: contains.simps)
  ultimately show ?case
    using quote_char_slash [of "quote_body cs @ [DQuote]" c] by (simp add: quote_body_def)
qed

definition str_ok :: "string \<Rightarrow> bool" where
  "str_ok s \<longleftrightarrow> \<not> contains s [Backslash, CHR ''/'']"

lemma Str_roundtrip: "str_ok s \<Longrightarrow> fst (Str_UnmarshalJSON (fst (Str_MarshalJSON s))) = s"
proof -
  assume s: "str_ok s"
  from s have "\<not> contains (strconv_Quote s) [Backslash, CHR ''/'']"
    using quote_body_free [of s] by (simp add: str_ok_def strconv_Quote_def)
  then have "unescape_slash (strconv_Quote s) = strconv_Quote s"
    by (simp add: unescape_slash_def replace_all_free)
  then show ?thesis by (simp add: Str_UnmarshalJSON_def Str_MarshalJSON_def)
qed

definition str_unmarshal :: "string \<Rightarrow> string option" where
  "str_unmarshal d = (case Str_UnmarshalJSON d of (s, None) \<Rightarrow> Some s | (_, Some _) \<Rightarrow> None)"

lemma snd_Str_Unmarshal [simp]: "snd (Str_UnmarshalJSON d) = None"
  by (simp add: Str_UnmarshalJSON_def split: sum.split)

interpretation str_json: codec "\<lambda>s. fst (Str_MarshalJSON s)" str_unmarshal str_ok
proof
  fix s
  assume "str_ok s"
  then have "Str_UnmarshalJSON (fst (Str_MarshalJSON s)) = (s, None)"
    using Str_roundtrip [of s] by (simp add: prod_eq_iff)
  then show "str_unmarshal (fst (Str_MarshalJSON s)) = Some s" by (simp add: str_unmarshal_def)
qed

definition int_unmarshal :: "string \<Rightarrow> int option" where
  "int_unmarshal d = (case Int_UnmarshalJSON 0 d of (i, None) \<Rightarrow> Some i | (_, Some _) \<Rightarrow> None)"

lemma int_dec_plain: "c \<in> set (int_dec i) \<Longrightarrow> c \<noteq> Backslash \<and> c \<noteq> DQuote"
  using int_dec_chars [of c i]
  by (auto simp: Backslash_def DQuote_def is_digit_def less_eq_char_def)

lemma unescape_int_dec [simp]: "unescape_slash (int_dec i) = int_dec i"
proof -
  have "Backslash \<notin> set (int_dec i)" using int_dec_plain by blast
  from no_backslash_slash [OF this] show ?thesis by (simp add: unescape_slash_def replace_all_free)
qed

lemma unquote_int_dec: "strconv_Unquote (int_dec i) = Inl ErrSyntax"
proof (cases "int_dec i")
  case (Cons c cs)
  then have "c \<noteq> DQuote" using int_dec_plain [of c i] by simp
  with Cons show ?thesis by (simp add: strconv_Unquote_def)
qed (simp add: strconv_Unquote_def)

lemma quote_body_plain: "\<forall>c \<in> set s. is_digit c \<or> c = CHR ''-'' \<Longrightarrow> quote_body s = s"
proof (induction s)
  case (Cons c s)
  then have "quote_char c = [c]"
    by (auto simp: quote_char_def Let_def Backslash_def DQuote_def is_digit_def less_eq_char_def)
  with Cons show ?case by (simp add: quote_body_def)
qed (simp add: quote_body_def)

lemma unescape_quoted_int [simp]:
  "unescape_slash (strconv_Quote (int_dec i)) = strconv_Quote (int_dec i)"
proof -
  have "Backslash \<notin> set (strconv_Quote (int_dec i))"
    using int_dec_plain int_dec_chars [of _ i]
    by (subst strconv_Quote_def, subst quote_body_plain) auto
  from no_backslash_slash [OF this] show ?thesis by (simp add: unescape_slash_def replace_all_free)
qed

interpretation int_json: codec "\<lambda>i. fst (Int_MarshalJSON i)" int_unmarshal in_i64
  by unfold_locales
    (simp add: int_unmarshal_def Int_UnmarshalJSON_def Int_MarshalJSON_def unquote_int_dec atoi_int_dec)

section \<open>Properties\<close>

text \<open>
  The tolerant integer reads both JSON forms of every 64-bit number, the number and the
  string of its digits, keeps its old value after an error, and what it writes it reads back.
\<close>

theorem Int_json_forms:
  assumes "in_i64 i"
  shows "Int_UnmarshalJSON a (fst (Int_MarshalJSON i)) = (i, None) \<and>
         Int_UnmarshalJSON a (strconv_Quote (int_dec i)) = (i, None) \<and>
         (snd (Int_UnmarshalJSON a d) \<noteq> None \<longrightarrow> fst (Int_UnmarshalJSON a d) = a)"
  using assms
  by (auto simp: Int_UnmarshalJSON_def Int_MarshalJSON_def unquote_int_dec atoi_int_dec
      split: option.splits sum.splits prod.splits)

theorem Int_json_forms_witness:
  "Int_UnmarshalJSON 0 (strconv_Quote (int_dec (- 42))) = (- 42, None)"
  using Int_json_forms [of "- 42" 0] by (simp add: in_i64_def)

text \<open>
  The tolerant string reads back what it writes, whatever control characters, quotes and
  backslashes the text has, unless a backslash stands before a slash; there \<open>UnmarshalJSON\<close>
  takes the pair for an escaped slash and the text comes back changed. A bare number is kept as its text.
\<close>

theorem Str_json_roundtrip:
  "(str_ok s \<longrightarrow> Str_UnmarshalJSON (fst (Str_MarshalJSON s)) = (s, None)) \<and>
   Str_UnmarshalJSON (fst (Str_MarshalJSON [Backslash, CHR ''/''])) \<noteq> ([Backslash, CHR ''/''], None) \<and>
   Str_UnmarshalJSON (int_dec i) = (int_dec i, None)"
proof (intro conjI impI)
  assume "str_ok s"
  then show "Str_UnmarshalJSON (fst (Str_MarshalJSON s)) = (s, None)"
    using Str_roundtrip [of s] by (simp add: prod_eq_iff)
next
  show "Str_UnmarshalJSON (fst (Str_MarshalJSON [Backslash, CHR ''/''])) \<noteq> ([Backslash, CHR ''/''], None)"
    by (simp add: Str_UnmarshalJSON_def Str_MarshalJSON_def strconv_Quote_def quote_body_def
        quote_char_def unescape_slash_def replace_all_def split_go_def Backslash_def DQuote_def
        strconv_Unquote_def escape_bytes_def octal_value_def less_eq_char_def)
qed (simp add: Str_UnmarshalJSON_def unquote_int_dec)

theorem Str_json_roundtrip_witness:
  "Str_UnmarshalJSON (fst (Str_MarshalJSON ''a b'')) = (''a b'', None)"
  using Str_json_roundtrip [of "''a b''"] by (simp add: str_ok_def has_prefix_def Backslash_def)

end
