(* ===== verification/Route.thy ===== *)
theory Route
  imports HTTPContext Encoding
begin

text \<open>
  \<open>router\_map.go\<close> and the registration in \<open>router.go\<close>: the route tables and the search.
  \<open>'h\<close> is the reflected controller value; its exported method names come in the order
  \<open>reflect\<close> lists them.
\<close>

record 'h route_instance =
  in_reflectVal :: 'h
  in_controllerName :: string
  in_methodName :: string

definition NotFound :: string where "NotFound = ''NotFound''"

record 'h route_tables =
  ro_isInit :: bool
  ro_map :: "string \<rightharpoonup> 'h route_instance" \<comment> \<open>\<open>routeMap\<close>\<close>
  ro_method :: "string \<rightharpoonup> 'h route_instance" \<comment> \<open>\<open>routeMapMethod\<close>\<close>
  ro_register :: "string \<rightharpoonup> string" \<comment> \<open>\<open>routeMapRegister\<close>\<close>
  ro_default :: "'h route_instance option" \<comment> \<open>\<open>defaultInstance\<close>\<close>

definition empty_tables :: "'h route_tables" where
  "empty_tables =
     \<lparr>ro_isInit = False, ro_map = Map.empty, ro_method = Map.empty, ro_register = Map.empty,
      ro_default = None\<rparr>"

record 'h controller =
  ct_reflectVal :: 'h
  ct_name :: string
  ct_methods :: "string list"

definition completeURL :: "route_config \<Rightarrow> string \<Rightarrow> string" where
  "completeURL cfg url =
     (let trimURL = trim_cut (to_lower url) ''/'' in
      if trimURL = [] then rt_DefaultController cfg else trimURL)"

definition http_methods :: "string list" where
  "http_methods = [''OPTIONS'', ''GET'', ''HEAD'', ''POST'', ''PUT'', ''DELETE'', ''TRACE'', ''CONNECT'']"

definition getActionsAndMethod :: "string \<Rightarrow> string list \<times> string \<times> bool" where
  "getActionsAndMethod funcName =
     (if funcName = [] then ([], [], False)
      else (let tmp = split_go funcName ''For'';
                m = last tmp;
                isMethod = (length tmp > 1 \<and> m \<in> set http_methods);
                method = (if isMethod then m else []);
                action = (if isMethod then trim_suffix funcName (''For'' @ m) else funcName);
                lower = to_lower action;
                snake = Snake action
            in (if lower \<noteq> snake then [lower, snake] else [lower], method, isMethod)))"

definition lifecycle_methods :: "string list" where
  "lifecycle_methods = [''Init'', ''Before'', ''After'', ''Finish'', ''NotFound'', ''ServerError'']"

definition method_path :: "string \<Rightarrow> string \<Rightarrow> string \<Rightarrow> string" where
  "method_path controllerPath action method = controllerPath @ ''/'' @ action @ ''for'' @ method"

definition plain_path :: "string \<Rightarrow> string \<Rightarrow> string" where
  "plain_path controllerPath action = controllerPath @ ''/'' @ action"

text \<open>The two inner loops of \<open>Handler\<close>; a panic leaves what was registered before it.\<close>

fun register_actions ::
  "string \<Rightarrow> bool \<Rightarrow> string \<Rightarrow> 'h route_instance \<Rightarrow> string list \<Rightarrow> 'h route_tables \<Rightarrow> unit outcome \<times> 'h route_tables" where
  "register_actions cp isMethod method v [] t = (Returns (), t)"
| "register_actions cp isMethod method v (a # as) t =
     (if isMethod then
        (let path = method_path cp a method in
         if ro_method t path \<noteq> None then (Panics (PanicMsg (path @ ''has exist'')), t)
         else register_actions cp isMethod method v as (t\<lparr>ro_method := (ro_method t)(path \<mapsto> v)\<rparr>))
      else
        (let path = plain_path cp a in
         if ro_map t path \<noteq> None then (Panics (PanicMsg (path @ ''has exist'')), t)
         else register_actions cp isMethod method v as (t\<lparr>ro_map := (ro_map t)(path \<mapsto> v)\<rparr>)))"

definition register_method ::
  "string \<Rightarrow> 'h \<Rightarrow> string \<Rightarrow> string \<Rightarrow> 'h route_tables \<Rightarrow> unit outcome \<times> 'h route_tables" where
  "register_method cp val name m t =
     (let (actions, method, isMethod) = getActionsAndMethod m;
          v = \<lparr>in_reflectVal = val, in_controllerName = name, in_methodName = m\<rparr>
      in register_actions cp isMethod method v actions
           (if ro_default t = None then t\<lparr>ro_default := Some v\<rparr> else t))"

fun register_methods ::
  "string \<Rightarrow> 'h \<Rightarrow> string \<Rightarrow> string list \<Rightarrow> 'h route_tables \<Rightarrow> unit outcome \<times> 'h route_tables" where
  "register_methods cp val name [] t = (Returns (), t)"
| "register_methods cp val name (m # ms) t =
     (if m \<in> set lifecycle_methods then register_methods cp val name ms t
      else case register_method cp val name m t of
             (Panics p, t2) \<Rightarrow> (Panics p, t2)
           | (Returns _, t2) \<Rightarrow> register_methods cp val name ms t2)"

definition Handler ::
  "route_config \<Rightarrow> string \<Rightarrow> 'h controller \<Rightarrow> 'h route_tables \<Rightarrow> unit outcome \<times> 'h route_tables" where
  "Handler cfg pattern c t0 =
     (let t = t0\<lparr>ro_isInit := True\<rparr>;
          controllerPath = completeURL cfg pattern
      in case ro_register t controllerPath of
           Some n \<Rightarrow>
             if n \<noteq> ct_name c
             then (Panics (PanicMsg (pattern @ '' has register controller:'' @ n)), t)
             else (Returns (), t)
         | None \<Rightarrow>
             register_methods controllerPath (ct_reflectVal c) (ct_name c) (ct_methods c)
               (t\<lparr>ro_register := (ro_register t)(controllerPath \<mapsto> ct_name c)\<rparr>))"

section \<open>The search\<close>

text \<open>One try: the table with the request's method first, then the plain one.\<close>

definition lookup_route :: "'h route_tables \<Rightarrow> string \<Rightarrow> string \<Rightarrow> 'h route_instance option" where
  "lookup_route t path method =
     (case ro_method t (path @ ''for'' @ method) of Some i \<Rightarrow> Some i | None \<Rightarrow> ro_map t path)"

text \<open>
  The result is the instance (nil when there is no default one, which makes the deferred
  function panic) and the method to call, with the context as the search leaves it.
\<close>

definition found :: "'h route_instance \<Rightarrow> string \<Rightarrow> http_ctx \<Rightarrow> ('h route_instance \<times> string) outcome \<times> http_ctx" where
  "found i action ctx =
     (Returns (i, action), ctx\<lparr>hc_Controller := in_controllerName i, hc_Action := action\<rparr>)"

definition findInstanceByPath ::
  "route_config \<Rightarrow> 'h route_tables \<Rightarrow> http_ctx \<Rightarrow> ('h route_instance \<times> string) outcome \<times> http_ctx" where
  "findInstanceByPath cfg t ctx =
     (let inputPath = (if hc_Path ctx = [] then rq_path (hc_Request ctx) else hc_Path ctx);
          method = rq_method (hc_Request ctx);
          controllerPath = completeURL cfg inputPath;
          ctx1 = ctx\<lparr>hc_Action := rt_DefaultAction cfg,
                     hc_Path := controllerPath @ ''/'' @ rt_DefaultAction cfg\<rparr>
      in case lookup_route t (hc_Path ctx1) method of
           Some i \<Rightarrow> found i (in_methodName i) ctx1
         | None \<Rightarrow>
             (let tmp = split_go controllerPath ''/'';
                  cp2 = join_go (butlast tmp) ''/'';
                  ctx2 = ctx1\<lparr>hc_Action := last tmp, hc_Path := cp2 @ ''/'' @ last tmp\<rparr>
              in case lookup_route t (hc_Path ctx2) method of
                   Some i \<Rightarrow> found i (in_methodName i) ctx2
                 | None \<Rightarrow>
                     (let ctx3 = ctx2\<lparr>hc_Action := to_lower NotFound\<rparr> in
                      case ro_default t of
                        Some i \<Rightarrow> found i NotFound ctx3
                      | None \<Rightarrow> (Panics nil_deref, ctx3))))"

definition dispatch_path :: "http_ctx \<Rightarrow> string" where
  "dispatch_path ctx = ''C:'' @ hc_Controller ctx @ '' M:'' @ hc_Action ctx"

section \<open>Facts about registration\<close>

text \<open>
  Both tables only hold instances, and when one is not empty there is a default instance.
\<close>

definition tables_ok :: "'h route_tables \<Rightarrow> bool" where
  "tables_ok t \<longleftrightarrow> (ro_default t = None \<longrightarrow> ro_map t = Map.empty \<and> ro_method t = Map.empty)"

lemma tables_ok_empty: "tables_ok empty_tables"
  by (simp add: tables_ok_def empty_tables_def)

lemma register_actions_default:
  "register_actions cp im me v as t = (r, t') \<Longrightarrow> ro_default t' = ro_default t"
  by (induction cp im me v as t rule: register_actions.induct)
    (auto simp: Let_def split: if_splits)

text \<open>Registration only ever adds routes.\<close>

definition extends :: "'h route_tables \<Rightarrow> 'h route_tables \<Rightarrow> bool" where
  "extends t t' \<longleftrightarrow>
     ro_map t \<subseteq>\<^sub>m ro_map t' \<and> ro_method t \<subseteq>\<^sub>m ro_method t' \<and> ro_register t \<subseteq>\<^sub>m ro_register t' \<and>
     (ro_default t \<noteq> None \<longrightarrow> ro_default t' = ro_default t)"

lemma extends_refl [simp]: "extends t t"
  by (simp add: extends_def)

lemma extends_trans: "extends t u \<Longrightarrow> extends u v \<Longrightarrow> extends t v"
  unfolding extends_def by (auto intro: map_le_trans)

lemma map_le_new: "m k = None \<Longrightarrow> m \<subseteq>\<^sub>m m(k \<mapsto> v)"
  by (auto simp: map_le_def)

lemma register_actions_extends:
  "register_actions cp im me v as t = (r, t') \<Longrightarrow> extends t t'"
proof (induction cp im me v as t rule: register_actions.induct)
  case (2 cp im me v a as t)
  let ?t1 = "if im then t\<lparr>ro_method := (ro_method t)(method_path cp a me \<mapsto> v)\<rparr>
             else t\<lparr>ro_map := (ro_map t)(plain_path cp a \<mapsto> v)\<rparr>"
  show ?case
  proof (cases "if im then ro_method t (method_path cp a me) \<noteq> None else ro_map t (plain_path cp a) \<noteq> None")
    case True
    with "2.prems" show ?thesis by (auto simp: Let_def split: if_splits)
  next
    case False
    then have "extends t ?t1" by (auto simp: extends_def map_le_new split: if_splits)
    moreover have "extends ?t1 t'" using 2 False by (auto simp: Let_def split: if_splits)
    ultimately show ?thesis by (rule extends_trans)
  qed
qed simp

lemma register_method_ok:
  assumes "register_method cp val name m t = (r, t')"
  shows "tables_ok t' \<and> extends t t'"
proof -
  obtain as me im where g: "getActionsAndMethod m = (as, me, im)" by (metis prod.exhaust)
  define v where "v = \<lparr>in_reflectVal = val, in_controllerName = name, in_methodName = m\<rparr>"
  define t1 where "t1 = (if ro_default t = None then t\<lparr>ro_default := Some v\<rparr> else t)"
  have a: "register_actions cp im me v as t1 = (r, t')"
    using assms unfolding v_def t1_def by (simp only: register_method_def g Let_def prod.case)
  have "ro_default t' \<noteq> None"
    unfolding register_actions_default [OF a] by (simp add: t1_def)
  moreover have "extends t t1" by (simp add: t1_def extends_def)
  ultimately show ?thesis
    using register_actions_extends [OF a] extends_trans by (auto simp: tables_ok_def)
qed

lemma register_methods_ok:
  "register_methods cp val name ms t = (r, t') \<Longrightarrow> tables_ok t \<Longrightarrow> tables_ok t' \<and> extends t t'"
proof (induction ms arbitrary: t)
  case (Cons m ms)
  show ?case
  proof (cases "m \<in> set lifecycle_methods")
    case False
    obtain r2 t2 where a: "register_method cp val name m t = (r2, t2)" by (metis prod.exhaust)
    from register_method_ok [OF a] have t2: "tables_ok t2" "extends t t2" by auto
    show ?thesis
    proof (cases r2)
      case (Returns x)
      with Cons.prems(1) False a have "register_methods cp val name ms t2 = (r, t')" by simp
      with Cons.IH t2 extends_trans show ?thesis by blast
    qed (use Cons.prems(1) False a t2 in auto)
  qed (use Cons in auto)
qed auto

lemma Handler_ok:
  assumes "Handler cfg pattern c t = (r, t')" and "tables_ok t"
  shows "tables_ok t' \<and> extends t t'"
proof (cases "ro_register t (completeURL cfg pattern)")
  case None
  let ?t = "t\<lparr>ro_isInit := True, ro_register := (ro_register t)(completeURL cfg pattern \<mapsto> ct_name c)\<rparr>"
  have "tables_ok ?t" "extends t ?t"
    using assms(2) None by (auto simp: tables_ok_def extends_def map_le_new)
  moreover have "register_methods (completeURL cfg pattern) (ct_reflectVal c) (ct_name c) (ct_methods c) ?t = (r, t')"
    using assms(1) None by (simp add: Handler_def Let_def)
  ultimately show ?thesis
    using register_methods_ok [of _ _ _ _ ?t r t'] extends_trans [of t ?t t'] by simp
next
  case (Some n)
  with assms(1) have "t' = t\<lparr>ro_isInit := True\<rparr>"
    by (simp add: Handler_def Let_def split: if_splits)
  with assms(2) show ?thesis by (simp add: tables_ok_def extends_def)
qed

text \<open>The entry that a method is registered under, in the table of its kind.\<close>

definition entry :: "'h route_tables \<Rightarrow> string \<Rightarrow> bool \<Rightarrow> string \<Rightarrow> string \<Rightarrow> 'h route_instance option" where
  "entry t cp im me a = (if im then ro_method t (method_path cp a me) else ro_map t (plain_path cp a))"

lemma entry_extends: "extends t t' \<Longrightarrow> entry t cp im me a = Some v \<Longrightarrow> entry t' cp im me a = Some v"
  by (auto simp: entry_def extends_def map_le_def dom_def split: if_splits)

lemma register_actions_entry:
  "register_actions cp im me v as t = (Returns x, t') \<Longrightarrow> a \<in> set as \<Longrightarrow> entry t' cp im me a = Some v"
proof (induction as arbitrary: t)
  case (Cons b as)
  define t1 where "t1 = (if im then t\<lparr>ro_method := (ro_method t)(method_path cp b me \<mapsto> v)\<rparr>
                         else t\<lparr>ro_map := (ro_map t)(plain_path cp b \<mapsto> v)\<rparr>)"
  have r: "register_actions cp im me v as t1 = (Returns x, t')"
    using Cons.prems(1) by (auto simp: t1_def Let_def split: if_splits)
  have "entry t1 cp im me b = Some v" by (simp add: entry_def t1_def)
  with register_actions_extends [OF r] have "entry t' cp im me b = Some v" by (rule entry_extends)
  with Cons r show ?case by auto
qed simp

lemma register_methods_entry:
  "register_methods cp val name ms t = (Returns x, t') \<Longrightarrow> m \<in> set ms \<Longrightarrow> m \<notin> set lifecycle_methods \<Longrightarrow>
   getActionsAndMethod m = (as, me, im) \<Longrightarrow> a \<in> set as \<Longrightarrow> tables_ok t \<Longrightarrow>
   entry t' cp im me a = Some \<lparr>in_reflectVal = val, in_controllerName = name, in_methodName = m\<rparr>"
proof (induction ms arbitrary: t)
  case (Cons n ms)
  show ?case
  proof (cases "n \<in> set lifecycle_methods")
    case False
    obtain r2 t2 where a: "register_method cp val name n t = (r2, t2)" by (metis prod.exhaust)
    with Cons.prems(1) False obtain y where r2: "r2 = Returns y"
      and rest: "register_methods cp val name ms t2 = (Returns x, t')" by (auto split: outcome.splits)
    have t2: "tables_ok t2" using register_method_ok [OF a] by simp
    show ?thesis
    proof (cases "m = n")
      case True
      have "entry t2 cp im me a = Some \<lparr>in_reflectVal = val, in_controllerName = name, in_methodName = m\<rparr>"
        using a r2 Cons.prems(4,5) True register_actions_entry
        by (simp add: register_method_def Let_def)
      moreover have "extends t2 t'" using register_methods_ok [OF rest t2] by simp
      ultimately show ?thesis using entry_extends by blast
    next
      case False
      with Cons rest t2 show ?thesis by auto
    qed
  qed (use Cons in auto)
qed simp

definition new_registration :: "route_config \<Rightarrow> string \<Rightarrow> 'h route_tables \<Rightarrow> bool" where
  "new_registration cfg pattern t \<longleftrightarrow> ro_register t (completeURL cfg pattern) = None"

lemma Handler_entry:
  assumes "Handler cfg pattern c t = (Returns x, t')" and "new_registration cfg pattern t"
    and "tables_ok t" and "m \<in> set (ct_methods c)" and "m \<notin> set lifecycle_methods"
    and "getActionsAndMethod m = (as, me, im)" and "a \<in> set as"
  shows "entry t' (completeURL cfg pattern) im me a =
         Some \<lparr>in_reflectVal = ct_reflectVal c, in_controllerName = ct_name c, in_methodName = m\<rparr>"
proof -
  let ?t = "t\<lparr>ro_isInit := True, ro_register := (ro_register t)(completeURL cfg pattern \<mapsto> ct_name c)\<rparr>"
  have ok: "tables_ok ?t" using assms(3) by (simp add: tables_ok_def)
  have r: "register_methods (completeURL cfg pattern) (ct_reflectVal c) (ct_name c) (ct_methods c) ?t
      = (Returns x, t')"
    using assms(1,2) by (simp add: Handler_def Let_def new_registration_def)
  show ?thesis by (rule register_methods_entry [OF r assms(4-7) ok])
qed

text \<open>Any number of further registrations, whether they panic or not.\<close>

definition Handler_all ::
  "route_config \<Rightarrow> (string \<times> 'h controller) list \<Rightarrow> 'h route_tables \<Rightarrow> 'h route_tables" where
  "Handler_all cfg cs t = fold (\<lambda>(p, c) t. snd (Handler cfg p c t)) cs t"

lemma Handler_all_ok: "tables_ok t \<Longrightarrow> tables_ok (Handler_all cfg cs t) \<and> extends t (Handler_all cfg cs t)"
proof (induction cs arbitrary: t)
  case (Cons pc cs)
  obtain p c where pc: "pc = (p, c)" by (cases pc)
  obtain r t1 where h: "Handler cfg p c t = (r, t1)" by (cases "Handler cfg p c t")
  from Handler_ok [OF h Cons.prems] Cons.IH [of t1] show ?case
    using extends_trans [of t t1] by (simp add: Handler_all_def pc h)
qed (simp add: Handler_all_def)

section \<open>Facts about the search\<close>

lemma split_last_slash:
  assumes "CHR ''/'' \<notin> set a"
  shows "last (split_go (cp @ CHR ''/'' # a) ''/'') = a"
    and "join_go (butlast (split_go (cp @ CHR ''/'' # a) ''/'')) ''/'' = cp"
proof -
  define xs where "xs = split_go cp ''/''"
  have xs: "xs \<noteq> []" "\<forall>x \<in> set xs. CHR ''/'' \<notin> set x" "join_go xs ''/'' = cp"
    using split_parts [of _ cp "CHR ''/''"] by (auto simp: xs_def)
  have "join_go (xs @ [a]) ''/'' = cp @ ''/'' @ a"
    using xs(1,3) by (induction xs "''/''" arbitrary: cp rule: join_go.induct) auto
  then have "split_go (cp @ ''/'' @ a) ''/'' = xs @ [a]"
    using split_join [of "xs @ [a]" "CHR ''/''"] xs(2) assms by auto
  then show "last (split_go (cp @ CHR ''/'' # a) ''/'') = a"
    and "join_go (butlast (split_go (cp @ CHR ''/'' # a) ''/'')) ''/'' = cp"
    using xs(3) by simp_all
qed

text \<open>The outcome of the search for a path of the form controller, slash, action.\<close>

lemma find_two_parts:
  assumes "hc_Path ctx = []" and "completeURL cfg (rq_path (hc_Request ctx)) = cp @ ''/'' @ a"
    and "CHR ''/'' \<notin> set a"
    and "lookup_route t (cp @ ''/'' @ a @ ''/'' @ rt_DefaultAction cfg) (rq_method (hc_Request ctx)) = None"
    and "lookup_route t (cp @ ''/'' @ a) (rq_method (hc_Request ctx)) = Some i"
  shows "fst (findInstanceByPath cfg t ctx) = Returns (i, in_methodName i)"
  using assms by (simp add: findInstanceByPath_def Let_def split_last_slash found_def)

lemma find_total:
  assumes "tables_ok t" and "ro_map t \<noteq> Map.empty \<or> ro_method t \<noteq> Map.empty"
  shows "\<exists>i m. fst (findInstanceByPath cfg t ctx) = Returns (i, m) \<and> (m = in_methodName i \<or> m = NotFound)"
proof -
  from assms obtain d where "ro_default t = Some d" by (auto simp: tables_ok_def)
  then show ?thesis
    by (auto simp: findInstanceByPath_def Let_def found_def split: option.split)
qed

lemma find_result:
  assumes "findInstanceByPath cfg t ctx = (Returns (i, m), ctx')"
  shows "hc_Controller ctx' = in_controllerName i" and "hc_Action ctx' = m"
    and "hc_isCanceled ctx' = hc_isCanceled ctx" and "hc_ResponseWriter ctx' = hc_ResponseWriter ctx"
    and "hc_HTTPStatus ctx' = hc_HTTPStatus ctx" and "hc_Request ctx' = hc_Request ctx"
  using assms
  by (auto simp: findInstanceByPath_def Let_def found_def split: option.splits)

section \<open>Properties\<close>

text \<open>
  C6. A registered method is reached: when a controller has been registered at a pattern, then,
  whatever is registered afterwards, a request whose path is the pattern and one of the method's
  action names, and whose method is the one the name asks for, is routed to that method of that
  controller, unless a default action is registered for the whole path or, for a method without
  a request method in its name, a more specific one for the same action.
\<close>

theorem registered_method_is_found:
  assumes "Handler cfg pattern c t = (Returns x, t1)" and "new_registration cfg pattern t" and "tables_ok t"
    and "m \<in> set (ct_methods c)" and "m \<notin> set lifecycle_methods"
    and "getActionsAndMethod m = (as, me, im)" and "a \<in> set as" and "CHR ''/'' \<notin> set a"
    and "hc_Path ctx = []"
    and "completeURL cfg (rq_path (hc_Request ctx)) = completeURL cfg pattern @ ''/'' @ a"
    and "lookup_route (Handler_all cfg others t1)
           (completeURL cfg pattern @ ''/'' @ a @ ''/'' @ rt_DefaultAction cfg)
           (rq_method (hc_Request ctx)) = None"
    and "if im then rq_method (hc_Request ctx) = me
         else ro_method (Handler_all cfg others t1)
                (method_path (completeURL cfg pattern) a (rq_method (hc_Request ctx))) = None"
  shows "fst (findInstanceByPath cfg (Handler_all cfg others t1) ctx) =
         Returns (\<lparr>in_reflectVal = ct_reflectVal c, in_controllerName = ct_name c, in_methodName = m\<rparr>, m)"
proof -
  let ?t = "Handler_all cfg others t1" and ?cp = "completeURL cfg pattern"
  let ?v = "\<lparr>in_reflectVal = ct_reflectVal c, in_controllerName = ct_name c, in_methodName = m\<rparr>"
  have "tables_ok t1" using Handler_ok [OF assms(1,3)] by simp
  then have "entry ?t ?cp im me a = Some ?v"
    using Handler_entry [OF assms(1-7)] Handler_all_ok entry_extends by blast
  then have "lookup_route ?t (?cp @ ''/'' @ a) (rq_method (hc_Request ctx)) = Some ?v"
    using assms(12)
    by (auto simp: lookup_route_def entry_def method_path_def plain_path_def split: if_splits)
  from find_two_parts [OF assms(9,10,8,11) this] show ?thesis by simp
qed

definition sample_routes :: route_config where
  "sample_routes = \<lparr>rt_DefaultController = ''index'', rt_DefaultAction = ''index''\<rparr>"

definition sample_controller :: "nat controller" where
  "sample_controller =
     \<lparr>ct_reflectVal = 7, ct_name = ''User'', ct_methods = [''After'', ''GetInfoForPOST'', ''Init'']\<rparr>"

definition sample_request :: http_request where
  "sample_request =
     \<lparr>rq_method = ''POST'', rq_proto_major = 1, rq_host = ''h'', rq_scheme = [], rq_url_host = [],
      rq_path = ''/User/Get_info/'', rq_raw_query = [], rq_query = [], rq_form = [],
      rq_header = Map.empty, rq_cookies = [], rq_remote_addr = []\<rparr>"

lemma sample_actions:
  "getActionsAndMethod ''GetInfoForPOST'' = ([''getinfo'', ''get_info''], ''POST'', True)"
  by (simp add: getActionsAndMethod_def Let_def split_go_def has_prefix_def http_methods_def
      trim_suffix_def has_suffix_def to_lower_def lower_char_def less_eq_char_def Snake_def
      is_upper_ascii_def char_of_def bit_0)

lemma sample_paths:
  "completeURL sample_routes ''/user'' = ''user''"
  "completeURL sample_routes ''/User/Get_info/'' = ''user/get_info''"
  by (simp_all add: completeURL_def to_lower_def lower_char_def less_eq_char_def trim_cut_def
      char_of_def bit_0 sample_routes_def)

theorem registered_method_is_found_witness:
  "fst (findInstanceByPath sample_routes (Handler_all sample_routes []
       (snd (Handler sample_routes ''/user'' sample_controller empty_tables)))
     (blank_ctx new_writer sample_request [])) =
   Returns (\<lparr>in_reflectVal = 7, in_controllerName = ''User'', in_methodName = ''GetInfoForPOST''\<rparr>,
            ''GetInfoForPOST'')"
proof -
  let ?t1 = "snd (Handler sample_routes ''/user'' sample_controller empty_tables)"
  have h: "Handler sample_routes ''/user'' sample_controller empty_tables = (Returns (), ?t1)"
    by (simp add: Handler_def sample_paths empty_tables_def sample_controller_def lifecycle_methods_def
        register_method_def sample_actions method_path_def Let_def)
  have t1: "ro_map ?t1 = Map.empty" "dom (ro_method ?t1) = {''user/getinfoforPOST'', ''user/get_infoforPOST''}"
    by (auto simp: Handler_def sample_paths empty_tables_def sample_controller_def lifecycle_methods_def
        register_method_def sample_actions method_path_def Let_def)
  have n: "new_registration sample_routes ''/user'' empty_tables"
    by (simp add: new_registration_def empty_tables_def)
  have m: "''GetInfoForPOST'' \<in> set (ct_methods sample_controller)" "''GetInfoForPOST'' \<notin> set lifecycle_methods"
    by (simp_all add: sample_controller_def lifecycle_methods_def)
  have p: "hc_Path (blank_ctx new_writer sample_request []) = []"
    "rq_path (hc_Request (blank_ctx new_writer sample_request [])) = ''/User/Get_info/''"
    "rq_method (hc_Request (blank_ctx new_writer sample_request [])) = ''POST''"
    by (simp_all add: blank_ctx_def sample_request_def)
  have "''user/get_info/indexforPOST'' \<notin> dom (ro_method ?t1)" by (simp add: t1(2))
  then have d: "ro_method ?t1 ''user/get_info/indexforPOST'' = None" "ro_map ?t1 ''user/get_info/index'' = None"
    by (simp_all only: t1(1) domIff not_not)
  have l: "lookup_route (Handler_all sample_routes [] ?t1)
      (completeURL sample_routes ''/user'' @ ''/'' @ ''get_info'' @ ''/'' @ rt_DefaultAction sample_routes) ''POST'' = None"
    using d by (simp add: lookup_route_def Handler_all_def sample_paths) (simp add: sample_routes_def)
  show ?thesis
    using registered_method_is_found
      [OF h n tables_ok_empty m sample_actions, of "''get_info''" "blank_ctx new_writer sample_request []" "[]"]
      l by (simp add: p sample_paths) (simp add: sample_controller_def)
qed

text \<open>
  The tables stay consistent through every sequence of registrations, panicking ones
  included: no route that exists is lost or changed, and a search in tables that are not empty
  never fails, it gives a method that was registered or the default controller's \<open>NotFound\<close>.
\<close>

theorem registrations_keep_routes:
  assumes "tables_ok t" and "t' = Handler_all cfg cs t"
  shows "tables_ok t' \<and> ro_map t \<subseteq>\<^sub>m ro_map t' \<and> ro_method t \<subseteq>\<^sub>m ro_method t' \<and>
    (ro_map t' \<noteq> Map.empty \<or> ro_method t' \<noteq> Map.empty \<longrightarrow>
      (\<exists>i m. fst (findInstanceByPath cfg t' ctx) = Returns (i, m) \<and> (m = in_methodName i \<or> m = NotFound)))"
  using Handler_all_ok [OF assms(1), of cfg cs] find_total [of t' cfg ctx] assms(2)
  by (auto simp: extends_def)

theorem registrations_keep_routes_witness:
  "tables_ok (Handler_all sample_routes [(''/user'', sample_controller), (''/user'', sample_controller)] empty_tables)"
  by (rule registrations_keep_routes [OF tables_ok_empty refl, THEN conjunct1])

end
