(* ===== verification/Output.thy ===== *)
theory Output
  imports HTTPContext
begin

text \<open>
  \<open>output.go\<close> and \<open>controller.go\<close>: rendering a response as JSON, from a template or as a
  download, and the lifecycle methods of the embedded \<open>Controller\<close>. The JSON encoder, the
  compressor, the template engine and the file system are the fields of an environment.
\<close>

text \<open>What is encoded: the results alone, the whole context with its header, or the response.\<close>

datatype json_source = JResults goval | JContext http_ctx | JResponse int string goval

record 't template_env =
  te_parse :: "string \<Rightarrow> string list \<Rightarrow> string \<Rightarrow> goerr + 't" \<comment> \<open>name, functions, text\<close>
  te_parse_files :: "string \<Rightarrow> string list \<Rightarrow> string \<Rightarrow> goerr + 't" \<comment> \<open>name, functions, file\<close>
  te_parse_glob :: "'t \<Rightarrow> string \<Rightarrow> goerr + 't"
  te_exec :: "'t \<Rightarrow> http_ctx \<Rightarrow> string \<times> goerr option"

record ('s, 't) srv_env =
  sv_config :: all_config
  sv_radix :: "'s radix"
  sv_json :: "json_source \<Rightarrow> goerr + string"
  sv_gzip :: "string \<Rightarrow> string"
  sv_tpl :: "'t template_env"
  sv_stat :: file_stat
  sv_path_abs :: "string \<Rightarrow> goerr + string"
  sv_open :: "string \<Rightarrow> goerr + string \<times> goerr option" \<comment> \<open>content, and an error while reading it\<close>
  sv_uuid :: string
  sv_go_test :: bool

section \<open>Writing\<close>

definition on_writer :: "(response_writer \<Rightarrow> response_writer) \<Rightarrow> http_ctx \<Rightarrow> http_ctx" where
  "on_writer f ctx = ctx\<lparr>hc_ResponseWriter := f (hc_ResponseWriter ctx)\<rparr>"

lemma on_writer_fields [simp]:
  "hc_ResponseWriter (on_writer f ctx) = f (hc_ResponseWriter ctx)"
  "hc_cancelled (on_writer f ctx) = hc_cancelled ctx"
  "hc_isCanceled (on_writer f ctx) = hc_isCanceled ctx"
  "hc_HTTPStatus (on_writer f ctx) = hc_HTTPStatus ctx"
  "hc_Request (on_writer f ctx) = hc_Request ctx"
  "hc_Session (on_writer f ctx) = hc_Session ctx"
  "hc_Path (on_writer f ctx) = hc_Path ctx"
  "hc_IsZip (on_writer f ctx) = hc_IsZip ctx"
  "hc_IsError (on_writer f ctx) = hc_IsError ctx"
  "hc_Template (on_writer f ctx) = hc_Template ctx"
  "hc_TemplateFile (on_writer f ctx) = hc_TemplateFile ctx"
  "hc_Data (on_writer f ctx) = hc_Data ctx"
  "hc_FuncMap (on_writer f ctx) = hc_FuncMap ctx"
  "hc_IsJSON (on_writer f ctx) = hc_IsJSON ctx"
  "hc_HasHeader (on_writer f ctx) = hc_HasHeader ctx"
  "hc_IsOnlyResults (on_writer f ctx) = hc_IsOnlyResults ctx"
  "hc_ErrNo (on_writer f ctx) = hc_ErrNo ctx"
  "hc_ErrMsg (on_writer f ctx) = hc_ErrMsg ctx"
  "hc_Results (on_writer f ctx) = hc_Results ctx"
  "hc_IsCloseRender (on_writer f ctx) = hc_IsCloseRender ctx"
  "hc_hijacked (on_writer f ctx) = hc_hijacked ctx"
  "hc_traceID (on_writer f ctx) = hc_traceID ctx"
  by (simp_all add: on_writer_def)

definition use_gzip :: "http_ctx \<Rightarrow> bool" where
  "use_gzip ctx \<longleftrightarrow> \<not> hc_IsError ctx \<and> hc_IsZip ctx"

definition gzip_headers :: "http_ctx \<Rightarrow> http_ctx" where
  "gzip_headers ctx =
     (if use_gzip ctx
      then on_writer (on_header (Header_Set ''Content-Encoding'' ''gzip'') \<circ> on_header (Header_Del ''Content-Length'')) ctx
      else ctx)"

text \<open>The body, through the compressor when one is in use; closing it writes even no data.\<close>

definition send_body :: "('s, 't) srv_env \<Rightarrow> string \<Rightarrow> http_ctx \<Rightarrow> http_ctx" where
  "send_body env b ctx =
     (if use_gzip ctx then on_writer (write_body (sv_gzip env b)) ctx
      else if b = [] then ctx else on_writer (write_body b) ctx)"

definition json_source_of :: "http_ctx \<Rightarrow> json_source" where
  "json_source_of ctx =
     (if hc_IsOnlyResults ctx then JResults (hc_Results ctx)
      else if hc_HasHeader ctx then JContext ctx
      else JResponse (hc_ErrNo ctx) (hc_ErrMsg ctx) (hc_Results ctx))"

definition ReturnJSON :: "('s, 't) srv_env \<Rightarrow> http_ctx \<Rightarrow> http_ctx" where
  "ReturnJSON env ctx =
     (let ctx1 = on_writer (on_header (Header_Set ''Content-Type'' ''application/json; charset=utf-8'')) ctx;
          ctx2 = (if hc_Data ctx1 \<noteq> [] \<and> hc_Results ctx1 = VNil
                  then ctx1\<lparr>hc_Results := VMap (hc_Data ctx1)\<rparr> else ctx1);
          ctx3 = gzip_headers ctx2;
          ctx4 = on_writer (WriteHeader (hc_HTTPStatus ctx3)) ctx3
      in case sv_json env (json_source_of ctx4) of
           Inl _ \<Rightarrow> send_body env [] ctx4
         | Inr b \<Rightarrow> send_body env b ctx4)"

section \<open>Templates\<close>

definition template_Must :: "goerr + 't \<Rightarrow> 't outcome" where
  "template_Must r = (case r of Inl e \<Rightarrow> Panics (PanicErr e) | Inr t \<Rightarrow> Returns t)"

definition with_widgets :: "('s, 't) srv_env \<Rightarrow> 't outcome \<Rightarrow> 't outcome" where
  "with_widgets env r =
     (case r of
        Panics p \<Rightarrow> Panics p
      | Returns t \<Rightarrow>
          if tc_WidgetsPath (ac_Template (sv_config env)) = [] then Returns t
          else template_Must (te_parse_glob (sv_tpl env) t (tc_WidgetsPath (ac_Template (sv_config env)))))"

definition renderHTML :: "('s, 't) srv_env \<Rightarrow> http_ctx \<Rightarrow> 't outcome" where
  "renderHTML env ctx =
     with_widgets env
       (template_Must (te_parse (sv_tpl env) (hc_Path ctx) (hc_FuncMap ctx) (hc_Template ctx)))"

definition renderFile ::
  "('s, 't) srv_env \<Rightarrow> http_ctx \<Rightarrow> ('s, 't) app \<Rightarrow> 't outcome \<times> http_ctx \<times> ('s, 't) app" where
  "renderFile env ctx st =
     (let file = (if IsExist (sv_stat env) (hc_TemplateFile ctx) then hc_TemplateFile ctx
                  else path_join [tc_HTMLPath (ac_Template (sv_config env)), hc_TemplateFile ctx])
      in if \<not> IsExist (sv_stat env) file
         then (case ThrowCheck (sv_config env) [] 500 (ArgStr ''template path not exist'') ctx st of
                 (Panics p, ctx', st') \<Rightarrow> (Panics p, ctx', st')
               | (Returns _, ctx', st') \<Rightarrow> (Panics nil_deref, ctx', st'))
         else (with_widgets env
                 (template_Must
                   (te_parse_files (sv_tpl env)
                      (path_base (if hc_FuncMap ctx = [] then file else hc_TemplateFile ctx))
                      (hc_FuncMap ctx) file)), ctx, st))"

definition render_key :: "http_ctx \<Rightarrow> string" where
  "render_key ctx = (if hc_Template ctx \<noteq> [] then hc_Path ctx else hc_TemplateFile ctx)"

definition render_fresh ::
  "('s, 't) srv_env \<Rightarrow> http_ctx \<Rightarrow> ('s, 't) app \<Rightarrow> 't outcome \<times> http_ctx \<times> ('s, 't) app" where
  "render_fresh env ctx st =
     (if hc_Template ctx \<noteq> [] then (renderHTML env ctx, ctx, st)
      else if hc_TemplateFile ctx \<noteq> [] then renderFile env ctx st
      else (Panics nil_deref, ctx, st))"

text \<open>\<open>render\<close>: from the cache when caching is on.\<close>

definition HTTPContext_render ::
  "('s, 't) srv_env \<Rightarrow> http_ctx \<Rightarrow> ('s, 't) app \<Rightarrow> 't outcome \<times> http_ctx \<times> ('s, 't) app" where
  "HTTPContext_render env ctx st =
     (if tc_IsCache (ac_Template (sv_config env)) then
        (case ap_templates st (render_key ctx) of
           Some t \<Rightarrow> (Returns t, ctx, st)
         | None \<Rightarrow>
             (case render_fresh env ctx st of
                (Returns t, ctx', st') \<Rightarrow>
                  (Returns t, ctx', st'\<lparr>ap_templates := (ap_templates st')(render_key ctx \<mapsto> t)\<rparr>)
              | r \<Rightarrow> r))
      else render_fresh env ctx st)"

definition Render :: "('s, 't) srv_env \<Rightarrow> ('s, 't) handler" where
  "Render env ctx st =
     (case HTTPContext_render env ctx st of
        (Panics p, ctx', st') \<Rightarrow> (Panics p, ctx', st')
      | (Returns t, ctx', st') \<Rightarrow>
          (let ctx1 = (if Header_Get (rw_header (hc_ResponseWriter ctx')) ''Content-Type'' = []
                       then on_writer (on_header (Header_Set ''Content-Type'' ''text/html; charset=utf-8'')) ctx'
                       else ctx');
               ctx2 = gzip_headers ctx1;
               ctx3 = on_writer (WriteHeader (hc_HTTPStatus ctx2)) ctx2
           in (Returns (), send_body env (fst (te_exec (sv_tpl env) t ctx3)) ctx3, st')))"

section \<open>The response\<close>

definition session_enabled :: "all_config \<Rightarrow> bool" where
  "session_enabled cfg \<longleftrightarrow> ac_EnableSession cfg \<or> sc_IsEnable (ac_Session cfg)"

definition close_session :: "('s, 't) srv_env \<Rightarrow> ('s, 't) handler" where
  "close_session env ctx st =
     (if \<not> session_enabled (sv_config env) then (Returns (), ctx, st)
      else case (hc_Session ctx, ap_sess_store st) of
        (None, _) \<Rightarrow> (Returns (), ctx, st)
      | (Some se, None) \<Rightarrow> (Panics nil_deref, ctx, st)
      | (Some se, Some store) \<Rightarrow>
          (case Session_Close (sv_radix env) (ap_default st) store (hc_Request ctx) se
                  (hc_ResponseWriter ctx) (ap_srv st) of
             (Panics p, s') \<Rightarrow> (Panics p, ctx, st\<lparr>ap_srv := s'\<rparr>)
           | (Returns (se', w'), s') \<Rightarrow>
               (Returns (), ctx\<lparr>hc_Session := Some se', hc_ResponseWriter := w'\<rparr>, st\<lparr>ap_srv := s'\<rparr>)))"

definition RenderResponse :: "('s, 't) srv_env \<Rightarrow> ('s, 't) handler" where
  "RenderResponse env ctx st =
     (if hc_hijacked ctx then (Returns (), ctx, st)
      else case close_session env (on_writer (on_header (Header_Set ''Trace-Id'' (hc_traceID ctx))) ctx) st of
        (Panics p, ctx', st') \<Rightarrow> (Panics p, ctx', st')
      | (Returns _, ctx', st') \<Rightarrow>
          if Header_Get (rw_header (hc_ResponseWriter ctx')) ''Location'' \<noteq> [] then (Returns (), ctx', st')
          else if hc_IsCloseRender ctx' then
            (Returns (), on_writer (WriteHeader (hc_HTTPStatus ctx')) ctx', st')
          else if hc_IsJSON ctx' then (Returns (), ReturnJSON env ctx', st')
          else if hc_TemplateFile ctx' \<noteq> [] \<or> hc_Template ctx' \<noteq> [] then Render env ctx' st'
          else (Returns (), ReturnJSON env ctx', st'))"

section \<open>Downloads\<close>

datatype file_arg = FilePath string | FileReader string "goerr option" | FileOther

text \<open>
  The deferred close of the compressor runs on a panic too, and then writes an empty stream.
\<close>

definition download_throw :: "('s, 't) srv_env \<Rightarrow> err_arg \<Rightarrow> ('s, 't) handler" where
  "download_throw env i ctx st =
     (case ThrowCheck (sv_config env) [] 500 i ctx st of
        (r, ctx', st') \<Rightarrow> (r, (if use_gzip ctx' then send_body env [] ctx' else ctx'), st'))"

definition send_file :: "('s, 't) srv_env \<Rightarrow> string \<Rightarrow> string \<Rightarrow> string \<Rightarrow> http_ctx \<Rightarrow> http_ctx" where
  "send_file env contentType filename b ctx =
     (let ctx1 = on_writer (on_header (Header_Set ''Content-Type'' contentType)) ctx;
          ctx2 = SetDownloadMode filename ctx1;
          ctx3 = on_writer (WriteHeader (hc_HTTPStatus ctx2)) ctx2
      in send_body env b ctx3)"

definition ReturnFileContent ::
  "('s, 't) srv_env \<Rightarrow> string \<Rightarrow> string \<Rightarrow> file_arg \<Rightarrow> ('s, 't) handler" where
  "ReturnFileContent env contentType filename file ctx0 st =
     (let ctx = gzip_headers (ctx0\<lparr>hc_IsJSON := False, hc_Template := [], hc_TemplateFile := []\<rparr>) in
      case file of
        FilePath t \<Rightarrow>
          (case sv_path_abs env t of
             Inl e \<Rightarrow> download_throw env (ArgErr e) ctx st
           | Inr f \<Rightarrow>
               if \<not> IsExist (sv_stat env) f then download_throw env (ArgStr ''file not exist'') ctx st
               else (case sv_open env t of
                       Inl e \<Rightarrow> download_throw env (ArgErr e) ctx st
                     | Inr (b, _) \<Rightarrow> (Returns (), send_file env contentType filename b ctx, st)))
      | FileReader b _ \<Rightarrow> (Returns (), send_file env contentType filename b ctx, st)
      | FileOther \<Rightarrow> (Panics nil_deref, send_file env contentType filename [] ctx, st))"

section \<open>controller.go\<close>

definition Controller_Init :: "('s, 't) srv_env \<Rightarrow> ('s, 't) handler" where
  "Controller_Init env ctx st =
     (let r = hc_Request ctx;
          json = (contains (rq_raw_query r) ''format=json'' \<or>
                  contains (Header_Get (rq_header r) ''Accept'') ''application/json'');
          ctx1 = (if json then ctx\<lparr>hc_IsJSON := True\<rparr> else ctx);
          ctx2 = (if contains (Header_Get (rq_header r) ''Accept-Encoding'') ''gzip''
                  then ctx1\<lparr>hc_IsZip := True\<rparr> else ctx1)
      in if session_enabled (sv_config env) then
           (case ap_default st of
              None \<Rightarrow> (Returns (), ctx2, st)
            | Some c \<Rightarrow>
                (let (store, ins) = NewSessRedisStore c (ac_Redis (sv_config env)) (ap_sess_store st);
                     (se, store') = NewSession (sv_uuid env) r (ac_Session (sv_config env)) store
                 in (Returns (), ctx2\<lparr>hc_Session := Some se\<rparr>, st\<lparr>ap_sess_store := Some store'\<rparr>)))
         else (Returns (), ctx2, st))"

definition Controller_Before :: "('s, 't) handler" where
  "Controller_Before ctx st = (Returns (), ctx, st)"

definition Controller_After :: "('s, 't) handler" where
  "Controller_After ctx st = (Returns (), ctx, st)"

text \<open>\<open>websocket.IsWebSocketUpgrade\<close>: both headers name the upgrade among their tokens.\<close>

definition token_list_contains :: "header \<Rightarrow> string \<Rightarrow> string \<Rightarrow> bool" where
  "token_list_contains h name val \<longleftrightarrow>
     (case h (canonical_key name) of
        None \<Rightarrow> False
      | Some vs \<Rightarrow> list_ex (\<lambda>v. list_ex (\<lambda>t. equal_fold (trim_space t) val) (split_go v '','')) vs)"

definition IsWebSocketUpgrade :: "http_request \<Rightarrow> bool" where
  "IsWebSocketUpgrade r \<longleftrightarrow>
     token_list_contains (rq_header r) ''Connection'' ''upgrade'' \<and>
     token_list_contains (rq_header r) ''Upgrade'' ''websocket''"

definition Controller_Finish :: "('s, 't) srv_env \<Rightarrow> ('s, 't) handler" where
  "Controller_Finish env ctx st =
     (if IsWebSocketUpgrade (hc_Request ctx) then (Returns (), ctx, st) else RenderResponse env ctx st)"

definition Controller_NotFound :: "('s, 't) handler" where
  "Controller_NotFound ctx st =
     (Returns (), ctx\<lparr>hc_HTTPStatus := 404, hc_IsError := True, hc_ErrNo := 404, hc_ErrMsg := ''NotFound''\<rparr>, st)"

definition Controller_ServerError :: "('s, 't) handler" where
  "Controller_ServerError ctx st =
     (Returns (), ctx\<lparr>hc_HTTPStatus := 500, hc_IsError := True, hc_ErrNo := 500, hc_ErrMsg := ''ServerError''\<rparr>, st)"

section \<open>The template cache\<close>

lemma ThrowCheck_templates:
  "ThrowCheck cfg h n i ctx st = (r, ctx', st') \<Longrightarrow> ap_templates st' = ap_templates st"
  by (auto simp: ThrowCheck_def Let_def split: if_splits prod.splits)

lemma render_fresh_templates:
  "render_fresh env ctx st = (r, ctx', st') \<Longrightarrow> ap_templates st' = ap_templates st"
  by (auto simp: render_fresh_def renderFile_def Let_def dest: ThrowCheck_templates
      split: if_splits prod.splits outcome.splits)

definition caching :: "('s, 't) srv_env \<Rightarrow> ('s, 't) srv_env" where
  "caching env =
     env\<lparr>sv_config := (sv_config env)\<lparr>ac_Template := (ac_Template (sv_config env))\<lparr>tc_IsCache := True\<rparr>\<rparr>\<rparr>"

fun panic_err :: "panic_value \<Rightarrow> goerr" where
  "panic_err (PanicErr e) = e"
| "panic_err (PanicMsg s) = Errorf s"

definition acquire_template ::
  "('s, 't) srv_env \<Rightarrow> http_ctx \<Rightarrow> ('s, 't) app \<Rightarrow> (goerr + 't) \<times> ('s, 't) app" where
  "acquire_template env ctx st =
     (case HTTPContext_render (caching env) ctx st of
        (Returns t, _, st') \<Rightarrow> (Inr t, st')
      | (Panics p, _, st') \<Rightarrow> (Inl (panic_err p), st'))"

lemma caching_on [simp]: "tc_IsCache (ac_Template (sv_config (caching env)))"
  by (simp add: caching_def)

lemma acquire_template_cases:
  "acquire_template env ctx st =
     (case ap_templates st (render_key ctx) of
        Some t \<Rightarrow> (Inr t, st)
      | None \<Rightarrow>
          (case render_fresh (caching env) ctx st of
             (Returns t, _, st') \<Rightarrow> (Inr t, st'\<lparr>ap_templates := (ap_templates st')(render_key ctx \<mapsto> t)\<rparr>)
           | (Panics p, _, st') \<Rightarrow> (Inl (panic_err p), st')))"
  by (simp add: acquire_template_def HTTPContext_render_def split: option.split prod.split outcome.split)

interpretation template_cache: keyed_cache "acquire_template env" render_key ap_templates "\<lambda>_. True"
  for env :: "('s, 't) srv_env"
proof
  fix c and s :: "('s, 't) app" and i
  assume "ap_templates s (render_key c) = Some i"
  then show "acquire_template env c s = (Inr i, s)" by (simp add: acquire_template_cases)
next
  fix c and s :: "('s, 't) app" and i s'
  assume "acquire_template env c s = (Inr i, s')"
  then show "ap_templates s' = (ap_templates s)(render_key c \<mapsto> i)"
    by (auto simp: acquire_template_cases fun_upd_idem_iff dest: render_fresh_templates
        split: option.splits prod.splits outcome.splits)
next
  fix c and s :: "('s, 't) app" and i s' j
  assume "acquire_template env c s = (Inr i, s')" and "ap_templates s (render_key c) = Some j"
  then show "i = j" by (simp add: acquire_template_cases)
next
  fix c and s :: "('s, 't) app" and e s'
  assume "acquire_template env c s = (Inl e, s')"
  then show "ap_templates s' = ap_templates s"
    by (auto simp: acquire_template_cases dest: render_fresh_templates
        split: option.splits prod.splits outcome.splits)
qed

section \<open>Properties\<close>

text \<open>
  With caching on, a page is what was parsed first under its key: once a template has been
  rendered for a path, every later rendering under that path, whatever was rendered in between
  and whatever template text the context now holds, uses the first one. The file system is not
  asked again.
\<close>

theorem template_cache_keeps_first:
  assumes "acquire_template env c s = (Inr t, s')" and "render_key d = render_key c"
  shows "acquire_template env d (fold (\<lambda>c s. snd (acquire_template env c s)) cs s') =
         (Inr t, fold (\<lambda>c s. snd (acquire_template env c s)) cs s')"
proof -
  have "template_cache.acquire_all env cs s' = fold (\<lambda>c s. snd (acquire_template env c s)) cs s'"
    by (induction cs arbitrary: s') simp_all
  with template_cache.acquire_shared [OF assms(1) TrueI assms(2), of cs] show ?thesis by simp
qed

text \<open>An environment whose templates are their own text.\<close>

fun sample_json :: "json_source \<Rightarrow> goerr + string" where
  "sample_json (JResponse n m r) = Inr (int_dec n @ m)"
| "sample_json _ = Inr ''{}''"

definition sample_tpl :: "string template_env" where
  "sample_tpl =
     \<lparr>te_parse = (\<lambda>n f t. Inr t), te_parse_files = (\<lambda>n f t. Inr t), te_parse_glob = (\<lambda>t g. Inr t),
      te_exec = (\<lambda>t c. (t, None))\<rparr>"

definition sample_srv_env :: "(string \<Rightarrow> string \<rightharpoonup> string, string) srv_env" where
  "sample_srv_env =
     \<lparr>sv_config = zero_config\<lparr>ac_Route := \<lparr>rt_DefaultController = ''index'', rt_DefaultAction = ''index''\<rparr>,
         ac_Server := zero_server\<lparr>hs_Concurrence := 2\<rparr>\<rparr>,
      sv_radix = hash_radix, sv_json = sample_json, sv_gzip = (\<lambda>s. ''gz'' @ s), sv_tpl = sample_tpl,
      sv_stat = (\<lambda>p. StatOk False), sv_path_abs = Inr, sv_open = (\<lambda>p. Inr (''data'', None)),
      sv_uuid = ''1-2'', sv_go_test = False\<rparr>"

definition sample_app :: "(string \<Rightarrow> string \<rightharpoonup> string, string) app" where
  "sample_app =
     \<lparr>ap_online = 0, ap_wg = 0, ap_errors = errorMap_init, ap_sess_store = None, ap_default = None,
      ap_srv = (\<lambda>_. Map.empty), ap_templates = Map.empty\<rparr>"

definition sample_req :: http_request where
  "sample_req =
     \<lparr>rq_method = ''GET'', rq_proto_major = 1, rq_host = ''h'', rq_scheme = [], rq_url_host = [],
      rq_path = ''/user/boom'', rq_raw_query = [], rq_query = [], rq_form = [],
      rq_header = Map.empty, rq_cookies = [], rq_remote_addr = []\<rparr>"

definition page :: "string \<Rightarrow> http_ctx" where
  "page text = (blank_ctx new_writer sample_req [])\<lparr>hc_Path := ''user/index'', hc_Template := text\<rparr>"

theorem template_cache_keeps_first_witness:
  "fst (acquire_template sample_srv_env (page ''second'')
     (snd (acquire_template sample_srv_env (page ''first'') sample_app))) = Inr ''first''"
proof -
  have "acquire_template sample_srv_env (page ''first'') sample_app =
        (Inr ''first'', snd (acquire_template sample_srv_env (page ''first'') sample_app))"
    by (simp add: acquire_template_cases page_def render_key_def sample_app_def render_fresh_def
        renderHTML_def with_widgets_def template_Must_def caching_def sample_srv_env_def sample_tpl_def
        zero_config_def)
  from template_cache_keeps_first [OF this, of "page ''second''" "[]"] show ?thesis
    by (simp add: page_def render_key_def)
qed

end
