(* ===== verification/Lifecycle.thy ===== *)
theory Lifecycle
  imports Route Output
begin

text \<open>
  The request lifecycle of \<open>router.go\<close>, \<open>DispatchRoute\<close> of \<open>router\_map.go\<close>. A
  controller is the table of its methods, total because \<open>MethodByName\<close> of a missing method
  gives a value whose call panics. Deferred calls are written out in the order they run.
  The goroutine that waits for the client to go away is left out; what it does is \<open>Cancel\<close>,
  which is idempotent.
\<close>

type_synonym ('s, 't) ctl = "string \<Rightarrow> ('s, 't) handler"

section \<open>Running a controller\<close>

fun pending :: "'a outcome \<Rightarrow> panic_value option" where
  "pending (Returns _) = None"
| "pending (Panics p) = Some p"

fun raised :: "panic_value option \<Rightarrow> unit outcome" where
  "raised None = Returns ()"
| "raised (Some p) = Panics p"

text \<open>A deferred call: it runs in any case, and a panic of its own replaces the one under way.\<close>

definition deferred ::
  "('s, 't) handler \<Rightarrow> unit outcome \<times> http_ctx \<times> ('s, 't) app \<Rightarrow> unit outcome \<times> http_ctx \<times> ('s, 't) app" where
  "deferred h r =
     (case r of (o1, ctx, st) \<Rightarrow>
        (case h ctx st of
           (Panics q, ctx', st') \<Rightarrow> (Panics q, ctx', st')
         | (Returns _, ctx', st') \<Rightarrow> (o1, ctx', st')))"

definition recoverPanic ::
  "('s, 't) ctl \<Rightarrow> unit outcome \<times> http_ctx \<times> ('s, 't) app \<Rightarrow> unit outcome \<times> http_ctx \<times> ('s, 't) app" where
  "recoverPanic ctl r =
     (case r of
        (Returns u, ctx, st) \<Rightarrow> (Returns u, ctx, st)
      | (Panics p, ctx, st) \<Rightarrow>
          if p = StopRun then (Returns (), ctx, st) else ctl ''ServerError'' ctx st)"

text \<open>\<open>Before\<close>, then with \<open>After\<close> deferred the action.\<close>

definition run_body :: "('s, 't) ctl \<Rightarrow> string \<Rightarrow> ('s, 't) handler" where
  "run_body ctl m ctx st =
     (case ctl ''Before'' ctx st of
        (Panics p, ctx1, st1) \<Rightarrow> (Panics p, ctx1, st1)
      | (Returns _, ctx1, st1) \<Rightarrow> deferred (ctl ''After'') (ctl m ctx1 st1))"

definition run_instance :: "('s, 't) ctl \<Rightarrow> string \<Rightarrow> ('s, 't) handler" where
  "run_instance ctl m ctx st =
     (case ctl ''Init'' ctx st of
        (Panics p, ctx1, st1) \<Rightarrow> (Panics p, ctx1, st1)
      | (Returns _, ctx1, st1) \<Rightarrow>
          deferred (ctl ''Finish'') (recoverPanic ctl (run_body ctl m ctx1 st1)))"

text \<open>A user's controller: its own methods, and those of the embedded \<open>Controller\<close>.\<close>

definition no_method :: panic_value where
  "no_method = PanicMsg ''reflect: call of reflect.Value.Call on zero Value''"

definition embed :: "('s, 't) srv_env \<Rightarrow> (string \<rightharpoonup> ('s, 't) handler) \<Rightarrow> ('s, 't) ctl" where
  "embed env user name =
     (case user name of
        Some h \<Rightarrow> h
      | None \<Rightarrow>
          if name = ''Init'' then Controller_Init env
          else if name = ''Before'' then Controller_Before
          else if name = ''After'' then Controller_After
          else if name = ''Finish'' then Controller_Finish env
          else if name = ''NotFound'' then Controller_NotFound
          else if name = ''ServerError'' then Controller_ServerError
          else (\<lambda>ctx st. (Panics no_method, ctx, st)))"

section \<open>Router\<close>

text \<open>\<open>online > uint32(Concurrence)\<close>, with the truncation of the conversion.\<close>

definition checkConcurrence :: "('s, 't) srv_env \<Rightarrow> 32 word \<Rightarrow> goerr option" where
  "checkConcurrence env onlineNum =
     (let limit = hs_Concurrence (ac_Server (sv_config env)) in
      if sv_go_test env \<or> limit = 0 then None
      else if onlineNum > of_nat limit then Some (Errorf ''checkConcurrence: too many concurrence'')
      else None)"

definition online_up :: "('s, 't) app \<Rightarrow> ('s, 't) app" where
  "online_up st = st\<lparr>ap_online := ap_online st + 1\<rparr>"

text \<open>\<open>atomic.AddUint32(&online, ^uint32(0))\<close>\<close>

definition online_down :: "('s, 't) app \<Rightarrow> ('s, 't) app" where
  "online_down st = st\<lparr>ap_online := ap_online st + NOT 0\<rparr>"

definition routes_empty :: "'h route_tables \<Rightarrow> bool" where
  "routes_empty t \<longleftrightarrow> ro_map t = Map.empty \<and> ro_method t = Map.empty"

definition route_request :: "('s, 't) srv_env \<Rightarrow> ('s, 't) ctl route_tables \<Rightarrow> ('s, 't) handler" where
  "route_request env t ctx st =
     (if checkConcurrence env (ap_online st) \<noteq> None then
        (Returns (), on_writer (WriteHeader 503) ctx, st)
      else if routes_empty t then Controller_NotFound ctx st
      else case findInstanceByPath (ac_Route (sv_config env)) t ctx of
        (Panics p, ctx1) \<Rightarrow> (Panics p, ctx1, st)
      | (Returns (i, m), ctx1) \<Rightarrow> run_instance (in_reflectVal i) m ctx1 st)"

text \<open>The deferred calls of \<open>Router\<close> itself: the counter down, then \<open>Cancel\<close>.\<close>

definition leave_request ::
  "unit outcome \<times> http_ctx \<times> ('s, 't) app \<Rightarrow> (unit outcome \<times> response_writer) \<times> ('s, 't) app" where
  "leave_request r =
     (case r of (o1, ctx, st) \<Rightarrow>
        (let (ctx', st') = HTTPContext_Cancel ctx (online_down st) in ((o1, hc_ResponseWriter ctx'), st')))"

definition http_Error :: "string \<Rightarrow> nat \<Rightarrow> response_writer \<Rightarrow> response_writer" where
  "http_Error msg code w =
     write_body (msg @ [CHR 0x0A])
       (WriteHeader code
         (on_header (Header_Set ''X-Content-Type-Options'' ''nosniff'' \<circ>
                     Header_Set ''Content-Type'' ''text/plain; charset=utf-8'') w))"

definition is_grpc :: "http_request \<Rightarrow> bool" where
  "is_grpc r \<longleftrightarrow> rq_proto_major r = 2 \<and> contains (Header_Get (rq_header r) ''Content-Type'') ''application/grpc''"

text \<open>\<open>grpc\<close> is the gRPC server's \<open>ServeHTTP\<close>, when there is a server.\<close>

type_synonym ('s, 't) grpc_serve =
  "response_writer \<Rightarrow> http_request \<Rightarrow> ('s, 't) app \<Rightarrow> (unit outcome \<times> response_writer) \<times> ('s, 't) app"

definition Router ::
  "('s, 't) srv_env \<Rightarrow> ('s, 't) grpc_serve option \<Rightarrow> ('s, 't) ctl route_tables \<Rightarrow>
   response_writer \<Rightarrow> http_request \<Rightarrow> ('s, 't) app \<Rightarrow> (unit outcome \<times> response_writer) \<times> ('s, 't) app" where
  "Router env grpc t w r st =
     (if is_grpc r then
        (case grpc of
           None \<Rightarrow> ((Returns (), http_Error ''grpc server has not init'' 500 w), st)
         | Some serve \<Rightarrow>
             serve w (r\<lparr>rq_header := Header_Set GrpcHTTPTraceIDKey (GetTraceIDFromRequest (sv_uuid env) r)
                          (rq_header r)\<rparr>) st)
      else (let (ctx, st1) = initCtx (sv_uuid env) w r st in
            leave_request (route_request env t ctx (online_up st1))))"

section \<open>Plain handlers\<close>

type_synonym ('s, 't) plain_handler =
  "response_writer \<Rightarrow> http_request \<Rightarrow> ('s, 't) app \<Rightarrow> unit outcome \<times> response_writer \<times> ('s, 't) app"

text \<open>The pattern check of \<open>HandlerFunc\<close>, and the function it registers.\<close>

definition HandlerFunc_pattern :: "string \<Rightarrow> unit outcome" where
  "HandlerFunc_pattern pattern =
     (if pattern = ''/'' \<or> pattern = ''/logger/adjust''
      then Panics (PanicMsg (''http: multiple registrations for '' @ pattern)) else Returns ())"

text \<open>The deferred function recovers every panic, and answers nothing.\<close>

definition HandlerFunc_serve ::
  "('s, 't) srv_env \<Rightarrow> ('s, 't) plain_handler \<Rightarrow>
   response_writer \<Rightarrow> http_request \<Rightarrow> ('s, 't) app \<Rightarrow> response_writer \<times> ('s, 't) app" where
  "HandlerFunc_serve env h w r st =
     (let (ctx, st1) = initCtx (sv_uuid env) w r st;
          st2 = online_up st1;
          (w', st3) = (if checkConcurrence env (ap_online st2) \<noteq> None then (WriteHeader 503 w, st2)
                       else (case h w r st2 of (_, w2, s2) \<Rightarrow> (w2, s2)));
          (ctx', st4) = HTTPContext_Cancel ctx (online_down st3)
      in (w', st4))"

text \<open>\<open>Handle\<close> registers the handler's \<open>ServeHTTP\<close> the same way.\<close>

definition Handle_serve where "Handle_serve env serve_http = HandlerFunc_serve env serve_http"

definition static_dir :: "string \<Rightarrow> string \<Rightarrow> string" where
  "static_dir app_path dir = (if is_abs dir then dir else path_join [app_path, dir])"

definition static_pattern :: "string \<Rightarrow> string" where
  "static_pattern pattern = (if pattern \<noteq> ''/'' then ''/'' @ trim_cut pattern ''/'' @ ''/'' else pattern)"

text \<open>What is registered: pattern, stripped prefix, directory.\<close>

definition StaticHandler :: "string \<Rightarrow> string \<Rightarrow> string \<Rightarrow> string \<times> string \<times> string" where
  "StaticHandler app_path pattern dir = (static_pattern pattern, [], static_dir app_path dir)"

definition StaticStripHandler :: "string \<Rightarrow> string \<Rightarrow> string \<Rightarrow> string \<times> string \<times> string" where
  "StaticStripHandler app_path pattern dir =
     (static_pattern pattern, static_pattern pattern, static_dir app_path dir)"

section \<open>DispatchRoute\<close>

definition DispatchRoute :: "('s, 't) srv_env \<Rightarrow> ('s, 't) ctl route_tables \<Rightarrow> ('s, 't) handler" where
  "DispatchRoute env t ctx st =
     (case findInstanceByPath (ac_Route (sv_config env)) t (ctx\<lparr>hc_Path := dispatch_path ctx\<rparr>) of
        (Panics p, ctx1) \<Rightarrow> (Panics p, ctx1, st)
      | (Returns (i, m), ctx1) \<Rightarrow> run_body (in_reflectVal i) m ctx1 st)"

section \<open>Facts about the counters\<close>

text \<open>
  A handler that minds its manners: it leaves the online counter alone, and touches the wait
  group only by cancelling its own context.
\<close>

definition keeps :: "('s, 't) handler \<Rightarrow> bool" where
  "keeps h \<longleftrightarrow>
     (\<forall>ctx st r ctx' st'. h ctx st = (r, ctx', st') \<longrightarrow>
        ap_online st' = ap_online st \<and> ap_wg st' - owed ctx' = ap_wg st - owed ctx)"

definition ctl_keeps :: "('s, 't) ctl \<Rightarrow> bool" where
  "ctl_keeps ctl \<longleftrightarrow> (\<forall>m. keeps (ctl m))"

definition tables_keep :: "('s, 't) ctl route_tables \<Rightarrow> bool" where
  "tables_keep t \<longleftrightarrow>
     (\<forall>i. i \<in> ran (ro_map t) \<union> ran (ro_method t) \<or> ro_default t = Some i \<longrightarrow> ctl_keeps (in_reflectVal i))"

lemma keepsD:
  "keeps h \<Longrightarrow> h ctx st = (r, ctx', st') \<Longrightarrow>
   ap_online st' = ap_online st \<and> ap_wg st' - owed ctx' = ap_wg st - owed ctx"
  unfolding keeps_def by blast

lemma ctlD:
  "ctl_keeps ctl \<Longrightarrow> ctl m ctx st = (r, ctx', st') \<Longrightarrow>
   ap_online st' = ap_online st \<and> ap_wg st' - owed ctx' = ap_wg st - owed ctx"
  unfolding ctl_keeps_def keeps_def by blast

lemma deferred_keeps:
  assumes "keeps h" and "deferred h (o1, ctx, st) = (r, ctx', st')"
  shows "ap_online st' = ap_online st \<and> ap_wg st' - owed ctx' = ap_wg st - owed ctx"
proof -
  obtain r2 c2 s2 where h: "h ctx st = (r2, c2, s2)" by (metis prod.exhaust)
  with assms(2) have "ctx' = c2" "st' = s2" by (auto simp: deferred_def split: outcome.splits)
  with keepsD [OF assms(1) h] show ?thesis by simp
qed

lemma run_body_keeps: "ctl_keeps ctl \<Longrightarrow> keeps (run_body ctl m)"
  unfolding keeps_def
proof (intro allI impI)
  fix ctx st r ctx' st'
  assume ctl: "ctl_keeps ctl" and run: "run_body ctl m ctx st = (r, ctx', st')"
  obtain r1 c1 s1 where b: "ctl ''Before'' ctx st = (r1, c1, s1)" by (metis prod.exhaust)
  note kb = ctlD [OF ctl b]
  obtain r2 c2 s2 where a: "ctl m c1 s1 = (r2, c2, s2)" by (metis prod.exhaust)
  note ka = ctlD [OF ctl a]
  show "ap_online st' = ap_online st \<and> ap_wg st' - owed ctx' = ap_wg st - owed ctx"
  proof (cases r1)
    case (Panics p)
    with run b kb show ?thesis by (simp add: run_body_def)
  next
    case (Returns u)
    with run b a have "deferred (ctl ''After'') (r2, c2, s2) = (r, ctx', st')" by (simp add: run_body_def)
    from deferred_keeps [OF _ this] ctl ka kb show ?thesis by (simp add: ctl_keeps_def)
  qed
qed

lemma recoverPanic_keeps:
  assumes "ctl_keeps ctl" and "recoverPanic ctl (o1, ctx, st) = (r, ctx', st')"
  shows "ap_online st' = ap_online st \<and> ap_wg st' - owed ctx' = ap_wg st - owed ctx"
  using assms keepsD [of "ctl ''ServerError''" ctx st r ctx' st']
  by (auto simp: recoverPanic_def ctl_keeps_def split: outcome.splits if_splits)

lemma run_instance_keeps: "ctl_keeps ctl \<Longrightarrow> keeps (run_instance ctl m)"
  unfolding keeps_def
proof (intro allI impI)
  fix ctx st r ctx' st'
  assume ctl: "ctl_keeps ctl" and run: "run_instance ctl m ctx st = (r, ctx', st')"
  obtain r1 c1 s1 where i: "ctl ''Init'' ctx st = (r1, c1, s1)" by (metis prod.exhaust)
  note ki = ctlD [OF ctl i]
  obtain r2 c2 s2 where b: "run_body ctl m c1 s1 = (r2, c2, s2)" by (metis prod.exhaust)
  note kb = keepsD [OF run_body_keeps [OF ctl] b]
  obtain r3 c3 s3 where p: "recoverPanic ctl (r2, c2, s2) = (r3, c3, s3)" by (metis prod.exhaust)
  note kp = recoverPanic_keeps [OF ctl p]
  show "ap_online st' = ap_online st \<and> ap_wg st' - owed ctx' = ap_wg st - owed ctx"
  proof (cases r1)
    case (Panics q)
    with run i ki show ?thesis by (simp add: run_instance_def)
  next
    case (Returns u)
    with run i b p have "deferred (ctl ''Finish'') (r3, c3, s3) = (r, ctx', st')"
      by (simp add: run_instance_def)
    from deferred_keeps [OF _ this] ctl ki kb kp show ?thesis by (simp add: ctl_keeps_def)
  qed
qed

lemma find_instance_in:
  "findInstanceByPath cfg t ctx = (Returns (i, m), ctx') \<Longrightarrow>
   i \<in> ran (ro_map t) \<union> ran (ro_method t) \<or> ro_default t = Some i"
  by (auto simp: findInstanceByPath_def Let_def found_def lookup_route_def ran_def split: option.splits)

lemma owed_find:
  "findInstanceByPath cfg t ctx = (r, ctx') \<Longrightarrow> owed ctx' = owed ctx"
  by (auto simp: findInstanceByPath_def Let_def found_def owed_def split: option.splits)

lemma owed_on_writer [simp]: "owed (on_writer f ctx) = owed ctx"
  by (simp add: owed_def)

lemma route_request_keeps: "tables_keep t \<Longrightarrow> keeps (route_request env t)"
  unfolding keeps_def
proof (intro allI impI)
  fix ctx st r ctx' st'
  assume t: "tables_keep t" and run: "route_request env t ctx st = (r, ctx', st')"
  show "ap_online st' = ap_online st \<and> ap_wg st' - owed ctx' = ap_wg st - owed ctx"
  proof (cases "checkConcurrence env (ap_online st) \<noteq> None \<or> routes_empty t")
    case True
    with run show ?thesis
      by (auto simp: route_request_def Controller_NotFound_def owed_def on_writer_def split: if_splits)
  next
    case False
    obtain f c1 where f: "findInstanceByPath (ac_Route (sv_config env)) t ctx = (f, c1)" by fastforce
    show ?thesis
    proof (cases f)
      case (Panics p)
      with run False f owed_find [OF f] show ?thesis by (simp add: route_request_def)
    next
      case (Returns im)
      obtain i m where im: "im = (i, m)" by fastforce
      from f Returns im have "ctl_keeps (in_reflectVal i)"
        using find_instance_in [of "ac_Route (sv_config env)" t ctx i m c1] t unfolding tables_keep_def by blast
      moreover have "run_instance (in_reflectVal i) m c1 st = (r, ctx', st')"
        using run False f Returns im by (simp add: route_request_def)
      ultimately show ?thesis using keepsD [OF run_instance_keeps] owed_find [OF f] by metis
    qed
  qed
qed

lemma online_roundtrip [simp]: "(x :: 32 word) + 1 + NOT 0 = x"
  by simp

definition grpc_keeps :: "('s, 't) grpc_serve option \<Rightarrow> bool" where
  "grpc_keeps grpc \<longleftrightarrow>
     (\<forall>serve w r st. grpc = Some serve \<longrightarrow>
        ap_online (snd (serve w r st)) = ap_online st \<and> ap_wg (snd (serve w r st)) = ap_wg st)"

definition counters :: "('s, 't) app \<Rightarrow> 32 word \<times> int" where
  "counters st = (ap_online st, ap_wg st)"

lemma Router_counters:
  assumes "tables_keep t" and "grpc_keeps grpc"
  shows "counters (snd (Router env grpc t w r st)) = counters st"
proof (cases "is_grpc r")
  case True
  with assms(2) show ?thesis
    by (auto simp: Router_def counters_def grpc_keeps_def split: option.split)
next
  case False
  obtain ctx st1 where i: "initCtx (sv_uuid env) w r st = (ctx, st1)" by fastforce
  obtain o2 c2 s2 where q: "route_request env t ctx (online_up st1) = (o2, c2, s2)" by (metis prod.exhaust)
  obtain c3 s3 where c: "HTTPContext_Cancel c2 (online_down s2) = (c3, s3)" by fastforce
  have "ap_wg st1 = ap_wg st + 1" "ap_online st1 = ap_online st" "owed ctx = 1"
    using i by (auto simp: initCtx_def WgAdd_def owed_def blank_ctx_def)
  with keepsD [OF route_request_keeps [OF assms(1)] q] Cancel_settles [OF c]
  have "ap_online s3 = ap_online st \<and> ap_wg s3 = ap_wg st"
    by (simp add: online_up_def online_down_def)
  then show ?thesis
    using False by (simp add: Router_def i q leave_request_def c counters_def)
qed

text \<open>One request with all that serves it.\<close>

record ('s, 't) served =
  srv_env :: "('s, 't) srv_env"
  srv_grpc :: "('s, 't) grpc_serve option"
  srv_tables :: "('s, 't) ctl route_tables"
  srv_writer :: response_writer
  srv_request :: http_request

definition serve_one :: "('s, 't) served \<Rightarrow> ('s, 't) app \<Rightarrow> ('s, 't) app" where
  "serve_one x st = snd (Router (srv_env x) (srv_grpc x) (srv_tables x) (srv_writer x) (srv_request x) st)"

definition served_ok :: "('s, 't) served \<Rightarrow> bool" where
  "served_ok x \<longleftrightarrow> tables_keep (srv_tables x) \<and> grpc_keeps (srv_grpc x)"

interpretation router_count: guarded_counter serve_one counters served_ok
  by unfold_locales (simp add: serve_one_def served_ok_def Router_counters)

end
