(* ===== verification/LifecycleProps.thy ===== *)
theory LifecycleProps
  imports Lifecycle
begin

text \<open>
  What the request lifecycle promises: the embedded \<open>Controller\<close> minds the counters, so the
  router's are balanced; panics end in an error response; the limit turns requests away; and
  where the code falls short of its comments.
\<close>

section \<open>The embedded controller keeps the counters\<close>

definition frame :: "http_ctx \<Rightarrow> ('s, 't) app \<Rightarrow> http_ctx \<Rightarrow> ('s, 't) app \<Rightarrow> bool" where
  "frame ctx st ctx' st' \<longleftrightarrow>
     hc_isCanceled ctx' = hc_isCanceled ctx \<and> ap_online st' = ap_online st \<and> ap_wg st' = ap_wg st"

lemma keeps_frame:
  assumes "\<And>ctx st r ctx' st'. h ctx st = (r, ctx', st') \<Longrightarrow> frame ctx st ctx' st'"
  shows "keeps h"
  unfolding keeps_def
proof (intro allI impI)
  fix ctx st r ctx' st'
  assume "h ctx st = (r, ctx', st')"
  from assms [OF this] show "ap_online st' = ap_online st \<and> ap_wg st' - owed ctx' = ap_wg st - owed ctx"
    by (simp add: frame_def owed_def)
qed

lemma frame_trans: "frame c s c1 s1 \<Longrightarrow> frame c1 s1 c2 s2 \<Longrightarrow> frame c s c2 s2"
  by (simp add: frame_def)

lemma isCanceled_gzip [simp]: "hc_isCanceled (gzip_headers ctx) = hc_isCanceled ctx"
  by (simp add: gzip_headers_def)

lemma isCanceled_send [simp]: "hc_isCanceled (send_body env b ctx) = hc_isCanceled ctx"
  by (simp add: send_body_def)

lemma isCanceled_json [simp]: "hc_isCanceled (ReturnJSON env ctx) = hc_isCanceled ctx"
  by (simp add: ReturnJSON_def Let_def split: sum.split)

lemma isCanceled_if [simp]: "hc_isCanceled (if b then on_writer f c else c) = hc_isCanceled c"
  by simp

lemma ThrowCheck_frame: "ThrowCheck cfg h n i ctx st = (r, ctx', st') \<Longrightarrow> frame ctx st ctx' st'"
  by (auto simp: ThrowCheck_def frame_def Let_def split: if_splits prod.splits)

lemma renderFile_frame: "renderFile env ctx st = (r, ctx', st') \<Longrightarrow> frame ctx st ctx' st'"
  unfolding renderFile_def
  by (auto simp: Let_def frame_def split: if_splits prod.splits outcome.splits dest!: ThrowCheck_frame)

lemma render_frame: "HTTPContext_render env ctx st = (r, ctx', st') \<Longrightarrow> frame ctx st ctx' st'"
proof -
  assume h: "HTTPContext_render env ctx st = (r, ctx', st')"
  obtain r1 c1 s1 where f: "render_fresh env ctx st = (r1, c1, s1)" by (metis prod.exhaust)
  then have "frame ctx st c1 s1"
    by (auto simp: render_fresh_def frame_def split: if_splits dest: renderFile_frame)
  with h f show ?thesis
    by (auto simp: HTTPContext_render_def frame_def split: if_splits option.splits outcome.splits)
qed

lemma Render_frame: "Render env ctx st = (r, ctx', st') \<Longrightarrow> frame ctx st ctx' st'"
proof -
  assume h: "Render env ctx st = (r, ctx', st')"
  obtain r1 c1 s1 where f: "HTTPContext_render env ctx st = (r1, c1, s1)" by (metis prod.exhaust)
  with h render_frame [OF f] show ?thesis
    by (cases r1) (auto simp: Render_def frame_def Let_def)
qed

lemma close_session_frame: "close_session env ctx st = (r, ctx', st') \<Longrightarrow> frame ctx st ctx' st'"
  by (auto simp: close_session_def frame_def split: if_splits option.splits prod.splits outcome.splits)

lemma RenderResponse_frame: "RenderResponse env ctx st = (r, ctx', st') \<Longrightarrow> frame ctx st ctx' st'"
proof -
  assume h: "RenderResponse env ctx st = (r, ctx', st')"
  let ?c = "on_writer (on_header (Header_Set ''Trace-Id'' (hc_traceID ctx))) ctx"
  obtain r1 c1 s1 where c: "close_session env ?c st = (r1, c1, s1)" by (metis prod.exhaust)
  from close_session_frame [OF c] have f: "frame ctx st c1 s1" by (simp add: frame_def)
  show ?thesis
  proof (cases "Render env c1 s1")
    case (fields r2 c2 s2)
    from frame_trans [OF f Render_frame [OF fields]] f h c fields show ?thesis
      by (auto simp: RenderResponse_def frame_def split: if_splits outcome.splits)
  qed
qed

lemma Controller_frames:
  "Controller_Init env ctx st = (r, ctx', st') \<Longrightarrow> frame ctx st ctx' st'"
  "Controller_Finish env ctx st = (r, ctx', st') \<Longrightarrow> frame ctx st ctx' st'"
  by (auto simp: Controller_Init_def Controller_Finish_def frame_def Let_def
      split: if_splits option.splits prod.splits dest: RenderResponse_frame [unfolded frame_def])

lemma Controller_keeps:
  "keeps (Controller_Init env)" "keeps (Controller_Finish env)"
  "keeps Controller_Before" "keeps Controller_After" "keeps Controller_NotFound"
  "keeps Controller_ServerError" "keeps (\<lambda>ctx st. (Panics no_method, ctx, st))"
  by (auto intro!: keeps_frame intro: Controller_frames simp: Controller_Before_def Controller_After_def
      Controller_NotFound_def Controller_ServerError_def frame_def)

lemma embed_keeps:
  assumes "\<forall>m h. user m = Some h \<longrightarrow> keeps h"
  shows "ctl_keeps (embed env user)"
proof -
  have "keeps (embed env user m)" for m
    using assms by (cases "user m") (simp_all add: embed_def Controller_keeps)
  then show ?thesis by (simp add: ctl_keeps_def)
qed

section \<open>Shapes of a run\<close>

lemma run_instance_action:
  assumes "ctl ''Init'' ctx st = (Returns u, c0, s0)" and "ctl ''Before'' c0 s0 = (Returns v, c1, s1)"
    and "ctl m c1 s1 = (Panics p, c2, s2)" and "ctl ''After'' c2 s2 = (Returns x, c3, s3)"
  shows "run_instance ctl m ctx st =
    (if p = StopRun then deferred (ctl ''Finish'') (Returns (), c3, s3)
     else deferred (ctl ''Finish'') (ctl ''ServerError'' c3 s3))"
  using assms by (simp add: run_instance_def run_body_def deferred_def [of "ctl ''After''"] recoverPanic_def)

text \<open>A context whose response is still open and will be rendered as JSON.\<close>

definition plain_json :: "http_ctx \<Rightarrow> bool" where
  "plain_json ctx \<longleftrightarrow>
     \<not> hc_hijacked ctx \<and> rw_status (hc_ResponseWriter ctx) = None \<and>
     Header_Get (rw_header (hc_ResponseWriter ctx)) ''Location'' = [] \<and>
     \<not> hc_IsCloseRender ctx \<and> hc_TemplateFile ctx = [] \<and> hc_Template ctx = [] \<and>
     \<not> hc_IsOnlyResults ctx \<and> \<not> hc_HasHeader ctx \<and> \<not> IsWebSocketUpgrade (hc_Request ctx)"

definition shown_results :: "http_ctx \<Rightarrow> goval" where
  "shown_results ctx =
     (if hc_Data ctx \<noteq> [] \<and> hc_Results ctx = VNil then VMap (hc_Data ctx) else hc_Results ctx)"

lemma canonical_keys:
  "canonical_key ''Trace-Id'' = ''Trace-Id''" "canonical_key ''Location'' = ''Location''"
  by (simp_all add: canonical_key_def is_token_def token_extra_def is_digit_def less_eq_char_def
      upper_char_def lower_char_def)

lemma ReturnJSON_error:
  assumes "hc_IsError ctx" and "\<not> hc_IsOnlyResults ctx" and "\<not> hc_HasHeader ctx"
    and "sv_json env (JResponse (hc_ErrNo ctx) (hc_ErrMsg ctx) (shown_results ctx)) = Inr b" and "b \<noteq> []"
    and "rw_status (hc_ResponseWriter ctx) = None"
  shows "rw_status (hc_ResponseWriter (ReturnJSON env ctx)) = Some (hc_HTTPStatus ctx)"
    and "rw_body (hc_ResponseWriter (ReturnJSON env ctx)) = rw_body (hc_ResponseWriter ctx) @ [b]"
proof -
  let ?c1 = "on_writer (on_header (Header_Set ''Content-Type'' ''application/json; charset=utf-8'')) ctx"
  have c2: "(if hc_Data ?c1 \<noteq> [] \<and> hc_Results ?c1 = VNil then ?c1\<lparr>hc_Results := VMap (hc_Data ?c1)\<rparr> else ?c1)
      = ?c1\<lparr>hc_Results := shown_results ctx\<rparr>"
    by (simp add: shown_results_def on_writer_def)
  let ?c4 = "on_writer (WriteHeader (hc_HTTPStatus ctx)) (?c1\<lparr>hc_Results := shown_results ctx\<rparr>)"
  have "ReturnJSON env ctx = on_writer (write_body b) ?c4"
    unfolding ReturnJSON_def Let_def c2
    using assms by (simp add: gzip_headers_def use_gzip_def send_body_def json_source_of_def)
  then show "rw_status (hc_ResponseWriter (ReturnJSON env ctx)) = Some (hc_HTTPStatus ctx)"
    and "rw_body (hc_ResponseWriter (ReturnJSON env ctx)) = rw_body (hc_ResponseWriter ctx) @ [b]"
    using assms(6) by (simp_all add: write_body_def WriteHeader_def)
qed

lemma Finish_error_json:
  assumes "plain_json ctx" and "hc_IsError ctx" and "\<not> session_enabled (sv_config env)"
    and "sv_json env (JResponse (hc_ErrNo ctx) (hc_ErrMsg ctx) (shown_results ctx)) = Inr b" and "b \<noteq> []"
  shows "\<exists>ctx'. Controller_Finish env ctx st = (Returns (), ctx', st) \<and>
           rw_status (hc_ResponseWriter ctx') = Some (hc_HTTPStatus ctx) \<and>
           rw_body (hc_ResponseWriter ctx') = rw_body (hc_ResponseWriter ctx) @ [b]"
proof -
  let ?c = "on_writer (on_header (Header_Set ''Trace-Id'' (hc_traceID ctx))) ctx"
  have l: "Header_Get (rw_header (hc_ResponseWriter ?c)) ''Location'' = []"
    using assms(1) by (simp add: plain_json_def canonical_keys)
  have "Controller_Finish env ctx st = (Returns (), ReturnJSON env ?c, st)"
    using assms(1,3) l
    by (simp add: Controller_Finish_def RenderResponse_def plain_json_def close_session_def)
  moreover have "shown_results ?c = shown_results ctx" by (simp add: shown_results_def)
  ultimately show ?thesis
    using ReturnJSON_error [of ?c env b] assms by (simp add: plain_json_def)
qed

lemma embed_user: "user m = Some h \<Longrightarrow> embed env user m = h"
  by (simp add: embed_def)

section \<open>The dispatch path\<close>

lemma to_lower_C: "to_lower (''C:'' @ x) = ''c:'' @ to_lower x"
  by (simp add: to_lower_def lower_char_def less_eq_char_def char_of_def bit_0)

lemma trim_cut_C: "\<exists>y. trim_cut (''c:'' @ x) ''/'' = ''c:'' @ y"
proof -
  have "\<exists>z. dropWhile (\<lambda>c. c = CHR ''/'') (rev x @ '':c'') = z @ '':c''"
    by (auto simp: dropWhile_append)
  then obtain z where "dropWhile (\<lambda>c. c = CHR ''/'') (rev x @ '':c'') = z @ '':c''" by blast
  then have "trim_cut (''c:'' @ x) ''/'' = ''c:'' @ rev z" by (simp add: trim_cut_def)
  then show ?thesis by blast
qed

lemma completeURL_C: "\<exists>y. completeURL cfg (''C:'' @ x) = ''c:'' @ y"
  using trim_cut_C [of "to_lower x"] by (auto simp: completeURL_def to_lower_C [simplified] Let_def)

text \<open>No route can start with \<open>c:\<close> unless a controller was registered under such a name.\<close>

definition no_dispatch_names :: "'h route_tables \<Rightarrow> bool" where
  "no_dispatch_names t \<longleftrightarrow>
     (\<forall>k \<in> dom (ro_map t) \<union> dom (ro_method t). \<not> has_prefix k ''c:'' \<and> \<not> has_prefix k ''/c:'')"

lemma lookup_none:
  assumes "no_dispatch_names t" and "has_prefix p ''c:'' \<or> has_prefix p ''/c:''"
  shows "lookup_route t p method = None"
proof -
  have "has_prefix (p @ ''for'' @ method) ''c:'' \<or> has_prefix (p @ ''for'' @ method) ''/c:''"
    using assms(2) has_prefix_append by blast
  then have "p \<notin> dom (ro_map t)" "p @ ''for'' @ method \<notin> dom (ro_method t)"
    using assms unfolding no_dispatch_names_def by auto
  then show ?thesis by (simp add: lookup_route_def domIff)
qed

lemma join_go_snoc: "bs \<noteq> [] \<Longrightarrow> join_go (bs @ [l]) sep = join_go bs sep @ sep @ l"
  by (induction bs sep rule: join_go.induct) auto

lemma last_part_path:
  assumes "s = ''c:'' @ x"
  shows "\<exists>y. join_go (butlast (split_go s ''/'')) ''/'' @ ''/'' @ last (split_go s ''/'') = ''c:'' @ y \<or>
             join_go (butlast (split_go s ''/'')) ''/'' @ ''/'' @ last (split_go s ''/'') = ''/c:'' @ y"
proof -
  define tmp where "tmp = split_go s ''/''"
  have n: "tmp \<noteq> []" and j: "join_go tmp ''/'' = s"
    unfolding tmp_def by simp_all
  show ?thesis
  proof (cases "butlast tmp = []")
    case True
    with n have "tmp = [last tmp]" by (metis append_butlast_last_id append_Nil)
    with j have "last tmp = s" by (metis join_go.simps(2))
    with True have e: "join_go (butlast (split_go s ''/'')) ''/'' @ ''/'' @ last (split_go s ''/'') = ''/'' @ s"
      by (simp add: tmp_def [symmetric])
    show ?thesis unfolding e by (simp add: assms)
  next
    case False
    have e: "join_go (butlast (split_go s ''/'')) ''/'' @ ''/'' @ last (split_go s ''/'') = s"
      unfolding tmp_def [symmetric]
      using join_go_snoc [OF False, of "last tmp" "''/''"] n j append_butlast_last_id by metis
    show ?thesis unfolding e by (simp add: assms)
  qed
qed

lemma dispatch_not_found:
  assumes "no_dispatch_names t" and "ro_default t = Some d" and "hc_Path ctx = ''C:'' @ x"
  shows "fst (findInstanceByPath cfg t ctx) = Returns (d, NotFound)"
proof -
  obtain y where y: "completeURL cfg (hc_Path ctx) = ''c:'' @ y"
    using completeURL_C [of cfg x] assms(3) by auto
  have "hc_Path ctx \<noteq> []" using assms(3) by simp
  moreover have "lookup_route t (completeURL cfg (hc_Path ctx) @ ''/'' @ rt_DefaultAction cfg) me = None" for me
    by (rule lookup_none [OF assms(1)]) (simp add: y)
  moreover have "lookup_route t (join_go (butlast (split_go (completeURL cfg (hc_Path ctx)) ''/'')) ''/'' @ ''/'' @
      last (split_go (completeURL cfg (hc_Path ctx)) ''/'')) me = None" for me
    using last_part_path [OF y] by (intro lookup_none [OF assms(1)]) auto
  ultimately show ?thesis
    using assms(2) by (simp add: findInstanceByPath_def Let_def found_def)
qed

section \<open>Properties\<close>

text \<open>
  C1. Every request gives back what it took: after any sequence of requests, answered,
  turned away or ended by a panic anywhere in the lifecycle, the count of requests in progress
  and the wait group of the process are what they were, provided that the controllers' own
  methods do not touch them except by cancelling their context.
\<close>

theorem requests_balance_counters:
  assumes "\<forall>x \<in> set reqs. served_ok x"
  shows "ap_online (fold serve_one reqs st) = ap_online st \<and> ap_wg (fold serve_one reqs st) = ap_wg st"
  using router_count.run_all_count [OF assms, of st] by (simp add: counters_def)

definition boom :: "('s, 't) handler" where
  "boom ctx st = (Panics (PanicMsg ''boom''), ctx, st)"

definition boom_ctl :: "(string \<Rightarrow> string \<rightharpoonup> string, string) ctl" where
  "boom_ctl = embed sample_srv_env [''Boom'' \<mapsto> boom]"

definition boom_instance :: "(string \<Rightarrow> string \<rightharpoonup> string, string) ctl route_instance" where
  "boom_instance = \<lparr>in_reflectVal = boom_ctl, in_controllerName = ''User'', in_methodName = ''Boom''\<rparr>"

definition boom_tables :: "(string \<Rightarrow> string \<rightharpoonup> string, string) ctl route_tables" where
  "boom_tables = empty_tables\<lparr>ro_map := [''user/boom'' \<mapsto> boom_instance], ro_default := Some boom_instance\<rparr>"

lemma boom_keeps: "tables_keep boom_tables"
proof -
  have "keeps boom" by (intro keeps_frame) (simp add: boom_def frame_def)
  then have "ctl_keeps boom_ctl" unfolding boom_ctl_def by (intro embed_keeps) simp
  then show ?thesis by (auto simp: tables_keep_def boom_tables_def empty_tables_def boom_instance_def)
qed

definition boom_served :: "(string \<Rightarrow> string \<rightharpoonup> string, string) served" where
  "boom_served =
     \<lparr>srv_env = sample_srv_env, srv_grpc = None, srv_tables = boom_tables, srv_writer = new_writer,
      srv_request = sample_req\<rparr>"

theorem requests_balance_counters_witness:
  "ap_online (fold serve_one [boom_served, boom_served] sample_app) = 0 \<and>
   ap_wg (fold serve_one [boom_served, boom_served] sample_app) = 0"
proof -
  have "\<forall>x \<in> set [boom_served, boom_served]. served_ok x"
    by (simp add: served_ok_def boom_served_def boom_keeps grpc_keeps_def)
  from requests_balance_counters [OF this, of sample_app] show ?thesis
    by (simp only: sample_app_def app.select_convs)
qed

text \<open>
  What runs after a panic in the action: \<open>After\<close> in any case, although the comment on
  \<open>ControllerInterface\<close> has it skipped by \<open>StopRun\<close>; then nothing for \<open>StopRun\<close> and
  \<open>ServerError\<close> for every other panic; then \<open>Finish\<close>.
\<close>

theorem action_panic_lifecycle:
  assumes "ctl ''Init'' ctx st = (Returns u, c0, s0)" and "ctl ''Before'' c0 s0 = (Returns v, c1, s1)"
    and "ctl m c1 s1 = (Panics p, c2, s2)" and "ctl ''After'' c2 s2 = (Returns x, c3, s3)"
  shows "run_instance ctl m ctx st =
    (if p = StopRun then deferred (ctl ''Finish'') (Returns (), c3, s3)
     else deferred (ctl ''Finish'') (ctl ''ServerError'' c3 s3))"
  using assms by (rule run_instance_action)

text \<open>A controller that writes down in \<open>hc_Layout\<close> what runs, and stops in its action.\<close>

definition log_method :: "string \<Rightarrow> panic_value option \<Rightarrow> (nat, nat) handler" where
  "log_method name p ctx st = (raised p, ctx\<lparr>hc_Layout := hc_Layout ctx @ name @ '' ''\<rparr>, st)"

definition log_ctl :: "(nat, nat) ctl" where
  "log_ctl name = log_method name (if name = ''Act'' then Some StopRun else None)"

definition log_ctx :: "string \<Rightarrow> http_ctx" where
  "log_ctx names = (blank_ctx new_writer sample_req [])\<lparr>hc_Layout := names\<rparr>"

lemma log_ctl_step:
  "log_ctl n (log_ctx names) st =
   (raised (if n = ''Act'' then Some StopRun else None), log_ctx (names @ n @ '' ''), st)"
  by (simp add: log_ctl_def log_method_def log_ctx_def)

theorem action_panic_lifecycle_witness:
  "\<forall>st. run_instance log_ctl ''Act'' (log_ctx []) st =
        (Returns (), log_ctx ''Init Before Act After Finish '', st)"
proof
  fix st
  have i: "log_ctl ''Init'' (log_ctx []) st = (Returns (), log_ctx ''Init '', st)"
    and b: "log_ctl ''Before'' (log_ctx ''Init '') st = (Returns (), log_ctx ''Init Before '', st)"
    and a: "log_ctl ''Act'' (log_ctx ''Init Before '') st = (Panics StopRun, log_ctx ''Init Before Act '', st)"
    and f: "log_ctl ''After'' (log_ctx ''Init Before Act '') st = (Returns (), log_ctx ''Init Before Act After '', st)"
    by (simp_all add: log_ctl_step)
  show "run_instance log_ctl ''Act'' (log_ctx []) st =
        (Returns (), log_ctx ''Init Before Act After Finish '', st)"
    using action_panic_lifecycle [where ctl = log_ctl and m = "''Act''", OF i b a f] by (simp add: deferred_def log_ctl_step)
qed

text \<open>
  C2. A request whose action panics is answered: when a controller embedding \<open>Controller\<close>
  panics with anything but \<open>StopRun\<close> and nothing has been sent yet, the client gets status
  500 and the JSON of error number 500, and the panic does not reach the server.
\<close>

theorem panic_is_answered_500:
  assumes "\<not> is_grpc r" and "initCtx (sv_uuid env) w r st = (ctx, st1)"
    and "checkConcurrence env (ap_online (online_up st1)) = None" and "\<not> routes_empty t"
    and "findInstanceByPath (ac_Route (sv_config env)) t ctx = (Returns (i, m), c0)"
    and "in_reflectVal i = embed env [m \<mapsto> h]" and "m \<notin> set lifecycle_methods"
    and "Controller_Init env c0 (online_up st1) = (Returns (), c1, s1)"
    and "h c1 s1 = (Panics p, c2, s2)" and "p \<noteq> StopRun"
    and "plain_json c2" and "\<not> session_enabled (sv_config env)"
    and "sv_json env (JResponse 500 ''ServerError'' (shown_results c2)) = Inr b" and "b \<noteq> []"
  shows "\<exists>w'. fst (Router env grpc t w r st) = (Returns (), w') \<and> final_status w' = 500 \<and>
              rw_body w' = rw_body (hc_ResponseWriter c2) @ [b]"
proof -
  let ?ctl = "embed env [m \<mapsto> h]"
  let ?e = "c2\<lparr>hc_HTTPStatus := 500, hc_IsError := True, hc_ErrNo := 500, hc_ErrMsg := ''ServerError''\<rparr>"
  have n: "?ctl ''Init'' = Controller_Init env" "?ctl ''Before'' = Controller_Before"
    "?ctl ''After'' = Controller_After" "?ctl ''Finish'' = Controller_Finish env"
    "?ctl ''ServerError'' = Controller_ServerError" "?ctl m = h"
    using assms(7) by (auto simp: embed_def lifecycle_methods_def)
  have "run_instance ?ctl m c0 (online_up st1) =
        deferred (Controller_Finish env) (Controller_ServerError c2 s2)"
    using run_instance_action [of ?ctl c0 "online_up st1" "()" c1 s1 "()" c1 s1 m p c2 s2 "()" c2 s2]
      assms(8-10) by (simp add: n Controller_Before_def Controller_After_def)
  also have "Controller_ServerError c2 s2 = (Returns (), ?e, s2)"
    by (simp add: Controller_ServerError_def)
  finally have run: "run_instance ?ctl m c0 (online_up st1) =
        deferred (Controller_Finish env) (Returns (), ?e, s2)" .
  have "plain_json ?e" using assms(11) by (simp add: plain_json_def)
  moreover have "shown_results ?e = shown_results c2" by (simp add: shown_results_def)
  ultimately obtain c' where c': "Controller_Finish env ?e s2 = (Returns (), c', s2)"
    "rw_status (hc_ResponseWriter c') = Some 500"
    "rw_body (hc_ResponseWriter c') = rw_body (hc_ResponseWriter c2) @ [b]"
    using Finish_error_json [of ?e env b s2] assms(12-14) by auto
  have "route_request env t ctx (online_up st1) = (Returns (), c', s2)"
    using assms(3-6) by (simp add: route_request_def run deferred_def c'(1))
  then have "fst (Router env grpc t w r st) = (Returns (), hc_ResponseWriter c')"
    using assms(1,2) by (simp add: Router_def leave_request_def HTTPContext_Cancel_def)
  with c' show ?thesis by (simp add: final_status_def)
qed

lemma boom_found:
  "findInstanceByPath (ac_Route (sv_config sample_srv_env)) boom_tables
     (fst (initCtx (sv_uuid sample_srv_env) new_writer sample_req sample_app)) =
   (Returns (boom_instance, ''Boom''),
    (fst (initCtx (sv_uuid sample_srv_env) new_writer sample_req sample_app))
      \<lparr>hc_Action := ''Boom'', hc_Path := ''user/boom'', hc_Controller := ''User''\<rparr>)"
  by (simp add: findInstanceByPath_def Let_def initCtx_def blank_ctx_def sample_req_def completeURL_def
      to_lower_def lower_char_def less_eq_char_def trim_cut_def sample_srv_env_def lookup_route_def
      boom_tables_def empty_tables_def split_go_def has_prefix_def found_def boom_instance_def)

theorem panic_is_answered_500_witness:
  "\<exists>w'. fst (Router sample_srv_env None boom_tables new_writer sample_req sample_app) = (Returns (), w') \<and>
        final_status w' = 500 \<and> rw_body w' = [''500ServerError'']"
proof -
  let ?i = "initCtx (sv_uuid sample_srv_env) new_writer sample_req sample_app"
  let ?c0 = "(fst ?i)\<lparr>hc_Action := ''Boom'', hc_Path := ''user/boom'', hc_Controller := ''User''\<rparr>"
  let ?c1 = "fst (snd (Controller_Init sample_srv_env ?c0 (online_up (snd ?i))))"
  have ses: "\<not> session_enabled (sv_config sample_srv_env)"
    by (simp add: session_enabled_def sample_srv_env_def zero_config_def)
  have init: "Controller_Init sample_srv_env ?c0 (online_up (snd ?i)) = (Returns (), ?c1, online_up (snd ?i))"
    using ses by (simp add: Controller_Init_def Let_def)
  have c1: "?c1 = ?c0"
    using ses by (simp add: Controller_Init_def Let_def initCtx_def blank_ctx_def sample_req_def Header_Get_def)
  have pj: "plain_json ?c1"
    unfolding c1
    by (simp add: plain_json_def initCtx_def blank_ctx_def new_writer_def Header_Get_def sample_req_def
        IsWebSocketUpgrade_def token_list_contains_def)
  have res: "shown_results ?c1 = VNil" "rw_body (hc_ResponseWriter ?c1) = []"
    unfolding c1 by (simp_all add: shown_results_def initCtx_def blank_ctx_def new_writer_def)
  have "\<not> is_grpc sample_req" by (simp add: is_grpc_def sample_req_def)
  moreover have "checkConcurrence sample_srv_env (ap_online (online_up (snd ?i))) = None"
    by (simp add: checkConcurrence_def sample_srv_env_def initCtx_def WgAdd_def online_up_def sample_app_def)
  moreover have "\<not> routes_empty boom_tables" by (auto simp: routes_empty_def boom_tables_def fun_eq_iff)
  moreover have "in_reflectVal boom_instance = embed sample_srv_env [''Boom'' \<mapsto> boom]"
    by (simp add: boom_instance_def boom_ctl_def)
  moreover have "''Boom'' \<notin> set lifecycle_methods" by (simp add: lifecycle_methods_def)
  moreover have "boom ?c1 (online_up (snd ?i)) = (Panics (PanicMsg ''boom''), ?c1, online_up (snd ?i))"
    by (simp add: boom_def)
  moreover have "sv_json sample_srv_env (JResponse 500 ''ServerError'' (shown_results ?c1)) = Inr ''500ServerError''"
    by (simp add: sample_srv_env_def int_dec_def nat_dec_eval)
  ultimately show ?thesis
    using panic_is_answered_500 [OF _ prod.collapse [symmetric] _ _ boom_found _ _ init _ _ pj ses] res
    by (simp add: StopRun_def)
qed

text \<open>
  The limit: when as many requests are in progress as the configuration allows, a further
  one is answered 503 and changes nothing, no controller runs and both counters come back.
\<close>

theorem over_limit_is_503:
  assumes "\<not> is_grpc r" and "\<not> sv_go_test env" and "hs_Concurrence (ac_Server (sv_config env)) = n"
    and "0 < n" and "n \<le> unat (ap_online st)" and "unat (ap_online st) < 2 ^ 32 - 1"
  shows "Router env grpc t w r st = ((Returns (), WriteHeader 503 w), st)"
proof -
  have u: "unat (ap_online st + 1) = unat (ap_online st) + 1"
    using assms(6) by (simp add: unat_word_ariths)
  have "unat (of_nat n :: 32 word) = n"
    using assms(5,6) by (simp add: unat_of_nat)
  with u assms(5) have "(of_nat n :: 32 word) < ap_online st + 1"
    by (simp add: word_less_nat_alt)
  then have "checkConcurrence env (ap_online (online_up (WgAdd st))) \<noteq> None"
    using assms(2-4) by (simp add: checkConcurrence_def online_up_def WgAdd_def)
  with assms(1) show ?thesis
    by (simp add: Router_def initCtx_def route_request_def leave_request_def HTTPContext_Cancel_def
        blank_ctx_def online_up_def online_down_def WgAdd_def WgDone_def)
qed

theorem over_limit_is_503_witness:
  "Router sample_srv_env None boom_tables new_writer sample_req (sample_app\<lparr>ap_online := 2\<rparr>) =
   ((Returns (), WriteHeader 503 new_writer), sample_app\<lparr>ap_online := 2\<rparr>)"
  by (rule over_limit_is_503 [where n = 2])
    (simp_all add: is_grpc_def sample_req_def sample_srv_env_def)

text \<open>
  The limit is cut to 32 bits when it is compared: a configured limit that is a multiple of
  \<open>2 ^ 32\<close> lets nobody in.
\<close>

theorem limit_is_truncated:
  assumes "\<not> sv_go_test env" and "hs_Concurrence (ac_Server (sv_config env)) = 2 ^ 32 * k" and "0 < k"
    and "0 < x"
  shows "checkConcurrence env x \<noteq> None"
proof -
  have "(of_nat (2 ^ 32 * k) :: 32 word) = 0"
    unfolding word_of_nat_eq_0_iff by simp
  with assms show ?thesis by (auto simp: checkConcurrence_def word_gt_0)
qed

theorem limit_is_truncated_witness:
  "checkConcurrence (sample_srv_env\<lparr>sv_config := (sv_config sample_srv_env)
      \<lparr>ac_Server := (ac_Server (sv_config sample_srv_env))\<lparr>hs_Concurrence := 8589934592\<rparr>\<rparr>\<rparr>) 1 \<noteq> None"
  by (rule limit_is_truncated [where k = 2]) (simp_all add: sample_srv_env_def)

text \<open>
  A plain handler that panics is answered with nothing of its own: the panic is swallowed,
  whatever it is, the counters come back, and a client to which nothing was written sees an empty
  response with status 200.
\<close>

theorem HandlerFunc_swallows_panics:
  assumes "checkConcurrence env (ap_online st + 1) = None"
    and "h w r (online_up (WgAdd st)) = (Panics p, w', s)"
    and "ap_online s = ap_online st + 1" and "ap_wg s = ap_wg st + 1"
  shows "fst (HandlerFunc_serve env h w r st) = w' \<and>
    (rw_status w' = None \<longrightarrow> final_status (fst (HandlerFunc_serve env h w r st)) = 200) \<and>
    ap_online (snd (HandlerFunc_serve env h w r st)) = ap_online st \<and>
    ap_wg (snd (HandlerFunc_serve env h w r st)) = ap_wg st"
  using assms
  by (simp add: HandlerFunc_serve_def initCtx_def Let_def HTTPContext_Cancel_def blank_ctx_def
      online_up_def online_down_def WgAdd_def WgDone_def final_status_def)

theorem HandlerFunc_swallows_panics_witness:
  "final_status (fst (HandlerFunc_serve sample_srv_env (\<lambda>w r st. (Panics nil_deref, w, st))
     new_writer sample_req sample_app)) = 200"
proof -
  have a: "checkConcurrence sample_srv_env (ap_online sample_app + 1) = None"
    by (simp add: checkConcurrence_def sample_srv_env_def sample_app_def)
  have b: "ap_online (online_up (WgAdd sample_app)) = ap_online sample_app + 1"
    "ap_wg (online_up (WgAdd sample_app)) = ap_wg sample_app + 1"
    by (simp_all add: online_up_def WgAdd_def)
  have c: "rw_status new_writer = None" by (simp add: new_writer_def)
  show ?thesis
    using HandlerFunc_swallows_panics
      [where h = "\<lambda>w r st. (Panics nil_deref, w, st)" and w = new_writer and r = sample_req, OF a refl b] c
    by blast
qed

text \<open>
  Without any route \<open>NotFound\<close> is set on the context but nothing renders it: the
  response stays untouched, which a client sees as status 200 without a body.
\<close>

theorem no_routes_is_blank:
  assumes "\<not> is_grpc r" and "checkConcurrence env (ap_online st + 1) = None" and "routes_empty t"
  shows "Router env grpc t w r st = ((Returns (), w), st) \<and> (rw_status w = None \<longrightarrow> final_status w = 200)"
  using assms
  by (simp add: Router_def initCtx_def route_request_def leave_request_def HTTPContext_Cancel_def
      Controller_NotFound_def blank_ctx_def online_up_def online_down_def WgAdd_def WgDone_def
      final_status_def)

theorem no_routes_is_blank_witness:
  "Router sample_srv_env None empty_tables new_writer sample_req sample_app =
     ((Returns (), new_writer), sample_app)"
  using no_routes_is_blank [of sample_req sample_srv_env sample_app empty_tables None new_writer]
  by (simp add: is_grpc_def sample_req_def checkConcurrence_def sample_srv_env_def sample_app_def
      routes_empty_def empty_tables_def)

text \<open>
  \<open>DispatchRoute\<close> does not dispatch: it writes the controller and the action into the
  path as \<open>C:... M:...\<close>, a form that no route has, so that whatever controller and action
  were asked for, \<open>NotFound\<close> of the default controller runs.
\<close>

theorem DispatchRoute_always_NotFound:
  assumes "no_dispatch_names t" and "ro_default t = Some d"
  shows "\<exists>ctx'. DispatchRoute env t ctx st = run_body (in_reflectVal d) NotFound ctx' st \<and>
                hc_Action ctx' = NotFound"
proof -
  let ?c = "ctx\<lparr>hc_Path := dispatch_path ctx\<rparr>"
  obtain f c1 where f: "findInstanceByPath (ac_Route (sv_config env)) t ?c = (f, c1)" by fastforce
  have "hc_Path ?c = ''C:'' @ hc_Controller ctx @ '' M:'' @ hc_Action ctx" by (simp add: dispatch_path_def)
  from dispatch_not_found [OF assms this, of "ac_Route (sv_config env)"] f have "f = Returns (d, NotFound)" by simp
  with f have f': "findInstanceByPath (ac_Route (sv_config env)) t ?c = (Returns (d, NotFound), c1)" by simp
  from find_result(2) [OF f'] have "hc_Action c1 = NotFound" .
  moreover from f' have "DispatchRoute env t ctx st = run_body (in_reflectVal d) NotFound c1 st"
    by (simp add: DispatchRoute_def)
  ultimately show ?thesis by blast
qed

theorem DispatchRoute_always_NotFound_witness:
  "\<forall>ctx st. \<exists>ctx'. DispatchRoute sample_srv_env boom_tables ctx st = run_body boom_ctl NotFound ctx' st \<and>
                hc_Action ctx' = NotFound"
proof (intro allI)
  fix ctx st
  have "no_dispatch_names boom_tables"
    by (simp add: no_dispatch_names_def boom_tables_def empty_tables_def has_prefix_def)
  from DispatchRoute_always_NotFound [OF this, of boom_instance sample_srv_env ctx st]
  show "\<exists>ctx'. DispatchRoute sample_srv_env boom_tables ctx st = run_body boom_ctl NotFound ctx' st \<and>
                hc_Action ctx' = NotFound"
    by (simp add: boom_tables_def boom_instance_def)
qed

end
