(* ===== verification/XormCond.thy ===== *)
theory XormCond
  imports Common "HOL-Library.Multiset"
begin

text \<open>
  \<open>db/models.go\<close> and the condition builder of \<open>db/xorm_dao.go\<close>. xorm is third-party
  code: a session is the list of the builder calls made on it since its last statement, in
  order. A \<open>Cond\<close> is a Go map, which is iterated in an order the run time chooses: here
  it is the list of its entries in that order.
\<close>

section \<open>Models, conditions, builder calls\<close>

record model =
  md_AutoIncrColName :: string
  md_TableName :: string
  md_value :: goval

type_synonym cond = "(string \<times> goval) list"

datatype builder =
  Bd_Table model | Bd_GroupBy string | Bd_Having string | Bd_SQL goval | Bd_Select string
| Bd_Distinct string | Bd_ForUpdate | Bd_Cols "string list" | Bd_MustCols "string list"
| Bd_Omit "string list" | Bd_AllCols | Bd_In string goval | Bd_NotIn string goval
| Bd_InList string "goval list" | Bd_Where string "goval list" | Bd_OrderBy string | Bd_Limit int int | Bd_Unscoped

definition DefaultPageSize :: int where "DefaultPageSize = 1000"

text \<open>
  \<open>v.(string)\<close> and not empty; \<open>v.([]string)\<close>; the number of a page. A float is cut
  towards zero, and one that does not fit becomes the lowest number, as on amd64.
\<close>

definition nonempty_str :: "goval \<Rightarrow> string option" where
  "nonempty_str v = (case v of VStr s \<Rightarrow> if s = [] then None else Some s | _ \<Rightarrow> None)"

definition strs_of :: "goval \<Rightarrow> string list option" where
  "strs_of v = (case v of VStrs s \<Rightarrow> Some s | _ \<Rightarrow> None)"

definition float_int :: "int \<Rightarrow> int \<Rightarrow> int" where
  "float_int m e =
     (let x = (if 0 \<le> e then m * 2 ^ nat e else go_div m (2 ^ nat (- e)))
      in if in_i64 x then x else - (2 ^ 63))"

definition page_number :: "goval \<Rightarrow> int" where
  "page_number v =
     (case v of
        VF64 m e \<Rightarrow> float_int m e
      | VF32 m e \<Rightarrow> float_int m e
      | VStr s \<Rightarrow> fst (atoi s)
      | _ \<Rightarrow> ConvertToInt v)"

section \<open>The loop over the condition\<close>

record cond_st =
  cs_str :: "string list"
  cs_args :: "goval list"
  cs_orderby :: string
  cs_page :: int
  cs_pageSize :: int
  cs_where :: string
  cs_isPaging :: bool
  cs_calls :: "builder list"

definition call :: "builder option \<Rightarrow> cond_st \<Rightarrow> cond_st" where
  "call b st = (case b of None \<Rightarrow> st | Some x \<Rightarrow> st\<lparr>cs_calls := cs_calls st @ [x]\<rparr>)"

text \<open>The keys that only add a call to the session.\<close>

definition call_key :: "string \<Rightarrow> goval \<Rightarrow> builder option option" where
  "call_key k v =
     (if k = ''groupby'' then Some (map_option Bd_GroupBy (nonempty_str v))
      else if k = ''having'' then Some (map_option Bd_Having (nonempty_str v))
      else if k = ''sql'' then Some (Some (Bd_SQL v))
      else if k = ''select'' then Some (map_option Bd_Select (nonempty_str v))
      else if k = ''distinct'' then Some (map_option Bd_Distinct (nonempty_str v))
      else if k = ''forupdate'' then Some (Some Bd_ForUpdate)
      else if k = ''cols'' then Some (map_option Bd_Cols (strs_of v))
      else if k = ''mustcols'' then Some (map_option Bd_MustCols (strs_of v))
      else if k = ''omit'' then Some (map_option Bd_Omit (strs_of v))
      else if k = ''allcols'' then Some (Some Bd_AllCols)
      else None)"

text \<open>The keys that set a variable of the loop.\<close>

definition set_key :: "bool \<Rightarrow> string \<Rightarrow> goval \<Rightarrow> cond_st \<Rightarrow> cond_st option" where
  "set_key isOrder k v st =
     (if k = ''nolimit'' then Some (st\<lparr>cs_isPaging := False\<rparr>)
      else if k = ''orderby'' then
        Some (if isOrder then st\<lparr>cs_orderby := (case nonempty_str v of Some s \<Rightarrow> s | None \<Rightarrow> [])\<rparr> else st)
      else if k = ''page'' then
        Some (if cs_isPaging st then st\<lparr>cs_page := go_Max (page_number v) [cs_page st]\<rparr> else st)
      else if k = ''pagesize'' then
        Some (if cs_isPaging st \<and> 0 < page_number v then st\<lparr>cs_pageSize := page_number v\<rparr> else st)
      else if k = ''where'' then
        Some (case nonempty_str v of Some s \<Rightarrow> st\<lparr>cs_where := s\<rparr> | None \<Rightarrow> st)
      else None)"

definition quoted_eq :: "string \<Rightarrow> string \<Rightarrow> string" where
  "quoted_eq c op = CHR 0x60 # c @ [CHR 0x60] @ op"

text \<open>Every other key is a column, alone or with an operator; \<open>None\<close> is the error.\<close>

definition column_key :: "string \<Rightarrow> goval \<Rightarrow> cond_st \<Rightarrow> cond_st option" where
  "column_key k v st =
     (case fields_go (trim_space k) of
        [c] \<Rightarrow> Some (st\<lparr>cs_str := cs_str st @ [quoted_eq k '' = ?''], cs_args := cs_args st @ [v]\<rparr>)
      | [c, op] \<Rightarrow>
          Some (if op = ''in'' then call (Some (Bd_In c v)) st
                else if op = ''notin'' then call (Some (Bd_NotIn c v)) st
                else if op = ''like''
                then st\<lparr>cs_str := cs_str st @ [quoted_eq c '' like ?''], cs_args := cs_args st @ [v]\<rparr>
                else st\<lparr>cs_str := cs_str st @ [k @ '' ?''], cs_args := cs_args st @ [v]\<rparr>)
      | _ \<Rightarrow> None)"

definition cond_step :: "bool \<Rightarrow> string \<times> goval \<Rightarrow> cond_st \<Rightarrow> cond_st option" where
  "cond_step isOrder kv st =
     (let k = to_lower (fst kv); v = snd kv in
      case set_key isOrder k v st of
        Some st' \<Rightarrow> Some st'
      | None \<Rightarrow>
          (case call_key k v of
             Some b \<Rightarrow> Some (call b st)
           | None \<Rightarrow> column_key k v st))"

text \<open>The second component is false when the loop stopped with the error.\<close>

fun cond_loop :: "bool \<Rightarrow> cond \<Rightarrow> cond_st \<Rightarrow> cond_st \<times> bool" where
  "cond_loop isOrder [] st = (st, True)"
| "cond_loop isOrder (kv # cond) st =
     (case cond_step isOrder kv st of
        None \<Rightarrow> (st, False)
      | Some st' \<Rightarrow> cond_loop isOrder cond st')"

definition default_order :: "model \<Rightarrow> bool \<Rightarrow> string" where
  "default_order t isOrder =
     (if isOrder \<and> md_AutoIncrColName t \<noteq> [] then md_AutoIncrColName t @ '' desc'' else [])"

definition where_clause :: "string \<Rightarrow> string list \<Rightarrow> string" where
  "where_clause wh str =
     (let strs = (if str = [] then [] else join_go str '' AND '')
      in if wh \<noteq> [] \<and> strs \<noteq> [] then ''('' @ wh @ '') AND '' @ strs
         else if strs \<noteq> [] then strs else wh)"

definition first_st :: "model \<Rightarrow> builder list \<Rightarrow> bool \<Rightarrow> bool \<Rightarrow> cond_st" where
  "first_st t pending isOrder isPaging =
     \<lparr>cs_str = [], cs_args = [], cs_orderby = default_order t isOrder, cs_page = 1,
      cs_pageSize = DefaultPageSize, cs_where = [], cs_isPaging = isPaging,
      cs_calls = pending @ [Bd_Table t]\<rparr>"

text \<open>The statement that is left: \<open>Where\<close>, then the order, then the page.\<close>

definition final_calls :: "cond_st \<Rightarrow> builder list" where
  "final_calls st =
     Bd_Where (where_clause (cs_where st) (cs_str st)) (cs_args st)
     # (if cs_orderby st \<noteq> [] then [Bd_OrderBy (cs_orderby st)] else [])
     @ (if cs_isPaging st then [Bd_Limit (cs_pageSize st) (i64 ((cs_page st - 1) * cs_pageSize st))] else [])"

text \<open>
  The calls made so far stay on the session when the loop stops with the error.
\<close>

definition buildCond ::
  "model \<Rightarrow> builder list \<Rightarrow> cond \<Rightarrow> bool \<Rightarrow> bool \<Rightarrow> goerr option \<times> builder list" where
  "buildCond t pending cond isOrder isPaging =
     (let (st, ok) = cond_loop isOrder cond (first_st t pending isOrder isPaging)
      in if ok then (None, cs_calls st @ final_calls st)
         else (Some (Errorf ''error cond''), cs_calls st))"

section \<open>A reference definition\<close>

text \<open>
  The same statement without a loop: the variables are looked up under their key, in lower case,
  and the columns are taken one by one.
\<close>

definition lower_keys :: "cond \<Rightarrow> string list" where
  "lower_keys cond = map (\<lambda>kv. to_lower (fst kv)) cond"

definition cond_get :: "cond \<Rightarrow> string \<Rightarrow> goval option" where
  "cond_get cond k = map_of (map (\<lambda>kv. (to_lower (fst kv), snd kv)) cond) k"

definition set_keys :: "string list" where
  "set_keys = [''nolimit'', ''orderby'', ''page'', ''pagesize'', ''where'']"

definition entry_calls :: "string \<times> goval \<Rightarrow> builder list" where
  "entry_calls kv =
     (let k = to_lower (fst kv); v = snd kv in
      if k \<in> set set_keys then []
      else case call_key k v of
        Some b \<Rightarrow> (case b of None \<Rightarrow> [] | Some x \<Rightarrow> [x])
      | None \<Rightarrow>
          (case fields_go (trim_space k) of
             [c, op] \<Rightarrow> if op = ''in'' then [Bd_In c v] else if op = ''notin'' then [Bd_NotIn c v] else []
           | _ \<Rightarrow> []))"

definition entry_conj :: "string \<times> goval \<Rightarrow> (string \<times> goval) list" where
  "entry_conj kv =
     (let k = to_lower (fst kv); v = snd kv in
      if k \<in> set set_keys \<or> call_key k v \<noteq> None then []
      else case fields_go (trim_space k) of
        [c] \<Rightarrow> [(quoted_eq k '' = ?'', v)]
      | [c, op] \<Rightarrow>
          if op = ''in'' \<or> op = ''notin'' then []
          else if op = ''like'' then [(quoted_eq c '' like ?'', v)] else [(k @ '' ?'', v)]
      | _ \<Rightarrow> [])"

definition entry_ok :: "string \<times> goval \<Rightarrow> bool" where
  "entry_ok kv =
     (let k = to_lower (fst kv) in
      k \<in> set set_keys \<or> call_key k (snd kv) \<noteq> None \<or> length (fields_go (trim_space k)) \<in> {1, 2})"

definition spec_order :: "model \<Rightarrow> cond \<Rightarrow> bool \<Rightarrow> string" where
  "spec_order t cond isOrder =
     (if \<not> isOrder then []
      else case cond_get cond ''orderby'' of
        None \<Rightarrow> default_order t isOrder
      | Some v \<Rightarrow> (case nonempty_str v of Some s \<Rightarrow> s | None \<Rightarrow> []))"

definition spec_where :: "cond \<Rightarrow> string" where
  "spec_where cond = (case Option.bind (cond_get cond ''where'') nonempty_str of Some s \<Rightarrow> s | None \<Rightarrow> [])"

definition spec_page :: "cond \<Rightarrow> int" where
  "spec_page cond = (case cond_get cond ''page'' of None \<Rightarrow> 1 | Some v \<Rightarrow> max 1 (page_number v))"

definition spec_pageSize :: "cond \<Rightarrow> int" where
  "spec_pageSize cond =
     (case cond_get cond ''pagesize'' of
        None \<Rightarrow> DefaultPageSize
      | Some v \<Rightarrow> if 0 < page_number v then page_number v else DefaultPageSize)"

definition spec_calls :: "model \<Rightarrow> cond \<Rightarrow> bool \<Rightarrow> bool \<Rightarrow> builder list" where
  "spec_calls t cond isOrder isPaging =
     (let conjs = concat (map entry_conj cond) in
      Bd_Table t # concat (map entry_calls cond)
      @ [Bd_Where (where_clause (spec_where cond) (map fst conjs)) (map snd conjs)]
      @ (if spec_order t cond isOrder \<noteq> [] then [Bd_OrderBy (spec_order t cond isOrder)] else [])
      @ (if isPaging \<and> cond_get cond ''nolimit'' = None
         then [Bd_Limit (spec_pageSize cond) (i64 ((spec_page cond - 1) * spec_pageSize cond))] else []))"

section \<open>The loop computes the reference\<close>

lemma set_key_none: "set_key isOrder k v st = None \<longleftrightarrow> k \<notin> set set_keys"
  by (auto simp: set_key_def set_keys_def)

lemma set_key_in: "set_key isOrder k v st = Some st' \<Longrightarrow> k \<in> set set_keys"
  using set_key_none [of isOrder k v st] by auto

lemma column_key_none: "column_key k v st = None \<longleftrightarrow> length (fields_go (trim_space k)) \<notin> {1, 2}"
  by (auto simp: column_key_def split: list.splits)

lemma cond_step_none: "cond_step isOrder kv st = None \<longleftrightarrow> \<not> entry_ok kv"
  by (auto simp: cond_step_def entry_ok_def Let_def set_key_none column_key_none
      dest: set_key_in split: option.splits)

lemma call_fields [simp]:
  "cs_str (call b st) = cs_str st" "cs_args (call b st) = cs_args st"
  "cs_orderby (call b st) = cs_orderby st" "cs_page (call b st) = cs_page st"
  "cs_pageSize (call b st) = cs_pageSize st" "cs_where (call b st) = cs_where st"
  "cs_isPaging (call b st) = cs_isPaging st"
  "cs_calls (call b st) = cs_calls st @ (case b of None \<Rightarrow> [] | Some x \<Rightarrow> [x])"
  by (simp_all add: call_def split: option.split)

text \<open>What one entry does to the variables of the loop.\<close>

definition vars_step :: "bool \<Rightarrow> string \<Rightarrow> goval \<Rightarrow> cond_st \<Rightarrow> cond_st \<Rightarrow> bool" where
  "vars_step isOrder k v st st' \<longleftrightarrow>
     cs_isPaging st' = (cs_isPaging st \<and> k \<noteq> ''nolimit'') \<and>
     cs_orderby st' = (if k = ''orderby'' \<and> isOrder
        then (case nonempty_str v of Some s \<Rightarrow> s | None \<Rightarrow> []) else cs_orderby st) \<and>
     cs_where st' = (if k = ''where'' then (case nonempty_str v of Some s \<Rightarrow> s | None \<Rightarrow> cs_where st)
        else cs_where st) \<and>
     (cs_isPaging st \<longrightarrow>
        cs_page st' = (if k = ''page'' then max (page_number v) (cs_page st) else cs_page st) \<and>
        cs_pageSize st' = (if k = ''pagesize'' \<and> 0 < page_number v then page_number v else cs_pageSize st))"

lemma set_key_vars: "set_key isOrder k v st = Some st' \<Longrightarrow> vars_step isOrder k v st st'"
  by (auto simp: set_key_def vars_step_def split: if_splits option.splits)

lemma set_key_lists:
  assumes "set_key isOrder k v st = Some st'"
  shows "cs_str st' = cs_str st" and "cs_args st' = cs_args st" and "cs_calls st' = cs_calls st"
  using assms by (auto simp: set_key_def split: if_splits option.splits)

lemma other_key_vars:
  assumes "k \<notin> set set_keys"
  shows "vars_step isOrder k v st st' \<longleftrightarrow>
    cs_isPaging st' = cs_isPaging st \<and> cs_orderby st' = cs_orderby st \<and> cs_where st' = cs_where st \<and>
    (cs_isPaging st \<longrightarrow> cs_page st' = cs_page st \<and> cs_pageSize st' = cs_pageSize st)"
  using assms by (simp add: vars_step_def set_keys_def)

lemma column_key_fields:
  assumes "column_key k v st = Some st'"
  shows "cs_isPaging st' = cs_isPaging st" and "cs_orderby st' = cs_orderby st"
    and "cs_where st' = cs_where st" and "cs_page st' = cs_page st" and "cs_pageSize st' = cs_pageSize st"
  using assms by (auto simp: column_key_def split: list.splits if_splits)

text \<open>The three ways an entry is taken.\<close>

lemma cond_step_cases:
  assumes "cond_step isOrder kv st = Some st'"
  obtains (set) "set_key isOrder (to_lower (fst kv)) (snd kv) st = Some st'" "to_lower (fst kv) \<in> set set_keys"
    | (call) b where "to_lower (fst kv) \<notin> set set_keys" "call_key (to_lower (fst kv)) (snd kv) = Some b"
        "st' = call b st"
    | (column) "to_lower (fst kv) \<notin> set set_keys" "call_key (to_lower (fst kv)) (snd kv) = None"
        "column_key (to_lower (fst kv)) (snd kv) st = Some st'"
  using assms set_key_none [of isOrder "to_lower (fst kv)" "snd kv" st]
  by (auto simp: cond_step_def Let_def split: option.splits)

lemma cond_step_lists:
  assumes "cond_step isOrder kv st = Some st'"
  shows "cs_str st' = cs_str st @ map fst (entry_conj kv) \<and>
    cs_args st' = cs_args st @ map snd (entry_conj kv) \<and> cs_calls st' = cs_calls st @ entry_calls kv"
  using assms
proof (cases rule: cond_step_cases)
  case set
  then show ?thesis by (simp add: set_key_lists entry_conj_def entry_calls_def Let_def)
next
  case call
  then show ?thesis by (simp add: entry_conj_def entry_calls_def Let_def)
next
  case column
  then show ?thesis
    by (auto simp: column_key_def entry_conj_def entry_calls_def Let_def split: list.splits if_splits)
qed

lemma cond_step_vars:
  assumes "cond_step isOrder kv st = Some st'"
  shows "vars_step isOrder (to_lower (fst kv)) (snd kv) st st'"
  using assms
  by (cases rule: cond_step_cases) (simp_all add: set_key_vars other_key_vars column_key_fields)

lemma cond_get_Nil [simp]: "cond_get [] k = None"
  by (simp add: cond_get_def)

lemma cond_get_Cons [simp]:
  "cond_get (kv # cond) k = (if to_lower (fst kv) = k then Some (snd kv) else cond_get cond k)"
  by (simp add: cond_get_def)

lemma cond_get_none: "k \<notin> set (lower_keys cond) \<Longrightarrow> cond_get cond k = None"
  by (induction cond) (auto simp: lower_keys_def)

lemma cond_loop_ok: "snd (cond_loop isOrder cond st) \<longleftrightarrow> list_all entry_ok cond"
proof (induction cond arbitrary: st)
  case (Cons kv cond)
  then show ?case
    using cond_step_none [of isOrder kv st] by (auto split: option.splits)
qed simp

lemma cond_loop_lists:
  "cond_loop isOrder cond st = (st', True) \<Longrightarrow>
   cs_str st' = cs_str st @ map fst (concat (map entry_conj cond)) \<and>
   cs_args st' = cs_args st @ map snd (concat (map entry_conj cond)) \<and>
   cs_calls st' = cs_calls st @ concat (map entry_calls cond)"
proof (induction cond arbitrary: st)
  case (Cons kv cond)
  then obtain st1 where "cond_step isOrder kv st = Some st1" "cond_loop isOrder cond st1 = (st', True)"
    by (auto split: option.splits)
  with Cons.IH [of st1] cond_step_lists [of isOrder kv st st1] show ?case by simp
qed simp

lemma cond_loop_vars:
  assumes "distinct (lower_keys cond)" and "cond_loop isOrder cond st = (st', True)"
  shows "cs_isPaging st' = (cs_isPaging st \<and> cond_get cond ''nolimit'' = None) \<and>
    cs_orderby st' = (case cond_get cond ''orderby'' of
        Some v \<Rightarrow> if isOrder then (case nonempty_str v of Some s \<Rightarrow> s | None \<Rightarrow> []) else cs_orderby st
      | None \<Rightarrow> cs_orderby st) \<and>
    cs_where st' = (case Option.bind (cond_get cond ''where'') nonempty_str of Some s \<Rightarrow> s | None \<Rightarrow> cs_where st) \<and>
    (cs_isPaging st' \<longrightarrow>
       cs_page st' = (case cond_get cond ''page'' of None \<Rightarrow> cs_page st | Some v \<Rightarrow> max (cs_page st) (page_number v)) \<and>
       cs_pageSize st' = (case cond_get cond ''pagesize'' of None \<Rightarrow> cs_pageSize st
         | Some v \<Rightarrow> if 0 < page_number v then page_number v else cs_pageSize st))"
  using assms
proof (induction cond arbitrary: st)
  case (Cons kv cond)
  then obtain st1 where s: "cond_step isOrder kv st = Some st1" "cond_loop isOrder cond st1 = (st', True)"
    by (auto split: option.splits)
  have d: "distinct (lower_keys cond)" and n: "cond_get cond (to_lower (fst kv)) = None"
    using Cons.prems(1) cond_get_none [of "to_lower (fst kv)" cond] by (auto simp: lower_keys_def)
  note step = cond_step_vars [OF s(1), unfolded vars_step_def]
  consider "to_lower (fst kv) = ''nolimit''" | "to_lower (fst kv) = ''orderby''"
    | "to_lower (fst kv) = ''where''" | "to_lower (fst kv) = ''page''"
    | "to_lower (fst kv) = ''pagesize''" | "to_lower (fst kv) \<notin> set set_keys"
    by (auto simp: set_keys_def)
  then show ?case
    using Cons.IH [OF d s(2)] step n
    by cases (simp_all add: set_keys_def max.commute split: option.splits)
qed simp

lemma first_vars:
  assumes "distinct (lower_keys cond)" and "cond_loop isOrder cond (first_st t p isOrder isPaging) = (st, True)"
  shows "final_calls st = drop (Suc (length (concat (map entry_calls cond)))) (spec_calls t cond isOrder isPaging)"
proof -
  let ?conjs = "concat (map entry_conj cond)"
  have l: "cs_str st = map fst ?conjs" "cs_args st = map snd ?conjs"
    using cond_loop_lists [OF assms(2)] by (simp_all add: first_st_def)
  have v: "cs_isPaging st = (isPaging \<and> cond_get cond ''nolimit'' = None)"
    "cs_orderby st = spec_order t cond isOrder" "cs_where st = spec_where cond"
    "cs_isPaging st \<Longrightarrow> cs_page st = spec_page cond" "cs_isPaging st \<Longrightarrow> cs_pageSize st = spec_pageSize cond"
    using cond_loop_vars [OF assms]
    by (auto simp: first_st_def spec_order_def default_order_def spec_where_def spec_page_def
        spec_pageSize_def split: option.splits)
  show ?thesis
    by (simp add: final_calls_def spec_calls_def Let_def l v)
qed

section \<open>Properties\<close>

text \<open>
  C9. The loop over the condition is the reference: when no two keys agree up to case, a condition
  with well-formed keys gives exactly the calls of \<open>spec_calls\<close>, after those that were
  pending on the session, and a condition with a key that is none of the modifiers and does not
  have one or two words is refused.
\<close>

theorem buildCond_reference:
  assumes "distinct (lower_keys cond)"
  shows "(list_all entry_ok cond \<longrightarrow>
            buildCond t p cond isOrder isPaging = (None, p @ spec_calls t cond isOrder isPaging)) \<and>
         (\<not> list_all entry_ok cond \<longrightarrow>
            fst (buildCond t p cond isOrder isPaging) = Some (Errorf ''error cond''))"
proof -
  obtain st ok where l: "cond_loop isOrder cond (first_st t p isOrder isPaging) = (st, ok)" by fastforce
  have ok: "ok \<longleftrightarrow> list_all entry_ok cond"
    using cond_loop_ok [of isOrder cond "first_st t p isOrder isPaging"] by (simp add: l)
  have "ok \<Longrightarrow> cs_calls st = p @ Bd_Table t # concat (map entry_calls cond)"
    using cond_loop_lists [of isOrder cond "first_st t p isOrder isPaging" st] l
    by (simp add: first_st_def)
  moreover have "ok \<Longrightarrow> final_calls st = drop (Suc (length (concat (map entry_calls cond)))) (spec_calls t cond isOrder isPaging)"
    using first_vars [OF assms] l by simp
  moreover have "spec_calls t cond isOrder isPaging = Bd_Table t # concat (map entry_calls cond) @
      drop (Suc (length (concat (map entry_calls cond)))) (spec_calls t cond isOrder isPaging)"
    by (simp add: spec_calls_def Let_def)
  ultimately show ?thesis using ok by (simp add: buildCond_def l)
qed

definition user_model :: model where
  "user_model = \<lparr>md_AutoIncrColName = ''id'', md_TableName = ''user'', md_value = VNil\<rparr>"

definition sample_cond :: cond where
  "sample_cond = [(''Name'', VStr ''bob''), (''age >'', VInt 18), (''page'', VStr ''3''), (''id in'', VStrs [''1''])]"

lemma sample_cond_keys [simp]: "distinct (lower_keys sample_cond)"
  by (simp add: lower_keys_def sample_cond_def to_lower_def lower_char_def less_eq_char_def)

theorem buildCond_reference_witness:
  "fst (buildCond user_model [] [(''a b c'', VNil)] True True) = Some (Errorf ''error cond'')"
proof -
  have "distinct (lower_keys [(''a b c'', VNil)])" by (simp add: lower_keys_def)
  moreover have "\<not> list_all entry_ok [(''a b c'', VNil)]"
    by (simp add: entry_ok_def Let_def set_keys_def call_key_def to_lower_def lower_char_def
        less_eq_char_def trim_space_def is_space_def fields_go_def)
  ultimately show ?thesis using buildCond_reference by blast
qed

text \<open>
  The order in which the run time iterates the map does not matter: two conditions with the
  same entries are both refused, or give statements that order and page alike and differ only in
  the order of the columns, whose arguments move along with them.
\<close>

theorem buildCond_any_order:
  assumes "distinct (lower_keys cond)" and "mset cond' = mset cond"
  shows "fst (buildCond t p cond' isOrder isPaging) = fst (buildCond t p cond isOrder isPaging) \<and>
    (fst (buildCond t p cond isOrder isPaging) = None \<longrightarrow>
       (\<exists>calls calls' conjs conjs' rest.
          snd (buildCond t p cond isOrder isPaging) = p @ Bd_Table t # calls
            @ Bd_Where (where_clause (spec_where cond) (map fst conjs)) (map snd conjs) # rest \<and>
          snd (buildCond t p cond' isOrder isPaging) = p @ Bd_Table t # calls'
            @ Bd_Where (where_clause (spec_where cond) (map fst conjs')) (map snd conjs') # rest \<and>
          mset calls' = mset calls \<and> mset conjs' = mset conjs))"
proof -
  have "mset (lower_keys cond') = mset (lower_keys cond)" by (simp add: lower_keys_def assms(2))
  then have d': "distinct (lower_keys cond')"
    using assms(1) mset_eq_imp_distinct_iff [of "lower_keys cond'" "lower_keys cond"] by simp
  have get: "cond_get cond' k = cond_get cond k" for k
  proof -
    let ?e = "\<lambda>kv :: string \<times> goval. (to_lower (fst kv), snd kv)"
    have dist: "distinct (map fst (map ?e c)) = distinct (lower_keys c)" for c
      by (simp add: lower_keys_def comp_def)
    have "set (map ?e cond') = set (map ?e cond)"
      using mset_eq_setD [OF assms(2)] by simp
    then have "map_of (map ?e cond') = map_of (map ?e cond)"
      using map_of_inject_set [of "map ?e cond'" "map ?e cond"] assms(1) d' unfolding dist by blast
    then show ?thesis by (simp add: cond_get_def)
  qed
  have concat_mset: "mset (concat (map f c)) = \<Sum>\<^sub># (image_mset (\<lambda>x. mset (f x)) (mset c))"
    for f :: "string \<times> goval \<Rightarrow> 'b list" and c
    by (induction c) simp_all
  have cat: "mset (concat (map f cond')) = mset (concat (map f cond))" for f :: "string \<times> goval \<Rightarrow> 'b list"
    unfolding concat_mset assms(2) by simp
  have ok: "list_all entry_ok cond' = list_all entry_ok cond"
    using mset_eq_setD [OF assms(2)] by (simp add: list_all_iff)
  have same: "spec_where cond' = spec_where cond" "spec_order t cond' isOrder = spec_order t cond isOrder"
    "spec_page cond' = spec_page cond" "spec_pageSize cond' = spec_pageSize cond"
    by (simp_all add: spec_where_def spec_order_def spec_page_def spec_pageSize_def get)
  define tail where "tail = (if spec_order t cond isOrder \<noteq> [] then [Bd_OrderBy (spec_order t cond isOrder)] else [])
      @ (if isPaging \<and> cond_get cond ''nolimit'' = None
         then [Bd_Limit (spec_pageSize cond) (i64 ((spec_page cond - 1) * spec_pageSize cond))] else [])"
  let ?j = "concat (map entry_conj cond)" and ?j' = "concat (map entry_conj cond')"
  note r = buildCond_reference [OF assms(1), of t p isOrder isPaging]
    buildCond_reference [OF d', of t p isOrder isPaging]
  have "list_all entry_ok cond \<Longrightarrow>
      snd (buildCond t p cond isOrder isPaging) = p @ Bd_Table t # concat (map entry_calls cond)
        @ Bd_Where (where_clause (spec_where cond) (map fst ?j)) (map snd ?j) # tail \<and>
      snd (buildCond t p cond' isOrder isPaging) = p @ Bd_Table t # concat (map entry_calls cond')
        @ Bd_Where (where_clause (spec_where cond) (map fst ?j')) (map snd ?j') # tail"
    using r ok by (simp add: spec_calls_def Let_def same get tail_def)
  moreover have "fst (buildCond t p cond isOrder isPaging) = (if list_all entry_ok cond then None else Some (Errorf ''error cond''))"
    "fst (buildCond t p cond' isOrder isPaging) = (if list_all entry_ok cond then None else Some (Errorf ''error cond''))"
    using r ok by auto
  ultimately show ?thesis
    using cat [of entry_calls] cat [of entry_conj] by (metis option.distinct(1))
qed

lemma sample_cond_ok: "list_all entry_ok sample_cond"
  by (simp add: sample_cond_def entry_ok_def Let_def set_keys_def call_key_def to_lower_def lower_char_def
      less_eq_char_def trim_space_def is_space_def fields_go_def char_of_def bit_0)

theorem buildCond_any_order_witness:
  "fst (buildCond user_model [] (rev sample_cond) True True) = None"
  using buildCond_any_order [OF sample_cond_keys, of "rev sample_cond" user_model "[]" True True]
    buildCond_reference [OF sample_cond_keys, of user_model "[]" True True] sample_cond_ok
  by simp

text \<open>
  Pages: a statement that is paged asks for at least one row, and skips the rows of the pages
  before, none for the first page; but the product is a machine integer, so that a page number
  from a request can make the offset negative.
\<close>

theorem page_offset_bounds:
  assumes "distinct (lower_keys cond)" and "list_all entry_ok cond"
    and "Bd_Limit n off \<in> set (snd (buildCond t [] cond isOrder isPaging))"
  shows "isPaging \<and> 0 < n \<and> off = i64 ((spec_page cond - 1) * n) \<and>
    ((spec_page cond - 1) * n < 2 ^ 63 \<longrightarrow> 0 \<le> off \<and> off = (spec_page cond - 1) * n)"
proof -
  have "snd (buildCond t [] cond isOrder isPaging) = spec_calls t cond isOrder isPaging"
    using buildCond_reference [OF assms(1), of t "[]" isOrder isPaging] assms(2) by simp
  moreover have "Bd_Limit n off \<notin> set (entry_calls kv)" for kv
    by (auto simp: entry_calls_def call_key_def Let_def split: list.splits option.splits if_splits)
  ultimately have "isPaging" "n = spec_pageSize cond" "off = i64 ((spec_page cond - 1) * n)"
    using assms(3) by (auto simp: spec_calls_def Let_def split: if_splits)
  moreover have "0 < spec_pageSize cond" "1 \<le> spec_page cond"
    by (auto simp: spec_pageSize_def DefaultPageSize_def spec_page_def split: option.splits)
  ultimately show ?thesis by simp
qed

definition far_cond :: cond where
  "far_cond = [(''page'', VStr ''4611686018427387904''), (''pageSize'', VInt 4)]"

theorem page_offset_bounds_witness:
  "Bd_Limit 4 (- 4) \<in> set (snd (buildCond user_model [] far_cond True True)) \<and> - (4::int) = i64 ((spec_page far_cond - 1) * 4)"
proof -
  have d: "distinct (lower_keys far_cond)"
    by (simp add: lower_keys_def far_cond_def to_lower_def lower_char_def less_eq_char_def char_of_def bit_0)
  have ok: "list_all entry_ok far_cond"
    by (simp add: far_cond_def entry_ok_def Let_def set_keys_def to_lower_def lower_char_def less_eq_char_def
        char_of_def bit_0)
  have l: "to_lower ''pageSize'' = ''pagesize''" "to_lower ''page'' = ''page''"
    by (simp_all add: to_lower_def lower_char_def less_eq_char_def char_of_def bit_0)
  have a: "atoi ''4611686018427387904'' = (4611686018427387904, None)"
    by (simp add: atoi_unsigned_def is_digit_def digit_value_def less_eq_char_def)
  have p: "spec_page far_cond = 4611686018427387904" "spec_pageSize far_cond = 4"
    by (simp_all add: spec_page_def spec_pageSize_def far_cond_def l page_number_def a del: atoi.simps)
  have "i64 (18446744073709551612) = - 4" by (simp add: i64_def)
  then have m: "Bd_Limit 4 (- 4) \<in> set (snd (buildCond user_model [] far_cond True True))"
    using buildCond_reference [OF d, of user_model "[]" True True] ok
    by (simp add: spec_calls_def Let_def p) (simp add: far_cond_def l)
  from page_offset_bounds [OF d ok m] m show ?thesis by simp
qed

end
