(* ===== verification/Db.thy ===== *)
theory Db
  imports RedisCache XormCond
begin

text \<open>
  \<open>db/db.go\<close> and the data source names of \<open>db/mysql.go\<close>, \<open>mssql.go\<close>,
  \<open>postgres.go\<close>, \<open>sqlite3.go\<close> and \<open>impala.go\<close>: the tables of engines and
  cachers and how a connection is set up. xorm is the record \<open>xorm\<close>, over a state
  \<open>'d\<close> that is its own; engines, cachers and sessions are known by their numbers. The
  drivers are chosen by build tags, so the table of DSN functions is an argument. \<open>%v\<close> of a
  whole configuration is left out of the error texts.
\<close>

section \<open>xorm\<close>

datatype engine_setting =
  SetLogger | SetMaxIdleConns int | SetMaxOpenConns int | KeepaliveStarted int

datatype cache_store = MemoryStore | MemCache "string list" | RedisStore "redis_cache option"

datatype query_arg = ArgCond cond | ArgVal goval

datatype verb =
  V_Update goval | V_UpdateCond cond | V_UpdateModel model | V_Insert model | V_InsertMulti goval | V_Get model
| V_Find goval | V_FindAndCount goval | V_Rows model | V_Iterate model | V_Count model
| V_Exec string "goval list" | V_Query "query_arg list" | V_QueryString "query_arg list"
| V_QueryInterface "query_arg list" | V_Delete model

text \<open>The results a statement can have; \<open>NoReply\<close> stands for the zero values.\<close>

datatype db_reply =
  NoReply | Affected int | Has bool | Total int | Cursor nat | ExecResult int | Records "(string \<times> goval) list list"

record 'd xorm =
  xl_md5 :: "string \<Rightarrow> string"
  xl_json_servers :: "string list \<Rightarrow> goerr + string"
  xl_new_engine :: "string \<Rightarrow> string \<Rightarrow> 'd \<Rightarrow> (goerr + nat) \<times> 'd"
  xl_new_group :: "nat \<Rightarrow> nat list \<Rightarrow> 'd \<Rightarrow> (goerr + nat) \<times> 'd"
  xl_ping :: "nat \<Rightarrow> 'd \<Rightarrow> goerr option \<times> 'd"
  xl_set :: "nat \<Rightarrow> engine_setting \<Rightarrow> 'd \<Rightarrow> 'd"
  xl_new_cacher :: "cache_store \<Rightarrow> int \<Rightarrow> 'd \<Rightarrow> nat \<times> 'd"
  xl_set_expired :: "nat \<Rightarrow> int \<Rightarrow> 'd \<Rightarrow> 'd"
  xl_table_exists :: "nat \<Rightarrow> goval \<Rightarrow> 'd \<Rightarrow> (bool \<times> goerr option) \<times> 'd"
  xl_map_cacher :: "nat \<Rightarrow> model \<Rightarrow> nat option \<Rightarrow> 'd \<Rightarrow> 'd"
  xl_clear_cache :: "nat \<Rightarrow> model \<Rightarrow> 'd \<Rightarrow> 'd"
  xl_new_session :: "nat \<Rightarrow> 'd \<Rightarrow> nat \<times> 'd"
  xl_close :: "nat \<Rightarrow> 'd \<Rightarrow> 'd"
  xl_run :: "nat \<Rightarrow> builder list \<Rightarrow> verb \<Rightarrow> 'd \<Rightarrow> (db_reply \<times> goerr option) \<times> 'd"
  xl_begin :: "nat \<Rightarrow> 'd \<Rightarrow> goerr option \<times> 'd"
  xl_rollback :: "nat \<Rightarrow> 'd \<Rightarrow> goerr option \<times> 'd"
  xl_commit :: "nat \<Rightarrow> 'd \<Rightarrow> goerr option \<times> 'd"
  xl_last_id :: "db_reply \<Rightarrow> int \<times> goerr option"

text \<open>The state of package \<open>db\<close>: its two tables, xorm, and Redis for the cachers.\<close>

record ('d, 's) db_state =
  db_engineMap :: "string \<rightharpoonup> nat"
  db_cacherMap :: "string \<rightharpoonup> nat"
  db_xorm :: 'd
  db_redis :: "'s redis_state"

section \<open>Data source names\<close>

type_synonym dsn_map = "string \<rightharpoonup> (db_std_config \<Rightarrow> string)"

definition host_port :: "db_std_config \<Rightarrow> string" where
  "host_port c = (if ds_Port c \<noteq> [] then ds_Address c @ '':'' @ ds_Port c else ds_Address c)"

definition getMysqlDns :: "db_std_config \<Rightarrow> string" where
  "getMysqlDns c =
     ds_Username c @ '':'' @ ds_Password c @ ''@'' @ ds_Protocol c @ ''('' @ host_port c @ '')/'' @
     ds_Dbname c @ ds_Params c"

definition getMssqlDns :: "db_std_config \<Rightarrow> string" where
  "getMssqlDns c =
     ''odbc:user id='' @ ds_Username c @ '';password='' @ ds_Password c @ '';server='' @ ds_Address c @
     '';port='' @ ds_Port c @ '';database='' @ ds_Dbname c @ '';'' @ ds_Params c"

definition SQuote :: char where "SQuote = CHR 0x27"

definition getPostgresDns :: "db_std_config \<Rightarrow> string" where
  "getPostgresDns c =
     ''host='' @ ds_Address c @ '' port='' @ ds_Port c @ '' user='' @ ds_Username c @
     '' password='' @ [SQuote] @ ds_Password c @ [SQuote] @ '' dbname='' @ ds_Dbname c @ '' '' @ ds_Params c"

definition getSqlite3Dns :: "db_std_config \<Rightarrow> string" where
  "getSqlite3Dns c =
     (let auth = ''_auth_user='' @ ds_Username c @ ''&_auth_pass='' @ ds_Password c;
          params = (if ds_Params c = [] then ''?'' @ auth else ''?'' @ ds_Params c @ ''&'' @ auth)
      in ''file:'' @ ds_Address c @ params)"

definition getImpalaDns :: "db_std_config \<Rightarrow> string" where
  "getImpalaDns c =
     ''impala://'' @ ds_Username c @ '':'' @ ds_Password c @ ''@'' @ host_port c @ ''/'' @
     ds_Dbname c @ ''?'' @ ds_Params c"

definition all_dsn :: dsn_map where
  "all_dsn =
     [''mysql'' \<mapsto> getMysqlDns, ''mssql'' \<mapsto> getMssqlDns, ''sqlserver'' \<mapsto> getMssqlDns,
      ''postgres'' \<mapsto> getPostgresDns, ''sqlite3'' \<mapsto> getSqlite3Dns, ''impala'' \<mapsto> getImpalaDns]"

definition getDbDsn :: "dsn_map \<Rightarrow> db_std_config \<Rightarrow> goerr + string" where
  "getDbDsn fm c =
     (let c = c\<lparr>ds_Driver := to_lower (ds_Driver c)\<rparr> in
      case fm (ds_Driver c) of
        Some f \<Rightarrow> Inr (f c)
      | None \<Rightarrow> Inl (Errorf (''error db driver: '' @ ds_Driver c)))"

section \<open>Engines\<close>

definition getEngine ::
  "'d xorm \<Rightarrow> dsn_map \<Rightarrow> db_std_config \<Rightarrow> ('d, 's) db_state \<Rightarrow> (goerr + nat \<times> bool) \<times> ('d, 's) db_state" where
  "getEngine xl fm config st =
     (if ds_Driver config = [] then (Inl (Errorf ''dbConfig Driver is nil''), st)
      else case getDbDsn fm config of
        Inl e \<Rightarrow> (Inl e, st)
      | Inr dsn \<Rightarrow>
          (case db_engineMap st (xl_md5 xl dsn) of
             Some e \<Rightarrow> (Inr (e, False), st)
           | None \<Rightarrow>
               (case xl_new_engine xl (ds_Driver config) dsn (db_xorm st) of
                  (Inl e, d) \<Rightarrow> (Inl (Errorf (''NewEngine failed: '' @ err_text e)), st\<lparr>db_xorm := d\<rparr>)
                | (Inr e, d) \<Rightarrow>
                    (Inr (e, True),
                     st\<lparr>db_engineMap := (db_engineMap st)(xl_md5 xl dsn \<mapsto> e), db_xorm := d\<rparr>))))"

text \<open>The engines of the slaves, in order; the flag tells whether one of them is new.\<close>

fun slave_engines ::
  "'d xorm \<Rightarrow> dsn_map \<Rightarrow> db_std_config list \<Rightarrow> ('d, 's) db_state \<Rightarrow>
    (goerr + nat list \<times> bool) \<times> ('d, 's) db_state" where
  "slave_engines xl fm [] st = (Inr ([], False), st)"
| "slave_engines xl fm (val # vals) st =
     (case getEngine xl fm val st of
        (Inl e, st1) \<Rightarrow> (Inl e, st1)
      | (Inr (s, isnew), st1) \<Rightarrow>
          (case slave_engines xl fm vals st1 of
             (Inl e, st2) \<Rightarrow> (Inl e, st2)
           | (Inr (ss, isNew), st2) \<Rightarrow> (Inr (s # ss, isnew \<or> isNew), st2)))"

definition on_xorm :: "('d \<Rightarrow> 'd) \<Rightarrow> ('d, 's) db_state \<Rightarrow> ('d, 's) db_state" where
  "on_xorm f st = st\<lparr>db_xorm := f (db_xorm st)\<rparr>"

text \<open>A new engine is pinged, then its pool is sized and its keep-alive loop started.\<close>

definition setup_engine ::
  "'d xorm \<Rightarrow> db_config \<Rightarrow> nat \<Rightarrow> ('d, 's) db_state \<Rightarrow> (nat option \<times> goerr option) \<times> ('d, 's) db_state" where
  "setup_engine xl cfg e st =
     (case xl_ping xl e (db_xorm st) of
        (Some er, d) \<Rightarrow> ((None, Some (Errorf (''Ping failed: '' @ err_text er))), st\<lparr>db_xorm := d\<rparr>)
      | (None, d) \<Rightarrow>
          (let d = (if 0 < dc_MaxIdleConns cfg then xl_set xl e (SetMaxIdleConns (dc_MaxIdleConns cfg)) d else d);
               d = (if 0 < dc_MaxOpenConns cfg then xl_set xl e (SetMaxOpenConns (dc_MaxOpenConns cfg)) d else d);
               d = xl_set xl e (KeepaliveStarted (dc_KeepAlive cfg)) d
           in ((Some e, None), st\<lparr>db_xorm := d\<rparr>)))"

definition InitDb ::
  "'d xorm \<Rightarrow> dsn_map \<Rightarrow> db_config \<Rightarrow> ('d, 's) db_state \<Rightarrow> (nat option \<times> goerr option) \<times> ('d, 's) db_state" where
  "InitDb xl fm dbConfig st =
     (case getEngine xl fm (db_std_config.truncate dbConfig) st of
        (Inl e, st1) \<Rightarrow> ((None, Some e), st1)
      | (Inr (master, isNew), st1) \<Rightarrow>
          (case (if dc_Slaves dbConfig = [] then (Inr (master, isNew), st1)
                 else case slave_engines xl fm (dc_Slaves dbConfig) st1 of
                   (Inl e, st2) \<Rightarrow> (Inl (Some master, e), st2)
                 | (Inr (slaves, isnew), st2) \<Rightarrow>
                     (case xl_new_group xl master slaves (db_xorm st2) of
                        (Inl e, d) \<Rightarrow>
                          (Inl (None, Errorf (''NewEngineGroup failed: '' @ err_text e)), st2\<lparr>db_xorm := d\<rparr>)
                      | (Inr g, d) \<Rightarrow> (Inr (g, isNew \<or> isnew), st2\<lparr>db_xorm := d\<rparr>))) of
             (Inl (eng, e), st2) \<Rightarrow> ((eng, Some e), st2)
           | (Inr (engine, isNew), st2) \<Rightarrow>
               (let st3 = on_xorm (xl_set xl engine SetLogger) st2 in
                if isNew then setup_engine xl dbConfig engine st3 else ((Some engine, None), st3))))"

section \<open>Cachers\<close>

definition cacher_key ::
  "'d xorm \<Rightarrow> 's radix \<Rightarrow> all_config \<Rightarrow> db_config \<Rightarrow> (goerr + string) outcome" where
  "cacher_key xl rx config dbConfig =
     (let ty = dc_CacheType dbConfig in
      if ty = ''memory'' then Returns (Inr (xl_md5 xl ty))
      else if ty = ''memcache'' then
        (case xl_json_servers xl (cc_Servers (ac_Cache config)) of
           Inl e \<Rightarrow> Panics (PanicErr e)
         | Inr j \<Rightarrow> Returns (Inr (xl_md5 xl (ty @ j))))
      else if ty = ''redis'' then
        (case rx_json rx (ac_Redis config) of
           Inl e \<Rightarrow> Panics (PanicErr e)
         | Inr j \<Rightarrow> Returns (Inr (xl_md5 xl (ty @ j))))
      else Returns (Inl (Errorf ''nil err cacheType'')))"

text \<open>The store behind a new cacher.\<close>

definition new_store ::
  "'s radix \<Rightarrow> all_config \<Rightarrow> string \<Rightarrow> 's redis_state \<Rightarrow> (goerr + cache_store) \<times> 's redis_state" where
  "new_store rx config ty rs =
     (if ty = ''memory'' then (Inr MemoryStore, rs)
      else if ty = ''memcache'' then
        (if cc_Servers (ac_Cache config) = [] then (Inl (Errorf ''nil memcache servers''), rs)
         else (Inr (MemCache (cc_Servers (ac_Cache config))), rs))
      else case NewRedisCache rx (ac_Redis config) rs of
        ((_, Some e), rs') \<Rightarrow> (Inl (Errorf (''NewRedisCache failed: '' @ err_text e)), rs')
      | ((c, None), rs') \<Rightarrow> (Inr (RedisStore c), rs'))"

definition GetCacher ::
  "'d xorm \<Rightarrow> 's radix \<Rightarrow> all_config \<Rightarrow> db_config \<Rightarrow> ('d, 's) db_state \<Rightarrow>
    (goerr + nat) outcome \<times> ('d, 's) db_state" where
  "GetCacher xl rx config dbConfig st =
     (let size = (if dc_CacheMaxSize dbConfig = 0 then 999999999 else dc_CacheMaxSize dbConfig) in
      case cacher_key xl rx config dbConfig of
        Panics p \<Rightarrow> (Panics p, st)
      | Returns (Inl e) \<Rightarrow> (Returns (Inl e), st)
      | Returns (Inr key) \<Rightarrow>
          (case db_cacherMap st key of
             Some c \<Rightarrow> (Returns (Inr c), st)
           | None \<Rightarrow>
               (case new_store rx config (dc_CacheType dbConfig) (db_redis st) of
                  (Inl e, rs) \<Rightarrow> (Returns (Inl e), st\<lparr>db_redis := rs\<rparr>)
                | (Inr store, rs) \<Rightarrow>
                    (let (c, d) = xl_new_cacher xl store size (db_xorm st)
                     in (Returns (Inr c),
                         st\<lparr>db_redis := rs, db_cacherMap := (db_cacherMap st)(key \<mapsto> c),
                            db_xorm := xl_set_expired xl c (i64 (dc_CacheTimeout dbConfig * 10 ^ 9)) d\<rparr>)))))"

text \<open>
  \<open>keepalive\<close> selects between the ticker and the end of the process; the list is what the
  selections yield. It counts the pings.
\<close>

datatype keepalive_event = Tick | CtxDone

fun keepalive_loop :: "keepalive_event list \<Rightarrow> nat" where
  "keepalive_loop [] = 0"
| "keepalive_loop (Tick # es) = Suc (keepalive_loop es)"
| "keepalive_loop (CtxDone # es) = 0"

definition keepalive :: "int \<Rightarrow> keepalive_event list \<Rightarrow> nat" where
  "keepalive long es = (if long \<le> 0 then 0 else keepalive_loop es)"

section \<open>The table of engines\<close>

definition acquire_engine ::
  "'d xorm \<Rightarrow> dsn_map \<Rightarrow> db_std_config \<Rightarrow> ('d, 's) db_state \<Rightarrow> (goerr + nat) \<times> ('d, 's) db_state" where
  "acquire_engine xl fm c st =
     (case getEngine xl fm c st of
        (Inl e, st') \<Rightarrow> (Inl e, st')
      | (Inr (i, _), st') \<Rightarrow> (Inr i, st'))"

definition engine_key :: "'d xorm \<Rightarrow> dsn_map \<Rightarrow> db_std_config \<Rightarrow> string" where
  "engine_key xl fm c = (case getDbDsn fm c of Inl _ \<Rightarrow> [] | Inr dsn \<Rightarrow> xl_md5 xl dsn)"

definition engine_usable :: "dsn_map \<Rightarrow> db_std_config \<Rightarrow> bool" where
  "engine_usable fm c \<longleftrightarrow> ds_Driver c \<noteq> [] \<and> (\<exists>dsn. getDbDsn fm c = Inr dsn)"

lemmas engine_defs = acquire_engine_def engine_key_def engine_usable_def getEngine_def

interpretation engine_table: keyed_cache "acquire_engine xl fm" "engine_key xl fm" db_engineMap "engine_usable fm"
proof unfold_locales
  fix c :: db_std_config and st st' :: "('a, 'b) db_state" and i j e
  show "engine_usable fm c \<Longrightarrow> db_engineMap st (engine_key xl fm c) = Some i \<Longrightarrow>
      acquire_engine xl fm c st = (Inr i, st)"
    by (auto simp: engine_defs)
  assume ok: "acquire_engine xl fm c st = (Inr i, st')"
  then show "db_engineMap st' = (db_engineMap st)(engine_key xl fm c \<mapsto> i)"
    by (auto simp: engine_defs fun_eq_iff split: if_splits sum.splits option.splits prod.splits)
  from ok show "db_engineMap st (engine_key xl fm c) = Some j \<Longrightarrow> i = j"
    by (auto simp: engine_defs split: if_splits sum.splits option.splits prod.splits)
next
  fix c :: db_std_config and st st' :: "('a, 'b) db_state" and e
  assume "acquire_engine xl fm c st = (Inl e, st')"
  then show "db_engineMap st' = db_engineMap st"
    by (auto simp: engine_defs split: if_splits sum.splits option.splits prod.splits)
qed

text \<open>A master without slaves: the stages of \<open>InitDb\<close> collapse.\<close>

lemma InitDb_single:
  "dc_Slaves cfg = [] \<Longrightarrow>
   InitDb xl fm cfg st =
     (case getEngine xl fm (db_std_config.truncate cfg) st of
        (Inl e, st1) \<Rightarrow> ((None, Some e), st1)
      | (Inr (m, isNew), st1) \<Rightarrow>
          (let st2 = on_xorm (xl_set xl m SetLogger) st1 in
           if isNew then setup_engine xl cfg m st2 else ((Some m, None), st2)))"
  by (auto simp: InitDb_def split: sum.splits prod.splits)

lemma engineMap_setup [simp]:
  "db_engineMap (snd (setup_engine xl cfg e st)) = db_engineMap st"
  "db_engineMap (on_xorm f st) = db_engineMap st"
  by (auto simp: setup_engine_def on_xorm_def Let_def split: prod.splits option.splits)

section \<open>Properties\<close>

text \<open>
  A failed ping is forgotten: the engine is in the table before it is pinged, so that after
  \<open>InitDb\<close> has failed on a new engine, and whatever engines are made in between, calling it
  again with the same configuration returns that engine without an error, and does nothing to it
  but set its logger: it is not pinged, its pool is not sized and its keep-alive loop not started.
\<close>

theorem failed_ping_is_forgotten:
  assumes "InitDb xl fm cfg st = ((None, Some e), st1)" and "dc_Slaves cfg = []"
    and "getEngine xl fm (db_std_config.truncate cfg) st = (Inr (m, True), st0)"
    and "db_engineMap st2 = db_engineMap (fold (\<lambda>c s. snd (acquire_engine xl fm c s)) others st1)"
  shows "InitDb xl fm cfg st2 = ((Some m, None), on_xorm (xl_set xl m SetLogger) st2)"
proof -
  let ?c = "db_std_config.truncate cfg"
  have a: "acquire_engine xl fm ?c st = (Inr m, st0)" by (simp add: acquire_engine_def assms(3))
  have u: "engine_usable fm ?c"
    using assms(3) by (auto simp: engine_defs split: if_splits sum.splits)
  have "st1 = snd (setup_engine xl cfg m (on_xorm (xl_set xl m SetLogger) st0))"
    using assms(1,3) by (simp add: InitDb_single [OF assms(2)] Let_def)
  then have "db_engineMap st1 (engine_key xl fm ?c) = Some m"
    using engine_table.acquire_ok [OF a] by simp
  then have "db_engineMap (engine_table.acquire_all xl fm others st1) (engine_key xl fm ?c) = Some m"
    by (rule engine_table.acquire_all_keeps)
  moreover have "engine_table.acquire_all xl fm others st1 = fold (\<lambda>c s. snd (acquire_engine xl fm c s)) others st1"
    by (induction others arbitrary: st1) simp_all
  ultimately have "db_engineMap st2 (engine_key xl fm ?c) = Some m" by (simp add: assms(4))
  then have "getEngine xl fm ?c st2 = (Inr (m, False), st2)"
    using u by (auto simp: engine_defs)
  then show ?thesis by (simp add: InitDb_single [OF assms(2)])
qed

text \<open>
  An xorm that counts its open sessions and logs the statements, and whose pings answer
  \<open>ping\<close>.
\<close>

type_synonym mem_db = "int \<times> (builder list \<times> verb) list"

definition mem_xorm :: "goerr option \<Rightarrow> mem_db xorm" where
  "mem_xorm ping =
     \<lparr>xl_md5 = (\<lambda>s. s), xl_json_servers = (\<lambda>s. Inr (concat s)), xl_new_engine = (\<lambda>n dsn d. (Inr 7, d)),
      xl_new_group = (\<lambda>m s d. (Inr 2, d)), xl_ping = (\<lambda>e d. (ping, d)), xl_set = (\<lambda>e s d. d),
      xl_new_cacher = (\<lambda>s n d. (5, d)), xl_set_expired = (\<lambda>c n d. d),
      xl_table_exists = (\<lambda>e t d. ((True, None), d)), xl_map_cacher = (\<lambda>e m c d. d),
      xl_clear_cache = (\<lambda>e m d. d), xl_new_session = (\<lambda>e d. (9, (fst d + 1, snd d))),
      xl_close = (\<lambda>s d. (fst d - 1, snd d)),
      xl_run = (\<lambda>s b v d. ((Affected 1, None), (fst d, (b, v) # snd d))),
      xl_begin = (\<lambda>s d. (None, d)), xl_rollback = (\<lambda>s d. (None, d)), xl_commit = (\<lambda>s d. (None, d)),
      xl_last_id = (\<lambda>r. (1, None))\<rparr>"

lemma mem_xorm_fields [simp]:
  "xl_md5 (mem_xorm p) s = s" "xl_new_engine (mem_xorm p) n dsn d = (Inr 7, d)"
  "xl_ping (mem_xorm p) e d = (p, d)" "xl_set (mem_xorm p) e x d = d"
  "xl_new_session (mem_xorm p) e d = (9, (fst d + 1, snd d))" "xl_close (mem_xorm p) i d = (fst d - 1, snd d)"
  "xl_run (mem_xorm p) i b v d = ((Affected 1, None), (fst d, (b, v) # snd d))"
  by (simp_all add: mem_xorm_def)

definition sample_db_config :: db_config where
  "sample_db_config =
     \<lparr>ds_Driver = ''mysql'', ds_Username = ''root'', ds_Password = ''pw'', ds_Protocol = ''tcp'',
      ds_Address = ''db'', ds_Port = ''3306'', ds_Dbname = ''app'', ds_Params = [], dc_MaxIdleConns = 1,
      dc_MaxOpenConns = 2, dc_KeepAlive = 60, dc_CacheType = [], dc_CacheMaxSize = 0, dc_CacheTimeout = 0,
      dc_Slaves = []\<rparr>"

definition empty_db :: "(mem_db, unit) db_state" where
  "empty_db = \<lparr>db_engineMap = Map.empty, db_cacherMap = Map.empty, db_xorm = (0, []),
     db_redis = \<lparr>rs_insMap = Map.empty, rs_srv = ()\<rparr>\<rparr>"

theorem failed_ping_is_forgotten_witness:
  "fst (InitDb (mem_xorm (Some (Errorf ''refused''))) [''mysql'' \<mapsto> getMysqlDns] sample_db_config
     (snd (InitDb (mem_xorm (Some (Errorf ''refused''))) [''mysql'' \<mapsto> getMysqlDns] sample_db_config empty_db))) =
   (Some 7, None)"
proof -
  let ?xl = "mem_xorm (Some (Errorf ''refused''))" and ?fm = "[''mysql'' \<mapsto> getMysqlDns]"
  let ?cfg = "sample_db_config"
  have low: "to_lower ''mysql'' = ''mysql''"
    by (simp add: to_lower_def lower_char_def less_eq_char_def)
  have d: "getDbDsn ?fm (db_std_config.truncate ?cfg) = Inr (getMysqlDns (db_std_config.truncate ?cfg))"
    by (simp add: getDbDsn_def Let_def sample_db_config_def db_std_config.defs low)
  obtain st0 where g: "getEngine ?xl ?fm (db_std_config.truncate ?cfg) empty_db = (Inr (7, True), st0)"
    using d by (simp add: getEngine_def empty_db_def) (simp add: sample_db_config_def db_std_config.defs)
  have s: "dc_Slaves ?cfg = []" by (simp add: sample_db_config_def)
  obtain st1 where i: "InitDb ?xl ?fm ?cfg empty_db = ((None, Some (Errorf ''Ping failed: refused'')), st1)"
    by (simp add: InitDb_single [OF s] g Let_def setup_engine_def)
  from failed_ping_is_forgotten [OF i s g, of st1 "[]"] i show ?thesis by simp
qed

end
