(* ===== verification/XormDao.thy ===== *)
theory XormDao
  imports Db
begin

text \<open>
  The data access object of \<open>db/xorm_dao.go\<close>: each operation takes the session of a
  transaction, or opens one of its own and closes it again. A session of xorm is its number and
  the builder calls pending on it; a statement uses them up, as xorm documents. Logging of the
  last statement is left out.
\<close>

section \<open>The object and its sessions\<close>

record db_session =
  xs_id :: nat
  xs_pending :: "builder list"

record dao =
  xd_config :: db_config
  xd_engine :: nat
  xd_isCache :: bool
  xd_cacher :: "nat option"
  xd_sess :: "db_session option"

definition NewXormDao ::
  "'d xorm \<Rightarrow> dsn_map \<Rightarrow> 's radix \<Rightarrow> all_config \<Rightarrow> db_config \<Rightarrow> ('d, 's) db_state \<Rightarrow>
    (dao option \<times> goerr option) outcome \<times> ('d, 's) db_state" where
  "NewXormDao xl fm rx config dbConfig st =
     (if ds_Driver dbConfig = [] then (Returns (None, Some (Errorf ''nil db config'')), st)
      else case InitDb xl fm dbConfig st of
        ((_, Some e), st1) \<Rightarrow> (Returns (None, Some e), st1)
      | ((None, None), st1) \<Rightarrow> (Panics nil_deref, st1)
      | ((Some engine, None), st1) \<Rightarrow>
          (let d = \<lparr>xd_config = dbConfig, xd_engine = engine, xd_isCache = False, xd_cacher = None, xd_sess = None\<rparr>
           in if dc_CacheType dbConfig = [] then (Returns (Some d, None), st1)
              else case GetCacher xl rx config dbConfig st1 of
                (Panics p, st2) \<Rightarrow> (Panics p, st2)
              | (Returns (Inl e), st2) \<Rightarrow> (Returns (Some d, Some e), st2)
              | (Returns (Inr c), st2) \<Rightarrow> (Returns (Some (d\<lparr>xd_cacher := Some c\<rparr>), None), st2)))"

text \<open>A call of a builder method, and of a method that runs the statement.\<close>

definition build :: "builder list \<Rightarrow> db_session \<Rightarrow> db_session" where
  "build bs s = s\<lparr>xs_pending := xs_pending s @ bs\<rparr>"

type_synonym ('r, 'd) in_session = "db_session \<Rightarrow> 'd \<Rightarrow> ('r \<times> db_session) \<times> 'd"

definition run_verb :: "'d xorm \<Rightarrow> verb \<Rightarrow> (db_reply \<times> goerr option, 'd) in_session" where
  "run_verb xl v s x =
     (let (r, x') = xl_run xl (xs_id s) (xs_pending s) v x in ((r, s\<lparr>xs_pending := []\<rparr>), x'))"

definition with_session ::
  "'d xorm \<Rightarrow> dao \<Rightarrow> ('r, 'd) in_session \<Rightarrow> 'd \<Rightarrow> ('r \<times> dao) \<times> 'd" where
  "with_session xl d f x =
     (case xd_sess d of
        Some s \<Rightarrow> (let ((r, s'), x') = f s x in ((r, d\<lparr>xd_sess := Some s'\<rparr>), x'))
      | None \<Rightarrow>
          (let (i, x1) = xl_new_session xl (xd_engine d) x;
               ((r, s'), x2) = f \<lparr>xs_id = i, xs_pending = []\<rparr> x1
           in ((r, d), xl_close xl i x2)))"

text \<open>
  \<open>buildCond\<close> and then the statement. When the condition is refused, the error is returned
  and the calls made so far stay on the session.
\<close>

definition with_cond ::
  "'d xorm \<Rightarrow> model \<Rightarrow> cond \<Rightarrow> bool \<Rightarrow> bool \<Rightarrow> builder list \<Rightarrow> verb \<Rightarrow>
    (db_reply \<times> goerr option, 'd) in_session" where
  "with_cond xl t cond isOrder isPaging extra v s x =
     (let (e, pending) = buildCond t (xs_pending s) cond isOrder isPaging;
          s' = s\<lparr>xs_pending := pending\<rparr>
      in case e of
           Some er \<Rightarrow> (((NoReply, Some er), s'), x)
         | None \<Rightarrow> run_verb xl v (build extra s') x)"

section \<open>The operations\<close>

type_synonym 'd dao_op = "dao \<Rightarrow> 'd \<Rightarrow> ((db_reply \<times> goerr option) \<times> dao) \<times> 'd"

definition GetConf :: "dao \<Rightarrow> db_config" where "GetConf d = xd_config d"

definition IsTableExist :: "'d xorm \<Rightarrow> dao \<Rightarrow> goval \<Rightarrow> 'd \<Rightarrow> (bool \<times> goerr option) \<times> 'd" where
  "IsTableExist xl d bean x = xl_table_exists xl (xd_engine d) bean x"

datatype update_params = ParamModel model | ParamValue goval

fun update_verb :: "update_params \<Rightarrow> verb" where
  "update_verb (ParamModel m) = V_UpdateModel m"
| "update_verb (ParamValue v) = V_Update v"

definition update_cols :: "update_params \<Rightarrow> string list \<Rightarrow> builder list" where
  "update_cols params cols =
     (if cols \<noteq> [] then [Bd_Cols cols] else case params of ParamModel _ \<Rightarrow> [Bd_AllCols] | ParamValue _ \<Rightarrow> [])"

definition UpdateByIds ::
  "'d xorm \<Rightarrow> model \<Rightarrow> update_params \<Rightarrow> goval list \<Rightarrow> string list \<Rightarrow> 'd dao_op" where
  "UpdateByIds xl t params ids cols d x =
     (if ids = [] then (((NoReply, Some (Errorf ''ids parameters error'')), d), x)
      else with_session xl d (\<lambda>s. run_verb xl (update_verb params)
             (build (update_cols params cols @ [Bd_Table t, Bd_InList (md_AutoIncrColName t) ids]) s)) x)"

definition UpdateByWhere :: "'d xorm \<Rightarrow> model \<Rightarrow> cond \<Rightarrow> cond \<Rightarrow> 'd dao_op" where
  "UpdateByWhere xl t params wh d x =
     (if wh = [] then (((NoReply, Some (Errorf ''where paramters error'')), d), x)
      else with_session xl d (with_cond xl t wh False False [Bd_Table t] (V_UpdateCond params)) x)"

definition Insert :: "'d xorm \<Rightarrow> model \<Rightarrow> model \<Rightarrow> 'd dao_op" where
  "Insert xl m t d x = with_session xl d (\<lambda>s. run_verb xl (V_Insert t) (build [Bd_Table m] s)) x"

definition InsertMulti :: "'d xorm \<Rightarrow> model \<Rightarrow> goval \<Rightarrow> 'd dao_op" where
  "InsertMulti xl m t d x = with_session xl d (\<lambda>s. run_verb xl (V_InsertMulti t) (build [Bd_Table m] s)) x"

definition SearchOne :: "'d xorm \<Rightarrow> model \<Rightarrow> cond \<Rightarrow> 'd dao_op" where
  "SearchOne xl t cond d x = with_session xl d (with_cond xl t cond True False [] (V_Get t)) x"

definition Search :: "'d xorm \<Rightarrow> model \<Rightarrow> goval \<Rightarrow> cond \<Rightarrow> 'd dao_op" where
  "Search xl t ts cond d x = with_session xl d (with_cond xl t cond True True [] (V_Find ts)) x"

definition SearchAndCount :: "'d xorm \<Rightarrow> model \<Rightarrow> goval \<Rightarrow> cond \<Rightarrow> 'd dao_op" where
  "SearchAndCount xl t ts cond d x = with_session xl d (with_cond xl t cond True True [] (V_FindAndCount ts)) x"

definition Rows :: "'d xorm \<Rightarrow> model \<Rightarrow> cond \<Rightarrow> 'd dao_op" where
  "Rows xl t cond d x = with_session xl d (with_cond xl t cond True True [] (V_Rows t)) x"

definition Iterate :: "'d xorm \<Rightarrow> model \<Rightarrow> cond \<Rightarrow> 'd dao_op" where
  "Iterate xl t cond d x = with_session xl d (with_cond xl t cond True True [] (V_Iterate t)) x"

definition GetByIds :: "'d xorm \<Rightarrow> model \<Rightarrow> goval \<Rightarrow> goval list \<Rightarrow> string list \<Rightarrow> 'd dao_op" where
  "GetByIds xl t ts ids cols d x =
     with_session xl d (\<lambda>s. run_verb xl (V_Find ts)
       (build ((if cols \<noteq> [] then [Bd_Cols cols] else []) @ [Bd_Table t, Bd_InList (md_AutoIncrColName t) ids]) s)) x"

definition Count :: "'d xorm \<Rightarrow> model \<Rightarrow> cond \<Rightarrow> 'd dao_op" where
  "Count xl t cond d x = with_session xl d (with_cond xl t cond False False [] (V_Count t)) x"

definition Exec :: "'d xorm \<Rightarrow> string \<Rightarrow> goval list \<Rightarrow> 'd dao_op" where
  "Exec xl sqlStr args d x = with_session xl d (run_verb xl (V_Exec sqlStr args)) x"

definition replace_skips :: "string list" where
  "replace_skips = [''orderby'', ''page'', ''pagesize'', ''where'']"

fun replace_cols :: "cond \<Rightarrow> string list \<times> goval list" where
  "replace_cols [] = ([], [])"
| "replace_cols ((k, v) # cond) =
     (let k = to_lower k; (str, args) = replace_cols cond in
      if k \<in> set replace_skips then (str, args)
      else (quoted_eq k '' = ?'' # str, v # args))"

definition Replace :: "'d xorm \<Rightarrow> model \<Rightarrow> cond \<Rightarrow> dao \<Rightarrow> 'd \<Rightarrow> ((int \<times> goerr option) \<times> dao) \<times> 'd" where
  "Replace xl t cond d x =
     (let (str, args) = replace_cols cond;
          sql = ''REPLACE '' @ quoted_eq (md_TableName t) '' SET '' @ join_go str '', '';
          (((rs, err), d'), x') = Exec xl sql args d x
      in case err of
           Some e \<Rightarrow> (((0, Some e), d'), x')
         | None \<Rightarrow> ((xl_last_id xl rs, d'), x'))"

definition query_with ::
  "'d xorm \<Rightarrow> (query_arg list \<Rightarrow> verb) \<Rightarrow> model \<Rightarrow> query_arg list \<Rightarrow> 'd dao_op" where
  "query_with xl v t args d x =
     with_session xl d
       (case args of
          [] \<Rightarrow> (\<lambda>s. run_verb xl (v []) (build [Bd_Table t] s))
        | ArgCond cond # rest \<Rightarrow> with_cond xl t cond True True [] (v rest)
        | ArgVal y # rest \<Rightarrow> run_verb xl (v args)) x"

definition Query where "Query xl t args = query_with xl V_Query t args"
definition QueryString where "QueryString xl t args = query_with xl V_QueryString t args"
definition QueryInterface where "QueryInterface xl t args = query_with xl V_QueryInterface t args"

definition DeleteByIds :: "'d xorm \<Rightarrow> model \<Rightarrow> goval \<Rightarrow> 'd dao_op" where
  "DeleteByIds xl t ids d x =
     (if ids = VNil then (((NoReply, Some (Errorf ''ids parameters error'')), d), x)
      else with_session xl d (\<lambda>s. run_verb xl (V_Delete t)
             (build [Bd_Table t, Bd_In (md_AutoIncrColName t) ids, Bd_Unscoped] s)) x)"

definition DeleteByWhere :: "'d xorm \<Rightarrow> model \<Rightarrow> cond \<Rightarrow> 'd dao_op" where
  "DeleteByWhere xl t wh d x =
     (if wh = [] then (((NoReply, Some (Errorf ''where paramters error'')), d), x)
      else with_session xl d (with_cond xl t wh False False [Bd_Unscoped] (V_Delete t)) x)"

definition EnableCache :: "'d xorm \<Rightarrow> model \<Rightarrow> dao \<Rightarrow> 'd \<Rightarrow> dao \<times> 'd" where
  "EnableCache xl t d x =
     (case xd_cacher d of
        None \<Rightarrow> (d, x)
      | Some c \<Rightarrow> (d\<lparr>xd_isCache := True\<rparr>, xl_map_cacher xl (xd_engine d) t (Some c) x))"

definition DisableCache :: "'d xorm \<Rightarrow> model \<Rightarrow> dao \<Rightarrow> 'd \<Rightarrow> dao \<times> 'd" where
  "DisableCache xl t d x = (d\<lparr>xd_isCache := False\<rparr>, xl_map_cacher xl (xd_engine d) t None x)"

definition ClearCache :: "'d xorm \<Rightarrow> model \<Rightarrow> dao \<Rightarrow> 'd \<Rightarrow> 'd" where
  "ClearCache xl t d x = (if xd_isCache d then xl_clear_cache xl (xd_engine d) t x else x)"

section \<open>Transactions\<close>

definition NewSession_dao :: "'d xorm \<Rightarrow> dao \<Rightarrow> 'd \<Rightarrow> dao \<times> 'd" where
  "NewSession_dao xl d x =
     (case xd_sess d of
        Some _ \<Rightarrow> (d, x)
      | None \<Rightarrow>
          (let (i, x') = xl_new_session xl (xd_engine d) x
           in (d\<lparr>xd_sess := Some \<lparr>xs_id = i, xs_pending = []\<rparr>\<rparr>, x')))"

definition Close_dao :: "'d xorm \<Rightarrow> dao \<Rightarrow> 'd \<Rightarrow> dao \<times> 'd" where
  "Close_dao xl d x =
     (case xd_sess d of
        None \<Rightarrow> (d, x)
      | Some s \<Rightarrow> (d\<lparr>xd_sess := None\<rparr>, xl_close xl (xs_id s) x))"

definition tx_call :: "(nat \<Rightarrow> 'd \<Rightarrow> goerr option \<times> 'd) \<Rightarrow> dao \<Rightarrow> 'd \<Rightarrow> goerr option \<times> 'd" where
  "tx_call f d x =
     (case xd_sess d of
        None \<Rightarrow> (Some (Errorf ''please NewSession at first''), x)
      | Some s \<Rightarrow> f (xs_id s) x)"

definition Begin where "Begin xl d x = tx_call (xl_begin xl) d x"
definition Rollback where "Rollback xl d x = tx_call (xl_rollback xl) d x"
definition Commit where "Commit xl d x = tx_call (xl_commit xl) d x"

section \<open>Sessions are opened and closed in pairs\<close>

text \<open>What the code relies on: only opening and closing a session changes how many are open.\<close>

definition sessions_counted :: "'d xorm \<Rightarrow> ('d \<Rightarrow> int) \<Rightarrow> bool" where
  "sessions_counted xl opens \<longleftrightarrow>
     (\<forall>e x. opens (snd (xl_new_session xl e x)) = opens x + 1) \<and>
     (\<forall>i x. opens (xl_close xl i x) = opens x - 1) \<and>
     (\<forall>i b v x. opens (snd (xl_run xl i b v x)) = opens x) \<and>
     (\<forall>i x. opens (snd (xl_begin xl i x)) = opens x) \<and>
     (\<forall>i x. opens (snd (xl_rollback xl i x)) = opens x) \<and>
     (\<forall>i x. opens (snd (xl_commit xl i x)) = opens x) \<and>
     (\<forall>e t x. opens (snd (xl_table_exists xl e t x)) = opens x) \<and>
     (\<forall>e t c x. opens (xl_map_cacher xl e t c x) = opens x) \<and>
     (\<forall>e t x. opens (xl_clear_cache xl e t x) = opens x)"

text \<open>The operations of the object as data, so that a program is a list of them.\<close>

datatype dao_call =
  D_Table goval | D_UpdateByIds model update_params "goval list" "string list" | D_UpdateByWhere model cond cond
| D_Insert model model | D_InsertMulti model goval | D_SearchOne model cond | D_Search model goval cond
| D_SearchAndCount model goval cond | D_Rows model cond | D_Iterate model cond
| D_GetByIds model goval "goval list" "string list" | D_Count model cond | D_Replace model cond
| D_Exec string "goval list" | D_Query model "query_arg list" | D_QueryString model "query_arg list"
| D_QueryInterface model "query_arg list" | D_DeleteByIds model goval | D_DeleteByWhere model cond

datatype dao_step =
  Op dao_call | EnableC model | DisableC model | ClearC model | TxNew | TxClose | TxBegin | TxRollback | TxCommit

definition state_of :: "('r \<times> dao) \<times> 'd \<Rightarrow> dao \<times> 'd" where
  "state_of q = (snd (fst q), snd q)"

fun do_call :: "'d xorm \<Rightarrow> dao_call \<Rightarrow> dao \<Rightarrow> 'd \<Rightarrow> dao \<times> 'd" where
  "do_call xl (D_Table b) d x = (d, snd (IsTableExist xl d b x))"
| "do_call xl (D_UpdateByIds t p ids cols) d x = state_of (UpdateByIds xl t p ids cols d x)"
| "do_call xl (D_UpdateByWhere t p wh) d x = state_of (UpdateByWhere xl t p wh d x)"
| "do_call xl (D_Insert m t) d x = state_of (Insert xl m t d x)"
| "do_call xl (D_InsertMulti m t) d x = state_of (InsertMulti xl m t d x)"
| "do_call xl (D_SearchOne t c) d x = state_of (SearchOne xl t c d x)"
| "do_call xl (D_Search t ts c) d x = state_of (Search xl t ts c d x)"
| "do_call xl (D_SearchAndCount t ts c) d x = state_of (SearchAndCount xl t ts c d x)"
| "do_call xl (D_Rows t c) d x = state_of (Rows xl t c d x)"
| "do_call xl (D_Iterate t c) d x = state_of (Iterate xl t c d x)"
| "do_call xl (D_GetByIds t ts ids cols) d x = state_of (GetByIds xl t ts ids cols d x)"
| "do_call xl (D_Count t c) d x = state_of (Count xl t c d x)"
| "do_call xl (D_Replace t c) d x = state_of (Replace xl t c d x)"
| "do_call xl (D_Exec s args) d x = state_of (Exec xl s args d x)"
| "do_call xl (D_Query t args) d x = state_of (Query xl t args d x)"
| "do_call xl (D_QueryString t args) d x = state_of (QueryString xl t args d x)"
| "do_call xl (D_QueryInterface t args) d x = state_of (QueryInterface xl t args d x)"
| "do_call xl (D_DeleteByIds t ids) d x = state_of (DeleteByIds xl t ids d x)"
| "do_call xl (D_DeleteByWhere t c) d x = state_of (DeleteByWhere xl t c d x)"

fun do_step :: "'d xorm \<Rightarrow> dao_step \<Rightarrow> dao \<times> 'd \<Rightarrow> dao \<times> 'd" where
  "do_step xl (Op c) (d, x) = do_call xl c d x"
| "do_step xl (EnableC t) (d, x) = EnableCache xl t d x"
| "do_step xl (DisableC t) (d, x) = DisableCache xl t d x"
| "do_step xl (ClearC t) (d, x) = (d, ClearCache xl t d x)"
| "do_step xl TxNew (d, x) = NewSession_dao xl d x"
| "do_step xl TxClose (d, x) = Close_dao xl d x"
| "do_step xl TxBegin (d, x) = (d, snd (Begin xl d x))"
| "do_step xl TxRollback (d, x) = (d, snd (Rollback xl d x))"
| "do_step xl TxCommit (d, x) = (d, snd (Commit xl d x))"

text \<open>The sessions that are open beyond the one of the transaction.\<close>

definition spare_sessions :: "('d \<Rightarrow> int) \<Rightarrow> dao \<times> 'd \<Rightarrow> int" where
  "spare_sessions opens = (\<lambda>(d, x). opens x - (if xd_sess d = None then 0 else 1))"

definition quiet :: "('d \<Rightarrow> int) \<Rightarrow> ('r, 'd) in_session \<Rightarrow> bool" where
  "quiet opens f \<longleftrightarrow> (\<forall>s x. opens (snd (f s x)) = opens x)"

lemma quiet_run: "sessions_counted xl opens \<Longrightarrow> quiet opens (run_verb xl v)"
  by (auto simp: quiet_def run_verb_def sessions_counted_def split: prod.splits) (metis snd_conv)

lemma quiet_build: "sessions_counted xl opens \<Longrightarrow> quiet opens (\<lambda>s. run_verb xl v (build bs s))"
  using quiet_run [of xl opens v] by (simp add: quiet_def)

lemma quiet_cond: "sessions_counted xl opens \<Longrightarrow> quiet opens (with_cond xl t c o1 o2 bs v)"
  using quiet_run [of xl opens v] by (auto simp: quiet_def with_cond_def Let_def split: prod.splits option.splits)

lemma with_session_spare:
  assumes "sessions_counted xl opens" and "quiet opens f"
  shows "spare_sessions opens (state_of (with_session xl d f x)) = spare_sessions opens (d, x)"
proof (cases "xd_sess d")
  case (Some s)
  obtain r s' x' where f: "f s x = ((r, s'), x')" by (metis prod.exhaust)
  with assms(2) have "opens x' = opens x" by (metis quiet_def snd_conv)
  with Some f show ?thesis by (simp add: with_session_def state_of_def spare_sessions_def)
next
  case None
  obtain i x1 where n: "xl_new_session xl (xd_engine d) x = (i, x1)" by fastforce
  obtain r s' x' where f: "f \<lparr>xs_id = i, xs_pending = []\<rparr> x1 = ((r, s'), x')" by (metis prod.exhaust)
  have "opens x1 = opens x + 1" using assms(1) n by (metis sessions_counted_def snd_conv)
  moreover have "opens x' = opens x1" using assms(2) f by (metis quiet_def snd_conv)
  moreover have "opens (xl_close xl i x') = opens x' - 1" using assms(1) by (simp add: sessions_counted_def)
  ultimately show ?thesis using None n f by (simp add: with_session_def state_of_def spare_sessions_def)
qed

lemma spare_guarded:
  "sessions_counted xl opens \<Longrightarrow> quiet opens f \<Longrightarrow>
   spare_sessions opens (state_of (if b then ((r, d), x) else with_session xl d f x)) = spare_sessions opens (d, x)"
  by (simp add: with_session_spare) (simp add: state_of_def)

lemma state_of_Replace: "state_of (Replace xl t c d x) = state_of (Exec xl
    (''REPLACE '' @ quoted_eq (md_TableName t) '' SET '' @ join_go (fst (replace_cols c)) '', '') (snd (replace_cols c)) d x)"
  by (auto simp: Replace_def state_of_def Let_def split: prod.splits option.splits)

lemma do_call_spare:
  assumes "sessions_counted xl opens"
  shows "spare_sessions opens (do_call xl c d x) = spare_sessions opens (d, x)"
proof -
  note q = quiet_run [OF assms] quiet_build [OF assms] quiet_cond [OF assms]
  have query: "spare_sessions opens (state_of (query_with xl v t args d x)) = spare_sessions opens (d, x)" for v t args
    unfolding query_with_def
    by (rule with_session_spare [OF assms]) (auto intro: q split: list.split query_arg.split)
  have table: "opens (snd (IsTableExist xl d b x)) = opens x" for b
    using assms by (simp add: IsTableExist_def sessions_counted_def)
  show ?thesis
    by (cases c)
      (simp_all add: query Query_def QueryString_def QueryInterface_def state_of_Replace
        UpdateByIds_def UpdateByWhere_def Insert_def InsertMulti_def SearchOne_def Search_def SearchAndCount_def
        Rows_def Iterate_def GetByIds_def Count_def Exec_def DeleteByIds_def DeleteByWhere_def
        with_session_spare [OF assms] spare_guarded [OF assms] q,
       simp add: spare_sessions_def table)
qed

lemma tx_call_opens:
  "(\<And>i x. opens (snd (f i x)) = opens x) \<Longrightarrow> opens (snd (tx_call f d x)) = opens x"
  by (simp add: tx_call_def split: option.split)

lemma do_step_spare:
  assumes "sessions_counted xl opens"
  shows "spare_sessions opens (do_step xl st p) = spare_sessions opens p"
proof (cases p)
  case (Pair d x)
  have new: "opens (snd (xl_new_session xl (xd_engine d) x)) = opens x + 1"
    using assms by (simp add: sessions_counted_def)
  have o: "\<And>i x. opens (xl_close xl i x) = opens x - 1"
    "\<And>e t c x. opens (xl_map_cacher xl e t c x) = opens x" "\<And>e t x. opens (xl_clear_cache xl e t x) = opens x"
    "\<And>d x. opens (snd (Begin xl d x)) = opens x" "\<And>d x. opens (snd (Rollback xl d x)) = opens x"
    "\<And>d x. opens (snd (Commit xl d x)) = opens x"
    using assms by (auto simp: sessions_counted_def Begin_def Rollback_def Commit_def intro: tx_call_opens)
  show ?thesis
    unfolding Pair using new assms
    by (cases st)
      (auto simp: spare_sessions_def o do_call_spare [OF assms, unfolded spare_sessions_def] EnableCache_def
        DisableCache_def ClearCache_def NewSession_dao_def Close_dao_def split: option.splits prod.splits)
qed

interpretation dao_sessions: guarded_counter "do_step xl" "spare_sessions opens" "\<lambda>_. sessions_counted xl opens"
  by unfold_locales (rule do_step_spare)

section \<open>Properties\<close>

text \<open>
  C10. Sessions are closed: after any program of data access operations, successful or not, with or
  without transactions, as many sessions are open as before it, and one more while a transaction
  session is held.
\<close>

theorem dao_sessions_balanced:
  assumes "sessions_counted xl opens" and "xd_sess d = None"
    and "fold (do_step xl) steps (d, x) = (d', x')"
  shows "opens x' = opens x + (if xd_sess d' = None then 0 else 1)"
  using dao_sessions.run_all_count [of steps xl opens "(d, x)"] assms
  by (simp add: spare_sessions_def)

definition plain_dao :: dao where
  "plain_dao = \<lparr>xd_config = sample_db_config, xd_engine = 7, xd_isCache = False, xd_cacher = None, xd_sess = None\<rparr>"

lemma mem_counted: "sessions_counted (mem_xorm p) fst"
  by (simp add: sessions_counted_def) (simp add: mem_xorm_def)

theorem dao_sessions_balanced_witness:
  "fst (snd (fold (do_step (mem_xorm None)) [TxNew, Op (D_Count user_model []), Op (D_SearchOne user_model [(''a b c'', VNil)])]
     (plain_dao, (0, [])))) =
   (if xd_sess (fst (fold (do_step (mem_xorm None)) [TxNew, Op (D_Count user_model []), Op (D_SearchOne user_model [(''a b c'', VNil)])]
     (plain_dao, (0, [])))) = None then 0 else (1 :: int))"
  using dao_sessions_balanced [OF mem_counted, of plain_dao None
      "[TxNew, Op (D_Count user_model []), Op (D_SearchOne user_model [(''a b c'', VNil)])]" "(0, [])"]
  by (simp add: plain_dao_def)

text \<open>
  A condition refused in a transaction is not forgotten: the operation returns the error and
  runs nothing, but the calls made before the bad key stay on the session, and the next statement of
  the transaction, whatever it is about, starts with them.
\<close>

theorem refused_cond_leaks:
  assumes "xd_sess d = Some s" and "buildCond t (xs_pending s) cond True False = (Some e, pending)"
    and "SearchOne xl t cond d x = ((r, d'), x')"
    and "distinct (lower_keys cond2)" and "list_all entry_ok cond2"
  shows "r = (NoReply, Some e) \<and> x' = x \<and>
    snd (Count xl t2 cond2 d' x') =
      snd (xl_run xl (xs_id s) (pending @ spec_calls t2 cond2 False False) (V_Count t2) x)"
proof -
  have r: "r = (NoReply, Some e)" "x' = x" "d' = d\<lparr>xd_sess := Some (s\<lparr>xs_pending := pending\<rparr>)\<rparr>"
    using assms(1-3) by (auto simp: SearchOne_def with_session_def with_cond_def)
  have "buildCond t2 pending cond2 False False = (None, pending @ spec_calls t2 cond2 False False)"
    using buildCond_reference [OF assms(4), of t2 pending False False] assms(5) by blast
  with r show ?thesis
    by (simp add: Count_def with_session_def with_cond_def run_verb_def build_def split: prod.split)
qed

definition two_keys :: cond where
  "two_keys = [(''age in'', VStrs [''1'']), (''a b c'', VNil)]"

theorem refused_cond_leaks_witness:
  "snd (Count (mem_xorm None) user_model [] (plain_dao\<lparr>xd_sess := Some \<lparr>xs_id = 9,
       xs_pending = [Bd_Table user_model, Bd_In ''age'' (VStrs [''1''])]\<rparr>\<rparr>) (1, [])) =
   (1, [([Bd_Table user_model, Bd_In ''age'' (VStrs [''1''])] @ spec_calls user_model [] False False,
         V_Count user_model)])"
proof -
  let ?s = "\<lparr>xs_id = 9, xs_pending = []\<rparr>"
  let ?d = "plain_dao\<lparr>xd_sess := Some ?s\<rparr>"
  let ?p = "[Bd_Table user_model, Bd_In ''age'' (VStrs [''1''])]"
  have b: "buildCond user_model (xs_pending ?s) two_keys True False = (Some (Errorf ''error cond''), ?p)"
    by (simp add: buildCond_def two_keys_def cond_step_def Let_def set_key_def call_key_def column_key_def
        to_lower_def lower_char_def less_eq_char_def trim_space_def is_space_def fields_go_def first_st_def
        call_def char_of_def bit_0)
  then have s1: "SearchOne (mem_xorm None) user_model two_keys ?d (1, []) =
      (((NoReply, Some (Errorf ''error cond'')), plain_dao\<lparr>xd_sess := Some \<lparr>xs_id = 9, xs_pending = ?p\<rparr>\<rparr>), (1, []))"
    by (simp add: SearchOne_def with_session_def with_cond_def)
  from refused_cond_leaks [OF _ b s1, of "[]" user_model] show ?thesis by (simp add: lower_keys_def)
qed



end
