(* ===== verification/Signal.thy ===== *)
theory Signal
  imports Prelude
begin

text \<open>
  Package \<open>signal\<close>: the graceful end of the process. The goroutines that \<open>Listen\<close> and
  \<open>Shutdowned\<close> start run interleaved, so the component is a step relation on the state
  they share; one step is one blocking operation with the code up to the next. Time is left out:
  the 30 second timer may fire at any moment while \<open>doShutdownDone\<close> selects. A panic ends
  the process.
\<close>

section \<open>The state\<close>

datatype os_signal = SIGHUP | SIGINT | SIGQUIT | SIGTERM

datatype listen_phase = L_Idle | L_Select | L_Over

text \<open>
  \<open>waitDone\<close>: not started, started, after the cancellation and blocked in
  \<open>WgWait\<close>, returned.
\<close>

datatype wait_phase = W_None | W_Started | W_Blocked | W_Over

fun wait_rank :: "wait_phase \<Rightarrow> nat" where
  "wait_rank W_None = 0" | "wait_rank W_Started = 1" | "wait_rank W_Blocked = 2" | "wait_rank W_Over = 3"

instantiation wait_phase :: linorder
begin

definition less_eq_wait_phase :: "wait_phase \<Rightarrow> wait_phase \<Rightarrow> bool" where
  "less_eq_wait_phase a b \<longleftrightarrow> wait_rank a \<le> wait_rank b"

definition less_wait_phase :: "wait_phase \<Rightarrow> wait_phase \<Rightarrow> bool" where
  "less_wait_phase a b \<longleftrightarrow> wait_rank a < wait_rank b"

instance
proof
  fix a b c :: wait_phase
  show "a < b \<longleftrightarrow> a \<le> b \<and> \<not> b \<le> a" by (auto simp: less_eq_wait_phase_def less_wait_phase_def)
  show "a \<le> a" by (simp add: less_eq_wait_phase_def)
  show "a \<le> b \<Longrightarrow> b \<le> c \<Longrightarrow> a \<le> c" by (simp add: less_eq_wait_phase_def)
  show "a \<le> b \<Longrightarrow> b \<le> a \<Longrightarrow> a = b" by (cases a; cases b; simp add: less_eq_wait_phase_def)
  show "a \<le> b \<or> b \<le> a" by (auto simp: less_eq_wait_phase_def)
qed

end

datatype crash = Running | DoubleClose | NegativeWg

record sig_state =
  sg_IsHTTP :: bool
  sg_isListened :: bool
  sg_listen :: listen_phase
  sg_Wg :: int
  sg_cancelled :: bool
  sg_done :: bool
  sg_locked :: bool
  sg_doing :: bool
  sg_waiting_lock :: nat
  sg_waiter :: wait_phase
  sg_blocked :: nat
  sg_returned :: nat
  sg_timed_out :: bool
  sg_restarted :: bool
  sg_crash :: crash

definition init_sig :: "bool \<Rightarrow> sig_state" where
  "init_sig http =
     \<lparr>sg_IsHTTP = http, sg_isListened = False, sg_listen = L_Idle, sg_Wg = 0, sg_cancelled = False,
      sg_done = False, sg_locked = False, sg_doing = False, sg_waiting_lock = 0, sg_waiter = W_None,
      sg_blocked = 0, sg_returned = 0, sg_timed_out = False, sg_restarted = False, sg_crash = Running\<rparr>"

section \<open>What the steps do\<close>

definition WgAdd_sig :: "sig_state \<Rightarrow> sig_state" where
  "WgAdd_sig s = s\<lparr>sg_Wg := sg_Wg s + 1\<rparr>"

definition WgDone_sig :: "sig_state \<Rightarrow> sig_state" where
  "WgDone_sig s = (let s = s\<lparr>sg_Wg := sg_Wg s - 1\<rparr> in if sg_Wg s < 0 then s\<lparr>sg_crash := NegativeWg\<rparr> else s)"

definition close_done :: "sig_state \<Rightarrow> sig_state" where
  "close_done s = (if sg_done s then s\<lparr>sg_crash := DoubleClose\<rparr> else s\<lparr>sg_done := True\<rparr>)"

definition go_doShutdownDone :: "sig_state \<Rightarrow> sig_state" where
  "go_doShutdownDone s = s\<lparr>sg_waiting_lock := sg_waiting_lock s + 1\<rparr>"

text \<open>\<open>Listen\<close> up to the select, and after it has received.\<close>

definition Listen_start :: "sig_state \<Rightarrow> sig_state" where
  "Listen_start s = (if sg_isListened s then s else s\<lparr>sg_isListened := True, sg_listen := L_Select\<rparr>)"

definition Listen_got :: "os_signal \<Rightarrow> sig_state \<Rightarrow> sig_state" where
  "Listen_got sig s =
     (let s = (go_doShutdownDone s)\<lparr>sg_listen := L_Over\<rparr>
      in if \<not> sg_IsHTTP s \<and> sig = SIGTERM then s\<lparr>sg_restarted := True\<rparr> else s)"

text \<open>The context was cancelled: the process sends itself an interrupt, which may fail.\<close>

definition Listen_cancelled :: "bool \<Rightarrow> sig_state \<Rightarrow> sig_state" where
  "Listen_cancelled kill_ok s = (if kill_ok then Listen_got SIGINT s else s\<lparr>sg_listen := L_Over\<rparr>)"

text \<open>\<open>doShutdownDone\<close> with the lock, up to its select.\<close>

definition doShutdownDone_start :: "sig_state \<Rightarrow> sig_state" where
  "doShutdownDone_start s =
     (let s = s\<lparr>sg_waiting_lock := sg_waiting_lock s - 1\<rparr>
      in if sg_doing s then s
         else s\<lparr>sg_doing := True, sg_locked := True, sg_waiter := W_Started\<rparr>)"

definition select_timeout :: "sig_state \<Rightarrow> sig_state" where
  "select_timeout s = close_done (s\<lparr>sg_timed_out := True, sg_locked := False\<rparr>)"

definition select_done :: "sig_state \<Rightarrow> sig_state" where
  "select_done s = s\<lparr>sg_locked := False\<rparr>"

definition waitDone_cancel :: "sig_state \<Rightarrow> sig_state" where
  "waitDone_cancel s = s\<lparr>sg_cancelled := True, sg_waiter := W_Blocked\<rparr>"

definition waitDone_end :: "sig_state \<Rightarrow> sig_state" where
  "waitDone_end s = close_done (s\<lparr>sg_waiter := W_Over\<rparr>)"

definition Shutdowned_start :: "sig_state \<Rightarrow> sig_state" where
  "Shutdowned_start s = (go_doShutdownDone s)\<lparr>sg_blocked := sg_blocked s + 1\<rparr>"

definition Shutdowned_end :: "sig_state \<Rightarrow> sig_state" where
  "Shutdowned_end s = s\<lparr>sg_blocked := sg_blocked s - 1, sg_returned := sg_returned s + 1\<rparr>"

section \<open>The steps\<close>

datatype sig_event =
  EvListen | EvSignal os_signal | EvCancelled bool | EvCancel | EvAdd | EvDone | EvShutdowned
| EvLock | EvTimeout | EvSelected | EvWaitCancel | EvWaitEnd | EvReturn

inductive sig_step :: "sig_event \<Rightarrow> sig_state \<Rightarrow> sig_state \<Rightarrow> bool" where
  listen: "sg_crash s = Running \<Longrightarrow> sig_step EvListen s (Listen_start s)"
| signalled: "sg_crash s = Running \<Longrightarrow> sg_listen s = L_Select \<Longrightarrow> sig_step (EvSignal sig) s (Listen_got sig s)"
| cancelled: "sg_crash s = Running \<Longrightarrow> sg_listen s = L_Select \<Longrightarrow> sg_cancelled s \<Longrightarrow>
    sig_step (EvCancelled ok) s (Listen_cancelled ok s)"
| cancel: "sg_crash s = Running \<Longrightarrow> sig_step EvCancel s (s\<lparr>sg_cancelled := True\<rparr>)"
| add: "sg_crash s = Running \<Longrightarrow> sig_step EvAdd s (WgAdd_sig s)"
| finished: "sg_crash s = Running \<Longrightarrow> sig_step EvDone s (WgDone_sig s)"
| shutdowned: "sg_crash s = Running \<Longrightarrow> sig_step EvShutdowned s (Shutdowned_start s)"
| lock: "sg_crash s = Running \<Longrightarrow> 0 < sg_waiting_lock s \<Longrightarrow> \<not> sg_locked s \<Longrightarrow>
    sig_step EvLock s (doShutdownDone_start s)"
| timeout: "sg_crash s = Running \<Longrightarrow> sg_locked s \<Longrightarrow> sig_step EvTimeout s (select_timeout s)"
| selected: "sg_crash s = Running \<Longrightarrow> sg_locked s \<Longrightarrow> sg_done s \<Longrightarrow> sig_step EvSelected s (select_done s)"
| wait_cancel: "sg_crash s = Running \<Longrightarrow> sg_waiter s = W_Started \<Longrightarrow> sig_step EvWaitCancel s (waitDone_cancel s)"
| wait_end: "sg_crash s = Running \<Longrightarrow> sg_waiter s = W_Blocked \<Longrightarrow> sg_Wg s = 0 \<Longrightarrow>
    sig_step EvWaitEnd s (waitDone_end s)"
| returned: "sg_crash s = Running \<Longrightarrow> sg_done s \<Longrightarrow> 0 < sg_blocked s \<Longrightarrow> sig_step EvReturn s (Shutdowned_end s)"

code_pred (modes: i \<Rightarrow> i \<Rightarrow> o \<Rightarrow> bool) sig_step .

inductive_cases sig_stepE: "sig_step ev s s'"

inductive_simps sig_step_simps:
  "sig_step EvLock s s'" "sig_step EvTimeout s s'" "sig_step EvSelected s s'" "sig_step EvWaitCancel s s'"
  "sig_step EvWaitEnd s s'" "sig_step EvReturn s s'"

lemmas step_defs = Listen_start_def Listen_got_def Listen_cancelled_def WgAdd_sig_def WgDone_sig_def
  Shutdowned_start_def Shutdowned_end_def doShutdownDone_start_def select_timeout_def select_done_def
  waitDone_cancel_def waitDone_end_def close_done_def go_doShutdownDone_def Let_def

inductive sig_run :: "sig_event list \<Rightarrow> sig_state \<Rightarrow> sig_state \<Rightarrow> bool" where
  none: "sig_run [] s s"
| more: "sig_step ev s s1 \<Longrightarrow> sig_run evs s1 s2 \<Longrightarrow> sig_run (ev # evs) s s2"

inductive_cases sig_run_ConsE: "sig_run (ev # evs) s s'"

section \<open>The invariant\<close>

text \<open>
  The shape of a state: the latch \<open>doing\<close>, the waiter and the lock go together, the channel is
  closed by the waiter or by the timer and by nobody else, callers return only after that, and
  a second close has needed the timer.
\<close>

definition sig_ok :: "sig_state \<Rightarrow> bool" where
  "sig_ok s \<longleftrightarrow>
     (sg_doing s \<longleftrightarrow> sg_waiter s \<noteq> W_None) \<and>
     (sg_locked s \<longrightarrow> sg_doing s \<and> \<not> sg_timed_out s) \<and>
     (sg_done s \<longleftrightarrow> sg_waiter s = W_Over \<or> sg_timed_out s) \<and>
     (sg_timed_out s \<longrightarrow> sg_doing s \<and> \<not> sg_locked s) \<and>
     (sg_doing s \<and> \<not> sg_locked s \<longrightarrow> sg_done s) \<and>
     (W_Blocked \<le> sg_waiter s \<longrightarrow> sg_cancelled s) \<and>
     (0 < sg_returned s \<longrightarrow> sg_done s) \<and>
     (0 < sg_blocked s \<longrightarrow> sg_doing s \<or> 0 < sg_waiting_lock s) \<and>
     (sg_crash s = DoubleClose \<longrightarrow> sg_timed_out s \<and> sg_waiter s = W_Over) \<and>
     (sg_crash s \<noteq> NegativeWg \<longrightarrow> 0 \<le> sg_Wg s)"

lemma wait_order [simp]:
  "\<not> W_Blocked \<le> W_None" "\<not> W_Blocked \<le> W_Started" "W_Blocked \<le> W_Blocked" "W_Blocked \<le> W_Over"
  by (simp_all add: less_eq_wait_phase_def)

lemma sig_ok_init: "sig_ok (init_sig http)"
  by (simp add: sig_ok_def init_sig_def)

lemma sig_step_ok: "sig_step ev s s' \<Longrightarrow> sig_ok s \<Longrightarrow> sig_ok s'"
  by (erule sig_stepE; auto simp: sig_ok_def step_defs)

lemma sig_run_ok: "sig_run evs s s' \<Longrightarrow> sig_ok s \<Longrightarrow> sig_ok s'"
  by (induction rule: sig_run.induct) (auto dest: sig_step_ok)

lemma reached_ok: "sig_run evs (init_sig http) s \<Longrightarrow> sig_ok s"
  using sig_run_ok sig_ok_init by blast

section \<open>Steps of the system\<close>

text \<open>The steps that the goroutines of the package take by themselves.\<close>

definition sys_events :: "sig_event set" where
  "sys_events = {EvLock, EvTimeout, EvSelected, EvWaitCancel, EvWaitEnd, EvReturn}"

lemma sys_event_cases:
  assumes "ev \<in> sys_events"
  obtains "ev = EvLock" | "ev = EvTimeout" | "ev = EvSelected" | "ev = EvWaitCancel" | "ev = EvWaitEnd" | "ev = EvReturn"
  using assms by (auto simp: sys_events_def)

fun wait_left :: "wait_phase \<Rightarrow> nat" where
  "wait_left W_Started = 2" | "wait_left W_Blocked = 1" | "wait_left _ = 0"

definition sys_work :: "sig_state \<Rightarrow> nat" where
  "sys_work s = 4 * sg_waiting_lock s + (if sg_locked s then 1 else 0) + wait_left (sg_waiter s) + sg_blocked s"

lemma sys_step_work:
  assumes "sig_step ev s s'" and "ev \<in> sys_events" and "sig_ok s"
  shows "sys_work s' < sys_work s"
  using assms(2,1,3)
  by (cases rule: sys_event_cases)
    (auto simp: sig_step_simps sys_work_def step_defs sig_ok_def)

lemma sys_step_frame:
  assumes "sig_step ev s s'" and "ev \<in> sys_events"
  shows "sg_Wg s' = sg_Wg s" and "sg_blocked s' + sg_returned s' = sg_blocked s + sg_returned s"
    and "ev \<noteq> EvTimeout \<Longrightarrow> sg_timed_out s' = sg_timed_out s"
    and "sg_crash s = Running \<and> sg_crash s' \<noteq> NegativeWg"
  using assms(2,1)
  by (cases rule: sys_event_cases; auto simp: sig_step_simps step_defs)+

lemma sys_run_frame:
  "sig_run evs s s' \<Longrightarrow> set evs \<subseteq> sys_events \<Longrightarrow>
   sg_Wg s' = sg_Wg s \<and> sg_blocked s' + sg_returned s' = sg_blocked s + sg_returned s \<and>
   (EvTimeout \<notin> set evs \<longrightarrow> sg_timed_out s' = sg_timed_out s) \<and>
   (sg_crash s \<noteq> NegativeWg \<longrightarrow> sg_crash s' \<noteq> NegativeWg)"
proof (induction rule: sig_run.induct)
  case (more ev s s1 evs s2)
  then show ?case using sys_step_frame [OF more.hyps(1)] by auto
qed simp

lemma timed_out_run:
  "sig_run evs s s' \<Longrightarrow> sg_timed_out s' \<Longrightarrow> \<not> sg_timed_out s \<Longrightarrow> EvTimeout \<in> set evs"
proof (induction rule: sig_run.induct)
  case (more ev s s1 evs s2)
  have "ev \<noteq> EvTimeout \<Longrightarrow> sg_timed_out s1 = sg_timed_out s"
    using more.hyps(1) by (cases rule: sig_step.cases) (auto simp: step_defs)
  with more show ?case by auto
qed simp

lemma waiter_over_run:
  "sig_run evs s s' \<Longrightarrow> sg_waiter s' = W_Over \<Longrightarrow> sg_waiter s \<noteq> W_Over \<Longrightarrow> EvWaitEnd \<in> set evs"
proof (induction rule: sig_run.induct)
  case (more ev s s1 evs s2)
  have "ev \<noteq> EvWaitEnd \<Longrightarrow> sg_waiter s1 = W_Over \<Longrightarrow> sg_waiter s = W_Over"
    using more.hyps(1) by (cases rule: sig_step.cases) (auto simp: step_defs split: if_splits)
  with more show ?case by auto
qed simp

lemma waiter_mono:
  assumes "sig_step ev s s'" and "sig_ok s"
  shows "sg_waiter s \<le> sg_waiter s'"
  using assms by (cases rule: sig_step.cases) (auto simp: step_defs less_eq_wait_phase_def sig_ok_def)

lemma sig_run_append: "sig_run xs s s1 \<Longrightarrow> sig_run ys s1 s2 \<Longrightarrow> sig_run (xs @ ys) s s2"
  by (induction rule: sig_run.induct) (auto intro: sig_run.more)

text \<open>Two runs: a call that is served, and one that times out with work left.\<close>

lemma init_running [simp]: "sg_crash (init_sig http) = Running" "sg_Wg (init_sig http) = 0"
  by (simp_all add: init_sig_def)

definition served :: sig_state where
  "served = Shutdowned_end (select_done (waitDone_end (waitDone_cancel (doShutdownDone_start (Shutdowned_start (init_sig True))))))"

definition timed :: sig_state where
  "timed = select_timeout (waitDone_cancel (doShutdownDone_start (Shutdowned_start (WgAdd_sig (init_sig True)))))"

lemma asked_run: "sig_run [EvShutdowned] (init_sig True) (Shutdowned_start (init_sig True))"
  by (rule sig_run.more [OF sig_step.shutdowned sig_run.none]) simp

lemma served_run:
  "sig_run [EvLock, EvWaitCancel, EvWaitEnd, EvSelected, EvReturn] (Shutdowned_start (init_sig True)) served"
  unfolding served_def
  by (rule sig_run.more, rule sig_step.lock, (simp add: step_defs init_sig_def)+,
      rule sig_run.more, rule sig_step.wait_cancel, (simp add: step_defs init_sig_def)+,
      rule sig_run.more, rule sig_step.wait_end, (simp add: step_defs init_sig_def)+,
      rule sig_run.more, rule sig_step.selected, (simp add: step_defs init_sig_def)+,
      rule sig_run.more, rule sig_step.returned, (simp add: step_defs init_sig_def)+,
      rule sig_run.none)

lemma timed_run: "sig_run [EvAdd, EvShutdowned, EvLock, EvWaitCancel, EvTimeout] (init_sig True) timed"
  unfolding timed_def
  by (rule sig_run.more, rule sig_step.add, simp,
      rule sig_run.more, rule sig_step.shutdowned, (simp add: step_defs init_sig_def)+,
      rule sig_run.more, rule sig_step.lock, (simp add: step_defs init_sig_def)+,
      rule sig_run.more, rule sig_step.wait_cancel, (simp add: step_defs init_sig_def)+,
      rule sig_run.more, rule sig_step.timeout, (simp add: step_defs init_sig_def)+,
      rule sig_run.none)

text \<open>The system is at rest: only the environment or the timer can move it.\<close>

definition at_rest :: "sig_state \<Rightarrow> bool" where
  "at_rest s \<longleftrightarrow> (\<forall>ev \<in> sys_events - {EvTimeout}. \<forall>s'. \<not> sig_step ev s s')"

lemma at_rest_iff:
  "at_rest s \<longleftrightarrow> sg_crash s \<noteq> Running \<or>
     (sg_waiting_lock s = 0 \<or> sg_locked s) \<and> \<not> (sg_locked s \<and> sg_done s) \<and> sg_waiter s \<noteq> W_Started \<and>
     (sg_waiter s = W_Blocked \<longrightarrow> sg_Wg s \<noteq> 0) \<and> (sg_done s \<longrightarrow> sg_blocked s = 0)"
proof -
  have "sys_events - {EvTimeout} = {EvLock, EvSelected, EvWaitCancel, EvWaitEnd, EvReturn}"
    by (auto simp: sys_events_def)
  then show ?thesis by (auto simp: at_rest_def sig_step_simps)
qed

section \<open>Properties\<close>

text \<open>
  C20. Every state the process can reach is well-formed: the shutdown has been started exactly when its
  waiter exists, the lock is only held by a shutdown whose timer has not fired, the channel is closed
  exactly when the waiter has ended or the timer fired, work is only waited for after the cancellation,
  nobody has returned before the close, and an end of the process by a second close needed both.
\<close>

theorem reached_wellformed:
  assumes "sig_run evs (init_sig http) s"
  shows "sig_ok s"
  using assms by (rule reached_ok)

theorem reached_wellformed_witness:
  "sig_ok (Shutdowned_start (init_sig True))"
  by (rule reached_wellformed [OF sig_run.more [OF sig_step.shutdowned sig_run.none]]) simp



text \<open>
  After a timeout the late work kills the process: the timer has closed the channel but the
  waiter is still there, so that as soon as the work that is left is done the waiter closes the
  channel again and panics, in every state the process can reach with the timer fired, the waiter
  waiting and no panic so far.
\<close>

theorem late_work_panics:
  assumes "sig_run evs (init_sig http) s" and "sg_timed_out s" and "sg_waiter s = W_Blocked"
    and "sg_crash s = Running"
  shows "\<exists>s'. sig_run (replicate (nat (sg_Wg s)) EvDone @ [EvWaitEnd]) s s' \<and> sg_crash s' = DoubleClose"
proof -
  have ok: "sg_done s" "0 \<le> sg_Wg s" using reached_ok [OF assms(1)] assms(2,4) by (auto simp: sig_ok_def)
  have "sg_Wg s = int n \<Longrightarrow> sg_crash s = Running \<Longrightarrow>
      sig_run (replicate n EvDone) s (s\<lparr>sg_Wg := 0\<rparr>)" for n s
  proof (induction n arbitrary: s)
    case 0
    then have "s\<lparr>sg_Wg := 0\<rparr> = s" by simp
    then show ?case using sig_run.none [of s] by simp
  next
    case (Suc n)
    then have "sig_step EvDone s (s\<lparr>sg_Wg := int n\<rparr>)"
      using sig_step.finished [of s] by (simp add: WgDone_sig_def)
    moreover have "sig_run (replicate n EvDone) (s\<lparr>sg_Wg := int n\<rparr>) (s\<lparr>sg_Wg := 0\<rparr>)"
      using Suc.IH [of "s\<lparr>sg_Wg := int n\<rparr>"] Suc.prems by simp
    ultimately show ?case by (auto intro: sig_run.more)
  qed
  from this [of s "nat (sg_Wg s)"] ok(2) assms(4)
  have "sig_run (replicate (nat (sg_Wg s)) EvDone) s (s\<lparr>sg_Wg := 0\<rparr>)" by simp
  moreover have "sig_run [EvWaitEnd] (s\<lparr>sg_Wg := 0\<rparr>) (waitDone_end (s\<lparr>sg_Wg := 0\<rparr>))"
    using assms(3,4) by (auto intro!: sig_run.intros sig_step.wait_end)
  moreover have "sg_crash (waitDone_end (s\<lparr>sg_Wg := 0\<rparr>)) = DoubleClose"
    using ok(1) by (simp add: waitDone_end_def close_done_def)
  ultimately show ?thesis by (blast intro: sig_run_append)
qed

theorem late_work_panics_witness:
  "\<exists>s'. sig_run [EvDone, EvWaitEnd] timed s' \<and> sg_crash s' = DoubleClose"
proof -
  have "sg_timed_out timed" "sg_waiter timed = W_Blocked" "sg_crash timed = Running" "sg_Wg timed = 1"
    by (simp_all add: timed_def step_defs init_sig_def)
  with late_work_panics [OF timed_run] show ?thesis by simp
qed





end
