(* ===== verification/Ssh.thy ===== *)
theory Ssh
  imports Common
begin

text \<open>
  \<open>ssh/ssh.go\<close>: the table of shared connections with their reference counts, the dialling
  through a jump host, the authentication methods and the keep-alive. Package
  \<open>golang.org/x/crypto/ssh\<close>, the network and the files are the record \<open>ssh_lib\<close>, over
  a state \<open>'d\<close> of their own; clients are known by their numbers. The objects and their contexts
  are on the heap, since \<open>preIns\<close> refers to an object and two objects can share a context;
  \<open>sh_next\<close> is the next free number. Logging and the timers themselves are left out.
\<close>

section \<open>Configuration, objects, library\<close>

record ssh_config =
  sf_Id :: string
  sf_Addr :: string
  sf_User :: string
  sf_Certs :: "string list"
  sf_Passwords :: "string list"
  sf_Timeout :: int
  sf_SkipKeep :: bool
  sf_Auth :: string
  sf_Phrase :: string

datatype ssh_mode = NormalSSHMode | RemoteSSHMode

datatype auth_method = PublicKeys string | Password string

record ssh_client_config =
  cg_User :: string
  cg_Auth :: "auth_method list"
  cg_Timeout :: int

record ssh_ins =
  si_config :: ssh_config
  si_ref :: int
  si_reconnectTime :: int
  si_m :: ssh_mode
  si_c :: "nat option"
  si_preIns :: "nat option"
  si_ctx :: nat
  si_isKeepAlive :: bool

record 'd ssh_lib =
  hl_gob :: "ssh_config \<Rightarrow> goerr + string"
  hl_md5 :: "string \<Rightarrow> string"
  hl_stat :: file_stat
  hl_ReadFile :: "string \<Rightarrow> goerr + string"
  hl_ParseKey :: "string \<Rightarrow> string option \<Rightarrow> goerr + string"
  hl_Dial :: "string \<Rightarrow> ssh_client_config \<Rightarrow> 'd \<Rightarrow> (goerr + nat) \<times> 'd"
  hl_Connect :: "nat \<Rightarrow> string \<Rightarrow> 'd \<Rightarrow> (goerr + nat) \<times> 'd"
  hl_NewClient :: "nat \<Rightarrow> ssh_client_config \<Rightarrow> 'd \<Rightarrow> (goerr + nat) \<times> 'd"
  hl_Listen :: "nat \<Rightarrow> string \<Rightarrow> 'd \<Rightarrow> (goerr + nat) \<times> 'd"
  hl_Close :: "nat \<Rightarrow> 'd \<Rightarrow> 'd"
  hl_Exec :: "nat \<Rightarrow> string \<Rightarrow> 'd \<Rightarrow> (string \<times> goerr option) \<times> 'd"

record 'd ssh_state =
  sh_sshIns :: "string \<rightharpoonup> nat"
  sh_objs :: "nat \<Rightarrow> ssh_ins"
  sh_cancelled :: "nat \<Rightarrow> bool"
  sh_next :: nat
  sh_net :: 'd

section \<open>Configuration and authentication\<close>

definition with_timeout :: "ssh_config \<Rightarrow> ssh_config" where
  "with_timeout c = (if sf_Timeout c = 0 then c\<lparr>sf_Timeout := 4 * 60\<rparr> else c)"

definition SetConfig :: "ssh_config \<Rightarrow> ssh_ins \<Rightarrow> ssh_ins" where
  "SetConfig c i = i\<lparr>si_config := with_timeout c\<rparr>"

definition ssh_key :: "'d ssh_lib \<Rightarrow> ssh_config \<Rightarrow> goerr + string" where
  "ssh_key hl c = (case hl_gob hl c of Inl e \<Rightarrow> Inl e | Inr gb \<Rightarrow> Inr (hl_md5 hl gb))"

text \<open>
  The loop over the certificates: a file that cannot be read counts as an empty key. The last key
  is left in the variable.
\<close>

definition cert_key :: "'d ssh_lib \<Rightarrow> string \<Rightarrow> string" where
  "cert_key hl v =
     (if IsExist (hl_stat hl) v then (case hl_ReadFile hl v of Inl _ \<Rightarrow> [] | Inr k \<Rightarrow> k) else v)"

fun cert_auths :: "'d ssh_lib \<Rightarrow> string list \<Rightarrow> string \<Rightarrow> goerr + auth_method list \<times> string" where
  "cert_auths hl [] key = Inr ([], key)"
| "cert_auths hl (v # vs) key =
     (case hl_ParseKey hl (cert_key hl v) None of
        Inl e \<Rightarrow> Inl e
      | Inr signer \<Rightarrow>
          (case cert_auths hl vs (cert_key hl v) of
             Inl e \<Rightarrow> Inl e
           | Inr (as, k) \<Rightarrow> Inr (PublicKeys signer # as, k)))"

text \<open>The fields \<open>Auth\<close> and \<open>Phrase\<close>, with the key the loop left.\<close>

definition legacy_auth :: "'d ssh_lib \<Rightarrow> ssh_config \<Rightarrow> string \<Rightarrow> goerr + auth_method list" where
  "legacy_auth hl c key0 =
     (let auth = sf_Auth c in
      case (if IsExist (hl_stat hl) auth then hl_ReadFile hl auth else Inr key0) of
        Inl e \<Rightarrow> Inl e
      | Inr key \<Rightarrow>
          if key = [] \<and> length auth < 50 then Inr [Password auth]
          else
            (let key = (if key = [] then auth else key) in
             case hl_ParseKey hl key (if sf_Phrase c \<noteq> [] then Some (sf_Phrase c) else None) of
               Inl e \<Rightarrow> Inl e
             | Inr signer \<Rightarrow> Inr [PublicKeys signer]))"

definition getAuth :: "'d ssh_lib \<Rightarrow> ssh_config \<Rightarrow> goerr + auth_method list" where
  "getAuth hl c =
     (case cert_auths hl (sf_Certs c) [] of
        Inl e \<Rightarrow> Inl e
      | Inr (as, key) \<Rightarrow>
          (let as = as @ map Password (sf_Passwords c) in
           if sf_Auth c = [] then Inr as
           else case legacy_auth hl c key of Inl e \<Rightarrow> Inl e | Inr bs \<Rightarrow> Inr (as @ bs)))"

definition getSshClientConfig :: "'d ssh_lib \<Rightarrow> ssh_config \<Rightarrow> goerr + ssh_client_config" where
  "getSshClientConfig hl c =
     (case getAuth hl c of
        Inl e \<Rightarrow> Inl e
      | Inr auth \<Rightarrow> Inr \<lparr>cg_User = sf_User c, cg_Auth = auth, cg_Timeout = i64 (sf_Timeout c * 10 ^ 9)\<rparr>)"

section \<open>Connections\<close>

definition upd_ins :: "nat \<Rightarrow> (ssh_ins \<Rightarrow> ssh_ins) \<Rightarrow> 'd ssh_state \<Rightarrow> 'd ssh_state" where
  "upd_ins n f st = st\<lparr>sh_objs := (sh_objs st)(n := f (sh_objs st n))\<rparr>"

definition dial_ssh :: "'d ssh_lib \<Rightarrow> ssh_config \<Rightarrow> 'd \<Rightarrow> (goerr + nat) \<times> 'd" where
  "dial_ssh hl c d =
     (case getSshClientConfig hl c of
        Inl e \<Rightarrow> (Inl e, d)
      | Inr scc \<Rightarrow> hl_Dial hl (sf_Addr c) scc d)"

definition Connect :: "'d ssh_lib \<Rightarrow> nat option \<Rightarrow> string \<Rightarrow> 'd \<Rightarrow> (goerr + nat) \<times> 'd" where
  "Connect hl c addr d =
     (case c of None \<Rightarrow> (Inl (Errorf ''nil client''), d) | Some cl \<Rightarrow> hl_Connect hl cl addr d)"

definition Listen_ssh :: "'d ssh_lib \<Rightarrow> nat option \<Rightarrow> string \<Rightarrow> 'd \<Rightarrow> (goerr + nat) \<times> 'd" where
  "Listen_ssh hl c addr d =
     (case c of None \<Rightarrow> (Inl (Errorf ''nil client''), d) | Some cl \<Rightarrow> hl_Listen hl cl addr d)"

definition dialRemote_ssh :: "'d ssh_lib \<Rightarrow> nat option \<Rightarrow> ssh_config \<Rightarrow> 'd \<Rightarrow> (goerr + nat) \<times> 'd" where
  "dialRemote_ssh hl pre c d =
     (case Connect hl pre (sf_Addr c) d of
        (Inl e, d1) \<Rightarrow> (Inl e, d1)
      | (Inr rc, d1) \<Rightarrow>
          (case getSshClientConfig hl c of
             Inl e \<Rightarrow> (Inl e, d1)
           | Inr scc \<Rightarrow> hl_NewClient hl rc scc d1))"

text \<open>
  The goroutine \<open>keepalive\<close> up to its loop: it runs at most once in the life of an object.
\<close>

definition keepalive_start :: "ssh_ins \<Rightarrow> ssh_ins \<times> bool" where
  "keepalive_start i =
     (if si_isKeepAlive i \<or> sf_SkipKeep (si_config i) \<or> si_c i = None then (i, False)
      else (i\<lparr>si_isKeepAlive := True\<rparr>, True))"

definition set_client :: "goerr + nat \<Rightarrow> ssh_ins \<Rightarrow> ssh_ins" where
  "set_client r i = i\<lparr>si_c := (case r of Inl _ \<Rightarrow> None | Inr c \<Rightarrow> Some c)\<rparr>"

definition Dial :: "'d ssh_lib \<Rightarrow> nat \<Rightarrow> 'd ssh_state \<Rightarrow> goerr option \<times> 'd ssh_state" where
  "Dial hl n st =
     (let c = si_config (sh_objs st n) in
      if sf_Addr c = [] then (Some (Errorf ''err sshConfig''), st)
      else
        (let (r, d) = dial_ssh hl c (sh_net st);
             st = upd_ins n (set_client r) (st\<lparr>sh_net := d\<rparr>)
         in case r of
              Inl e \<Rightarrow> (Some e, st)
            | Inr _ \<Rightarrow>
                (None, upd_ins n (\<lambda>i. (fst (keepalive_start i))\<lparr>si_ref := si_ref i + 1\<rparr>) st)))"

definition new_ins :: "ssh_config \<Rightarrow> ssh_ins" where
  "new_ins c =
     \<lparr>si_config = with_timeout c, si_ref = 0, si_reconnectTime = 0, si_m = NormalSSHMode, si_c = None,
      si_preIns = None, si_ctx = 0, si_isKeepAlive = False\<rparr>"

definition intern :: "string \<Rightarrow> ssh_config \<Rightarrow> 'd ssh_state \<Rightarrow> nat \<times> 'd ssh_state" where
  "intern key c st =
     (case sh_sshIns st key of
        Some n \<Rightarrow> (n, st)
      | None \<Rightarrow>
          (let n = sh_next st
           in (n, st\<lparr>sh_sshIns := (sh_sshIns st)(key \<mapsto> n), sh_objs := (sh_objs st)(n := new_ins c),
                     sh_next := n + 1\<rparr>)))"

definition fresh_ctx :: "nat \<Rightarrow> 'd ssh_state \<Rightarrow> 'd ssh_state" where
  "fresh_ctx n st =
     (let k = sh_next st
      in (upd_ins n (\<lambda>i. i\<lparr>si_ctx := k\<rparr>) st)\<lparr>sh_cancelled := (sh_cancelled st)(k := False), sh_next := k + 1\<rparr>)"

text \<open>The object is returned together with the error of a dial.\<close>

definition NewSSH :: "'d ssh_lib \<Rightarrow> ssh_config \<Rightarrow> 'd ssh_state \<Rightarrow> (nat option \<times> goerr option) \<times> 'd ssh_state" where
  "NewSSH hl c st =
     (case ssh_key hl c of
        Inl e \<Rightarrow> ((None, Some e), st)
      | Inr key \<Rightarrow>
          (let (n, st1) = intern key c st in
           if 0 < si_ref (sh_objs st1 n)
           then ((Some n, None), upd_ins n (\<lambda>i. i\<lparr>si_ref := si_ref i + 1\<rparr>) st1)
           else
             (let (e, st2) = Dial hl n (fresh_ctx n st1) in ((Some n, e), st2))))"

definition Close_ssh :: "'d ssh_lib \<Rightarrow> nat \<Rightarrow> 'd ssh_state \<Rightarrow> 'd ssh_state" where
  "Close_ssh hl n st =
     (let st = upd_ins n (\<lambda>i. i\<lparr>si_ref := si_ref i - 1\<rparr>) st; i = sh_objs st n in
      if si_ref i \<le> 0 then
        (let st = st\<lparr>sh_cancelled := (sh_cancelled st)(si_ctx i := True)\<rparr> in
         case si_c i of None \<Rightarrow> st | Some c \<Rightarrow> st\<lparr>sh_net := hl_Close hl c (sh_net st)\<rparr>)
      else st)"

definition DialRemote :: "'d ssh_lib \<Rightarrow> nat \<Rightarrow> ssh_config \<Rightarrow> 'd ssh_state \<Rightarrow> (nat option \<times> goerr option) \<times> 'd ssh_state" where
  "DialRemote hl this c st =
     (if sf_Addr c = [] then ((None, Some (Errorf ''err sshConfig'')), st)
      else
        (let n = sh_next st;
             i = (new_ins c)\<lparr>si_ref := 1, si_m := RemoteSSHMode, si_preIns := Some this,
                   si_ctx := si_ctx (sh_objs st this)\<rparr>;
             (r, d) = dialRemote_ssh hl (si_c (sh_objs st this)) (si_config i) (sh_net st);
             i = set_client r i;
             i = (case r of Inl _ \<Rightarrow> i | Inr _ \<Rightarrow> fst (keepalive_start i))
         in ((Some n, (case r of Inl e \<Rightarrow> Some e | Inr _ \<Rightarrow> None)),
             st\<lparr>sh_objs := (sh_objs st)(n := i), sh_next := n + 1, sh_net := d\<rparr>)))"

text \<open>\<open>Check\<close> runs a command; when it takes too long the client is closed and the command fails.\<close>

definition Check_ssh :: "'d ssh_lib \<Rightarrow> nat option \<Rightarrow> 'd \<Rightarrow> goerr option \<times> 'd" where
  "Check_ssh hl c d =
     (case c of
        None \<Rightarrow> (Some (Errorf ''Check no ins''), d)
      | Some cl \<Rightarrow> (let ((_, e), d') = hl_Exec hl cl ''ls'' d in (e, d')))"

definition reconnect :: "'d ssh_lib \<Rightarrow> nat \<Rightarrow> 'd ssh_state \<Rightarrow> (goerr + nat) \<times> 'd" where
  "reconnect hl n st =
     (let i = sh_objs st n;
          d = (case si_c i of None \<Rightarrow> sh_net st | Some c \<Rightarrow> hl_Close hl c (sh_net st))
      in case si_m i of
           NormalSSHMode \<Rightarrow> dial_ssh hl (si_config i) d
         | RemoteSSHMode \<Rightarrow>
             dialRemote_ssh hl (Option.bind (si_preIns i) (\<lambda>p. si_c (sh_objs st p))) (si_config i) d)"

definition keep :: "'d ssh_lib \<Rightarrow> nat \<Rightarrow> 'd ssh_state \<Rightarrow> goerr option \<times> 'd ssh_state" where
  "keep hl n st =
     (let (e, d) = Check_ssh hl (si_c (sh_objs st n)) (sh_net st); st = st\<lparr>sh_net := d\<rparr> in
      case e of
        None \<Rightarrow> (None, st)
      | Some er \<Rightarrow>
          if si_ref (sh_objs st n) \<le> 0 then (Some er, st)
          else
            (let (r, d) = reconnect hl n st
             in ((case r of Inl e \<Rightarrow> Some e | Inr _ \<Rightarrow> None),
                 upd_ins n (\<lambda>i. set_client r (i\<lparr>si_reconnectTime := si_reconnectTime i + 1\<rparr>)) (st\<lparr>sh_net := d\<rparr>))))"

text \<open>
  The loop of \<open>keepalive\<close>: the ticks of its timer until the context is done. The next tick comes
  after 300 milliseconds when the connection is down.
\<close>

datatype timer_event = TimerTick | TimerDone

fun keepalive_ticks :: "'d ssh_lib \<Rightarrow> nat \<Rightarrow> timer_event list \<Rightarrow> 'd ssh_state \<Rightarrow> int list \<times> 'd ssh_state" where
  "keepalive_ticks hl n [] st = ([], st)"
| "keepalive_ticks hl n (TimerDone # es) st = ([], st)"
| "keepalive_ticks hl n (TimerTick # es) st =
     (let (e, st1) = keep hl n st;
          next = (if e \<noteq> None then 300 * 10 ^ 6 else i64 (sf_Timeout (si_config (sh_objs st1 n)) * 10 ^ 9));
          (ds, st2) = keepalive_ticks hl n es st1
      in (next # ds, st2))"

definition GetReconnectionTime :: "nat \<Rightarrow> 'd ssh_state \<Rightarrow> int" where
  "GetReconnectionTime n st = si_reconnectTime (sh_objs st n)"

definition Config_ssh :: "nat \<Rightarrow> 'd ssh_state \<Rightarrow> ssh_config" where
  "Config_ssh n st = si_config (sh_objs st n)"

section \<open>exec.go\<close>

definition Exec_ssh :: "'d ssh_lib \<Rightarrow> nat option \<Rightarrow> string \<Rightarrow> 'd \<Rightarrow> (string \<times> goerr option) \<times> 'd" where
  "Exec_ssh hl c cmd d =
     (case c of None \<Rightarrow> (([], Some (Errorf ''nil client'')), d) | Some cl \<Rightarrow> hl_Exec hl cl cmd d)"

section \<open>Facts\<close>

lemma upd_ins_fields [simp]:
  "sh_sshIns (upd_ins n f st) = sh_sshIns st" "sh_net (upd_ins n f st) = sh_net st"
  "sh_cancelled (upd_ins n f st) = sh_cancelled st" "sh_next (upd_ins n f st) = sh_next st"
  "sh_objs (upd_ins n f st) = (sh_objs st)(n := f (sh_objs st n))"
  by (simp_all add: upd_ins_def)

text \<open>A user takes the connection of a configuration, or gives it back.\<close>

datatype use = Take | Drop

fun use_step :: "'d ssh_lib \<Rightarrow> ssh_config \<Rightarrow> nat \<Rightarrow> use \<Rightarrow> 'd ssh_state \<Rightarrow> 'd ssh_state" where
  "use_step hl c n Take st = snd (NewSSH hl c st)"
| "use_step hl c n Drop st = Close_ssh hl n st"

fun users :: "int \<Rightarrow> use list \<Rightarrow> int" where
  "users r [] = r"
| "users r (Take # us) = users (r + 1) us"
| "users r (Drop # us) = users (r - 1) us"

text \<open>Somebody holds the connection all the time.\<close>

fun always_held :: "int \<Rightarrow> use list \<Rightarrow> bool" where
  "always_held r [] = (0 < r)"
| "always_held r (Take # us) = (0 < r \<and> always_held (r + 1) us)"
| "always_held r (Drop # us) = (0 < r \<and> always_held (r - 1) us)"

lemma use_step_held:
  assumes "ssh_key hl c = Inr key" and "sh_sshIns st key = Some n" and "0 < si_ref (sh_objs st n)"
    and "u = Drop \<Longrightarrow> 1 < si_ref (sh_objs st n)"
  shows "use_step hl c n u st = upd_ins n (\<lambda>i. i\<lparr>si_ref := si_ref i + (if u = Take then 1 else - 1)\<rparr>) st"
  using assms by (cases u) (simp_all add: NewSSH_def intern_def Close_ssh_def Let_def)

lemma held_run:
  assumes "ssh_key hl c = Inr key" and "always_held r us" and "sh_sshIns st key = Some n"
    and "si_ref (sh_objs st n) = r"
  shows "fold (use_step hl c n) us st = upd_ins n (\<lambda>i. i\<lparr>si_ref := users r us\<rparr>) st \<and> 0 < users r us"
  using assms(2-4)
proof (induction us arbitrary: r st)
  case Nil
  then have "(sh_objs st)(n := (sh_objs st n)\<lparr>si_ref := r\<rparr>) = sh_objs st" by (auto simp: fun_eq_iff)
  with Nil show ?case by (simp add: upd_ins_def)
next
  case (Cons u us)
  let ?d = "if u = Take then 1 else (- 1 :: int)"
  have pos: "0 < r" and rest: "always_held (r + ?d) us" and us: "users r (u # us) = users (r + ?d) us"
    using Cons.prems(1) by (cases u; simp)+
  have "0 < r + ?d" using rest by (cases us; cases "hd us") auto
  then have drop: "u = Drop \<Longrightarrow> 1 < si_ref (sh_objs st n)" using Cons.prems(3) by auto
  let ?st = "upd_ins n (\<lambda>i. i\<lparr>si_ref := si_ref i + ?d\<rparr>) st"
  have step: "use_step hl c n u st = ?st"
    by (rule use_step_held [OF assms(1) Cons.prems(2) _ drop]) (simp_all add: Cons.prems(3) pos)
  have "fold (use_step hl c n) us ?st = upd_ins n (\<lambda>i. i\<lparr>si_ref := users (r + ?d) us\<rparr>) ?st \<and> 0 < users (r + ?d) us"
    by (rule Cons.IH [OF rest]) (simp_all add: Cons.prems)
  with step us show ?case by (simp add: upd_ins_def)
qed

section \<open>Properties\<close>


text \<open>
  A password after a certificate is not a password: the key of the last certificate is still in
  the variable when \<open>Auth\<close> is looked at, so that with a certificate that parses and a short
  \<open>Auth\<close> that names no file, the methods are the certificate twice, and the password is none
  of them.
\<close>

theorem auth_password_after_cert:
  assumes "sf_Certs c = [v]" and "\<not> IsExist (hl_stat hl) v" and "v \<noteq> []" and "sf_Passwords c = []"
    and "sf_Auth c \<noteq> []" and "\<not> IsExist (hl_stat hl) (sf_Auth c)" and "length (sf_Auth c) < 50"
    and "sf_Phrase c = []" and "hl_ParseKey hl v None = Inr signer"
  shows "getAuth hl c = Inr [PublicKeys signer, PublicKeys signer] \<and>
    getAuth hl (c\<lparr>sf_Certs := []\<rparr>) = Inr [Password (sf_Auth c)]"
  using assms by (simp add: getAuth_def legacy_auth_def cert_key_def Let_def)

definition mem_ssh :: "(nat \<times> nat list) ssh_lib" where
  "mem_ssh =
     \<lparr>hl_gob = (\<lambda>c. Inr (sf_Addr c)), hl_md5 = (\<lambda>s. s), hl_stat = (\<lambda>p. StatErr ''no such file'' True),
      hl_ReadFile = (\<lambda>p. Inl (Errorf ''no such file'')), hl_ParseKey = (\<lambda>k p. Inr k),
      hl_Dial = (\<lambda>a g d. (Inr (fst d), (fst d + 1, snd d))), hl_Connect = (\<lambda>c a d. (Inr (fst d), (fst d + 1, snd d))),
      hl_NewClient = (\<lambda>c g d. (Inr (fst d), (fst d + 1, snd d))), hl_Listen = (\<lambda>c a d. (Inr 0, d)),
      hl_Close = (\<lambda>c d. (fst d, c # snd d)), hl_Exec = (\<lambda>c s d. ((s, None), d))\<rparr>"

definition jump_config :: ssh_config where
  "jump_config = \<lparr>sf_Id = [], sf_Addr = ''jump:22'', sf_User = ''u'', sf_Certs = [''key''], sf_Passwords = [],
     sf_Timeout = 0, sf_SkipKeep = False, sf_Auth = ''secret'', sf_Phrase = []\<rparr>"

definition no_ssh :: "(nat \<times> nat list) ssh_state" where
  "no_ssh = \<lparr>sh_sshIns = Map.empty, sh_objs = (\<lambda>_. new_ins jump_config), sh_cancelled = (\<lambda>_. True), sh_next = 0,
     sh_net = (5, [])\<rparr>"

theorem auth_password_after_cert_witness:
  "getAuth mem_ssh jump_config = Inr [PublicKeys ''key'', PublicKeys ''key'']"
  using auth_password_after_cert [of jump_config "''key''" mem_ssh "''key''"]
  by (simp add: jump_config_def mem_ssh_def IsExist_def)

lemma mem_ssh_fields [simp]:
  "ssh_key mem_ssh c = Inr (sf_Addr c)" "hl_Dial mem_ssh a g d = (Inr (fst d), (fst d + 1, snd d))"
  "hl_Close mem_ssh k d = (fst d, k # snd d)"
  by (simp_all add: mem_ssh_def ssh_key_def)

definition one_user :: "(nat \<times> nat list) ssh_state" where
  "one_user = snd (NewSSH mem_ssh jump_config no_ssh)"

lemma one_user_fields:
  "sh_sshIns one_user ''jump:22'' = Some 0" "si_c (sh_objs one_user 0) = Some 5" "si_ref (sh_objs one_user 0) = 1"
  "sh_net one_user = (6, [])"
proof -
  have g: "getSshClientConfig mem_ssh (with_timeout jump_config) =
      Inr \<lparr>cg_User = ''u'', cg_Auth = [PublicKeys ''key'', PublicKeys ''key''], cg_Timeout = i64 (240 * 10 ^ 9)\<rparr>"
    by (simp add: getSshClientConfig_def getAuth_def legacy_auth_def cert_key_def Let_def with_timeout_def
        jump_config_def mem_ssh_def IsExist_def)
  have a: "sf_Addr (with_timeout jump_config) = ''jump:22''" "sf_Addr jump_config = ''jump:22''"
    by (simp_all add: with_timeout_def jump_config_def)
  show "sh_sshIns one_user ''jump:22'' = Some 0" "si_c (sh_objs one_user 0) = Some 5"
    "si_ref (sh_objs one_user 0) = 1" "sh_net one_user = (6, [])"
    by (simp_all add: one_user_def NewSSH_def no_ssh_def intern_def Let_def new_ins_def fresh_ctx_def Dial_def
        dial_ssh_def g a set_client_def keepalive_start_def)
qed


end
