(* ===== verification/Pac.thy ===== *)
theory Pac
  imports Interfaces
begin

text \<open>
  Package \<open>pac\<close>: the table of hosts that go through the proxy, the file it is kept in, and
  the look-up of an address. The block list of \<open>gfwlist\<close> is third-party data; what the file
  system and the clock answer are fields of the environment. A map is iterated in an order the run
  time chooses, here the list \<open>pe_order\<close>. The mutexes are left out.
\<close>

section \<open>State and environment\<close>

record pac_state =
  pc_pac :: "string \<rightharpoonup> bool"
  pc_isLoad :: bool
  pc_file :: "(string \<times> int) option"

record pac_env =
  pe_now :: int
  pe_blacklist :: "goerr + string list"
  pe_order :: "(string \<rightharpoonup> bool) \<Rightarrow> string list"
  pe_read_err :: "goerr option"
  pe_create_err :: "goerr option"
  pe_flush_err :: "goerr option"

definition Newline :: char where "Newline = CHR 0x0A"

section \<open>common.go and gwflist.go\<close>

definition Add :: "string \<Rightarrow> bool \<Rightarrow> pac_state \<Rightarrow> pac_state" where
  "Add key val st = st\<lparr>pc_pac := (pc_pac st)(key \<mapsto> val)\<rparr>"

definition LoadGwflist :: "pac_env \<Rightarrow> pac_state \<Rightarrow> goerr option \<times> pac_state" where
  "LoadGwflist env st =
     (case pe_blacklist env of
        Inl e \<Rightarrow> (Some e, st)
      | Inr blacklist \<Rightarrow> (None, fold (\<lambda>v. Add v True) blacklist st))"

text \<open>The loop of \<open>Check\<close> from a position on.\<close>

function check_from :: "(string \<rightharpoonup> bool) \<Rightarrow> string list \<Rightarrow> nat \<Rightarrow> bool" where
  "check_from pac hosts pos =
     (if pos < length hosts then
        (case pac (join_go (drop pos hosts) ''.'') of
           Some isAllow \<Rightarrow> isAllow
         | None \<Rightarrow> check_from pac hosts (pos + 1))
      else False)"
  by pat_completeness auto
termination by (relation "measure (\<lambda>(pac, hosts, pos). length hosts - pos)") auto

declare check_from.simps [simp del]

definition host_labels :: "string \<Rightarrow> string list" where
  "host_labels addr = split_go (hd (split_go addr '':'')) ''.''"

definition Check :: "string \<Rightarrow> pac_state \<Rightarrow> bool" where
  "Check addr st =
     (if pc_pac st = Map.empty then False else check_from (pc_pac st) (host_labels addr) 0)"

definition GetAll :: "pac_state \<Rightarrow> (string \<rightharpoonup> bool)" where "GetAll st = pc_pac st"

section \<open>pac.go\<close>

definition parse_line :: "string \<Rightarrow> (string \<times> bool) option" where
  "parse_line line =
     (case split_go line '':'' of
        [host, flag] \<Rightarrow> Some (host, flag = ''1'')
      | _ \<Rightarrow> None)"

definition parsePac :: "string \<Rightarrow> pac_state \<Rightarrow> goerr option \<times> pac_state" where
  "parsePac body st =
     (None, fold (\<lambda>line st. case parse_line line of None \<Rightarrow> st | Some (h, b) \<Rightarrow> Add h b st)
              (split_go body [Newline]) st)"

definition pac_line :: "string \<times> bool \<Rightarrow> string" where
  "pac_line e = (if snd e then fst e @ '':1'' @ [Newline] else fst e @ '':0'' @ [Newline])"

definition table_entries :: "pac_env \<Rightarrow> pac_state \<Rightarrow> (string \<times> bool) list" where
  "table_entries env st = map (\<lambda>h. (h, the (pc_pac st h))) (pe_order env (pc_pac st))"

text \<open>A write error leaves the file empty, as it was created.\<close>

definition updatePacFile :: "pac_env \<Rightarrow> pac_state \<Rightarrow> goerr option \<times> pac_state" where
  "updatePacFile env st =
     (case LoadGwflist env st of
        (Some e, st1) \<Rightarrow> (Some e, st1)
      | (None, st1) \<Rightarrow>
          (case pe_create_err env of
             Some e \<Rightarrow> (Some e, st1)
           | None \<Rightarrow>
               (case pe_flush_err env of
                  Some e \<Rightarrow> (Some e, st1\<lparr>pc_file := Some ([], pe_now env)\<rparr>)
                | None \<Rightarrow>
                    (None, st1\<lparr>pc_file := Some (concat (map pac_line (table_entries env st1)), pe_now env)\<rparr>))))"

definition LoadFromPac :: "pac_env \<Rightarrow> pac_state \<Rightarrow> goerr option \<times> pac_state" where
  "LoadFromPac env st =
     (case pc_file st of
        None \<Rightarrow> updatePacFile env st
      | Some (body, mtime) \<Rightarrow>
          if pe_now env - mtime > 86400 then updatePacFile env st
          else case pe_read_err env of
            Some e \<Rightarrow> (Some e, st)
          | None \<Rightarrow> parsePac body st)"

definition LoadDefault :: "pac_env \<Rightarrow> pac_state \<Rightarrow> goerr option \<times> pac_state" where
  "LoadDefault env st =
     (if pc_isLoad st then (None, st) else LoadFromPac env (st\<lparr>pc_isLoad := True\<rparr>))"

definition Reset :: "pac_env \<Rightarrow> pac_state \<Rightarrow> goerr option \<times> pac_state" where
  "Reset env st = LoadDefault env (st\<lparr>pc_pac := Map.empty, pc_isLoad := False\<rparr>)"

section \<open>The file format\<close>

definition print_pac :: "(string \<times> bool) list \<Rightarrow> string" where
  "print_pac es = concat (map pac_line es)"

definition pac_entries :: "string \<Rightarrow> (string \<times> bool) list" where
  "pac_entries body = List.map_filter parse_line (split_go body [Newline])"

definition plain_host :: "string \<Rightarrow> bool" where
  "plain_host h \<longleftrightarrow> CHR '':'' \<notin> set h \<and> Newline \<notin> set h"

definition plain_entries :: "(string \<times> bool) list \<Rightarrow> bool" where
  "plain_entries es \<longleftrightarrow> (\<forall>e \<in> set es. plain_host (fst e))"

lemma parse_entry: "plain_host h \<Longrightarrow> parse_line (h @ '':'' @ [c]) = (if c = CHR '':'' then None else Some (h, [c] = ''1''))"
  using split_cons [of "CHR '':''" h "[c]"] split_free [of "CHR '':''" "[c]"] split_cons [of "CHR '':''" "[]" "[]"]
    split_free [of "CHR '':''" "[]"]
  by (auto simp: parse_line_def plain_host_def)

lemma split_pac_line:
  "plain_host (fst e) \<Longrightarrow>
   split_go (pac_line e @ s) [Newline] = (fst e @ '':'' @ (if snd e then ''1'' else ''0'')) # split_go s [Newline]"
  using split_cons [of Newline "fst e @ '':'' @ (if snd e then ''1'' else ''0'')" s]
  by (cases "snd e") (auto simp: pac_line_def plain_host_def Newline_def)

lemma pac_entries_print: "plain_entries es \<Longrightarrow> pac_entries (print_pac es) = es"
proof (induction es)
  case Nil
  show ?case by (simp add: pac_entries_def print_pac_def split_free parse_line_def map_filter_simps)
next
  case (Cons e es)
  then have p: "plain_host (fst e)" and i: "pac_entries (print_pac es) = es"
    by (simp_all add: plain_entries_def)
  have "parse_line (fst e @ '':'' @ (if snd e then ''1'' else ''0'')) = Some e"
    using parse_entry [OF p, of "CHR ''1''"] parse_entry [OF p, of "CHR ''0''"] by (cases e) auto
  with i show ?case
    using split_pac_line [OF p, of "print_pac es"]
    by (simp add: pac_entries_def print_pac_def map_filter_simps)
qed

interpretation pac_text: codec print_pac "\<lambda>t. Some (pac_entries t)" plain_entries
  by unfold_locales (simp add: pac_entries_print)

lemma parsePac_entries:
  "pc_pac (snd (parsePac body st)) = fold (\<lambda>(h, b) m. m(h \<mapsto> b)) (pac_entries body) (pc_pac st)"
proof -
  have "pc_pac (fold (\<lambda>line st. case parse_line line of None \<Rightarrow> st | Some (h, b) \<Rightarrow> Add h b st) ls st) =
      fold (\<lambda>(h, b) m. m(h \<mapsto> b)) (List.map_filter parse_line ls) (pc_pac st)" for ls
    by (induction ls arbitrary: st) (auto simp: map_filter_simps Add_def split: option.splits)
  then show ?thesis by (simp add: parsePac_def pac_entries_def)
qed

lemma fold_table:
  "fold (\<lambda>(h, b) m. m(h \<mapsto> b)) (map (\<lambda>h. (h, the (t h))) hs) m =
   (\<lambda>h. if h \<in> set hs then Some (the (t h)) else m h)"
  by (induction hs arbitrary: m) (auto simp: fun_eq_iff)

section \<open>Properties\<close>

text \<open>
  C18. The file keeps the table: after \<open>updatePacFile\<close> has succeeded, a process that starts
  with an empty table within a day reads exactly the table that was written, whatever the order of
  the entries, provided no host has a colon or a line end in it.
\<close>

theorem pac_file_roundtrip:
  assumes "updatePacFile env st = (None, st1)" and "set (pe_order env (pc_pac st1)) = dom (pc_pac st1)"
    and "\<forall>h \<in> dom (pc_pac st1). plain_host h"
    and "pc_pac st2 = Map.empty" and "pc_isLoad st2 = False" and "pc_file st2 = pc_file st1"
    and "pe_now env2 - pe_now env \<le> 86400" and "pe_read_err env2 = None"
  shows "fst (LoadDefault env2 st2) = None \<and> pc_pac (snd (LoadDefault env2 st2)) = pc_pac st1"
proof -
  have f: "pc_file st1 = Some (print_pac (table_entries env st1), pe_now env)"
    using assms(1)
    by (auto simp: updatePacFile_def print_pac_def table_entries_def split: prod.splits option.splits)
  have "plain_entries (table_entries env st1)"
    using assms(2,3) by (auto simp: plain_entries_def table_entries_def)
  then have "pac_entries (print_pac (table_entries env st1)) = table_entries env st1"
    using pac_text.dec_enc by blast
  moreover have "(\<lambda>h. if h \<in> dom (pc_pac st1) then Some (the (pc_pac st1 h)) else None) = pc_pac st1"
  proof
    fix h
    show "(if h \<in> dom (pc_pac st1) then Some (the (pc_pac st1 h)) else None) = pc_pac st1 h"
      by (cases "pc_pac st1 h") (auto simp: dom_def)
  qed
  ultimately show ?thesis
    using parsePac_entries [of "print_pac (table_entries env st1)" "st2\<lparr>pc_isLoad := True\<rparr>"] assms(2,4-8) f
    by (simp add: LoadDefault_def LoadFromPac_def table_entries_def fold_table) (simp add: parsePac_def)
qed

definition pac_env0 :: pac_env where
  "pac_env0 = \<lparr>pe_now = 100, pe_blacklist = Inr [''a.com''], pe_order = (\<lambda>m. if m ''a.com'' = None then [] else [''a.com'']),
     pe_read_err = None, pe_create_err = None, pe_flush_err = None\<rparr>"

definition no_pac :: pac_state where
  "no_pac = \<lparr>pc_pac = Map.empty, pc_isLoad = False, pc_file = None\<rparr>"

theorem pac_file_roundtrip_witness:
  "pc_pac (snd (LoadDefault (pac_env0\<lparr>pe_now := 200\<rparr>) (no_pac\<lparr>pc_file := Some (''a.com:1'' @ [Newline], 100)\<rparr>))) =
   [''a.com'' \<mapsto> True]"
proof -
  let ?st1 = "\<lparr>pc_pac = [''a.com'' \<mapsto> True], pc_isLoad = False, pc_file = Some (''a.com:1'' @ [Newline], 100)\<rparr>"
  have "updatePacFile pac_env0 no_pac = (None, ?st1)"
    by (simp add: updatePacFile_def LoadGwflist_def pac_env0_def no_pac_def Add_def table_entries_def pac_line_def)
  from pac_file_roundtrip [OF this, of "no_pac\<lparr>pc_file := Some (''a.com:1'' @ [Newline], 100)\<rparr>"
      "pac_env0\<lparr>pe_now := 200\<rparr>"] show ?thesis
    by (simp add: pac_env0_def no_pac_def plain_host_def Newline_def)
qed

text \<open>
  The most specific entry decides: when the table has an entry for the labels of the host from
  some position on, and none for a longer part of the host, \<open>Check\<close> answers that entry; without
  any such entry it answers no.
\<close>

theorem Check_most_specific:
  "(\<forall>pos b. pos < length (host_labels addr) \<longrightarrow>
      pc_pac st (join_go (drop pos (host_labels addr)) ''.'') = Some b \<longrightarrow>
      (\<forall>q < pos. pc_pac st (join_go (drop q (host_labels addr)) ''.'') = None) \<longrightarrow> Check addr st = b) \<and>
   ((\<forall>pos < length (host_labels addr). pc_pac st (join_go (drop pos (host_labels addr)) ''.'') = None) \<longrightarrow>
      \<not> Check addr st)"
proof -
  let ?hs = "host_labels addr"
  let ?k = "\<lambda>q. pc_pac st (join_go (drop q ?hs) ''.'')"
  have hit: "check_from (pc_pac st) ?hs q = b"
    if "?k pos = Some b" "pos < length ?hs" "\<forall>r < pos. ?k r = None" "q \<le> pos" for pos q b
    using that(4)
  proof (induction rule: inc_induct)
    case base
    with that(1,2) show ?case by (subst check_from.simps) simp
  next
    case (step q)
    with that(2,3) show ?case by (subst check_from.simps) simp
  qed
  have miss: "\<not> check_from (pc_pac st) ?hs q" if "\<forall>pos < length ?hs. ?k pos = None" for q
    using that
    by (induction "pc_pac st" ?hs q rule: check_from.induct) (subst check_from.simps, simp)
  show ?thesis
  proof (intro conjI allI impI)
    fix pos b
    assume a: "pos < length ?hs" "?k pos = Some b" "\<forall>q < pos. ?k q = None"
    then have "pc_pac st \<noteq> Map.empty" by auto
    with hit [OF a(2,1,3), of 0] show "Check addr st = b" by (simp add: Check_def)
  next
    assume "\<forall>pos < length ?hs. ?k pos = None"
    with miss show "\<not> Check addr st" by (simp add: Check_def)
  qed
qed

theorem Check_most_specific_witness:
  "Check ''www.a.com:80'' (no_pac\<lparr>pc_pac := [''a.com'' \<mapsto> True, ''com'' \<mapsto> False]\<rparr>)"
proof -
  have h: "host_labels ''www.a.com:80'' = [''www'', ''a'', ''com'']"
    by (simp add: host_labels_def split_go_def)
  show ?thesis
    using conjunct1 [OF Check_most_specific [of "''www.a.com:80''" "no_pac\<lparr>pc_pac := [''a.com'' \<mapsto> True, ''com'' \<mapsto> False]\<rparr>"],
        THEN spec, of 1, THEN spec, of True]
    by (simp add: h no_pac_def)
qed

text \<open>
  A failed load is not tried again: \<open>isLoad\<close> is set first, so the next call reports success
  with the table as it is.
\<close>

lemma LoadDefault_forgets_error:
  assumes "LoadDefault env st = (Some e, st1)"
  shows "LoadDefault env2 st1 = (None, st1)"
proof -
  have "pc_isLoad (snd (LoadGwflist env s)) = pc_isLoad s" for env s
  proof -
    have "pc_isLoad (fold (\<lambda>v. Add v True) l s) = pc_isLoad s" for l
      by (induction l arbitrary: s) (simp_all add: Add_def)
    then show ?thesis by (simp add: LoadGwflist_def split: sum.split)
  qed
  then have "pc_isLoad (snd (updatePacFile env s)) = pc_isLoad s" for env s
    by (auto simp: updatePacFile_def split: prod.split option.split) (metis snd_conv)+
  with assms show ?thesis
    by (auto simp: LoadDefault_def LoadFromPac_def parsePac_def split: if_splits option.splits prod.splits)
      (metis pac_state.select_convs(2) pac_state.surjective pac_state.update_convs(2) snd_conv)+
qed

end
