(* ===== verification/ServerAddress.thy ===== *)
theory ServerAddress
  imports Interfaces Common
begin

text \<open>
  \<open>common/server_address.go\<close>: the address to listen on and the address to register.
  \<open>net.SplitHostPort\<close>, \<open>net.JoinHostPort\<close> and \<open>net.ParseIP\<close> of the standard library
  are defined; interfaces, the resolver and the output of \<open>ip route\<close> are the fields of an
  environment.
\<close>

section \<open>Package net\<close>

definition index_of :: "char \<Rightarrow> string \<Rightarrow> nat option" where
  "index_of c s = (if c \<in> set s then Some (length (takeWhile (\<lambda>x. x \<noteq> c) s)) else None)"

definition last_index_of :: "char \<Rightarrow> string \<Rightarrow> nat option" where
  "last_index_of c s =
     (if c \<in> set s then Some (length s - 1 - length (takeWhile (\<lambda>x. x \<noteq> c) (rev s))) else None)"

definition addr_err :: "string \<Rightarrow> string \<Rightarrow> goerr" where
  "addr_err addr why = Errorf (''address '' @ addr @ '': '' @ why)"

definition SplitHostPort :: "string \<Rightarrow> goerr + string \<times> string" where
  "SplitHostPort hp =
     (case last_index_of CHR '':'' hp of
        None \<Rightarrow> Inl (addr_err hp ''missing port in address'')
      | Some i \<Rightarrow>
          (let finish = (\<lambda>host j k.
             if CHR ''['' \<in> set (drop j hp) then Inl (addr_err hp ''unexpected '[' in address'')
             else if CHR '']'' \<in> set (drop k hp) then Inl (addr_err hp ''unexpected ']' in address'')
             else Inr (host, drop (i + 1) hp))
           in
           if hp ! 0 = CHR ''['' then
             (case index_of CHR '']'' hp of
                None \<Rightarrow> Inl (addr_err hp ''missing bracket in address'')
              | Some e \<Rightarrow>
                  if e + 1 = length hp then Inl (addr_err hp ''missing port in address'')
                  else if e + 1 = i then finish (take (e - 1) (drop 1 hp)) 1 (e + 1)
                  else if hp ! (e + 1) = CHR '':'' then Inl (addr_err hp ''too many colons in address'')
                  else Inl (addr_err hp ''missing port in address''))
           else if CHR '':'' \<in> set (take i hp) then Inl (addr_err hp ''too many colons in address'')
           else finish (take i hp) 0 0))"

text \<open>The three-value call with the error dropped: both strings are empty after an error.\<close>

definition split_or_empty :: "string \<Rightarrow> string \<times> string" where
  "split_or_empty hp = (case SplitHostPort hp of Inl _ \<Rightarrow> ([], []) | Inr r \<Rightarrow> r)"

definition JoinHostPort :: "string \<Rightarrow> string \<Rightarrow> string" where
  "JoinHostPort host port =
     (if CHR '':'' \<in> set host then ''['' @ host @ '']:'' @ port else host @ '':'' @ port)"

text \<open>IP addresses in their 16-byte form.\<close>

type_synonym ip = "nat list"

definition v4_in_v6 :: "nat list \<Rightarrow> ip" where
  "v4_in_v6 b = replicate 10 0 @ [255, 255] @ b"

definition To4 :: "ip \<Rightarrow> nat list option" where
  "To4 a = (if take 12 a = replicate 10 0 @ [255, 255] then Some (drop 12 a) else None)"

definition IsLoopback :: "ip \<Rightarrow> bool" where
  "IsLoopback a =
     (case To4 a of Some b \<Rightarrow> b ! 0 = 127 | None \<Rightarrow> a = replicate 15 0 @ [1])"

definition IsUnspecified :: "ip \<Rightarrow> bool" where
  "IsUnspecified a \<longleftrightarrow> a = v4_in_v6 [0, 0, 0, 0] \<or> a = replicate 16 0"

definition ip4_string :: "nat list \<Rightarrow> string" where
  "ip4_string b = join_go (map nat_dec b) ''.''"

text \<open>One decimal octet: its value and the rest. A leading zero of a longer octet is refused.\<close>

definition octet :: "string \<Rightarrow> (nat \<times> string) option" where
  "octet s =
     (let ds = takeWhile is_digit s in
      if ds = [] then None
      else case dec_value 0 ds of
        None \<Rightarrow> None
      | Some n \<Rightarrow>
          if n > 255 then None
          else if length ds > 1 \<and> hd ds = CHR ''0'' then None
          else Some (n, drop (length ds) s))"

fun ipv4_rest :: "nat \<Rightarrow> string \<Rightarrow> nat list option" where
  "ipv4_rest 0 s = (if s = [] then Some [] else None)"
| "ipv4_rest (Suc n) s =
     (case s of
        [] \<Rightarrow> None
      | c # t \<Rightarrow>
          if c \<noteq> CHR ''.'' then None
          else case octet t of
            None \<Rightarrow> None
          | Some (b, u) \<Rightarrow> map_option (\<lambda>bs. b # bs) (ipv4_rest n u))"

definition parse_ipv4 :: "string \<Rightarrow> nat list option" where
  "parse_ipv4 s =
     (case octet s of
        None \<Rightarrow> None
      | Some (b, u) \<Rightarrow> map_option (\<lambda>bs. b # bs) (ipv4_rest 3 u))"

definition is_hex :: "char \<Rightarrow> bool" where
  "is_hex c \<longleftrightarrow> is_digit c \<or> in_range CHR ''a'' CHR ''f'' c \<or> in_range CHR ''A'' CHR ''F'' c"

definition hex_char_value :: "char \<Rightarrow> nat" where
  "hex_char_value c =
     (if is_digit c then of_char c - 48
      else if CHR ''a'' \<le> c then of_char c - 87 else of_char c - 55)"

fun hex_value :: "nat \<Rightarrow> string \<Rightarrow> nat" where
  "hex_value acc [] = acc"
| "hex_value acc (c # cs) = hex_value (16 * acc + hex_char_value c) cs"

function v6_groups :: "string \<Rightarrow> nat list \<Rightarrow> nat option \<Rightarrow> (string \<times> nat list \<times> nat option) option" where
  "v6_groups s acc ell =
     (if length acc \<ge> 16 then Some (s, acc, ell)
      else (let ds = takeWhile is_hex s; n = hex_value 0 ds; r = drop (length ds) s in
        if ds = [] \<or> n > 0xFFFF then None
        else if r \<noteq> [] \<and> hd r = CHR ''.'' then
          (if ell = None \<and> length acc \<noteq> 12 \<or> length acc + 4 > 16 then None
           else case parse_ipv4 s of None \<Rightarrow> None | Some b \<Rightarrow> Some ([], acc @ b, ell))
        else (let acc' = acc @ [n div 256, n mod 256] in
          if r = [] then Some ([], acc', ell)
          else if hd r \<noteq> CHR '':'' \<or> tl r = [] then None
          else if hd (tl r) = CHR '':'' then
            (if ell \<noteq> None then None
             else if tl (tl r) = [] then Some ([], acc', Some (length acc'))
             else v6_groups (tl (tl r)) acc' (Some (length acc')))
          else v6_groups (tl r) acc' ell)))"
  by pat_completeness auto
termination
  by (relation "measure (\<lambda>(s, acc, ell). 16 - length acc)") auto

definition parse_ipv6 :: "string \<Rightarrow> ip option" where
  "parse_ipv6 s =
     (if s = ''::'' then Some (replicate 16 0)
      else (let start = (if has_prefix s ''::'' then v6_groups (drop 2 s) [] (Some 0)
                         else v6_groups s [] None)
        in case start of
          None \<Rightarrow> None
        | Some (rest, acc, ell) \<Rightarrow>
            if rest \<noteq> [] then None
            else if length acc < 16 then
              (case ell of None \<Rightarrow> None
               | Some e \<Rightarrow> Some (take e acc @ replicate (16 - length acc) 0 @ drop e acc))
            else if ell \<noteq> None then None else Some acc))"

definition ParseIP :: "string \<Rightarrow> ip option" where
  "ParseIP s =
     (case filter (\<lambda>c. c = CHR ''.'' \<or> c = CHR '':'') s of
        [] \<Rightarrow> None
      | c # _ \<Rightarrow> if c = CHR ''.'' then map_option v4_in_v6 (parse_ipv4 s) else parse_ipv6 s)"

section \<open>The address functions\<close>

definition GetAddrForListen :: "string \<Rightarrow> goerr + string" where
  "GetAddrForListen addr =
     (if has_prefix addr ''127.0.0.1:'' then Inr addr
      else case SplitHostPort addr of
        Inl e \<Rightarrow> Inl e
      | Inr (_, port) \<Rightarrow> Inr ('':'' @ port))"

definition GetServerAddr :: "string \<Rightarrow> string \<Rightarrow> string" where
  "GetServerAddr listendAddr addr =
     (let port = snd (split_or_empty listendAddr); host = fst (split_or_empty addr)
      in JoinHostPort host port)"

datatype if_addr = IPNet ip | OtherAddr

record net_env =
  ne_hostname :: string
  ne_lookup_ip :: "string \<Rightarrow> ip list"
  ne_interface :: "string \<Rightarrow> if_addr list option" \<comment> \<open>\<open>None\<close>: no such interface, or no addresses\<close>
  ne_route :: "string option" \<comment> \<open>output of \<open>ip route show\<close>, \<open>None\<close> after an error\<close>

fun after_dev :: "string list \<Rightarrow> string" where
  "after_dev [] = []"
| "after_dev (v # vs) = (if v = ''dev'' then (case vs of n # _ \<Rightarrow> n | [] \<Rightarrow> []) else after_dev vs)"

definition getDefaultInerfaceByRoute :: "net_env \<Rightarrow> string" where
  "getDefaultInerfaceByRoute env =
     (case ne_route env of None \<Rightarrow> [] | Some b \<Rightarrow> after_dev (fields_go b))"

fun first_ip4 :: "if_addr list \<Rightarrow> string" where
  "first_ip4 [] = []"
| "first_ip4 (OtherAddr # as) = first_ip4 as"
| "first_ip4 (IPNet a # as) =
     (if \<not> IsLoopback a then (case To4 a of Some b \<Rightarrow> ip4_string b | None \<Rightarrow> first_ip4 as)
      else first_ip4 as)"

definition getIpByInterface :: "net_env \<Rightarrow> string \<Rightarrow> string" where
  "getIpByInterface env ifName =
     (if ifName = [] then []
      else case ne_interface env ifName of None \<Rightarrow> [] | Some addrs \<Rightarrow> first_ip4 addrs)"

definition GetHostIP :: "net_env \<Rightarrow> string \<Rightarrow> string \<times> goerr option" where
  "GetHostIP env interfaceName =
     (let h1 = (if interfaceName \<noteq> [] then getIpByInterface env interfaceName else []) in
      if h1 \<noteq> [] then (h1, None)
      else (let h2 = getIpByInterface env (getDefaultInerfaceByRoute env) in
        if h2 \<noteq> [] then (h2, None)
        else (let h3 = first_ip4 (map IPNet (ne_lookup_ip env (ne_hostname env))) in
          if h3 \<noteq> [] then (h3, None)
          else ([], Some (Errorf ''not found host for register'')))))"

definition GetRegisterAddress :: "net_env \<Rightarrow> string \<Rightarrow> string \<Rightarrow> string \<times> int \<times> goerr option" where
  "GetRegisterAddress env interfaceName address =
     (case SplitHostPort address of
        Inl e \<Rightarrow> ([], 0, Some e)
      | Inr (host, p) \<Rightarrow>
          (case atoi p of
             (port, Some e) \<Rightarrow> (host, port, Some e)
           | (port, None) \<Rightarrow>
               (case ParseIP host of
                  Some a \<Rightarrow>
                    if \<not> IsLoopback a \<and> \<not> IsUnspecified a then (host, port, None)
                    else (let (h, e) = GetHostIP env interfaceName in (h, port, e))
                | None \<Rightarrow> (let (h, e) = GetHostIP env interfaceName in (h, port, e)))))"

section \<open>Host and port round trip\<close>

text \<open>
  The hosts \<open>JoinHostPort\<close> can be undone on: no bracket in the host, no bracket or colon
  in the port.
\<close>

definition hostport_ok :: "string \<times> string \<Rightarrow> bool" where
  "hostport_ok hp \<longleftrightarrow>
     CHR ''['' \<notin> set (fst hp) \<and> CHR '']'' \<notin> set (fst hp)
     \<and> CHR ''['' \<notin> set (snd hp) \<and> CHR '']'' \<notin> set (snd hp) \<and> CHR '':'' \<notin> set (snd hp)"

definition split_opt :: "string \<Rightarrow> (string \<times> string) option" where
  "split_opt s = (case SplitHostPort s of Inl _ \<Rightarrow> None | Inr r \<Rightarrow> Some r)"

definition join_pair :: "string \<times> string \<Rightarrow> string" where
  "join_pair hp = JoinHostPort (fst hp) (snd hp)"

lemma last_index_append:
  assumes "c \<notin> set t" shows "last_index_of c (s @ c # t) = Some (length s)"
proof -
  have "takeWhile (\<lambda>x. x \<noteq> c) (rev t @ c # rev s) = rev t"
    using assms by (subst takeWhile_append2) auto
  then show ?thesis by (simp add: last_index_of_def)
qed

lemma index_append:
  assumes "c \<notin> set s" shows "index_of c (s @ c # t) = Some (length s)"
proof -
  have "takeWhile (\<lambda>x. x \<noteq> c) (s @ c # t) = s"
    using assms by (subst takeWhile_append2) auto
  then show ?thesis by (simp add: index_of_def)
qed

lemma Split_plain:
  assumes "hostport_ok (h, p)" and "CHR '':'' \<notin> set h"
  shows "SplitHostPort (h @ CHR '':'' # p) = Inr (h, p)"
proof -
  have "(h @ CHR '':'' # p) ! 0 \<noteq> CHR ''[''"
    using assms by (cases h) (auto simp: hostport_ok_def)
  with assms show ?thesis
    by (simp add: SplitHostPort_def last_index_append hostport_ok_def)
qed

lemma Split_brackets:
  assumes "hostport_ok (h, p)"
  shows "SplitHostPort (''['' @ h @ '']:'' @ p) = Inr (h, p)"
proof -
  have l: "last_index_of CHR '':'' (''['' @ h @ '']:'' @ p) = Some (length h + 2)"
    using assms last_index_append [of "CHR '':''" p "''['' @ h @ '']''"]
    by (simp add: hostport_ok_def)
  have i: "index_of CHR '']'' (''['' @ h @ '']:'' @ p) = Some (length h + 1)"
    using assms index_append [of "CHR '']''" "''['' @ h" "CHR '':'' # p"]
    by (simp add: hostport_ok_def)
  show ?thesis
    using assms unfolding SplitHostPort_def l i by (simp add: hostport_ok_def)
qed

lemma split_join_hostport:
  assumes "hostport_ok (h, p)" shows "SplitHostPort (JoinHostPort h p) = Inr (h, p)"
  using Split_plain [OF assms] Split_brackets [OF assms] by (simp add: JoinHostPort_def)

interpretation hostport: codec join_pair split_opt hostport_ok
  by unfold_locales (auto simp: join_pair_def split_opt_def split_join_hostport)

section \<open>Printing and parsing IPv4 addresses\<close>

lemma digit_char_0: "d < 10 \<Longrightarrow> digit_char d = CHR ''0'' \<longleftrightarrow> d = 0"
  using digit_char_value [of d] digit_char_value [of 0] digit_char_lits(1) by fastforce

lemma nat_dec_lead: "0 < n \<Longrightarrow> hd (nat_dec n) \<noteq> CHR ''0''"
proof (induction n rule: nat_dec.induct)
  case (1 n)
  then show ?case
    by (subst nat_dec.simps) (auto simp: digit_char_0 hd_append)
qed

lemma takeWhile_digits:
  assumes "\<forall>c \<in> set s. is_digit c" and "t = [] \<or> \<not> is_digit (hd t)"
  shows "takeWhile is_digit (s @ t) = s"
  using assms by (cases t) (auto simp: takeWhile_append)

lemma octet_print:
  assumes "n < 256" and "t = [] \<or> \<not> is_digit (hd t)"
  shows "octet (nat_dec n @ t) = Some (n, t)"
proof -
  have tw: "takeWhile is_digit (nat_dec n @ t) = nat_dec n"
    using assms(2) nat_dec_digits by (intro takeWhile_digits) auto
  have "\<not> (length (nat_dec n) > 1 \<and> hd (nat_dec n) = CHR ''0'')"
    using nat_dec_lead [of n] by (cases "n = 0") (simp_all add: nat_dec_less)
  with assms(1) show ?thesis
    unfolding octet_def tw by (simp add: dec_value_nat_dec Let_def)
qed

lemma dot_not_digit: "\<not> is_digit CHR ''.''"
  by (simp add: is_digit_def less_eq_char_def)

definition is_ip4 :: "nat list \<Rightarrow> bool" where
  "is_ip4 b \<longleftrightarrow> length b = 4 \<and> (\<forall>x \<in> set b. x < 256)"

lemma is_ip4_cases:
  assumes "is_ip4 b"
  obtains a b' c d where "b = [a, b', c, d]" "a < 256" "b' < 256" "c < 256" "d < 256"
proof -
  from assms obtain w x y z where "b = [w, x, y, z]"
    by (auto simp: is_ip4_def length_Suc_conv numeral_eq_Suc)
  with assms that show thesis by (simp add: is_ip4_def)
qed

lemma parse_print_ipv4: "is_ip4 b \<Longrightarrow> parse_ipv4 (ip4_string b) = Some b"
  by (elim is_ip4_cases)
    (simp add: ip4_string_def parse_ipv4_def octet_print dot_not_digit numeral_3_eq_3
      octet_print [where t = "[]", simplified])

lemma filter_no_sep:
  "\<forall>c \<in> set s. is_digit c \<Longrightarrow> filter (\<lambda>c. c = CHR ''.'' \<or> c = CHR '':'') s = []"
  by (auto simp: filter_empty_conv is_digit_def less_eq_char_def)

lemma ParseIP_print: "is_ip4 b \<Longrightarrow> ParseIP (ip4_string b) = Some (v4_in_v6 b)"
proof (erule is_ip4_cases)
  fix a b' c d :: nat
  assume b: "b = [a, b', c, d]" and "a < 256" "b' < 256" "c < 256" "d < 256"
  then have "parse_ipv4 (ip4_string b) = Some b" by (simp add: parse_print_ipv4 is_ip4_def)
  with b show ?thesis
    by (simp add: ParseIP_def ip4_string_def filter_no_sep nat_dec_digits)
qed

text \<open>The addresses the environment reports are 16 bytes long.\<close>

definition ip_ok :: "ip \<Rightarrow> bool" where
  "ip_ok a \<longleftrightarrow> length a = 16 \<and> (\<forall>x \<in> set a. x < 256)"

fun if_addr_ok :: "if_addr \<Rightarrow> bool" where
  "if_addr_ok (IPNet a) = ip_ok a"
| "if_addr_ok OtherAddr = True"

definition env_ok :: "net_env \<Rightarrow> bool" where
  "env_ok env \<longleftrightarrow>
     (\<forall>n. list_all ip_ok (ne_lookup_ip env n)) \<and>
     (\<forall>n as. ne_interface env n = Some as \<longrightarrow> list_all if_addr_ok as)"

definition routable :: "string \<Rightarrow> bool" where
  "routable h \<longleftrightarrow> (case ParseIP h of None \<Rightarrow> False | Some a \<Rightarrow> \<not> IsLoopback a)"

lemma To4_v4: "ip_ok a \<Longrightarrow> To4 a = Some b \<Longrightarrow> a = v4_in_v6 b \<and> is_ip4 b"
proof -
  assume a: "ip_ok a" "To4 a = Some b"
  then have t: "take 12 a = replicate 10 0 @ [255, 255]" "b = drop 12 a"
    by (auto simp: To4_def split: if_splits)
  then have "a = v4_in_v6 b"
    using append_take_drop_id [of 12 a] by (simp add: v4_in_v6_def)
  moreover have "is_ip4 b" using a(1) t(2) by (auto simp: ip_ok_def is_ip4_def dest: in_set_dropD)
  ultimately show "a = v4_in_v6 b \<and> is_ip4 b" ..
qed

lemma first_ip4_routable:
  "list_all if_addr_ok as \<Longrightarrow> first_ip4 as \<noteq> [] \<Longrightarrow> routable (first_ip4 as)"
proof (induction as rule: first_ip4.induct)
  case (3 a as)
  show ?case
  proof (cases "\<not> IsLoopback a \<and> To4 a \<noteq> None")
    case True
    then obtain b where b: "To4 a = Some b" "\<not> IsLoopback a" by auto
    with 3 To4_v4 [of a b] have "a = v4_in_v6 b" "is_ip4 b" by auto
    with b show ?thesis by (simp add: routable_def ParseIP_print)
  next
    case False
    with 3 show ?thesis by (auto split: option.splits)
  qed
qed auto

lemma getIpByInterface_routable:
  "env_ok env \<Longrightarrow> getIpByInterface env n \<noteq> [] \<Longrightarrow> routable (getIpByInterface env n)"
  by (auto simp: getIpByInterface_def env_ok_def first_ip4_routable split: if_splits option.splits)

lemma GetHostIP_routable:
  assumes "env_ok env" and "GetHostIP env n = (h, None)"
  shows "routable h"
proof -
  have "list_all if_addr_ok (map IPNet (ne_lookup_ip env (ne_hostname env)))"
    using assms(1) by (simp add: env_ok_def list.pred_map comp_def)
  with assms show ?thesis
    using getIpByInterface_routable [of env] first_ip4_routable
    by (auto simp: GetHostIP_def Let_def split: if_splits)
qed

lemma GetHostIP_err: "GetHostIP env n = (h, Some e) \<Longrightarrow> h = []"
  by (auto simp: GetHostIP_def Let_def split: if_splits)

section \<open>Properties\<close>

text \<open>
  What is registered can be reached: when \<open>GetRegisterAddress\<close> succeeds, the host
  is an IP address that is not a loopback one, whether it came from the address or from an
  interface, and the port is the number in the address.
\<close>

theorem GetRegisterAddress_routable:
  assumes "env_ok env" and "GetRegisterAddress env n address = (h, port, None)"
  shows "routable h \<and> in_i64 port \<and>
         (\<exists>h0 p. SplitHostPort address = Inr (h0, p) \<and> atoi p = (port, None))"
proof -
  from assms(2) obtain h0 p where s: "SplitHostPort address = Inr (h0, p)" and a: "atoi p = (port, None)"
    by (auto simp: GetRegisterAddress_def Let_def split: sum.splits option.splits prod.splits if_splits)
  have "routable h"
    using assms(2) s a GetHostIP_routable [OF assms(1), of n h]
    by (auto simp: GetRegisterAddress_def routable_def Let_def split: option.splits prod.splits if_splits)
  with s a atoi_range [of p] show ?thesis by simp
qed

definition sample_net :: net_env where
  "sample_net =
     \<lparr>ne_hostname = ''box'', ne_lookup_ip = (\<lambda>_. []),
      ne_interface = (\<lambda>n. if n = ''eth0''
        then Some [IPNet (v4_in_v6 [127, 0, 0, 1]), IPNet (v4_in_v6 [10, 0, 0, 7])] else None),
      ne_route = Some ''default via 10.0.0.1 dev eth0 proto dhcp''\<rparr>"

lemma sample_net_address:
  "GetRegisterAddress sample_net [] '':8080'' = (''10.0.0.7'', 8080, None)"
proof -
  have d: "nat_dec 10 = ''10''" "nat_dec 0 = ''0''" "nat_dec 7 = ''7''"
    by (simp_all add: nat_dec_eval)
  have "getDefaultInerfaceByRoute sample_net = ''eth0''"
    by (simp add: getDefaultInerfaceByRoute_def sample_net_def fields_go_def is_space_def)
  moreover have "getIpByInterface sample_net ''eth0'' = ''10.0.0.7''"
    by (simp add: getIpByInterface_def sample_net_def To4_def v4_in_v6_def IsLoopback_def ip4_string_def d)
  ultimately have g: "GetHostIP sample_net [] = (''10.0.0.7'', None)"
    by (simp add: GetHostIP_def)
  have "SplitHostPort '':8080'' = Inr ([], ''8080'')"
    using Split_plain [of "[]" "''8080''"] by (simp add: hostport_ok_def)
  moreover have "atoi ''8080'' = (8080, None)"
    by (simp add: atoi_unsigned_def is_digit_def less_eq_char_def digit_value_def)
  moreover have "ParseIP [] = None" by (simp add: ParseIP_def)
  ultimately show ?thesis by (simp add: GetRegisterAddress_def g)
qed

theorem GetRegisterAddress_routable_witness:
  "GetRegisterAddress sample_net [] '':8080'' = (''10.0.0.7'', 8080, None) \<and> routable ''10.0.0.7''"
proof -
  have "env_ok sample_net" by (simp add: env_ok_def sample_net_def ip_ok_def v4_in_v6_def)
  from GetRegisterAddress_routable [OF this sample_net_address] sample_net_address show ?thesis by simp
qed

text \<open>
  The address that a server announces takes the port it really listens on and the host
  of its configuration: splitting it gives back exactly these two parts.
\<close>

theorem GetServerAddr_parts:
  assumes "hostport_ok (h1, p1)" and "hostport_ok (h2, p2)"
  shows "SplitHostPort (GetServerAddr (JoinHostPort h1 p1) (JoinHostPort h2 p2)) = Inr (h2, p1)"
proof -
  have "hostport_ok (h2, p1)" using assms by (simp add: hostport_ok_def)
  then show ?thesis
    using hostport.dec_enc [of "(h1, p1)"] hostport.dec_enc [of "(h2, p2)"] assms
    by (auto simp: GetServerAddr_def split_or_empty_def split_opt_def join_pair_def
        split_join_hostport split: sum.splits)
qed

theorem GetServerAddr_parts_witness:
  "SplitHostPort (GetServerAddr ''[::]:8080'' ''api.local:0'') = Inr (''api.local'', ''8080'')"
  using GetServerAddr_parts [of "''::''" "''8080''" "''api.local''" "''0''"]
  by (simp add: hostport_ok_def JoinHostPort_def)

end
