(* ===== verification/Crypto.thy ===== *)
theory Crypto
  imports Interfaces
begin

text \<open>
  Package \<open>crypto\<close> (\<open>aes.go\<close>) and \<open>encoding/base64.go\<close>: PKCS7 padding, CBC over
  a block cipher, and the base64 text of the result. The AES permutation itself is an argument,
  the record \<open>block_cipher\<close>; package \<open>cipher\<close> is written out, with its panics. The
  offset in the text of a base64 error is left out.
\<close>

unbundle bit_operations_syntax

type_synonym bytes = "8 word list"

definition bytes_of :: "string \<Rightarrow> bytes" where "bytes_of s = map (\<lambda>c. of_nat (of_char c)) s"
definition text_of :: "bytes \<Rightarrow> string" where "text_of b = map (\<lambda>w. char_of (unat w)) b"

lemma text_of_bytes_of [simp]: "text_of (bytes_of s) = s"
  by (induction s) (simp_all add: text_of_def bytes_of_def unat_of_nat)

section \<open>Base64\<close>

definition b64_alphabet :: string where
  "b64_alphabet = ''ABCDEFGHIJKLMNOPQRSTUVWXYZabcdefghijklmnopqrstuvwxyz0123456789+/''"

definition b64_char :: "nat \<Rightarrow> char" where "b64_char d = b64_alphabet ! d"

fun index_of :: "char \<Rightarrow> string \<Rightarrow> nat option" where
  "index_of c [] = None"
| "index_of c (d # ds) = (if c = d then Some 0 else map_option Suc (index_of c ds))"

definition b64_value :: "char \<Rightarrow> nat option" where "b64_value c = index_of c b64_alphabet"

definition b64_pad :: char where "b64_pad = CHR ''=''"

text \<open>Three bytes as one number, and its four digits.\<close>

definition group_value :: "8 word \<Rightarrow> 8 word \<Rightarrow> 8 word \<Rightarrow> nat" where
  "group_value a b c = unat a * 65536 + unat b * 256 + unat c"

definition group_digit :: "nat \<Rightarrow> nat \<Rightarrow> char" where
  "group_digit v i = b64_char (v div 64 ^ (3 - i) mod 64)"

fun Base64Encode :: "bytes \<Rightarrow> string" where
  "Base64Encode [] = []"
| "Base64Encode [a] = (let v = group_value a 0 0 in [group_digit v 0, group_digit v 1, b64_pad, b64_pad])"
| "Base64Encode [a, b] =
     (let v = group_value a b 0 in [group_digit v 0, group_digit v 1, group_digit v 2, b64_pad])"
| "Base64Encode (a # b # c # bs) =
     (let v = group_value a b c
      in [group_digit v 0, group_digit v 1, group_digit v 2, group_digit v 3] @ Base64Encode bs)"

definition CorruptInputError :: goerr where
  "CorruptInputError = Sentinel ''illegal base64 data''"

text \<open>The first \<open>n\<close> bytes of a group of four digits.\<close>

definition group_bytes :: "nat \<Rightarrow> nat \<Rightarrow> bytes" where
  "group_bytes n v = take n [of_nat (v div 65536), of_nat (v div 256), of_nat v]"

definition digits_of :: "nat \<Rightarrow> nat \<Rightarrow> nat \<Rightarrow> nat \<Rightarrow> nat" where
  "digits_of p q r s = p * 262144 + q * 4096 + r * 64 + s"

text \<open>
  The decoder, group by group, on a text without line ends. After an error the bytes decoded so
  far are still returned, as \<open>DecodeString\<close> does.
\<close>

fun b64_groups :: "string \<Rightarrow> bytes \<times> goerr option" where
  "b64_groups [] = ([], None)"
| "b64_groups (a # b # c # d # rest) =
     (case (b64_value a, b64_value b) of
        (Some p, Some q) \<Rightarrow>
          (case (b64_value c, b64_value d) of
             (Some r, Some s) \<Rightarrow>
               (let (bs, e) = b64_groups rest in (group_bytes 3 (digits_of p q r s) @ bs, e))
           | (Some r, None) \<Rightarrow>
               if d = b64_pad
               then (group_bytes 2 (digits_of p q r 0), if rest = [] then None else Some CorruptInputError)
               else ([], Some CorruptInputError)
           | (None, _) \<Rightarrow>
               if c = b64_pad \<and> d = b64_pad
               then (group_bytes 1 (digits_of p q 0 0), if rest = [] then None else Some CorruptInputError)
               else ([], Some CorruptInputError))
      | _ \<Rightarrow> ([], Some CorruptInputError))"
| "b64_groups _ = ([], Some CorruptInputError)"

definition line_end :: "char \<Rightarrow> bool" where
  "line_end c \<longleftrightarrow> c = CHR 0x0A \<or> c = CHR 0x0D"

definition Base64Decode :: "string \<Rightarrow> bytes \<times> goerr option" where
  "Base64Decode src = b64_groups (filter (\<lambda>c. \<not> line_end c) src)"

subsection \<open>Encoded text decodes\<close>

lemma b64_value_char: "d < 64 \<Longrightarrow> b64_value (b64_char d) = Some d"
proof -
  have "\<forall>d \<in> set [0..<64]. b64_value (b64_char d) = Some d" by code_simp
  then show "d < 64 \<Longrightarrow> b64_value (b64_char d) = Some d" by simp
qed

lemma b64_char_plain: "d < 64 \<Longrightarrow> \<not> line_end (b64_char d) \<and> b64_char d \<noteq> b64_pad"
proof -
  have "\<forall>d \<in> set [0..<64]. \<not> line_end (b64_char d) \<and> b64_char d \<noteq> b64_pad" by code_simp
  then show "d < 64 \<Longrightarrow> \<not> line_end (b64_char d) \<and> b64_char d \<noteq> b64_pad" by simp
qed

lemma b64_pad_value [simp]: "b64_value b64_pad = None"
  by code_simp

lemma group_digit_value [simp]:
  "b64_value (group_digit v i) = Some (v div 64 ^ (3 - i) mod 64)"
  by (simp add: group_digit_def b64_value_char)

lemma group_digit_plain [simp]: "\<not> line_end (group_digit v i)" "group_digit v i \<noteq> b64_pad"
  by (simp_all add: group_digit_def b64_char_plain)

lemma digits_of_group:
  assumes "v < 2 ^ 24"
  shows "digits_of (v div 64 ^ 3 mod 64) (v div 64\<^sup>2 mod 64) (v div 64 mod 64) (v mod 64) = v"
proof -
  let ?a = "v div 64" let ?b = "?a div 64" let ?c = "?b div 64"
  have b: "v div 64\<^sup>2 = ?b" and c: "v div 64 ^ 3 = ?c"
    by (simp_all add: power2_eq_square power3_eq_cube div_mult2_eq [symmetric])
  have "?c < 64" using assms by (simp add: div_mult2_eq [symmetric] div_less_iff_less_mult)
  moreover have "y = 64 * p + x \<Longrightarrow> p = 64 * q + z \<Longrightarrow> q = 64 * r + w \<Longrightarrow>
      digits_of r w z x = y" for y p q r x z w by (simp add: digits_of_def)
  ultimately show ?thesis unfolding b c by (metis mod_less mult_div_mod_eq)
qed

lemma byte_less: "unat (w :: 8 word) < 256"
proof -
  have "unat w < 2 ^ LENGTH(8)" by (rule unsigned_less)
  then show ?thesis by simp
qed

lemma group_value_less: "group_value a b c < 2 ^ 24"
  using byte_less [of a] byte_less [of b] byte_less [of c] by (simp add: group_value_def)

lemma group_value_bytes: "group_bytes 3 (group_value a b c) = [a, b, c]"
proof -
  let ?v = "group_value a b c"
  have v: "?v = unat c + 256 * (unat b + 256 * unat a)" by (simp add: group_value_def)
  have "?v div 256 = unat b + 256 * unat a" using byte_less [of c] unfolding v by simp
  moreover from this have "?v div 65536 = unat a"
    using div_mult2_eq [of ?v 256 256] byte_less [of b] by simp
  moreover have drop: "(of_nat (x + 256 * y) :: 8 word) = of_nat x" for x y
  proof -
    have "(of_nat (256 * y) :: 8 word) = 0" unfolding word_of_nat_eq_0_iff by simp
    then show ?thesis by (simp only: of_nat_add) simp
  qed
  have "(of_nat ?v :: 8 word) = c" unfolding v drop by simp
  moreover have "(of_nat (unat b + 256 * unat a) :: 8 word) = b" unfolding drop by simp
  ultimately show ?thesis by (simp add: group_bytes_def numeral_3_eq_3)
qed

lemma group_value_prefix:
  "group_bytes 1 (group_value a b c) = [a]" "group_bytes 2 (group_value a b c) = [a, b]"
  using group_value_bytes [of a b c] by (simp_all add: group_bytes_def numeral_2_eq_2 numeral_3_eq_3)

lemma group_value_zero:
  "group_value a 0 0 mod 64 = 0" "group_value a 0 0 div 64 mod 64 = 0" "group_value a b 0 mod 64 = 0"
proof -
  have "group_value a 0 0 = 64 * (64 * (unat a * 16))" "group_value a b 0 = 64 * (unat a * 1024 + unat b * 4)"
    by (simp_all add: group_value_def)
  then show "group_value a 0 0 mod 64 = 0" "group_value a 0 0 div 64 mod 64 = 0" "group_value a b 0 mod 64 = 0"
    by simp_all
qed

lemma b64_groups_encode: "b64_groups (Base64Encode bs) = (bs, None)"
proof (induction bs rule: Base64Encode.induct)
  case (2 a)
  show ?case
    using digits_of_group [OF group_value_less, of a 0 0] group_value_prefix(1) [of a 0 0]
    by (simp add: Let_def group_value_zero)
next
  case (3 a b)
  show ?case
    using digits_of_group [OF group_value_less, of a b 0] group_value_prefix(2) [of a b 0]
    by (simp add: Let_def group_value_zero)
next
  case (4 a b c bs)
  then show ?case
    using digits_of_group [OF group_value_less, of a b c]
    by (simp add: Let_def group_value_bytes)
qed simp

lemma b64_pad_plain: "\<not> line_end b64_pad"
  by code_simp

lemma Base64Encode_plain: "c \<in> set (Base64Encode bs) \<Longrightarrow> \<not> line_end c"
  by (induction bs rule: Base64Encode.induct)
    (auto simp: Let_def b64_pad_plain)

lemma Base64Decode_Encode: "Base64Decode (Base64Encode bs) = (bs, None)"
proof -
  have "filter (\<lambda>c. \<not> line_end c) (Base64Encode bs) = Base64Encode bs"
    using Base64Encode_plain by (auto intro: filter_True)
  then show ?thesis by (simp add: Base64Decode_def b64_groups_encode)
qed

section \<open>Block cipher and CBC\<close>

text \<open>\<open>aes.NewCipher\<close> gives the two directions of the permutation under a key.\<close>

record block_cipher =
  bk_Encrypt :: "bytes \<Rightarrow> bytes \<Rightarrow> bytes"
  bk_Decrypt :: "bytes \<Rightarrow> bytes \<Rightarrow> bytes"

definition BlockSize :: nat where "BlockSize = 16"

definition block_ok :: "block_cipher \<Rightarrow> bytes \<Rightarrow> bool" where
  "block_ok bk key \<longleftrightarrow>
     (\<forall>b. length b = BlockSize \<longrightarrow>
        length (bk_Encrypt bk key b) = BlockSize \<and> bk_Decrypt bk key (bk_Encrypt bk key b) = b)"

definition NewCipher :: "bytes \<Rightarrow> goerr + unit" where
  "NewCipher key =
     (if length key = 16 \<or> length key = 24 \<or> length key = 32 then Inr ()
      else Inl (Errorf (''crypto/aes: invalid key size '' @ nat_dec (length key))))"

definition xor_block :: "bytes \<Rightarrow> bytes \<Rightarrow> bytes" where
  "xor_block a b = map2 (XOR) a b"

function cbc_encrypt :: "(bytes \<Rightarrow> bytes) \<Rightarrow> bytes \<Rightarrow> bytes \<Rightarrow> bytes" where
  "cbc_encrypt f iv src =
     (if src = [] then []
      else let c = f (xor_block (take BlockSize src) iv)
           in c @ cbc_encrypt f c (drop BlockSize src))"
  by pat_completeness auto
termination by (relation "measure (\<lambda>(f, iv, src). length src)") (auto simp: BlockSize_def)

function cbc_decrypt :: "(bytes \<Rightarrow> bytes) \<Rightarrow> bytes \<Rightarrow> bytes \<Rightarrow> bytes" where
  "cbc_decrypt f iv src =
     (if src = [] then []
      else xor_block (f (take BlockSize src)) iv @ cbc_decrypt f (take BlockSize src) (drop BlockSize src))"
  by pat_completeness auto
termination by (relation "measure (\<lambda>(f, iv, src). length src)") (auto simp: BlockSize_def)

declare cbc_encrypt.simps [simp del] cbc_decrypt.simps [simp del]

text \<open>
  A block mode as the code gets it: \<open>None\<close> is the nil interface of an unknown mode. A wrong
  length of the IV and a text that is not made of full blocks panic.
\<close>

definition CryptBlocks :: "(bytes \<Rightarrow> bytes \<Rightarrow> bytes) \<Rightarrow> bytes option \<Rightarrow> bytes \<Rightarrow> bytes outcome" where
  "CryptBlocks crypt iv src =
     (case iv of
        None \<Rightarrow> Panics (PanicMsg ''invalid memory address or nil pointer dereference'')
      | Some v \<Rightarrow>
          if length v \<noteq> BlockSize then Panics (PanicMsg ''cipher: IV length must equal block size'')
          else if length src mod BlockSize \<noteq> 0 then Panics (PanicMsg ''crypto/cipher: input not full blocks'')
          else Returns (crypt v src))"

lemma xor_block_twice:
  "length a = length b \<Longrightarrow> xor_block (xor_block a b) b = a"
  by (induction a b rule: list_induct2) (simp_all add: xor_block_def xor.assoc)

lemma xor_block_length [simp]: "length (xor_block a b) = min (length a) (length b)"
  by (simp add: xor_block_def)

lemma cbc_roundtrip:
  assumes ok: "\<And>b. length b = BlockSize \<Longrightarrow> length (f b) = BlockSize \<and> g (f b) = b"
  shows "length iv = BlockSize \<Longrightarrow> length src mod BlockSize = 0 \<Longrightarrow>
    cbc_decrypt g iv (cbc_encrypt f iv src) = src \<and> length (cbc_encrypt f iv src) = length src"
proof (induction src arbitrary: iv rule: measure_induct_rule [of length])
  case (less src)
  show ?case
  proof (cases "src = []")
    case True
    then show ?thesis by (simp add: cbc_encrypt.simps cbc_decrypt.simps)
  next
    case False
    with less.prems(2) have l: "BlockSize \<le> length src"
      by (metis length_0_conv mod_less not_less)
    let ?b = "take BlockSize src" let ?r = "drop BlockSize src"
    let ?c = "f (xor_block ?b iv)"
    have c: "length ?c = BlockSize" "g ?c = xor_block ?b iv"
      using ok [of "xor_block ?b iv"] l less.prems(1) by simp_all
    have "length ?r < length src" using l False by (simp add: BlockSize_def)
    moreover have "length ?r mod BlockSize = 0" using l less.prems(2) by (simp add: le_mod_geq)
    ultimately have r: "cbc_decrypt g ?c (cbc_encrypt f ?c ?r) = ?r"
      "length (cbc_encrypt f ?c ?r) = length ?r"
      using less.IH [of ?r ?c] c(1) by auto
    have e: "cbc_encrypt f iv src = ?c @ cbc_encrypt f ?c ?r"
      using False by (subst cbc_encrypt.simps) (simp add: Let_def)
    have "?c \<noteq> []" using c(1) by (auto simp: BlockSize_def)
    then have "cbc_decrypt g iv (?c @ cbc_encrypt f ?c ?r) =
        xor_block (g ?c) iv @ cbc_decrypt g ?c (cbc_encrypt f ?c ?r)"
      using c(1) by (subst cbc_decrypt.simps) simp
    with c(2) r l less.prems(1) show ?thesis by (simp add: e c(1) xor_block_twice)
  qed
qed

section \<open>aes.go\<close>

record aes_crypt =
  aes_key :: bytes
  aes_model :: string

text \<open>The text of the panic of \<open>getKey\<close> is Chinese in the code.\<close>

definition getKey :: "string \<Rightarrow> bytes outcome" where
  "getKey key =
     (let keyLen = length key; arrKey = bytes_of key
      in if keyLen < 16 then Panics (PanicMsg ''res key must have 16 bytes'')
         else if keyLen \<ge> 32 then Returns (take 32 arrKey)
         else if keyLen \<ge> 24 then Returns (take 24 arrKey)
         else Returns (take 16 arrKey))"

definition NewAesCrypt :: "string \<Rightarrow> aes_crypt outcome" where
  "NewAesCrypt key = map_outcome_value (\<lambda>k. \<lparr>aes_key = k, aes_model = ''cbc''\<rparr>) (getKey key)"

definition SetEcbModel :: "aes_crypt \<Rightarrow> aes_crypt" where
  "SetEcbModel a = a\<lparr>aes_model := ''ecb''\<rparr>"

definition PKCS7Padding :: "bytes \<Rightarrow> int \<Rightarrow> bytes outcome" where
  "PKCS7Padding ciphertext blockSize =
     (if blockSize = 0 then Panics (PanicMsg ''integer divide by zero'')
      else let padding = blockSize - go_mod (int (length ciphertext)) blockSize
           in if padding < 0 then Panics (PanicMsg ''bytes: negative Repeat count'')
              else Returns (ciphertext @ replicate (nat padding) (word_of_int padding)))"

definition PKCS7UnPadding :: "bytes \<Rightarrow> int \<Rightarrow> bytes outcome" where
  "PKCS7UnPadding plantText blockSize =
     (if plantText = [] then Panics (PanicMsg ''index out of range'')
      else let unpadding = unat (last plantText)
           in if length plantText < unpadding then Panics (PanicMsg ''slice bounds out of range'')
              else Returns (take (length plantText - unpadding) plantText))"

text \<open>The initialisation vector: the key itself, or zeros in the mode the code calls ecb.\<close>

definition block_iv :: "aes_crypt \<Rightarrow> bytes option" where
  "block_iv a =
     (if aes_model a = ''cbc'' then Some (aes_key a)
      else if aes_model a = ''ecb'' then Some (replicate BlockSize 0) else None)"

definition Encrypt :: "block_cipher \<Rightarrow> aes_crypt \<Rightarrow> bytes \<Rightarrow> (bytes \<times> goerr option) outcome" where
  "Encrypt bk a plantText =
     (case NewCipher (aes_key a) of
        Inl e \<Rightarrow> Returns ([], Some e)
      | Inr _ \<Rightarrow>
          (case PKCS7Padding plantText (int BlockSize) of
             Panics p \<Rightarrow> Panics p
           | Returns padded \<Rightarrow>
               map_outcome_value (\<lambda>c. (c, None))
                 (CryptBlocks (cbc_encrypt (bk_Encrypt bk (aes_key a))) (block_iv a) padded)))"

definition Encrypt2Base64 :: "block_cipher \<Rightarrow> aes_crypt \<Rightarrow> string \<Rightarrow> (string \<times> goerr option) outcome" where
  "Encrypt2Base64 bk a plantText =
     (case Encrypt bk a (bytes_of plantText) of
        Panics p \<Rightarrow> Panics p
      | Returns (ac, Some e) \<Rightarrow> Returns ([], Some e)
      | Returns (ac, None) \<Rightarrow> Returns (Base64Encode ac, None))"

definition Decrypt :: "block_cipher \<Rightarrow> aes_crypt \<Rightarrow> bytes \<Rightarrow> (bytes \<times> goerr option) outcome" where
  "Decrypt bk a ciphertext =
     (case NewCipher (aes_key a) of
        Inl e \<Rightarrow> Returns ([], Some e)
      | Inr _ \<Rightarrow>
          (case CryptBlocks (cbc_decrypt (bk_Decrypt bk (aes_key a))) (block_iv a) ciphertext of
             Panics p \<Rightarrow> Panics p
           | Returns plantText \<Rightarrow>
               map_outcome_value (\<lambda>c. (c, None)) (PKCS7UnPadding plantText (int BlockSize))))"

definition Baes642Decrypt :: "block_cipher \<Rightarrow> aes_crypt \<Rightarrow> string \<Rightarrow> (string \<times> goerr option) outcome" where
  "Baes642Decrypt bk a ciphertext =
     (case Base64Decode ciphertext of
        (ubase, Some e) \<Rightarrow> Returns ([], Some e)
      | (ubase, None) \<Rightarrow>
          (case Decrypt bk a ubase of
             Panics p \<Rightarrow> Panics p
           | Returns (pass, Some e) \<Rightarrow> Returns ([], Some e)
           | Returns (pass, None) \<Rightarrow> Returns (text_of pass, None)))"

section \<open>The chain of encoders\<close>

definition padded :: "bytes \<Rightarrow> bytes" where
  "padded p = (let n = BlockSize - length p mod BlockSize in p @ replicate n (of_nat n))"

definition unpadded :: "bytes \<Rightarrow> bytes option" where
  "unpadded b = (case PKCS7UnPadding b (int BlockSize) of Returns p \<Rightarrow> Some p | Panics _ \<Rightarrow> None)"

lemma PKCS7Padding_block: "PKCS7Padding p (int BlockSize) = Returns (padded p)"
proof -
  let ?m = "length p mod BlockSize"
  have "?m < BlockSize" by (simp add: BlockSize_def)
  moreover have "go_mod (int (length p)) (int BlockSize) = int ?m"
    by (simp add: go_mod_nonneg BlockSize_def zmod_int)
  moreover have "int BlockSize - int ?m = int (BlockSize - ?m)" using calculation(1) by simp
  moreover have "int BlockSize \<noteq> 0" by (simp add: BlockSize_def)
  ultimately show ?thesis by (simp add: PKCS7Padding_def padded_def Let_def del: of_nat_diff)
qed

lemma padded_blocks: "length (padded p) mod BlockSize = 0"
proof -
  have "length p mod BlockSize < BlockSize" by (simp add: BlockSize_def)
  moreover have "length p = BlockSize * (length p div BlockSize) + length p mod BlockSize" by simp
  moreover have "length (padded p) = length p + (BlockSize - length p mod BlockSize)"
    by (simp add: padded_def Let_def)
  ultimately have "length (padded p) = BlockSize * (length p div BlockSize) + BlockSize" by linarith
  then show ?thesis by simp
qed

lemma unpadded_padded: "unpadded (padded p) = Some p"
proof -
  let ?n = "BlockSize - length p mod BlockSize"
  have n: "0 < ?n" "?n < 256" by (simp_all add: BlockSize_def)
  then have "last (padded p) = of_nat ?n" by (simp add: padded_def Let_def last_append last_replicate)
  moreover have "unat (of_nat ?n :: 8 word) = ?n" using n(2) by (simp add: unat_of_nat)
  moreover have "padded p \<noteq> []" using n(1) by (simp add: padded_def Let_def)
  moreover have "length (padded p) = length p + ?n" by (simp add: padded_def Let_def)
  moreover have "take (length p) (padded p) = p" by (simp add: padded_def Let_def)
  ultimately show ?thesis by (simp add: unpadded_def PKCS7UnPadding_def Let_def)
qed

interpretation aes_chain: codec_pair padded unpadded "\<lambda>_. block_ok bk key \<and> length iv = BlockSize"
  "cbc_encrypt (bk_Encrypt bk key) iv" "\<lambda>c. Some (cbc_decrypt (bk_Decrypt bk key) iv c)"
  "\<lambda>b. block_ok bk key \<and> length iv = BlockSize \<and> length b mod BlockSize = 0"
proof unfold_locales
  fix b :: bytes
  assume "block_ok bk key \<and> length iv = BlockSize \<and> length b mod BlockSize = 0"
  then show "Some (cbc_decrypt (bk_Decrypt bk key) iv (cbc_encrypt (bk_Encrypt bk key) iv b)) = Some b"
    using cbc_roundtrip [of "bk_Encrypt bk key" "bk_Decrypt bk key" iv b] by (simp add: block_ok_def)
qed (simp_all add: unpadded_padded padded_blocks)

definition b64_opt :: "string \<Rightarrow> bytes option" where
  "b64_opt t = (case Base64Decode t of (b, None) \<Rightarrow> Some b | (_, Some _) \<Rightarrow> None)"

interpretation base64: codec Base64Encode b64_opt "\<lambda>_. True"
  by unfold_locales (simp add: b64_opt_def Base64Decode_Encode)

text \<open>What the objects of \<open>NewAesCrypt\<close> look like.\<close>

lemma NewAesCrypt_key:
  assumes "NewAesCrypt k = Returns a"
  shows "aes_model a = ''cbc''" and "NewCipher (aes_key a) = Inr ()"
    and "length k < 24 \<Longrightarrow> length (aes_key a) = BlockSize"
    and "24 \<le> length k \<Longrightarrow> length (aes_key a) \<noteq> BlockSize"
  using assms
  by (auto simp: NewAesCrypt_def getKey_def Let_def NewCipher_def bytes_of_def BlockSize_def split: if_splits)

lemma CryptBlocks_ok:
  "iv = Some v \<Longrightarrow> length v = BlockSize \<Longrightarrow> length b mod BlockSize = 0 \<Longrightarrow>
   CryptBlocks crypt iv b = Returns (crypt v b)"
  by (simp add: CryptBlocks_def)

lemma Encrypt_Decrypt:
  assumes "NewCipher (aes_key a) = Inr ()" and "block_iv a = Some iv" and "length iv = BlockSize"
    and "block_ok bk (aes_key a)"
  shows "\<exists>c. Encrypt bk a p = Returns (c, None) \<and> Decrypt bk a c = Returns (p, None)"
proof -
  let ?c = "cbc_encrypt (bk_Encrypt bk (aes_key a)) iv (padded p)"
  have "Encrypt bk a p = Returns (?c, None)"
    using CryptBlocks_ok [OF assms(2,3) padded_blocks] assms(1)
    by (simp add: Encrypt_def PKCS7Padding_block)
  moreover have "length ?c = length (padded p)"
    using cbc_roundtrip [of "bk_Encrypt bk (aes_key a)" "bk_Decrypt bk (aes_key a)" iv "padded p"]
      assms(3,4) padded_blocks by (simp add: block_ok_def)
  moreover have "unpadded (cbc_decrypt (bk_Decrypt bk (aes_key a)) iv ?c) = Some p"
    using aes_chain.chain_dec_enc [of bk "aes_key a" iv p] assms(3,4) by simp
  ultimately show ?thesis
    using CryptBlocks_ok [OF assms(2,3), of ?c] padded_blocks [of p] assms(1)
    by (auto simp: Decrypt_def unpadded_def split: outcome.splits)
qed

section \<open>Properties\<close>

text \<open>
  C12. Text survives encryption: with a key of at least 16 bytes, in the default mode when the key
  is shorter than 24 bytes and in the other mode always, \<open>Encrypt2Base64\<close> returns a text
  without an error, and \<open>Baes642Decrypt\<close> gives the plain text back.
\<close>

theorem aes_base64_roundtrip:
  assumes "NewAesCrypt key = Returns a0"
    and "a = a0 \<and> length key < 24 \<or> a = SetEcbModel a0"
    and "block_ok bk (aes_key a)"
  shows "\<exists>t. Encrypt2Base64 bk a p = Returns (t, None) \<and> Baes642Decrypt bk a t = Returns (p, None)"
proof -
  note k = NewAesCrypt_key [OF assms(1)]
  have "\<exists>iv. block_iv a = Some iv \<and> length iv = BlockSize" and n: "NewCipher (aes_key a) = Inr ()"
    using assms(2) k by (auto simp: block_iv_def SetEcbModel_def)
  then obtain c where "Encrypt bk a (bytes_of p) = Returns (c, None)"
    "Decrypt bk a c = Returns (bytes_of p, None)"
    using Encrypt_Decrypt [OF n _ _ assms(3)] by blast
  moreover have "Base64Decode (Base64Encode c) = (c, None)"
    using base64.dec_enc [of c] by (auto simp: b64_opt_def split: prod.splits option.splits)
  ultimately show ?thesis by (simp add: Encrypt2Base64_def Baes642Decrypt_def)
qed

definition rev_cipher :: block_cipher where
  "rev_cipher = \<lparr>bk_Encrypt = (\<lambda>k b. rev b), bk_Decrypt = (\<lambda>k b. rev b)\<rparr>"

theorem aes_base64_roundtrip_witness:
  "\<exists>t. Encrypt2Base64 rev_cipher \<lparr>aes_key = bytes_of ''0123456789abcdef'', aes_model = ''cbc''\<rparr> ''text'' =
         Returns (t, None) \<and>
       Baes642Decrypt rev_cipher \<lparr>aes_key = bytes_of ''0123456789abcdef'', aes_model = ''cbc''\<rparr> t =
         Returns (''text'', None)"
  by (rule aes_base64_roundtrip [of "''0123456789abcdef''" "\<lparr>aes_key = bytes_of ''0123456789abcdef'', aes_model = ''cbc''\<rparr>"])
    (simp_all add: NewAesCrypt_def getKey_def block_ok_def rev_cipher_def bytes_of_def)

text \<open>
  Where the code panics instead of returning its error: in the default mode the key is also
  the initialisation vector, so every key of 24 bytes or more panics on every text, both ways;
  and in every mode a cipher text that is empty or not made of full blocks panics.
\<close>

theorem aes_panics:
  assumes "NewAesCrypt key = Returns a" and "a' = a \<or> a' = SetEcbModel a"
  shows "(24 \<le> length key \<longrightarrow> is_panic (Encrypt bk a p) \<and> is_panic (Decrypt bk a c)) \<and>
         (c = [] \<or> length c mod BlockSize \<noteq> 0 \<longrightarrow> is_panic (Decrypt bk a' c))"
proof (intro conjI impI)
  note k = NewAesCrypt_key [OF assms(1)]
  have iv: "block_iv a = Some (aes_key a)" using k(1) by (simp add: block_iv_def)
  assume "24 \<le> length key"
  with k iv show "is_panic (Encrypt bk a p)" "is_panic (Decrypt bk a c)"
    by (simp_all add: Encrypt_def Decrypt_def PKCS7Padding_block CryptBlocks_def)
next
  note k = NewAesCrypt_key [OF assms(1)]
  have n: "NewCipher (aes_key a') = Inr ()" and "block_iv a' \<noteq> None"
    using k assms(2) by (auto simp: block_iv_def SetEcbModel_def)
  then obtain iv where iv: "block_iv a' = Some iv" by blast
  have e: "cbc_decrypt f iv [] = []" for f by (simp add: cbc_decrypt.simps)
  assume "c = [] \<or> length c mod BlockSize \<noteq> 0"
  with n iv e show "is_panic (Decrypt bk a' c)"
    by (auto simp: Decrypt_def CryptBlocks_def PKCS7UnPadding_def)
qed

theorem aes_panics_witness:
  "\<forall>p. is_panic (Encrypt rev_cipher \<lparr>aes_key = bytes_of ''0123456789abcdefghijklmn'', aes_model = ''cbc''\<rparr> p)"
proof -
  let ?k = "''0123456789abcdefghijklmn''"
  have "NewAesCrypt ?k = Returns \<lparr>aes_key = bytes_of ?k, aes_model = ''cbc''\<rparr>"
    by (simp add: NewAesCrypt_def getKey_def bytes_of_def)
  from aes_panics [OF this disjI1 [OF refl], of rev_cipher] show ?thesis by simp
qed

end
