(* ===== verification/SshProxy.thy ===== *)
theory SshProxy
  imports Ssh Pac ServerAddress Crypto
begin

text \<open>
  \<open>ssh/proxy.go\<close> and \<open>ssh/forward.go\<close>: the proxy that goes out through an SSH connection or
  directly, as the table of \<open>pac\<close> says, with its SOCKS5 handshake, and the port forwards. A client
  connection is the list of the segments that arrive on it; what a handler does is the list of
  its actions. \<open>http.ReadRequest\<close> and the network are fields of the environment.
\<close>

section \<open>Reading and dialling\<close>

record proxy_ini =
  pi_Bind :: string
  pi_IsHTTP :: bool
  pi_IsSSH :: bool
  pi_IsPac :: bool
  pi_IsBreak :: bool

datatype sock_act =
  Wrote bytes | WroteText string | SentRequest | CloseClient | CloseServer | DialSSH string | DialDirect string | StartCopies

text \<open>
  What the network answers: a dial by SSH or directly, the n-th write to the client, sending the
  request to the service, reading the request.
\<close>

record proxy_env =
  px_connect :: "string \<Rightarrow> goerr option"
  px_dial :: "string \<Rightarrow> goerr option"
  px_write :: "nat \<Rightarrow> goerr option"
  px_send :: "goerr option"
  px_ReadRequest :: "bytes list \<Rightarrow> goerr + http_request"

definition io_EOF :: goerr where "io_EOF = Sentinel ''EOF''"

text \<open>One \<open>Read\<close>: at most \<open>n\<close> bytes of the first segment; the rest stays.\<close>

definition readLen :: "nat \<Rightarrow> bytes list \<Rightarrow> (goerr + bytes) \<times> bytes list" where
  "readLen n conn =
     (case conn of
        [] \<Rightarrow> (Inl io_EOF, [])
      | seg # rest \<Rightarrow> (Inr (take n seg), (if drop n seg = [] then rest else drop n seg # rest)))"

definition isSSH :: "proxy_ini \<Rightarrow> pac_state \<Rightarrow> string \<Rightarrow> bool" where
  "isSSH pi pac addr =
     (if \<not> pi_IsSSH pi then (if pi_IsPac pi then Check addr pac else False) else True)"

definition dial_addr :: "string \<Rightarrow> string" where
  "dial_addr addr =
     (if has_prefix addr ''['' \<and> has_suffix addr '']'' \<or> \<not> contains addr '':'' then addr @ '':80'' else addr)"

definition proxy_dial :: "proxy_env \<Rightarrow> proxy_ini \<Rightarrow> pac_state \<Rightarrow> string \<Rightarrow> goerr option \<times> sock_act list" where
  "proxy_dial env pi pac addr =
     (let ssh = isSSH pi pac addr in
      if \<not> ssh \<and> pi_IsPac pi \<and> pi_IsBreak pi then (Some (Errorf ''not in the pac list''), [])
      else if ssh then (px_connect env (dial_addr addr), [DialSSH (dial_addr addr)])
      else (px_dial env (dial_addr addr), [DialDirect (dial_addr addr)]))"

section \<open>The HTTP proxy\<close>

definition connect_reply :: string where
  "connect_reply = ''HTTP/1.0 200 Connection Established'' @ [CHR 0x0D, CHR 0x0A, CHR 0x0D, CHR 0x0A]"

definition HandHTTP :: "proxy_env \<Rightarrow> proxy_ini \<Rightarrow> pac_state \<Rightarrow> bytes list \<Rightarrow> goerr option \<times> sock_act list" where
  "HandHTTP env pi pac conn =
     (case px_ReadRequest env conn of
        Inl e \<Rightarrow> (Some e, [CloseClient])
      | Inr r \<Rightarrow>
          (case proxy_dial env pi pac (rq_host r) of
             (Some e, as) \<Rightarrow> (Some e, as @ [CloseClient])
           | (None, as) \<Rightarrow>
               (let (err, a) = (if rq_method r = ''CONNECT'' then (px_write env 0, WroteText connect_reply)
                                else (px_send env, SentRequest))
                in case err of
                     Some e \<Rightarrow> (Some e, as @ [a, CloseClient, CloseServer])
                   | None \<Rightarrow> (None, as @ [a, StartCopies]))))"

section \<open>The SOCKS5 proxy\<close>

text \<open>
  The address, from a buffer of 1024 bytes of which \<open>buf\<close> was read: a slice may reach beyond what
  was read, up to the zeros of the buffer, but an index and the lower bound of a slice may not.
\<close>

definition slice_panic :: panic_value where "slice_panic = PanicMsg ''slice bounds out of range''"
definition index_panic :: panic_value where "index_panic = PanicMsg ''index out of range''"

definition socks_host :: "8 word \<Rightarrow> bytes \<Rightarrow> string outcome" where
  "socks_host atyp buf =
     (if atyp = 1 then Returns (ip4_string (map unat (take 4 (buf @ replicate 4 0))))
      else if atyp = 3 then
        (if length buf < 3 then Panics slice_panic
         else Returns (text_of (drop 1 (take (length buf - 2) buf))))
      else Returns [])"

definition socks_port :: "bytes \<Rightarrow> nat outcome" where
  "socks_port buf =
     (if length buf < 2 then Panics slice_panic
      else Returns (unat (buf ! (length buf - 2)) * 256 + unat (last buf)))"

text \<open>After the address: dial and answer, then copy both ways.\<close>

definition socks_connect ::
  "proxy_env \<Rightarrow> proxy_ini \<Rightarrow> pac_state \<Rightarrow> 8 word \<Rightarrow> bytes \<Rightarrow> string \<Rightarrow> goerr option \<times> sock_act list" where
  "socks_connect env pi pac atyp buf addr =
     (case proxy_dial env pi pac addr of
        (Some e, as) \<Rightarrow> (Some e, as @ [CloseClient])
      | (None, as) \<Rightarrow>
          (case px_write env 1 of
             Some e \<Rightarrow> (Some e, as @ [Wrote [5, 0, 0, atyp], CloseClient, CloseServer])
           | None \<Rightarrow>
               (case px_write env 2 of
                  Some e \<Rightarrow> (Some e, as @ [Wrote [5, 0, 0, atyp], Wrote buf, CloseClient, CloseServer])
                | None \<Rightarrow> (None, as @ [Wrote [5, 0, 0, atyp], Wrote buf, StartCopies]))))"

definition socks_address ::
  "proxy_env \<Rightarrow> proxy_ini \<Rightarrow> pac_state \<Rightarrow> 8 word \<Rightarrow> bytes list \<Rightarrow> goerr option outcome \<times> sock_act list" where
  "socks_address env pi pac atyp conn =
     (case readLen 1024 conn of
        (Inl e, _) \<Rightarrow> (Returns (Some e), [CloseClient])
      | (Inr buf, _) \<Rightarrow>
          if atyp = 4 then (Returns None, [Wrote [5, 2, 0, atyp, 0, 0, 0, 0, 0, 0], CloseClient])
          else case socks_host atyp buf of
            Panics p \<Rightarrow> (Panics p, [])
          | Returns host \<Rightarrow>
              (case socks_port buf of
                 Panics p \<Rightarrow> (Panics p, [])
               | Returns port \<Rightarrow>
                   (let (e, as) = socks_connect env pi pac atyp buf (host @ '':'' @ nat_dec port)
                    in (Returns e, as))))"

definition socks_request ::
  "proxy_env \<Rightarrow> proxy_ini \<Rightarrow> pac_state \<Rightarrow> bytes list \<Rightarrow> goerr option outcome \<times> sock_act list" where
  "socks_request env pi pac conn =
     (case readLen 4 conn of
        (Inl e, _) \<Rightarrow> (Returns (Some e), [CloseClient])
      | (Inr buf, conn') \<Rightarrow>
          if length buf < 2 then (Panics index_panic, [])
          else if buf ! 1 = 2 \<or> buf ! 1 = 3
          then (Returns None, [Wrote [5, 2, 0, 1, 0, 0, 0, 0, 0, 0], CloseClient])
          else if length buf < 4 then (Panics index_panic, [])
          else socks_address env pi pac (buf ! 3) conn')"

definition HandSocks5 ::
  "proxy_env \<Rightarrow> proxy_ini \<Rightarrow> pac_state \<Rightarrow> bytes list \<Rightarrow> goerr option outcome \<times> sock_act list" where
  "HandSocks5 env pi pac conn =
     (case readLen 257 conn of
        (Inl e, _) \<Rightarrow> (Returns (Some e), [CloseClient])
      | (Inr buf, conn') \<Rightarrow>
          if buf = [] then (Panics index_panic, [])
          else if hd buf \<noteq> 5 then (Returns None, [CloseClient])
          else case px_write env 0 of
            Some e \<Rightarrow> (Returns (Some e), [Wrote [5, 0], CloseClient])
          | None \<Rightarrow>
              (let (r, as) = socks_request env pi pac conn' in (r, Wrote [5, 0] # as)))"

section \<open>The life of a proxy and of a forward\<close>

text \<open>
  \<open>Close\<close> cancels the context, closes the listener and gives the SSH connection back. When the
  listener ends, \<open>Accept\<close> closes the proxy, and the goroutine that waits for the context closes it
  again.
\<close>

definition Proxy_Close :: "'d ssh_lib \<Rightarrow> nat \<Rightarrow> 'd ssh_state \<Rightarrow> 'd ssh_state" where
  "Proxy_Close hl n st = Close_ssh hl n st"

definition Accept_end :: "'d ssh_lib \<Rightarrow> nat \<Rightarrow> 'd ssh_state \<Rightarrow> 'd ssh_state" where
  "Accept_end hl n st = Proxy_Close hl n (Proxy_Close hl n st)"

definition bind_addr :: "string \<Rightarrow> string" where
  "bind_addr b = (if contains b '':'' then b else '':'' @ b)"

text \<open>
  \<open>load\<close> is the result of \<open>pac.LoadDefault\<close> and \<open>listen\<close> that of the listener; the proxy
  returns when its listener has ended.
\<close>

definition NewProxy ::
  "'d ssh_lib \<Rightarrow> ssh_config \<Rightarrow> proxy_ini option \<Rightarrow> goerr option \<Rightarrow> (string \<Rightarrow> goerr option) \<Rightarrow> 'd ssh_state
    \<Rightarrow> goerr option \<times> 'd ssh_state" where
  "NewProxy hl c pi load listen st =
     (case pi of
        None \<Rightarrow> (Some (Errorf ''err ini''), st)
      | Some p \<Rightarrow>
          if pi_Bind p = [] then (Some (Errorf ''err ini''), st)
          else if pi_IsPac p \<and> load \<noteq> None then (load, st)
          else case NewSSH hl c st of
            ((_, Some e), st1) \<Rightarrow> (Some e, st1)
          | ((None, None), st1) \<Rightarrow> (None, st1)
          | ((Some n, None), st1) \<Rightarrow>
              (case listen (bind_addr (pi_Bind p)) of
                 Some e \<Rightarrow> (Some e, Close_ssh hl n st1)
               | None \<Rightarrow> (None, Close_ssh hl n (Accept_end hl n st1))))"

datatype forward_type = LOCAL | REMOTE

record forward_ini =
  fi_Addr :: string
  fi_Bind :: string

text \<open>Where a forward listens; nothing is bound when a field is empty.\<close>

definition forward_listen :: "forward_type \<Rightarrow> forward_ini \<Rightarrow> (forward_type \<times> string) option" where
  "forward_listen t fi =
     (if fi_Addr fi = [] \<or> fi_Bind fi = [] then None else Some (t, bind_addr (fi_Bind fi)))"

definition Forward_Close :: "'d ssh_lib \<Rightarrow> nat \<Rightarrow> 'd ssh_state \<Rightarrow> 'd ssh_state" where
  "Forward_Close hl n st = Close_ssh hl n st"

text \<open>One accepted connection: the other side is dialled by SSH for a local forward.\<close>

definition Forward_Hand :: "proxy_env \<Rightarrow> forward_type \<Rightarrow> forward_ini \<Rightarrow> goerr option \<times> sock_act list" where
  "Forward_Hand env t fi =
     (let (e, a) = (if t = LOCAL then (px_connect env (fi_Addr fi), DialSSH (fi_Addr fi))
                    else (px_dial env (fi_Addr fi), DialDirect (fi_Addr fi)))
      in case e of Some er \<Rightarrow> (Some er, [a]) | None \<Rightarrow> (None, [a, StartCopies]))"

text \<open>
  A forward from its start to its end: the indirect connections are dialled, the context ends, and in
  between \<open>ended\<close> listeners have ended, each of which closes the forward.
\<close>

fun dial_indirect :: "'d ssh_lib \<Rightarrow> nat \<Rightarrow> ssh_config list \<Rightarrow> 'd ssh_state \<Rightarrow> goerr option \<times> 'd ssh_state" where
  "dial_indirect hl n [] st = (None, st)"
| "dial_indirect hl n (c # cs) st =
     (case DialRemote hl n c st of
        ((_, Some e), st1) \<Rightarrow> (Some e, st1)
      | ((_, None), st1) \<Rightarrow> dial_indirect hl n cs st1)"

definition NewForward ::
  "'d ssh_lib \<Rightarrow> ssh_config \<Rightarrow> ssh_config list \<Rightarrow> nat \<Rightarrow> 'd ssh_state \<Rightarrow> goerr option \<times> 'd ssh_state" where
  "NewForward hl c indirect ended st =
     (case NewSSH hl c st of
        ((_, Some e), st1) \<Rightarrow> (Some e, st1)
      | ((None, None), st1) \<Rightarrow> (None, st1)
      | ((Some n, None), st1) \<Rightarrow>
          (case dial_indirect hl n indirect st1 of
             (Some e, st2) \<Rightarrow> (Some e, Close_ssh hl n st2)
           | (None, st2) \<Rightarrow> (None, Close_ssh hl n ((Forward_Close hl n ^^ ended) st2))))"

section \<open>Facts\<close>

lemma nat_dec_last: "is_digit (last (nat_dec n))"
  using nat_dec_digits [of n] last_in_set [OF nat_dec_not_nil] by blast

lemma dial_addr_port: "dial_addr (host @ '':'' @ nat_dec port) = host @ '':'' @ nat_dec port"
proof -
  have "\<not> has_suffix (host @ '':'' @ nat_dec port) '']''"
  proof
    assume "has_suffix (host @ '':'' @ nat_dec port) '']''"
    then obtain u where "host @ '':'' @ nat_dec port = u @ '']''"
      unfolding has_suffix_def by (metis append_take_drop_id)
    then have "last (nat_dec port) = CHR '']''" by (metis last_appendR last_snoc nat_dec_not_nil append_assoc append_is_Nil_conv)
    with nat_dec_last [of port] show False by (simp add: is_digit_def less_eq_char_def)
  qed
  moreover have "contains (host @ '':'' @ nat_dec port) '':''" by (simp add: contains_single)
  ultimately show ?thesis by (simp add: dial_addr_def)
qed

lemma dial_addr_colon [simp]: "dial_addr (host @ CHR '':'' # nat_dec port) = host @ CHR '':'' # nat_dec port"
  using dial_addr_port [of host port] by simp

definition dial_act :: "proxy_ini \<Rightarrow> pac_state \<Rightarrow> string \<Rightarrow> sock_act" where
  "dial_act pi pac addr = (if isSSH pi pac addr then DialSSH addr else DialDirect addr)"

definition net_ok :: "proxy_env \<Rightarrow> bool" where
  "net_ok env \<longleftrightarrow> px_connect env = (\<lambda>_. None) \<and> px_dial env = (\<lambda>_. None) \<and> px_write env = (\<lambda>_. None)"

definition allowed :: "proxy_ini \<Rightarrow> pac_state \<Rightarrow> string \<Rightarrow> bool" where
  "allowed pi pac addr \<longleftrightarrow> isSSH pi pac addr \<or> \<not> (pi_IsPac pi \<and> pi_IsBreak pi)"

lemma socks_connect_ok:
  assumes "net_ok env" and "allowed pi pac (host @ '':'' @ nat_dec port)"
  shows "socks_connect env pi pac atyp buf (host @ '':'' @ nat_dec port) =
    (None, [dial_act pi pac (host @ '':'' @ nat_dec port), Wrote [5, 0, 0, atyp], Wrote buf, StartCopies])"
  using assms by (auto simp: socks_connect_def proxy_dial_def Let_def net_ok_def allowed_def dial_act_def)

text \<open>The two forms of an address, an IPv4 address and a name, as the client sends them.\<close>

datatype socks_addr = AddrV4 "8 word" "8 word" "8 word" "8 word" | AddrName string

fun addr_type :: "socks_addr \<Rightarrow> 8 word" where
  "addr_type (AddrV4 _ _ _ _) = 1" | "addr_type (AddrName _) = 3"

fun addr_bytes :: "socks_addr \<Rightarrow> bytes" where
  "addr_bytes (AddrV4 a b c d) = [a, b, c, d]"
| "addr_bytes (AddrName s) = of_nat (length s) # bytes_of s"

fun addr_text :: "socks_addr \<Rightarrow> string" where
  "addr_text (AddrV4 a b c d) = ip4_string [unat a, unat b, unat c, unat d]"
| "addr_text (AddrName s) = s"

definition port_bytes :: "nat \<Rightarrow> bytes" where
  "port_bytes p = [of_nat (p div 256), of_nat (p mod 256)]"

lemma socks_port_bytes: "p < 65536 \<Longrightarrow> socks_port (bs @ port_bytes p) = Returns p"
proof -
  assume "p < 65536"
  then have "p div 256 < 256" by (simp add: div_less_iff_less_mult)
  then have "unat (of_nat (p div 256) :: 8 word) = p div 256" by (simp add: unat_of_nat)
  moreover have "unat (of_nat (p mod 256) :: 8 word) = p mod 256" by (simp add: unat_of_nat)
  moreover have "(bs @ port_bytes p) ! (length (bs @ port_bytes p) - 2) = of_nat (p div 256)"
    by (simp add: port_bytes_def nth_append)
  moreover have "last (bs @ port_bytes p) = of_nat (p mod 256)" by (simp add: port_bytes_def)
  moreover have "\<not> length (bs @ port_bytes p) < 2" by (simp add: port_bytes_def)
  ultimately show ?thesis unfolding socks_port_def by simp
qed

lemma socks_host_bytes: "socks_host (addr_type a) (addr_bytes a @ port_bytes p) = Returns (addr_text a)"
  by (cases a) (simp_all add: socks_host_def port_bytes_def bytes_of_def text_of_bytes_of [unfolded bytes_of_def])

lemma addr_type_not4 [simp]: "addr_type a \<noteq> 4"
  by (cases a) simp_all

lemma socks_address_ok:
  assumes "net_ok env" and "p < 65536" and "length (addr_bytes a) \<le> 1022"
    and "allowed pi pac (addr_text a @ '':'' @ nat_dec p)"
  shows "socks_address env pi pac (addr_type a) ((addr_bytes a @ port_bytes p) # rest) =
    (Returns None, [dial_act pi pac (addr_text a @ '':'' @ nat_dec p), Wrote [5, 0, 0, addr_type a],
      Wrote (addr_bytes a @ port_bytes p), StartCopies])"
proof -
  have "length (addr_bytes a @ port_bytes p) \<le> 1024" using assms(3) by (simp add: port_bytes_def)
  then have "readLen 1024 ((addr_bytes a @ port_bytes p) # rest) = (Inr (addr_bytes a @ port_bytes p), rest)"
    by (simp add: readLen_def del: append_take_drop_id take_append drop_append)
  then show ?thesis
    by (simp add: socks_address_def socks_host_bytes socks_port_bytes [OF assms(2)] socks_connect_ok [OF assms(1,4)]
        del: append_Cons append.simps)
qed

section \<open>Properties\<close>

text \<open>
  C14. A SOCKS5 client is connected: for a greeting of version 5 and a request for an IPv4 address or a
  name and a port, whether request and address arrive in one segment or in two, the proxy accepts
  without authentication, dials exactly that host and port, through SSH or directly as the
  configuration and the table decide, echoes the address and starts to copy both ways.
\<close>

theorem socks5_connect:
  assumes "net_ok env" and "p < 65536" and "length (addr_bytes a) \<le> 1022"
    and "allowed pi pac (addr_text a @ '':'' @ nat_dec p)"
    and "g \<noteq> []" and "hd g = 5" and "length g \<le> 257" and "cmd \<noteq> 2" and "cmd \<noteq> 3"
    and "conn = [g, [5, cmd, 0, addr_type a], addr_bytes a @ port_bytes p] \<or>
         conn = [g, [5, cmd, 0, addr_type a] @ addr_bytes a @ port_bytes p]"
  shows "HandSocks5 env pi pac conn =
    (Returns None, [Wrote [5, 0], dial_act pi pac (addr_text a @ '':'' @ nat_dec p),
      Wrote [5, 0, 0, addr_type a], Wrote (addr_bytes a @ port_bytes p), StartCopies])"
proof -
  let ?b = "addr_bytes a @ port_bytes p"
  have "?b \<noteq> []" by (simp add: port_bytes_def)
  then obtain x xs where b: "?b = x # xs" by (cases ?b) auto
  have w: "px_write env 0 = None" using assms(1) by (simp add: net_ok_def)
  have r: "socks_request env pi pac (tl conn) = socks_address env pi pac (addr_type a) [?b]"
    using assms(8-10) b by (auto simp: socks_request_def readLen_def)
  have "readLen 257 conn = (Inr g, tl conn)" using assms(7,10) by (auto simp: readLen_def)
  then have "HandSocks5 env pi pac conn =
      (let (q, as) = socks_request env pi pac (tl conn) in (q, Wrote [5, 0] # as))"
    using assms(5,6) w by (simp add: HandSocks5_def)
  then show ?thesis unfolding r socks_address_ok [OF assms(1-4)] by simp
qed

definition quiet_net :: proxy_env where
  "quiet_net = \<lparr>px_connect = (\<lambda>_. None), px_dial = (\<lambda>_. None), px_write = (\<lambda>_. None), px_send = None,
     px_ReadRequest = (\<lambda>_. Inl io_EOF)\<rparr>"

definition ssh_ini :: proxy_ini where
  "ssh_ini = \<lparr>pi_Bind = ''1080'', pi_IsHTTP = False, pi_IsSSH = True, pi_IsPac = False, pi_IsBreak = False\<rparr>"

theorem socks5_connect_witness:
  "HandSocks5 quiet_net ssh_ini no_pac [[5, 1, 0], [5, 1, 0, 3], addr_bytes (AddrName ''a.b'') @ port_bytes 80] =
   (Returns None, [Wrote [5, 0], DialSSH ''a.b:80'', Wrote [5, 0, 0, 3],
     Wrote (addr_bytes (AddrName ''a.b'') @ port_bytes 80), StartCopies])"
  using socks5_connect [of quiet_net 80 "AddrName ''a.b''" ssh_ini no_pac "[5, 1, 0]" 1
      "[[5, 1, 0], [5, 1, 0, 3], addr_bytes (AddrName ''a.b'') @ port_bytes 80]"]
  by (simp add: net_ok_def quiet_net_def allowed_def isSSH_def ssh_ini_def bytes_of_def dial_act_def nat_dec_eval)

text \<open>
  Short segments crash the proxy: the handlers run in goroutines without a \<open>recover\<close>, and
  what was read is indexed without a look at its length, so that after a greeting a client that sends
  one byte, or the first four bytes and then a name that is empty, ends the process.
\<close>

theorem socks5_short_segment_panics:
  assumes "px_write env 0 = None" and "g \<noteq> []" and "hd g = 5" and "length g \<le> 257"
  shows "is_panic (fst (HandSocks5 env pi pac [g, [x]])) \<and>
    (cmd \<noteq> 2 \<and> cmd \<noteq> 3 \<and> length buf \<in> {1, 2} \<longrightarrow>
       is_panic (fst (HandSocks5 env pi pac [g, [5, cmd, 0, 3], buf])))"
proof -
  have step: "HandSocks5 env pi pac (g # conn) =
      (let (q, as) = socks_request env pi pac conn in (q, Wrote [5, 0] # as))" for conn
    using assms by (simp add: HandSocks5_def readLen_def)
  have "is_panic (fst (socks_request env pi pac [[x]]))"
    by (simp add: socks_request_def readLen_def)
  moreover have "is_panic (fst (socks_request env pi pac [[5, cmd, 0, 3], buf]))"
    if "cmd \<noteq> 2 \<and> cmd \<noteq> 3 \<and> length buf \<in> {1, 2}"
    using that by (auto simp: socks_request_def socks_address_def readLen_def socks_host_def)
  ultimately show ?thesis by (auto simp: step split: prod.splits)
qed

theorem socks5_short_segment_panics_witness:
  "is_panic (fst (HandSocks5 quiet_net ssh_ini no_pac [[5, 1, 0], [5]]))"
  using socks5_short_segment_panics [of quiet_net "[5, 1, 0]" ssh_ini no_pac 5] by (simp add: quiet_net_def)

text \<open>
  A proxy that ends takes the connection from the others: it holds its SSH connection once but
  gives it back three times, so that after the end of a proxy one or two other users of the connection
  hold a client that has been closed, and the count is two below their number.
\<close>

theorem proxy_end_drops_others:
  assumes "ssh_key hl c = Inr key" and "sh_sshIns st key = Some n" and "si_c (sh_objs st n) = Some cl"
    and "si_ref (sh_objs st n) = r" and "1 \<le> r" and "r \<le> 2"
    and "pi_Bind p \<noteq> []" and "load = None" and "listen (bind_addr (pi_Bind p)) = None"
  shows "fst (NewProxy hl c (Some p) load listen st) = None \<and>
    si_ref (sh_objs (snd (NewProxy hl c (Some p) load listen st)) n) = r - 2 \<and>
    (\<exists>k. sh_net (snd (NewProxy hl c (Some p) load listen st)) = (hl_Close hl cl ^^ Suc k) (sh_net st)) \<and>
    sh_cancelled (snd (NewProxy hl c (Some p) load listen st)) (si_ctx (sh_objs st n))"
proof -
  let ?st1 = "upd_ins n (\<lambda>i. i\<lparr>si_ref := si_ref i + 1\<rparr>) st"
  have "NewSSH hl c st = ((Some n, None), ?st1)"
    using assms(1,2,4,5) by (simp add: NewSSH_def intern_def)
  then have e: "NewProxy hl c (Some p) load listen st =
      (None, Close_ssh hl n (Close_ssh hl n (Close_ssh hl n ?st1)))"
    using assms(7-9) by (simp add: NewProxy_def Accept_end_def Proxy_Close_def)
  consider "r = 1" | "r = 2" using assms(5,6) by fastforce
  then show ?thesis
  proof cases
    case 1
    then have "sh_net (snd (NewProxy hl c (Some p) load listen st)) = (hl_Close hl cl ^^ Suc 1) (sh_net st)"
      using assms(3,4) by (simp add: e Close_ssh_def Let_def)
    with 1 show ?thesis using assms(3,4) by (auto simp: e Close_ssh_def Let_def intro!: exI [of _ "Suc 0"])
  next
    case 2
    then have "sh_net (snd (NewProxy hl c (Some p) load listen st)) = (hl_Close hl cl ^^ Suc 0) (sh_net st)"
      using assms(3,4) by (simp add: e Close_ssh_def Let_def)
    with 2 show ?thesis using assms(3,4) by (auto simp: e Close_ssh_def Let_def intro!: exI [of _ 0])
  qed
qed

theorem proxy_end_drops_others_witness:
  "si_ref (sh_objs (snd (NewProxy mem_ssh jump_config (Some ssh_ini) None (\<lambda>_. None) one_user)) 0) = - 1"
  using proxy_end_drops_others [of mem_ssh jump_config "''jump:22''" one_user 0 5 1 ssh_ini None "\<lambda>_. None"]
    one_user_fields
  by (simp add: jump_config_def ssh_ini_def)

end
