(* ===== verification/HttpProxy.thy ===== *)
theory HttpProxy
  imports SshProxy
begin

text \<open>
  Package \<open>proxy\<close>: the forward proxy of the web server with its authentication and its loop of
  dials. The hijacked connection, the network and the authentication function are fields of the
  environment; what \<open>ProxyServe\<close> does is the list of its actions. Logging is left out, and the
  recovery of a panic is only needed for the authentication function, which is total here.
\<close>

record http_proxy_env =
  hp_hijack :: "goerr option"
  hp_trace_id :: string
  hp_authFunc :: "(string \<Rightarrow> string \<Rightarrow> bool) option"
  hp_done :: "nat \<Rightarrow> bool"
  hp_dial :: "nat \<Rightarrow> string \<Rightarrow> goerr option"
  hp_reply :: "goerr option"
  hp_forward :: "goerr option"

datatype proxy_act =
  HP_Dial string | HP_Response string | HP_Established | HP_Forwarded | HP_CloseService | HP_CloseClient | HP_Copy

section \<open>auth.go\<close>

definition ErrAuth :: goerr where "ErrAuth = Sentinel ''proxy auth faild''"

definition proxyAuthType :: string where "proxyAuthType = ''Basic''"

text \<open>The credentials of a header, empty when it has another form; an error for bad base64.\<close>

definition credentials :: "string \<Rightarrow> goerr + string \<times> string" where
  "credentials auth =
     (case fields_go auth of
        [ty, enc] \<Rightarrow>
          if equal_fold ty proxyAuthType then
            (case Base64Decode enc of
               (b, Some e) \<Rightarrow> Inl ErrAuth
             | (b, None) \<Rightarrow>
                 (case split_go (text_of b) '':'' of [u, p] \<Rightarrow> Inr (u, p) | _ \<Rightarrow> Inr ([], [])))
          else Inr ([], [])
      | _ \<Rightarrow> Inr ([], []))"

definition proxy_auth :: "(string \<Rightarrow> string \<Rightarrow> bool) option \<Rightarrow> string \<Rightarrow> goerr option" where
  "proxy_auth authFunc auth =
     (case authFunc of
        None \<Rightarrow> None
      | Some f \<Rightarrow>
          (case credentials auth of
             Inl e \<Rightarrow> Some e
           | Inr (u, p) \<Rightarrow> if f u p then None else Some ErrAuth))"

section \<open>proxy.go\<close>

definition proxyAuthorization :: string where "proxyAuthorization = ''Proxy-Authorization''"

definition IsProxy :: "http_request \<Rightarrow> bool" where
  "IsProxy r \<longleftrightarrow>
     Header_Get (rq_header r) ''Proxy-Connection'' \<noteq> [] \<or> Header_Get (rq_header r) proxyAuthorization \<noteq> [] \<or>
     rq_url_host r \<noteq> []"

definition crlf :: string where "crlf = [CHR 0x0D, CHR 0x0A]"

fun StatusText :: "nat \<Rightarrow> string" where
  "StatusText n =
     (if n = 407 then ''Proxy Authentication Required'' else if n = 500 then ''Internal Server Error''
      else if n = 502 then ''Bad Gateway'' else [])"

definition httpResponse :: "string \<Rightarrow> nat \<Rightarrow> (string \<times> string) list \<Rightarrow> string \<Rightarrow> string" where
  "httpResponse trace code headers msg =
     ''HTTP/1.1 '' @ nat_dec code @ '' '' @ StatusText code @ crlf @ ''Trace-Id: '' @ trace @
     concat (map (\<lambda>(k, v). crlf @ k @ '': '' @ v) headers) @ crlf @ crlf @ msg @ crlf"

definition retryTime :: nat where "retryTime = 3"

definition auth_header :: "(string \<times> string) list" where
  "auth_header = [(''Proxy-Authenticate'', ''Basic realm='' @ [CHR 0x22] @ ''auth faild'' @ [CHR 0x22])]"

text \<open>After a dial: the request or the answer to CONNECT, then the copies until the end.\<close>

definition proxy_connected :: "http_proxy_env \<Rightarrow> http_request \<Rightarrow> proxy_act list" where
  "proxy_connected env r =
     (let (err, a) = (if rq_method r = ''CONNECT'' then (hp_reply env, HP_Established) else (hp_forward env, HP_Forwarded))
      in case err of
           Some e \<Rightarrow> [a, HP_Response (httpResponse (hp_trace_id env) 502 [] ''send data to service faild''), HP_CloseService]
         | None \<Rightarrow> [a, HP_Copy, HP_CloseService])"

function retry_from :: "http_proxy_env \<Rightarrow> http_request \<Rightarrow> nat \<Rightarrow> proxy_act list" where
  "retry_from env r i =
     (if i < retryTime then
        (let i = i + 1 in
         if hp_done env i then []
         else HP_Dial (dial_addr (rq_host r)) #
           (case hp_dial env i (dial_addr (rq_host r)) of
              Some e \<Rightarrow>
                if i = retryTime - 1 then [HP_Response (httpResponse (hp_trace_id env) 502 [] ''dial service faild'')]
                else retry_from env r i
            | None \<Rightarrow> proxy_connected env r))
      else [])"
  by pat_completeness auto
termination by (relation "measure (\<lambda>(env, r, i). retryTime - i)") auto

declare retry_from.simps [simp del]

definition ProxyServe :: "http_proxy_env \<Rightarrow> http_request \<Rightarrow> proxy_act list" where
  "ProxyServe env r =
     (case hp_hijack env of
        Some e \<Rightarrow> []
      | None \<Rightarrow>
          (case proxy_auth (hp_authFunc env) (Header_Get (rq_header r) proxyAuthorization) of
             Some e \<Rightarrow>
               (if e = ErrAuth then [HP_Response (httpResponse (hp_trace_id env) 407 auth_header [])] else [])
               @ [HP_CloseClient]
           | None \<Rightarrow> retry_from env r 0 @ [HP_CloseClient]))"

section \<open>Facts\<close>

text \<open>
  A service that cannot be reached is dialled twice, although the limit is three: the counter is
  raised before it is compared with the last index.
\<close>

lemma proxy_gives_up_after_two:
  assumes "hp_hijack env = None" and "hp_authFunc env = None" and "\<forall>i. \<not> hp_done env i"
    and "\<forall>i a. hp_dial env i a \<noteq> None"
  shows "ProxyServe env r =
    [HP_Dial (dial_addr (rq_host r)), HP_Dial (dial_addr (rq_host r)),
     HP_Response (httpResponse (hp_trace_id env) 502 [] ''dial service faild''), HP_CloseClient]"
proof -
  obtain e1 e2 where e: "hp_dial env 1 (dial_addr (rq_host r)) = Some e1" "hp_dial env (Suc (Suc 0)) (dial_addr (rq_host r)) = Some e2"
    using assms(4) by blast
  have 1: "retry_from env r 1 = [HP_Dial (dial_addr (rq_host r)),
      HP_Response (httpResponse (hp_trace_id env) 502 [] ''dial service faild'')]"
    using assms(3) e by (subst retry_from.simps) (simp add: retryTime_def)
  have "retry_from env r 0 = HP_Dial (dial_addr (rq_host r)) # retry_from env r 1"
    using assms(3) e by (subst retry_from.simps) (simp add: retryTime_def)
  then show ?thesis using assms(1,2) 1 by (simp add: ProxyServe_def proxy_auth_def)
qed

lemma fields_two:
  assumes "\<forall>c \<in> set x. \<not> is_space c" and "x \<noteq> []"
  shows "fields_go (''Basic '' @ x) = [''Basic'', x]"
proof -
  have "fields_from acc x = (if rev acc @ x = [] then [] else [rev acc @ x])" for acc
    using assms(1) by (induction x arbitrary: acc) auto
  with assms(2) show ?thesis by (simp add: fields_go_def is_space_def)
qed

lemma b64_char_no_space: "d < 64 \<Longrightarrow> \<not> is_space (b64_char d)"
proof -
  have "\<forall>d \<in> set [0..<64]. \<not> is_space (b64_char d)" by code_simp
  then show "d < 64 \<Longrightarrow> \<not> is_space (b64_char d)" by simp
qed

lemma b64_pad_no_space: "\<not> is_space b64_pad"
  by code_simp

lemma Base64Encode_no_space: "c \<in> set (Base64Encode bs) \<Longrightarrow> \<not> is_space c"
  by (induction bs rule: Base64Encode.induct)
    (auto simp: Let_def group_digit_def b64_char_no_space b64_pad_no_space)

lemma Base64Encode_not_nil: "bs \<noteq> [] \<Longrightarrow> Base64Encode bs \<noteq> []"
  by (cases bs rule: Base64Encode.cases) (auto simp: Let_def)

section \<open>Properties\<close>

text \<open>
  C16. Nothing is dialled for a client that has not been let in: with an authentication function every
  dial has been preceded by credentials that it accepted; and credentials sent as RFC 7617 says are
  those it is asked about, when neither part has a colon.
\<close>

theorem proxy_needs_auth:
  assumes "hp_authFunc env = Some f"
  shows "(HP_Dial a \<in> set (ProxyServe env r) \<longrightarrow>
      (\<exists>u p. credentials (Header_Get (rq_header r) proxyAuthorization) = Inr (u, p) \<and> f u p)) \<and>
    (CHR '':'' \<notin> set u \<and> CHR '':'' \<notin> set p \<longrightarrow>
      credentials (''Basic '' @ Base64Encode (bytes_of (u @ '':'' @ p))) = Inr (u, p))"
proof (intro conjI impI)
  assume "HP_Dial a \<in> set (ProxyServe env r)"
  with assms show "\<exists>u p. credentials (Header_Get (rq_header r) proxyAuthorization) = Inr (u, p) \<and> f u p"
    by (auto simp: ProxyServe_def proxy_auth_def split: option.splits sum.splits prod.splits if_splits)
next
  assume c: "CHR '':'' \<notin> set u \<and> CHR '':'' \<notin> set p"
  have "fields_go (''Basic '' @ Base64Encode (bytes_of (u @ '':'' @ p))) =
      [''Basic'', Base64Encode (bytes_of (u @ '':'' @ p))]"
    by (rule fields_two) (use Base64Encode_no_space Base64Encode_not_nil in \<open>auto simp: bytes_of_def\<close>)
  moreover have "split_go (u @ '':'' @ p) '':'' = [u, p]"
    using c split_cons [of "CHR '':''" u p] split_free [of "CHR '':''" p] by simp
  moreover have "equal_fold ''Basic'' proxyAuthType" by (simp add: equal_fold_def proxyAuthType_def)
  ultimately show "credentials (''Basic '' @ Base64Encode (bytes_of (u @ '':'' @ p))) = Inr (u, p)"
    by (simp add: credentials_def Base64Decode_Encode)
qed

theorem proxy_needs_auth_witness:
  "credentials (''Basic '' @ Base64Encode (bytes_of ''bob:pw'')) = Inr (''bob'', ''pw'')"
  using proxy_needs_auth [of "\<lparr>hp_hijack = None, hp_trace_id = [], hp_authFunc = Some (\<lambda>u p. u = ''bob''),
      hp_done = (\<lambda>_. False), hp_dial = (\<lambda>_ _. None), hp_reply = None, hp_forward = None\<rparr>"
      "\<lambda>u p. u = ''bob''" _ _ "''bob''" "''pw''"]
  by simp

end
