(* ===== verification/Curl.thy ===== *)
theory Curl
  imports NetHttp
begin

text \<open>
  Package \<open>curl\<close>: the HTTP client. A \<open>Curl\<close> is an object on the heap, because the clients that
  the package caches keep a reference to the one they were made for. The transport, the files, the
  decompressors and the URL parser are fields of the environment; the body of a request is a reader,
  known by what is left to read of it: a transport that sends the request reads the body to its end, one
  that cannot connect leaves it.
\<close>

section \<open>Objects\<close>

datatype form_part = PartField string string | PartFile string string string

datatype req_body = RawBody string | Multipart "form_part list"

text \<open>What a reader still has; an \<open>io.Reader\<close> of the caller may fail after its content.\<close>

record curl =
  cu_Url :: string
  cu_method :: string
  cu_cookies :: "(string \<times> string) list"
  cu_Headers :: header
  cu_autoRedirect :: bool
  cu_keepAlive :: bool
  cu_PostReader :: "req_body option"
  cu_PostBytes :: string
  cu_PostString :: string
  cu_PostFields :: "(string \<times> string list) list"
  cu_PostFieldReaders :: "(string \<times> string \<times> goerr option) list"
  cu_PostFiles :: "(string \<times> string list) list"
  cu_timeout :: int
  cu_cancelled :: bool
  cu_proxyURL :: string

record out_request =
  or_method :: string
  or_url :: string
  or_header :: header
  or_cookies :: "(string \<times> string) list"
  or_body :: "req_body option"

record in_response =
  ir_status :: int
  ir_Status :: string \<comment> \<open>as in the status line\<close>
  ir_header :: header
  ir_body :: "string option"

text \<open>An error of the transport; \<open>UrlError\<close> carries the error of the redirect policy.\<close>

datatype do_error = UrlError goerr | OtherError goerr

fun do_err :: "do_error \<Rightarrow> goerr" where "do_err (UrlError e) = e" | "do_err (OtherError e) = e"

text \<open>A cached client: the object its redirect policy refers to, and its keep-alive and proxy.\<close>

record http_client =
  hc_owner :: nat
  hc_keep :: bool
  hc_proxy :: "string option"

datatype wake = W_TimedOut | W_CtxDone goerr | W_Finished

record curl_env =
  ce_NewRequest :: "string \<Rightarrow> string \<Rightarrow> goerr option"
  ce_ParseURL :: "string \<Rightarrow> goerr + string"
  ce_Do :: "bool \<Rightarrow> http_client \<Rightarrow> out_request \<Rightarrow> in_response option \<times> do_error option"
  ce_unread :: "bool \<Rightarrow> http_client \<Rightarrow> out_request \<Rightarrow> req_body \<Rightarrow> req_body" \<comment> \<open>what \<open>Do\<close> leaves of the body\<close>
  ce_wake :: wake
  ce_gunzip :: "string \<Rightarrow> goerr + string"
  ce_inflate :: "string \<Rightarrow> string"
  ce_Open :: "string \<Rightarrow> goerr + string \<times> goerr option"
  ce_boundary :: string

record curl_state =
  cs_curls :: "nat \<Rightarrow> curl"
  cs_clientMap :: "string \<rightharpoonup> http_client"

definition ErrStopRedirect :: goerr where "ErrStopRedirect = Sentinel ''not allowed auto redirect''"
definition ErrRequestTimeout :: goerr where "ErrRequestTimeout = Sentinel ''do request time out''"

section \<open>Making and configuring a request\<close>

definition default_headers :: "(string \<times> string) list" where
  "default_headers =
     [(''Accept'', ''text/html,application/xhtml+xml,application/xml;q=0.9,*/*;q=0.8''),
      (''Accept-Encoding'', ''gzip, deflate''),
      (''Accept-Language'', ''zh-cn,zh;q=0.8,en-us;q=0.5,en;q=0.3''),
      (''Connection'', ''keep-alive''),
      (''User-Agent'', ''Mozilla/5.0 (Windows NT 6.3; Win64; x64) AppleWebKit/537.36 (KHTML, like Gecko) Chrome/73.0.3683.103 Safari/537.36''),
      (''Expect'', '''')]"

definition set_headers :: "(string \<times> string) list \<Rightarrow> header \<Rightarrow> header" where
  "set_headers kvs h = fold (\<lambda>(k, v) h. Header_Set k v h) kvs h"

definition New_curl :: "string \<Rightarrow> string \<Rightarrow> curl" where
  "New_curl method url =
     \<lparr>cu_Url = url, cu_method = to_upper method, cu_cookies = [], cu_Headers = set_headers default_headers Map.empty,
      cu_autoRedirect = False, cu_keepAlive = False, cu_PostReader = None, cu_PostBytes = [], cu_PostString = [],
      cu_PostFields = [], cu_PostFieldReaders = [], cu_PostFiles = [], cu_timeout = 0, cu_cancelled = False,
      cu_proxyURL = []\<rparr>"

definition NewGet :: "string \<Rightarrow> curl" where "NewGet url = New_curl ''GET'' url"
definition NewPost :: "string \<Rightarrow> curl" where "NewPost url = New_curl ''POST'' url"

definition SetContext :: "bool \<Rightarrow> curl \<Rightarrow> curl" where
  "SetContext parent_cancelled c = c\<lparr>cu_cancelled := parent_cancelled\<rparr>"

definition SetAutoRedirect :: "curl \<Rightarrow> curl" where "SetAutoRedirect c = c\<lparr>cu_autoRedirect := True\<rparr>"
definition SetKeepAlive :: "curl \<Rightarrow> curl" where "SetKeepAlive c = c\<lparr>cu_keepAlive := True\<rparr>"
definition SetHeaders :: "(string \<times> string) list \<Rightarrow> curl \<Rightarrow> curl" where
  "SetHeaders kvs c = c\<lparr>cu_Headers := set_headers kvs (cu_Headers c)\<rparr>"
definition SetCookies :: "(string \<times> string) list \<Rightarrow> curl \<Rightarrow> curl" where
  "SetCookies cs c = c\<lparr>cu_cookies := cs\<rparr>"
definition SetTimeoutMS :: "int \<Rightarrow> curl \<Rightarrow> curl" where
  "SetTimeoutMS t c = c\<lparr>cu_timeout := i64 (t * 10 ^ 6)\<rparr>"
definition SetTimeout :: "int \<Rightarrow> curl \<Rightarrow> curl" where
  "SetTimeout t c = SetTimeoutMS (i64 (t * 1000)) c"
definition SetProxy :: "string \<Rightarrow> curl \<Rightarrow> curl" where "SetProxy p c = c\<lparr>cu_proxyURL := p\<rparr>"
definition SetPostReader :: "req_body \<Rightarrow> curl \<Rightarrow> curl" where "SetPostReader r c = c\<lparr>cu_PostReader := Some r\<rparr>"
definition SetPostBytes :: "string \<Rightarrow> curl \<Rightarrow> curl" where "SetPostBytes b c = c\<lparr>cu_PostBytes := b\<rparr>"
definition SetPostString :: "string \<Rightarrow> curl \<Rightarrow> curl" where "SetPostString s c = c\<lparr>cu_PostString := s\<rparr>"

fun values_add :: "string \<Rightarrow> string \<Rightarrow> (string \<times> string list) list \<Rightarrow> (string \<times> string list) list" where
  "values_add k v [] = [(k, [v])]"
| "values_add k v ((k', vs) # kvs) = (if k = k' then (k', vs @ [v]) # kvs else (k', vs) # values_add k v kvs)"

definition SetPostField :: "string \<Rightarrow> string \<Rightarrow> curl \<Rightarrow> curl" where
  "SetPostField k v c = c\<lparr>cu_PostFields := values_add k v (cu_PostFields c)\<rparr>"
definition SetPostFieldReader :: "string \<Rightarrow> string \<times> goerr option \<Rightarrow> curl \<Rightarrow> curl" where
  "SetPostFieldReader k r c =
     c\<lparr>cu_PostFieldReaders := (k, r) # filter (\<lambda>(k', _). k' \<noteq> k) (cu_PostFieldReaders c)\<rparr>"
definition SetPostFile :: "string \<Rightarrow> string \<Rightarrow> curl \<Rightarrow> curl" where
  "SetPostFile k path c = c\<lparr>cu_PostFiles := values_add k path (cu_PostFiles c)\<rparr>"

section \<open>The request\<close>

text \<open>The parts of a form, in the order of the iteration; a reader or a file may fail.\<close>

fun reader_parts :: "(string \<times> string \<times> goerr option) list \<Rightarrow> goerr + form_part list" where
  "reader_parts [] = Inr []"
| "reader_parts ((k, s, e) # rs) =
     (case e of
        Some er \<Rightarrow> Inl er
      | None \<Rightarrow> (case reader_parts rs of Inl er \<Rightarrow> Inl er | Inr ps \<Rightarrow> Inr (PartField k s # ps)))"

fun file_parts :: "curl_env \<Rightarrow> (string \<times> string) list \<Rightarrow> goerr + form_part list" where
  "file_parts env [] = Inr []"
| "file_parts env ((k, path) # fs) =
     (case ce_Open env path of
        Inl er \<Rightarrow> Inl er
      | Inr (s, Some er) \<Rightarrow> Inl er
      | Inr (s, None) \<Rightarrow>
          (case file_parts env fs of Inl er \<Rightarrow> Inl er | Inr ps \<Rightarrow> Inr (PartFile k path s # ps)))"

definition flat :: "(string \<times> string list) list \<Rightarrow> (string \<times> string) list" where
  "flat kvs = concat (map (\<lambda>(k, vs). map (\<lambda>v. (k, v)) vs) kvs)"

definition form_body :: "curl_env \<Rightarrow> curl \<Rightarrow> goerr + form_part list" where
  "form_body env c =
     (case reader_parts (cu_PostFieldReaders c) of
        Inl e \<Rightarrow> Inl e
      | Inr rs \<Rightarrow>
          (case file_parts env (flat (cu_PostFiles c)) of
             Inl e \<Rightarrow> Inl e
           | Inr fs \<Rightarrow> Inr (map (\<lambda>(k, v). PartField k v) (flat (cu_PostFields c)) @ rs @ fs)))"

text \<open>The reader of the request is made once, and kept in \<open>PostReader\<close>.\<close>

definition post_reader :: "curl_env \<Rightarrow> curl \<Rightarrow> goerr + curl" where
  "post_reader env c =
     (if cu_PostReader c \<noteq> None then Inr c
      else if cu_PostBytes c \<noteq> [] then Inr (c\<lparr>cu_PostReader := Some (RawBody (cu_PostBytes c))\<rparr>)
      else if cu_PostString c \<noteq> [] then Inr (c\<lparr>cu_PostReader := Some (RawBody (cu_PostString c))\<rparr>)
      else case form_body env c of
        Inl e \<Rightarrow> Inl e
      | Inr ps \<Rightarrow>
          Inr (c\<lparr>cu_Headers := Header_Set ''Content-Type'' (''multipart/form-data; boundary='' @ ce_boundary env) (cu_Headers c),
                 cu_PostReader := Some (Multipart ps)\<rparr>))"

definition has_post :: "curl \<Rightarrow> bool" where
  "has_post c \<longleftrightarrow>
     cu_PostReader c \<noteq> None \<or> cu_PostBytes c \<noteq> [] \<or> cu_PostString c \<noteq> [] \<or> cu_PostFields c \<noteq> [] \<or>
     cu_PostFieldReaders c \<noteq> [] \<or> cu_PostFiles c \<noteq> []"

definition request_of :: "curl \<Rightarrow> out_request" where
  "request_of c =
     \<lparr>or_method = cu_method c, or_url = cu_Url c, or_header = cu_Headers c, or_cookies = cu_cookies c,
      or_body = cu_PostReader c\<rparr>"

definition CreateRequest :: "curl_env \<Rightarrow> curl \<Rightarrow> (goerr + out_request) \<times> curl" where
  "CreateRequest env c =
     (case (if has_post c then post_reader env c else Inr c) of
        Inl e \<Rightarrow> (Inl (Errorf (''CreateRequest failed: '' @ err_text e)), c)
      | Inr c' \<Rightarrow>
          (case ce_NewRequest env (cu_method c') (cu_Url c') of
             Some e \<Rightarrow> (Inl (Errorf (''CreateRequest failed: '' @ err_text e)), c')
           | None \<Rightarrow> (Inr (request_of c'), c')))"

section \<open>The client\<close>

definition bool_text :: "bool \<Rightarrow> string" where
  "bool_text b = (if b then ''true'' else ''false'')"

definition client_key :: "curl \<Rightarrow> string" where
  "client_key c = bool_text (cu_keepAlive c) @ ''||'' @ bool_text (cu_autoRedirect c)"

definition getHttpClient :: "curl_env \<Rightarrow> nat \<Rightarrow> curl_state \<Rightarrow> (goerr + http_client) \<times> curl_state" where
  "getHttpClient env n st =
     (let c = cs_curls st n; hc = \<lparr>hc_owner = n, hc_keep = cu_keepAlive c, hc_proxy = None\<rparr> in
      if cu_proxyURL c = [] then
        (case cs_clientMap st (client_key c) of
           Some h \<Rightarrow> (Inr h, st)
         | None \<Rightarrow> (Inr hc, st\<lparr>cs_clientMap := (cs_clientMap st)(client_key c \<mapsto> hc)\<rparr>))
      else case ce_ParseURL env (cu_proxyURL c) of
        Inl e \<Rightarrow> (Inl e, st)
      | Inr host \<Rightarrow> (Inr (hc\<lparr>hc_proxy := (if host \<noteq> [] then Some (cu_proxyURL c) else None)\<rparr>), st))"

text \<open>Whether a redirect is followed is asked of the object the client was made for.\<close>

definition follows :: "http_client \<Rightarrow> curl_state \<Rightarrow> bool" where
  "follows hc st = cu_autoRedirect (cs_curls st (hc_owner hc))"

section \<open>The response\<close>

definition getReader :: "curl_env \<Rightarrow> in_response option \<Rightarrow> goerr + string" where
  "getReader env r =
     (case r of
        None \<Rightarrow> Inl (Errorf ''nil response or body'')
      | Some rs \<Rightarrow>
          (case ir_body rs of
             None \<Rightarrow> Inl (Errorf ''nil response or body'')
           | Some b \<Rightarrow>
               (let enc = Header_Get (ir_header rs) ''Content-Encoding'' in
                if contains enc ''gzip'' then ce_gunzip env b
                else if contains enc ''deflate'' then Inr (ce_inflate env b)
                else Inr b)))"

text \<open>
  \<open>wrap\<close>: the body to read, or the error. On an error it closes the response, which uses the
  embedded response, and so panics when there is none.
\<close>

definition wrap :: "curl_env \<Rightarrow> in_response option \<Rightarrow> (string option \<times> goerr option) outcome" where
  "wrap env r =
     (case getReader env r of
        Inr b \<Rightarrow> Returns (Some b, None)
      | Inl e \<Rightarrow>
          (case r of
             None \<Rightarrow> Panics (PanicMsg ''invalid memory address or nil pointer dereference'')
           | Some _ \<Rightarrow> Returns (None, Some e)))"

text \<open>The result: nil, or a response with its body, and the error.\<close>

datatype curl_result = NilResponse | GotResponse "in_response option" "string option"

definition request_error :: "wake \<Rightarrow> do_error option \<Rightarrow> do_error option" where
  "request_error w e =
     (case w of
        W_TimedOut \<Rightarrow> Some (OtherError ErrRequestTimeout)
      | W_CtxDone ce \<Rightarrow> Some (OtherError ce)
      | W_Finished \<Rightarrow> e)"

definition upd_curl :: "nat \<Rightarrow> (curl \<Rightarrow> curl) \<Rightarrow> curl_state \<Rightarrow> curl_state" where
  "upd_curl n f st = st\<lparr>cs_curls := (cs_curls st)(n := f (cs_curls st n))\<rparr>"

definition finish_request ::
  "curl_env \<Rightarrow> nat \<Rightarrow> in_response option \<Rightarrow> do_error option \<Rightarrow> curl_state
    \<Rightarrow> (curl_result \<times> goerr option) outcome \<times> curl_state" where
  "finish_request env n resp err st =
     (let st = (if ce_wake env = W_TimedOut then upd_curl n (\<lambda>c. c\<lparr>cu_cancelled := True\<rparr>) st else st);
          wrapped = map_outcome_value (\<lambda>(b, e). (GotResponse resp b, e)) (wrap env resp)
      in case request_error (ce_wake env) err of
           None \<Rightarrow> (wrapped, st)
         | Some e \<Rightarrow>
             if e = UrlError ErrStopRedirect then (wrapped, st)
             else (Returns (NilResponse, Some (do_err e)), upd_curl n (\<lambda>c. c\<lparr>cu_cancelled := True\<rparr>) st))"

text \<open>The request on its way: \<open>Do\<close> in a goroutine, and what the select makes of it.\<close>

definition send_request ::
  "curl_env \<Rightarrow> nat \<Rightarrow> out_request \<Rightarrow> curl_state \<Rightarrow> (curl_result \<times> goerr option) outcome \<times> curl_state" where
  "send_request env n req st =
     (case getHttpClient env n st of
        (Inl e, st1) \<Rightarrow> (Returns (GotResponse None None, Some e), st1)
      | (Inr hc, st1) \<Rightarrow>
          (let (resp, err) = ce_Do env (follows hc st1) hc req
           in finish_request env n resp err
                (upd_curl n (\<lambda>c. c\<lparr>cu_PostReader :=
                    map_option (ce_unread env (follows hc st1) hc req) (cu_PostReader c)\<rparr>) st1)))"

definition Request :: "curl_env \<Rightarrow> nat \<Rightarrow> curl_state \<Rightarrow> (curl_result \<times> goerr option) outcome \<times> curl_state" where
  "Request env n st =
     (let st = upd_curl n (\<lambda>c. if cu_timeout c \<le> 0 then SetTimeout 5 c else c) st;
          (r, c') = CreateRequest env (cs_curls st n);
          st = upd_curl n (\<lambda>_. c') st
      in case r of
           Inl e \<Rightarrow> (Returns (GotResponse None None, Some e), st)
         | Inr req \<Rightarrow> send_request env n req st)"

section \<open>Facts\<close>

lemma upd_curl_at [simp]: "cs_curls (upd_curl n f st) n = f (cs_curls st n)"
  "cs_clientMap (upd_curl n f st) = cs_clientMap st"
  by (simp_all add: upd_curl_def)

lemma getHttpClient_curls: "getHttpClient env n st = (r, st1) \<Longrightarrow> cs_curls st1 = cs_curls st"
  by (auto simp: getHttpClient_def Let_def split: option.splits sum.splits if_splits)

lemma CreateRequest_reader:
  "cu_PostReader c = Some b \<Longrightarrow>
   CreateRequest env c =
     (case ce_NewRequest env (cu_method c) (cu_Url c) of
        Some e \<Rightarrow> (Inl (Errorf (''CreateRequest failed: '' @ err_text e)), c)
      | None \<Rightarrow> (Inr (request_of c), c))"
  by (simp add: CreateRequest_def has_post_def post_reader_def)

text \<open>A request with a reader, once the timeout is there.\<close>

lemma Request_reader:
  assumes "cu_PostReader (cs_curls st n) = Some b"
  obtains c where "cu_PostReader c = Some b" and
    "\<And>env. Request env n st =
       (case ce_NewRequest env (cu_method c) (cu_Url c) of
          Some e \<Rightarrow> (Returns (GotResponse None None, Some (Errorf (''CreateRequest failed: '' @ err_text e))),
                     upd_curl n (\<lambda>_. c) st)
        | None \<Rightarrow> send_request env n (request_of c) (upd_curl n (\<lambda>_. c) st))"
proof -
  define c where "c = (if cu_timeout (cs_curls st n) \<le> 0 then SetTimeout 5 (cs_curls st n) else cs_curls st n)"
  have r: "cu_PostReader c = Some b" using assms by (simp add: c_def SetTimeout_def SetTimeoutMS_def)
  have u: "upd_curl n (\<lambda>_. x) (upd_curl n f st) = upd_curl n (\<lambda>_. x) st" for x f by (simp add: upd_curl_def)
  show thesis
    by (rule that [OF r])
      (simp add: Request_def u Let_def CreateRequest_reader [OF r] flip: c_def split: option.split)
qed

lemma getHttpClient_direct:
  "cu_proxyURL (cs_curls st n) = [] \<Longrightarrow>
   \<exists>hc st1. getHttpClient env n st = (Inr hc, st1) \<and> cs_curls st1 = cs_curls st"
  by (auto simp: getHttpClient_def Let_def split: option.split)

lemma finish_request_post:
  "cu_PostReader (cs_curls (snd (finish_request env n resp err st)) n) = cu_PostReader (cs_curls st n)"
  by (auto simp: finish_request_def Let_def split: option.split)

text \<open>A transport that reads every body to its end.\<close>

fun emptied :: "req_body \<Rightarrow> req_body" where
  "emptied (RawBody s) = RawBody []"
| "emptied (Multipart ps) = Multipart []"

definition reads_bodies :: "curl_env \<Rightarrow> bool" where
  "reads_bodies env \<longleftrightarrow> (\<forall>f hc q. ce_unread env f hc q = emptied)"

text \<open>
  A second \<open>Request\<close> on the same object sends no body: the reader made by the first is used
  again, and it has been read.
\<close>

lemma second_request_is_empty:
  assumes "cu_PostReader (cs_curls st n) = None" and "cu_PostBytes (cs_curls st n) = b" and "b \<noteq> []"
    and "ce_NewRequest env (cu_method (cs_curls st n)) (cu_Url (cs_curls st n)) = None"
    and "cu_proxyURL (cs_curls st n) = []" and "reads_bodies env"
  shows "cu_PostReader (cs_curls (snd (Request env n st)) n) = Some (RawBody [])"
    and "fst (CreateRequest env (cs_curls (snd (Request env n st)) n)) = Inr q \<Longrightarrow> or_body q = Some (RawBody [])"
proof -
  let ?c = "cs_curls st n"
  define c1 where "c1 = (if cu_timeout ?c \<le> 0 then SetTimeout 5 ?c else ?c)"
  have f: "cu_PostReader c1 = None" "cu_PostBytes c1 = b" "cu_method c1 = cu_method ?c" "cu_Url c1 = cu_Url ?c"
    "cu_proxyURL c1 = []"
    using assms by (simp_all add: c1_def SetTimeout_def SetTimeoutMS_def)
  let ?c2 = "c1\<lparr>cu_PostReader := Some (RawBody b)\<rparr>"
  obtain q1 where cr: "CreateRequest env c1 = (Inr q1, ?c2)"
    using f assms(3,4) by (simp add: CreateRequest_def has_post_def post_reader_def)
  let ?st = "upd_curl n (\<lambda>_. ?c2) (upd_curl n (\<lambda>c. if cu_timeout c \<le> 0 then SetTimeout 5 c else c) st)"
  have "cu_proxyURL (cs_curls ?st n) = []" using f(5) by simp
  from getHttpClient_direct [OF this] obtain hc st1
    where g: "getHttpClient env n ?st = (Inr hc, st1)" "cs_curls st1 n = ?c2" by fastforce
  obtain resp err where d: "ce_Do env (follows hc st1) hc q1 = (resp, err)" by fastforce
  have "snd (Request env n st) = snd (finish_request env n resp err
      (upd_curl n (\<lambda>c. c\<lparr>cu_PostReader := map_option emptied (cu_PostReader c)\<rparr>) st1))"
    using cr g(1) d assms(6) by (simp add: Request_def send_request_def Let_def c1_def reads_bodies_def)
  then show r: "cu_PostReader (cs_curls (snd (Request env n st)) n) = Some (RawBody [])"
    using g(2) by (simp add: finish_request_post)
  show "fst (CreateRequest env (cs_curls (snd (Request env n st)) n)) = Inr q \<Longrightarrow> or_body q = Some (RawBody [])"
    using r by (auto simp: CreateRequest_def request_of_def has_post_def post_reader_def split: option.splits)
qed

text \<open>
  The clients without a proxy are shared by their flags, but the policy is that of the first object:
  when that one is told to follow redirects later, so do all objects that were not.
\<close>

lemma redirect_policy_is_shared:
  assumes "getHttpClient env n st = (Inr hc, st1)" and "cs_clientMap st (client_key (cs_curls st n)) = None"
    and "cu_proxyURL (cs_curls st n) = []"
    and "cu_proxyURL (cs_curls st m) = []" and "client_key (cs_curls st m) = client_key (cs_curls st n)" and "m \<noteq> n"
  shows "fst (getHttpClient env m (upd_curl n SetAutoRedirect st1)) = Inr hc \<and>
    follows hc (upd_curl n SetAutoRedirect st1)"
  using assms
  by (auto simp: getHttpClient_def Let_def upd_curl_def follows_def SetAutoRedirect_def)

end
