(* ===== verification/ServiceDiscovery.thy ===== *)
theory ServiceDiscovery
  imports Output "HOL-Library.Multiset"
begin

text \<open>
  \<open>service/discovery\<close>: the table of Consul clients and the resolver that follows a
  service and hands out its addresses. Consul's client library is the record
  \<open>consul_api\<close>, over a state \<open>'c\<close> that is its own; a client is a number. A resolver is
  known by its place in \<open>sd_heap\<close>, which stands for its pointer. Its goroutine is
  \<open>watch_round\<close>, one turn of its loop. Locks are left out: what they protect is one step.
\<close>

section \<open>The Consul client library\<close>

record service_entry =
  se_Address :: string
  se_Port :: int
  se_Tags :: "string list"

text \<open>A failed query: whether it is a \<open>url.Error\<close> around \<open>context.Canceled\<close>, and the error.\<close>

datatype query_err = QueryErr bool goerr

text \<open>\<open>QueryOptions\<close> are the index to wait for and whether the context is done.\<close>

record query_options =
  qo_WaitIndex :: "64 word"
  qo_cancelled :: bool

datatype agent_call =
  ServiceRegister string string "string list" int string \<comment> \<open>id, name, tags, port, address\<close>
| CheckRegister string string string string string \<comment> \<open>id, name, service id, TTL, status\<close>
| UpdateTTL string string string
| ServiceDeregister string
| CheckDeregister string

type_synonym 'c query_reply = "(query_err + service_entry list \<times> 64 word) \<times> 'c"

record 'c consul_api =
  ca_NewClient :: "string \<Rightarrow> 'c \<Rightarrow> (goerr + nat) \<times> 'c"
  ca_Service :: "nat \<Rightarrow> string \<Rightarrow> string \<Rightarrow> bool \<Rightarrow> query_options \<Rightarrow> 'c \<Rightarrow> 'c query_reply"
  ca_ServiceMultipleTags :: "nat \<Rightarrow> string \<Rightarrow> string list \<Rightarrow> bool \<Rightarrow> query_options \<Rightarrow> 'c \<Rightarrow> 'c query_reply"
  ca_Agent :: "nat \<Rightarrow> agent_call \<Rightarrow> 'c \<Rightarrow> goerr option \<times> 'c"

section \<open>client/consul.go\<close>

record 'c consul_state =
  cs_clients :: "string \<rightharpoonup> nat" \<comment> \<open>\<open>consulClientMap\<close>\<close>
  cs_srv :: 'c

definition NewConsulClient ::
  "'c consul_api \<Rightarrow> string \<Rightarrow> ('c, 'z) consul_state_scheme \<Rightarrow> (goerr + nat) \<times> ('c, 'z) consul_state_scheme" where
  "NewConsulClient api address st =
     (case cs_clients st address of
        Some cr \<Rightarrow> (Inr cr, st)
      | None \<Rightarrow>
          (case ca_NewClient api address (cs_srv st) of
             (Inl e, c) \<Rightarrow> (Inl e, st\<lparr>cs_srv := c\<rparr>)
           | (Inr cl, c) \<Rightarrow> (Inr cl, st\<lparr>cs_clients := (cs_clients st)(address \<mapsto> cl), cs_srv := c\<rparr>)))"

interpretation consul_clients: keyed_cache "NewConsulClient api" "\<lambda>a. a" cs_clients "\<lambda>_. True"
  by unfold_locales (auto simp: NewConsulClient_def split: option.splits prod.splits sum.splits)

section \<open>consul.go: the resolver\<close>

definition UnknownPolicy :: nat where "UnknownPolicy = 0"
definition RobinPolicy :: nat where "RobinPolicy = 1"
definition RandPolicy :: nat where "RandPolicy = 2"

text \<open>What the options of a caller set, and the resolver with the rest of its fields.\<close>

record resolver_opts =
  cr_serviceName :: string
  cr_tags :: "string list"
  cr_passingOnly :: bool
  cr_policy :: nat

record consul_resolver = resolver_opts +
  cr_client :: nat
  cr_addresses :: "string list"
  cr_hasTags :: "string list"
  cr_httpCtx :: http_ctx
  cr_wg :: int
  cr_queryOptions :: query_options
  cr_lbIndex :: "64 word"

type_synonym call_opt = "resolver_opts \<Rightarrow> goerr option \<times> resolver_opts"

definition TagCallOpt :: "string list \<Rightarrow> call_opt" where
  "TagCallOpt tags cr = (None, cr\<lparr>cr_tags := tags\<rparr>)"

definition BalancePolicyCallOpt :: "nat \<Rightarrow> call_opt" where
  "BalancePolicyCallOpt p cr = (None, cr\<lparr>cr_policy := p\<rparr>)"

definition PassingOnlyCallOpt :: "bool \<Rightarrow> call_opt" where
  "PassingOnlyCallOpt b cr = (None, cr\<lparr>cr_passingOnly := b\<rparr>)"

definition entry_address :: "service_entry \<Rightarrow> string" where
  "entry_address e = se_Address e @ '':'' @ int_dec (se_Port e)"

definition resolve_sd ::
  "'c consul_api \<Rightarrow> consul_resolver \<Rightarrow> 'c \<Rightarrow> goerr option \<times> consul_resolver \<times> 'c" where
  "resolve_sd api cr c =
     (case ca_ServiceMultipleTags api (cr_client cr) (cr_serviceName cr) (cr_tags cr) (cr_passingOnly cr)
             (cr_queryOptions cr) c of
        (Inl (QueryErr canceled e), c') \<Rightarrow> (if canceled then None else Some e, cr, c')
      | (Inr (entries, lastIndex), c') \<Rightarrow>
          (None,
           cr\<lparr>cr_queryOptions := (cr_queryOptions cr)\<lparr>qo_WaitIndex := lastIndex\<rparr>,
              cr_addresses := map entry_address entries,
              cr_hasTags := (if entries = [] then cr_hasTags cr else se_Tags (last entries))\<rparr>, c'))"

text \<open>
  The state of the package. \<open>w0\<close> and \<open>r0\<close> stand for the writer and the request a context
  outside a request has not.
\<close>

record ('c, 's, 't) sd_state = "'c consul_state" +
  sd_resolvers :: "string \<rightharpoonup> nat" \<comment> \<open>\<open>consulResolverMap\<close>\<close>
  sd_heap :: "consul_resolver list"
  sd_app :: "('s, 't) app"

record sd_env =
  sd_uuid :: string
  sd_w0 :: response_writer
  sd_r0 :: http_request

definition caller_opts :: "string \<Rightarrow> call_opt list \<Rightarrow> resolver_opts" where
  "caller_opts serviceName opts =
     fold (\<lambda>f cr. snd (f cr)) opts
       \<lparr>cr_serviceName = serviceName, cr_tags = [], cr_passingOnly = True, cr_policy = UnknownPolicy\<rparr>"

definition resolver_key :: "string \<Rightarrow> resolver_opts \<Rightarrow> string" where
  "resolver_key address cr =
     cr_serviceName cr @ ''_'' @ address @ ''_'' @ nat_dec (cr_policy cr) @ ''_'' @ join_go (cr_tags cr) '',''"

definition new_resolver :: "nat \<Rightarrow> http_ctx \<Rightarrow> resolver_opts \<Rightarrow> consul_resolver" where
  "new_resolver cl ctx o1 =
     resolver_opts.extend o1
       \<lparr>cr_client = cl, cr_addresses = [], cr_hasTags = [], cr_httpCtx = ctx, cr_wg = 0,
        cr_queryOptions = \<lparr>qo_WaitIndex = 0, qo_cancelled = hc_cancelled ctx\<rparr>, cr_lbIndex = 0\<rparr>"

definition NewConsulResolver ::
  "sd_env \<Rightarrow> 'c consul_api \<Rightarrow> string \<Rightarrow> string \<Rightarrow> call_opt list \<Rightarrow> ('c, 's, 't, 'z) sd_state_scheme \<Rightarrow>
    (goerr + nat) \<times> ('c, 's, 't, 'z) sd_state_scheme" where
  "NewConsulResolver env api serviceName address opts st =
     (let o1 = caller_opts serviceName opts; key = resolver_key address o1 in
      case sd_resolvers st key of
        Some p \<Rightarrow> (Inr p, st)
      | None \<Rightarrow>
          (let (ctx, ap) = NewHTTPContext (sd_uuid env) (sd_w0 env) (sd_r0 env) (sd_app st) in
           case NewConsulClient api address (st\<lparr>sd_app := ap\<rparr>) of
             (Inl e, st1) \<Rightarrow> (Inl e, st1\<lparr>sd_app := snd (HTTPContext_Cancel ctx (sd_app st1))\<rparr>)
           | (Inr cl, st1) \<Rightarrow>
               (case resolve_sd api (new_resolver cl ctx o1) (cs_srv st1) of
                  (Some e, _, c) \<Rightarrow>
                    (Inl e, st1\<lparr>cs_srv := c, sd_app := snd (HTTPContext_Cancel ctx (sd_app st1))\<rparr>)
                | (None, cr, c) \<Rightarrow>
                    (Inr (length (sd_heap st1)),
                     st1\<lparr>cs_srv := c, sd_heap := sd_heap st1 @ [cr\<lparr>cr_wg := cr_wg cr + 1\<rparr>],
                         sd_resolvers := (sd_resolvers st1)(key \<mapsto> length (sd_heap st1))\<rparr>))))"

text \<open>
  One turn of \<open>watch\<close>: the error of a query is only logged; the result tells whether the loop
  goes on. When it ends, the deferred call lowers the wait group.
\<close>

definition cancel_resolver :: "consul_resolver \<Rightarrow> ('s, 't) app \<Rightarrow> consul_resolver \<times> ('s, 't) app" where
  "cancel_resolver cr ap =
     (let (ctx, ap') = HTTPContext_Cancel (cr_httpCtx cr) ap in
      (cr\<lparr>cr_httpCtx := ctx, cr_queryOptions := (cr_queryOptions cr)\<lparr>qo_cancelled := hc_cancelled ctx\<rparr>\<rparr>, ap'))"

definition watch_round :: "'c consul_api \<Rightarrow> nat \<Rightarrow> ('c, 's, 't) sd_state \<Rightarrow> bool \<times> ('c, 's, 't) sd_state" where
  "watch_round api p st =
     (let (_, cr, c) = resolve_sd api (sd_heap st ! p) (cs_srv st);
          st1 = st\<lparr>cs_srv := c\<rparr>
      in if hc_cancelled (cr_httpCtx cr) then
           (let (cr', ap) = cancel_resolver cr (sd_app st1) in
            (False, st1\<lparr>sd_heap := (sd_heap st1)[p := cr'\<lparr>cr_wg := cr_wg cr' - 1\<rparr>], sd_app := ap\<rparr>))
         else (True, st1\<lparr>sd_heap := (sd_heap st1)[p := cr]\<rparr>))"

text \<open>\<open>Close\<close> up to \<open>Wait\<close>, which returns when the wait group is down.\<close>

definition Close_resolver :: "nat \<Rightarrow> ('c, 's, 't) sd_state \<Rightarrow> ('c, 's, 't) sd_state" where
  "Close_resolver p st =
     (let (cr, ap) = cancel_resolver (sd_heap st ! p) (sd_app st)
      in st\<lparr>sd_heap := (sd_heap st)[p := cr], sd_app := ap\<rparr>)"

definition close_returns :: "nat \<Rightarrow> ('c, 's, 't) sd_state \<Rightarrow> bool" where
  "close_returns p st \<longleftrightarrow> cr_wg (sd_heap st ! p) = 0"

section \<open>consul.go: addresses\<close>

definition Addresses_sd :: "consul_resolver option \<Rightarrow> string list" where
  "Addresses_sd cr = (case cr of None \<Rightarrow> [] | Some r \<Rightarrow> cr_addresses r)"

text \<open>\<open>rnd n\<close> is the answer of \<open>Int63n\<close>. Without an error the third part is the resolver after the call.\<close>

definition GetAddress ::
  "(nat \<Rightarrow> nat) \<Rightarrow> consul_resolver option \<Rightarrow> (goerr + string) \<times> consul_resolver option" where
  "GetAddress rnd cro =
     (case cro of
        None \<Rightarrow> (Inl (Errorf ''consul not init''), None)
      | Some cr \<Rightarrow>
          (let addresses = Addresses_sd (Some cr); num = (of_nat (length addresses) :: 64 word) in
           if num = 0 then (Inl (Errorf ''addresses is nil''), Some cr)
           else if num = 1 then (Inr (addresses ! 0), Some cr)
           else if cr_policy cr = RandPolicy then (Inr (addresses ! rnd (unat num)), Some cr)
           else (Inr (addresses ! unat (cr_lbIndex cr mod num)), Some (cr\<lparr>cr_lbIndex := cr_lbIndex cr + 1\<rparr>))))"

definition HasTag :: "consul_resolver \<Rightarrow> string \<Rightarrow> bool" where
  "HasTag cr tag = list_ex (\<lambda>v. v = tag) (cr_hasTags cr)"

section \<open>Facts\<close>

lemma resolve_sd_keeps [simp]:
  "cr_httpCtx (fst (snd (resolve_sd api cr c))) = cr_httpCtx cr"
  "cr_wg (fst (snd (resolve_sd api cr c))) = cr_wg cr"
  "cr_lbIndex (fst (snd (resolve_sd api cr c))) = cr_lbIndex cr"
  "cr_policy (fst (snd (resolve_sd api cr c))) = cr_policy cr"
  by (auto simp: resolve_sd_def split: prod.splits sum.splits query_err.splits)

lemma resolve_sd_keepsD:
  "resolve_sd api cr c = (e, cr', c') \<Longrightarrow> cr_httpCtx cr' = cr_httpCtx cr \<and> cr_wg cr' = cr_wg cr"
  using resolve_sd_keeps [of api cr c] by simp

lemma NewConsulClient_frame [simp]:
  "sd_resolvers (snd (NewConsulClient api a st)) = sd_resolvers st"
  "sd_heap (snd (NewConsulClient api a st)) = sd_heap st"
  "sd_app (snd (NewConsulClient api a st)) = sd_app st"
  by (auto simp: NewConsulClient_def split: option.splits prod.splits sum.splits)

lemma NewConsulClient_frameD:
  "NewConsulClient api a st = (r, st') \<Longrightarrow>
   sd_resolvers st' = sd_resolvers st \<and> sd_heap st' = sd_heap st \<and> sd_app st' = sd_app st"
  using NewConsulClient_frame [of api a st] by simp

text \<open>Resolvers are shared by service, address, policy and tags.\<close>

definition acquire_resolver ::
  "sd_env \<Rightarrow> 'c consul_api \<Rightarrow> string \<times> string \<times> call_opt list \<Rightarrow> ('c, 's, 't) sd_state \<Rightarrow>
    (goerr + nat) \<times> ('c, 's, 't) sd_state" where
  "acquire_resolver env api x = (case x of (name, a, opts) \<Rightarrow> NewConsulResolver env api name a opts)"

definition acquire_key :: "string \<times> string \<times> call_opt list \<Rightarrow> string" where
  "acquire_key x = (case x of (name, a, opts) \<Rightarrow> resolver_key a (caller_opts name opts))"

lemmas acquire_resolver_defs = acquire_resolver_def acquire_key_def NewConsulResolver_def Let_def

interpretation resolver_table: keyed_cache "acquire_resolver env api" acquire_key sd_resolvers "\<lambda>_. True"
proof unfold_locales
  fix x and st st' :: "('a, 'b, 'c) sd_state" and i j e
  show "sd_resolvers st (acquire_key x) = Some i \<Longrightarrow> acquire_resolver env api x st = (Inr i, st)"
    by (cases x) (auto simp: acquire_resolver_defs)
  assume ok: "acquire_resolver env api x st = (Inr i, st')"
  then show "sd_resolvers st' = (sd_resolvers st)(acquire_key x \<mapsto> i)"
    by (cases x) (auto simp: acquire_resolver_defs fun_eq_iff dest!: NewConsulClient_frameD
        split: option.splits prod.splits sum.splits)
  from ok show "sd_resolvers st (acquire_key x) = Some j \<Longrightarrow> i = j"
    by (cases x) (auto simp: acquire_resolver_defs split: prod.splits)
next
  fix x and st st' :: "('a, 'b, 'c) sd_state" and e
  assume "acquire_resolver env api x st = (Inl e, st')"
  then show "sd_resolvers st' = sd_resolvers st"
    by (cases x) (auto simp: acquire_resolver_defs dest!: NewConsulClient_frameD
        split: option.splits prod.splits sum.splits)
qed

text \<open>The three ways a resolver is asked for: it is known, it cannot be made, it is new.\<close>

lemma NewConsulResolver_cases:
  obtains (hit) q where "NewConsulResolver env api n a opts st = (Inr q, st)"
      "sd_resolvers st (resolver_key a (caller_opts n opts)) = Some q"
  | (refused) e st' where "NewConsulResolver env api n a opts st = (Inl e, st')"
      "sd_resolvers st' = sd_resolvers st" "sd_heap st' = sd_heap st"
      "ap_wg (sd_app st') = ap_wg (sd_app st)"
  | (fresh) cr st' where "NewConsulResolver env api n a opts st = (Inr (length (sd_heap st)), st')"
      "sd_resolvers st' = (sd_resolvers st)(resolver_key a (caller_opts n opts) \<mapsto> length (sd_heap st))"
      "sd_heap st' = sd_heap st @ [cr]" "ap_wg (sd_app st') = ap_wg (sd_app st) + 1"
      "cr_wg cr = 1" "\<not> hc_isCanceled (cr_httpCtx cr)"
proof (cases "sd_resolvers st (resolver_key a (caller_opts n opts))")
  case (Some q)
  then show ?thesis by (intro hit) (simp_all add: NewConsulResolver_def Let_def)
next
  case None
  obtain ctx ap where c: "NewHTTPContext (sd_uuid env) (sd_w0 env) (sd_r0 env) (sd_app st) = (ctx, ap)"
    by fastforce
  then have ctx: "\<not> hc_isCanceled ctx" "ap_wg ap = ap_wg (sd_app st) + 1"
    by (auto simp: NewHTTPContext_def blank_ctx_def WgAdd_def)
  obtain r st1 where cl: "NewConsulClient api a (st\<lparr>sd_app := ap\<rparr>) = (r, st1)" by fastforce
  then have st1: "sd_resolvers st1 = sd_resolvers st" "sd_heap st1 = sd_heap st" "sd_app st1 = ap"
    by (auto dest: NewConsulClient_frameD)
  have freed: "ap_wg (snd (HTTPContext_Cancel ctx ap)) = ap_wg (sd_app st)"
    using ctx by (simp add: HTTPContext_Cancel_def WgDone_def)
  show ?thesis
  proof (cases r)
    case (Inl e)
    with None c cl st1 freed show ?thesis
      by (intro refused [of e "st1\<lparr>sd_app := snd (HTTPContext_Cancel ctx (sd_app st1))\<rparr>"])
        (simp_all add: NewConsulResolver_def Let_def)
  next
    case (Inr i)
    obtain e cr c1 where rs: "resolve_sd api (new_resolver i ctx (caller_opts n opts)) (cs_srv st1) = (e, cr, c1)"
      using prod_cases3 by blast
    then have cr: "cr_wg cr = 0" "cr_httpCtx cr = ctx"
      by (auto dest!: resolve_sd_keepsD simp: new_resolver_def resolver_opts.defs)
    show ?thesis
    proof (cases e)
      case (Some er)
      with None c cl st1 freed Inr rs show ?thesis
        by (intro refused [of er "st1\<lparr>cs_srv := c1, sd_app := snd (HTTPContext_Cancel ctx (sd_app st1))\<rparr>"])
          (simp_all add: NewConsulResolver_def Let_def)
    next
      case N: None
      show ?thesis
        by (rule fresh [of "st1\<lparr>cs_srv := c1, sd_heap := sd_heap st1 @ [cr\<lparr>cr_wg := cr_wg cr + 1\<rparr>],
              sd_resolvers := (sd_resolvers st1)(resolver_key a (caller_opts n opts) \<mapsto> length (sd_heap st1))\<rparr>"
              "cr\<lparr>cr_wg := cr_wg cr + 1\<rparr>"])
          (use None N c cl st1 Inr rs cr ctx in \<open>simp_all add: NewConsulResolver_def Let_def\<close>)
    qed
  qed
qed

section \<open>The contexts of the resolvers and the wait group of the process\<close>

text \<open>
  What may happen to the package. A resolver that does not exist is not used, and a goroutine
  that has ended takes no turn. At the end of the process the signal context is cancelled, and every context with it.
\<close>

datatype sd_op =
  OpNew string string "call_opt list" | OpWatch nat | OpClose nat | OpEnd

definition end_context :: "consul_resolver \<Rightarrow> consul_resolver" where
  "end_context cr =
     cr\<lparr>cr_httpCtx := (cr_httpCtx cr)\<lparr>hc_cancelled := True\<rparr>,
        cr_queryOptions := (cr_queryOptions cr)\<lparr>qo_cancelled := True\<rparr>\<rparr>"

fun run_sd :: "sd_env \<Rightarrow> 'c consul_api \<Rightarrow> sd_op \<Rightarrow> ('c, 's, 't) sd_state \<Rightarrow> ('c, 's, 't) sd_state" where
  "run_sd env api (OpNew n a opts) st = snd (NewConsulResolver env api n a opts st)"
| "run_sd env api (OpWatch p) st = (if p < length (sd_heap st) \<and> 0 < cr_wg (sd_heap st ! p) then snd (watch_round api p st) else st)"
| "run_sd env api (OpClose p) st = (if p < length (sd_heap st) then Close_resolver p st else st)"
| "run_sd env api OpEnd st = st\<lparr>sd_heap := map end_context (sd_heap st)\<rparr>"

definition live :: "consul_resolver \<Rightarrow> bool" where
  "live cr \<longleftrightarrow> \<not> hc_isCanceled (cr_httpCtx cr)"

definition live_count :: "('c, 's, 't) sd_state \<Rightarrow> nat" where
  "live_count st = length (filter live (sd_heap st))"

lemma length_filter_update:
  "p < length xs \<Longrightarrow>
   int (length (filter P (xs[p := y]))) = int (length (filter P xs)) - of_bool (P (xs ! p)) + of_bool (P y)"
proof (induction xs arbitrary: p)
  case (Cons x xs)
  then show ?case by (cases p) auto
qed simp

lemma cancel_resolver_counts:
  assumes "cancel_resolver cr ap = (cr', ap')"
  shows "ap_wg ap' = ap_wg ap - of_bool (live cr)" and "\<not> live cr'" and "cr_wg cr' = cr_wg cr"
    and "hc_isCanceled (cr_httpCtx cr')"
  using assms
  by (auto simp: cancel_resolver_def HTTPContext_Cancel_def WgDone_def live_def split: if_splits prod.splits)

lemma Close_resolver_balance:
  assumes "p < length (sd_heap st)"
  shows "ap_wg (sd_app (Close_resolver p st)) - int (live_count (Close_resolver p st)) =
         ap_wg (sd_app st) - int (live_count st)"
proof -
  obtain cr ap where c: "cancel_resolver (sd_heap st ! p) (sd_app st) = (cr, ap)" by fastforce
  from cancel_resolver_counts [OF c] assms show ?thesis
    by (simp add: Close_resolver_def c live_count_def length_filter_update)
qed

lemma watch_round_balance:
  assumes "p < length (sd_heap st)"
  shows "ap_wg (sd_app (snd (watch_round api p st))) - int (live_count (snd (watch_round api p st))) =
         ap_wg (sd_app st) - int (live_count st)"
proof -
  obtain e cr c where r: "resolve_sd api (sd_heap st ! p) (cs_srv st) = (e, cr, c)" using prod_cases3 by blast
  then have ctx: "cr_httpCtx cr = cr_httpCtx (sd_heap st ! p)" by (auto dest: resolve_sd_keepsD)
  then have l: "live cr \<longleftrightarrow> live (sd_heap st ! p)" by (simp add: live_def)
  obtain cr' ap where k: "cancel_resolver cr (sd_app st) = (cr', ap)" by fastforce
  have "live (cr'\<lparr>cr_wg := w\<rparr>) \<longleftrightarrow> live cr'" for w by (simp add: live_def)
  with cancel_resolver_counts [OF k] l assms show ?thesis
    by (simp add: watch_round_def r k live_count_def length_filter_update Let_def)
qed

interpretation resolver_contexts: guarded_counter "run_sd env api"
  "\<lambda>st. ap_wg (sd_app st) - int (live_count st)" "\<lambda>_. True"
proof unfold_locales
  fix x and st :: "('a, 'b, 'c) sd_state"
  show "ap_wg (sd_app (run_sd env api x st)) - int (live_count (run_sd env api x st)) =
        ap_wg (sd_app st) - int (live_count st)"
  proof (cases x)
    case (OpNew n a opts)
    then show ?thesis
      by (cases rule: NewConsulResolver_cases [of env api n a opts st]) (simp_all add: live_count_def live_def)
  next
    case OpEnd
    have "live \<circ> end_context = live" by (simp add: fun_eq_iff live_def end_context_def)
    with OpEnd show ?thesis by (simp add: live_count_def filter_map)
  qed (simp_all add: watch_round_balance Close_resolver_balance)
qed

section \<open>Taking turns\<close>

text \<open>The answers of \<open>k\<close> calls in a row.\<close>

fun addresses_in_turn :: "(nat \<Rightarrow> nat) \<Rightarrow> nat \<Rightarrow> consul_resolver option \<Rightarrow> (goerr + string) list" where
  "addresses_in_turn rnd 0 cr = []"
| "addresses_in_turn rnd (Suc k) cr =
     (let (a, cr') = GetAddress rnd cr in a # addresses_in_turn rnd k cr')"

lemma GetAddress_robin:
  assumes "cr_policy cr \<noteq> RandPolicy" and "cr_addresses cr \<noteq> []" and "length (cr_addresses cr) < 2 ^ 64"
    and "unat (cr_lbIndex cr) + 1 < 2 ^ 64"
  obtains cr' where "GetAddress rnd (Some cr) =
      (Inr (cr_addresses cr ! (unat (cr_lbIndex cr) mod length (cr_addresses cr))), Some cr')"
    "cr_addresses cr' = cr_addresses cr" "cr_policy cr' = cr_policy cr"
    "length (cr_addresses cr) = 1 \<or> unat (cr_lbIndex cr') = unat (cr_lbIndex cr) + 1"
    "length (cr_addresses cr) = 1 \<longrightarrow> cr_lbIndex cr' = cr_lbIndex cr"
proof -
  let ?n = "length (cr_addresses cr)" and ?w = "of_nat (length (cr_addresses cr)) :: 64 word"
  have n: "unat ?w = ?n" using assms(3) by (simp add: unat_of_nat take_bit_nat_eq_self)
  have nz: "?w \<noteq> 0"
  proof
    assume "?w = 0"
    then have "unat ?w = 0" by simp
    with n assms(2) show False by simp
  qed
  show ?thesis
  proof (cases "?n = 1")
    case True
    then have "?w = 1" by simp
    with True nz assms(2) show ?thesis
      by (intro that [of cr]) (simp_all add: GetAddress_def Addresses_sd_def Let_def)
  next
    case False
    with n have "?w \<noteq> 1" by (metis unat_1)
    moreover have "unat (cr_lbIndex cr + 1) = unat (cr_lbIndex cr) + 1"
      using assms(4) by (simp add: unat_plus_if')
    moreover have "unat (cr_lbIndex cr mod ?w) = unat (cr_lbIndex cr) mod ?n" by (simp add: unat_mod_distrib n)
    ultimately show ?thesis using nz assms(1) False
      by (intro that [of "cr\<lparr>cr_lbIndex := cr_lbIndex cr + 1\<rparr>"])
        (simp_all add: GetAddress_def Addresses_sd_def Let_def)
  qed
qed

lemma addresses_in_turn_map:
  assumes "cr_policy cr \<noteq> RandPolicy" and "cr_addresses cr \<noteq> []" and "length (cr_addresses cr) < 2 ^ 64"
    and "unat (cr_lbIndex cr) + k < 2 ^ 64"
  shows "addresses_in_turn rnd k (Some cr) =
         map (\<lambda>j. Inr (cr_addresses cr ! ((unat (cr_lbIndex cr) + j) mod length (cr_addresses cr)))) [0..<k]"
  using assms
proof (induction k arbitrary: cr)
  case (Suc k)
  from Suc.prems obtain cr' where g:
    "GetAddress rnd (Some cr) =
      (Inr (cr_addresses cr ! (unat (cr_lbIndex cr) mod length (cr_addresses cr))), Some cr')"
    "cr_addresses cr' = cr_addresses cr" "cr_policy cr' = cr_policy cr"
    "length (cr_addresses cr) = 1 \<or> unat (cr_lbIndex cr') = unat (cr_lbIndex cr) + 1"
    "length (cr_addresses cr) = 1 \<longrightarrow> cr_lbIndex cr' = cr_lbIndex cr"
    by (auto elim: GetAddress_robin [of cr rnd])
  from Suc.prems g have ih: "addresses_in_turn rnd k (Some cr') =
      map (\<lambda>j. Inr (cr_addresses cr ! ((unat (cr_lbIndex cr') + j) mod length (cr_addresses cr)))) [0..<k]"
    by (subst Suc.IH) (auto simp: g(2,3))
  have shift: "(unat (cr_lbIndex cr') + j) mod length (cr_addresses cr) =
      (unat (cr_lbIndex cr) + Suc j) mod length (cr_addresses cr)" for j
    using g(4) by auto
  show ?case by (simp add: g(1) ih shift upt_conv_Cons map_Suc_upt [symmetric] o_def del: upt_Suc)
qed simp

lemma mset_turns: "xs \<noteq> [] \<Longrightarrow> mset (map (\<lambda>j. xs ! ((s + j) mod length xs)) [0..<length xs]) = mset xs"
proof -
  assume "xs \<noteq> []"
  then have "map (\<lambda>j. xs ! ((s + j) mod length xs)) [0..<length xs] = rotate s xs"
    by (intro nth_equalityI) (simp_all add: nth_rotate)
  moreover have "mset (rotate s xs) = mset xs" by (simp add: rotate_drop_take flip: mset_append) (metis append_take_drop_id mset_append union_commute)
  ultimately show ?thesis by simp
qed

lemma mset_rounds:
  "xs \<noteq> [] \<Longrightarrow> mset (map (\<lambda>j. xs ! ((s + j) mod length xs)) [0..<m * length xs]) = repeat_mset m (mset xs)"
proof (induction m arbitrary: s)
  case (Suc m)
  let ?n = "length xs"
  have "[0..<Suc m * ?n] = [0..<?n] @ map (\<lambda>j. ?n + j) [0..<m * ?n]"
    using upt_add_eq_append [of 0 ?n "m * ?n"] map_add_upt [of ?n "m * ?n"] by (simp add: add.commute)
  moreover have "(s + (?n + j)) mod ?n = (s + j) mod ?n" for j
    by (metis add.left_commute mod_add_self1)
  ultimately show ?case using Suc mset_turns [of xs s] by (simp add: o_def)
qed simp

section \<open>Resolvers that are closed\<close>

definition sd_start :: "'c \<Rightarrow> ('s, 't) app \<Rightarrow> ('c, 's, 't) sd_state" where
  "sd_start c ap =
     \<lparr>cs_clients = Map.empty, cs_srv = c, sd_resolvers = Map.empty, sd_heap = [], sd_app = ap\<rparr>"

text \<open>Its goroutine runs, or it has ended after a cancellation.\<close>

definition resolver_ok :: "consul_resolver \<Rightarrow> bool" where
  "resolver_ok cr \<longleftrightarrow>
     (cr_wg cr = 1 \<or> cr_wg cr = 0 \<and> hc_isCanceled (cr_httpCtx cr)) \<and>
     (hc_isCanceled (cr_httpCtx cr) \<longrightarrow> hc_cancelled (cr_httpCtx cr))"

definition sd_inv :: "('c, 's, 't) sd_state \<Rightarrow> bool" where
  "sd_inv st \<longleftrightarrow> list_all resolver_ok (sd_heap st) \<and> (\<forall>k p. sd_resolvers st k = Some p \<longrightarrow> p < length (sd_heap st))"

lemma sd_invD: "sd_inv st \<Longrightarrow> p < length (sd_heap st) \<Longrightarrow> resolver_ok (sd_heap st ! p)"
  by (simp add: sd_inv_def list_all_length)

lemma list_all_update: "list_all P xs \<Longrightarrow> P y \<Longrightarrow> list_all P (xs[p := y])"
  by (induction xs arbitrary: p) (auto split: nat.splits)

lemma cancel_resolver_ok:
  assumes "cancel_resolver cr ap = (cr', ap')" and "resolver_ok cr"
  shows "resolver_ok cr'" and "hc_isCanceled (cr_httpCtx cr')" and "hc_cancelled (cr_httpCtx cr')"
    and "cr_wg cr' = cr_wg cr" and "cr_addresses cr' = cr_addresses cr"
  using assms
  by (auto simp: cancel_resolver_def HTTPContext_Cancel_def resolver_ok_def split: if_splits prod.splits)

lemma Close_resolver_at:
  assumes "sd_inv st" and "p < length (sd_heap st)"
  obtains cr ap where "Close_resolver p st = st\<lparr>sd_heap := (sd_heap st)[p := cr], sd_app := ap\<rparr>"
    "resolver_ok cr" "hc_isCanceled (cr_httpCtx cr)" "hc_cancelled (cr_httpCtx cr)"
    "cr_wg cr = cr_wg (sd_heap st ! p)" "cr_addresses cr = cr_addresses (sd_heap st ! p)"
proof -
  obtain cr ap where c: "cancel_resolver (sd_heap st ! p) (sd_app st) = (cr, ap)" by fastforce
  from that [of ap cr] cancel_resolver_ok [OF c sd_invD [OF assms]] show ?thesis
    by (simp add: Close_resolver_def c)
qed

lemma watch_round_at:
  assumes "sd_inv st" and "p < length (sd_heap st)" and "cr_wg (sd_heap st ! p) = 1"
  obtains cr st' where "watch_round api p st = (\<not> hc_cancelled (cr_httpCtx (sd_heap st ! p)), st')"
    "sd_heap st' = (sd_heap st)[p := cr]" "sd_resolvers st' = sd_resolvers st" "resolver_ok cr"
    "cr_wg cr = (if hc_cancelled (cr_httpCtx (sd_heap st ! p)) then 0 else 1)"
proof -
  obtain e cr c where r: "resolve_sd api (sd_heap st ! p) (cs_srv st) = (e, cr, c)" using prod_cases3 by blast
  from resolve_sd_keepsD [OF r] have k: "cr_httpCtx cr = cr_httpCtx (sd_heap st ! p)"
    "cr_wg cr = cr_wg (sd_heap st ! p)" by simp_all
  with sd_invD [OF assms(1,2)] have ok: "resolver_ok cr" by (simp add: resolver_ok_def)
  show ?thesis
  proof (cases "hc_cancelled (cr_httpCtx cr)")
    case True
    obtain cr' ap where c': "cancel_resolver cr (sd_app st) = (cr', ap)" by fastforce
    have "resolver_ok (cr'\<lparr>cr_wg := cr_wg cr' - 1\<rparr>)" "cr_wg (cr'\<lparr>cr_wg := cr_wg cr' - 1\<rparr>) = 0"
      using cancel_resolver_ok [OF c' ok] k(2) assms(3) by (simp_all add: resolver_ok_def)
    with True k show ?thesis
      by (intro that [of "st\<lparr>cs_srv := c, sd_heap := (sd_heap st)[p := cr'\<lparr>cr_wg := cr_wg cr' - 1\<rparr>], sd_app := ap\<rparr>"
            "cr'\<lparr>cr_wg := cr_wg cr' - 1\<rparr>"])
        (simp_all add: watch_round_def r c' Let_def)
  next
    case False
    with ok k assms(3) show ?thesis
      by (intro that [of "st\<lparr>cs_srv := c, sd_heap := (sd_heap st)[p := cr]\<rparr>" cr])
        (simp_all add: watch_round_def r Let_def)
  qed
qed

lemma run_sd_inv: "sd_inv st \<Longrightarrow> sd_inv (run_sd env api x st)"
proof (cases x)
  case (OpNew n a opts)
  assume inv: "sd_inv st"
  show ?thesis
    by (cases rule: NewConsulResolver_cases [of env api n a opts st])
      (use inv OpNew in \<open>auto simp: sd_inv_def resolver_ok_def less_Suc_eq split: if_splits\<close>)
next
  case (OpWatch p)
  assume inv: "sd_inv st"
  show ?thesis
  proof (cases "p < length (sd_heap st) \<and> 0 < cr_wg (sd_heap st ! p)")
    case True
    with sd_invD [OF inv, of p] have "cr_wg (sd_heap st ! p) = 1" by (auto simp: resolver_ok_def)
    with inv True obtain cr st' where "snd (watch_round api p st) = st'" "sd_heap st' = (sd_heap st)[p := cr]"
      "sd_resolvers st' = sd_resolvers st" "resolver_ok cr" by (metis watch_round_at snd_conv)
    with inv True OpWatch show ?thesis by (auto simp: sd_inv_def list_all_update)
  qed (use inv OpWatch in auto)
next
  case (OpClose p)
  assume inv: "sd_inv st"
  show ?thesis
  proof (cases "p < length (sd_heap st)")
    case True
    from Close_resolver_at [OF inv this] obtain cr ap where
      "Close_resolver p st = st\<lparr>sd_heap := (sd_heap st)[p := cr], sd_app := ap\<rparr>" "resolver_ok cr" by metis
    with inv True OpClose show ?thesis by (auto simp: sd_inv_def list_all_update)
  qed (use inv OpClose in auto)
next
  case OpEnd
  assume inv: "sd_inv st"
  have "resolver_ok cr \<Longrightarrow> resolver_ok (end_context cr)" for cr by (simp add: resolver_ok_def end_context_def)
  with inv OpEnd show ?thesis by (auto simp: sd_inv_def list_all_iff)
qed

lemma reached_sd_inv: "sd_inv (fold (run_sd env api) ops (sd_start c ap))"
proof -
  have "sd_inv st \<Longrightarrow> sd_inv (fold (run_sd env api) ops st)" for st
    by (induction ops arbitrary: st) (simp_all add: run_sd_inv)
  moreover have "sd_inv (sd_start c ap)" by (simp add: sd_inv_def sd_start_def)
  ultimately show ?thesis by blast
qed

text \<open>A resolver whose goroutine has ended never changes its addresses.\<close>

definition ended :: "nat \<Rightarrow> string list \<Rightarrow> ('c, 's, 't) sd_state \<Rightarrow> bool" where
  "ended p addrs st \<longleftrightarrow>
     p < length (sd_heap st) \<and> cr_wg (sd_heap st ! p) = 0 \<and> cr_addresses (sd_heap st ! p) = addrs"

lemma run_sd_ended:
  assumes inv: "sd_inv st" and e: "ended p addrs st"
  shows "ended p addrs (run_sd env api x st)"
proof (cases x)
  case (OpNew n a opts)
  show ?thesis
    by (cases rule: NewConsulResolver_cases [of env api n a opts st])
      (use e OpNew in \<open>auto simp: ended_def nth_append\<close>)
next
  case (OpWatch q)
  show ?thesis
  proof (cases "q < length (sd_heap st) \<and> 0 < cr_wg (sd_heap st ! q)")
    case True
    with e have "q \<noteq> p" by (auto simp: ended_def)
    from True sd_invD [OF inv, of q] have "cr_wg (sd_heap st ! q) = 1" by (auto simp: resolver_ok_def)
    with inv True obtain cr where "sd_heap (snd (watch_round api q st)) = (sd_heap st)[q := cr]"
      by (metis watch_round_at snd_conv)
    with e True OpWatch \<open>q \<noteq> p\<close> show ?thesis by (simp add: ended_def)
  qed (use e OpWatch in auto)
next
  case (OpClose q)
  show ?thesis
  proof (cases "q < length (sd_heap st)")
    case True
    from Close_resolver_at [OF inv this] obtain cr ap where
      "Close_resolver q st = st\<lparr>sd_heap := (sd_heap st)[q := cr], sd_app := ap\<rparr>"
      "cr_wg cr = cr_wg (sd_heap st ! q)" "cr_addresses cr = cr_addresses (sd_heap st ! q)" by metis
    with e True OpClose show ?thesis by (cases "q = p") (simp_all add: ended_def)
  qed (use e OpClose in auto)
next
  case OpEnd
  with e show ?thesis by (simp add: ended_def end_context_def)
qed

lemma runs_ended:
  "sd_inv st \<Longrightarrow> ended p addrs st \<Longrightarrow> ended p addrs (fold (run_sd env api) ops st)"
  by (induction ops arbitrary: st) (simp_all add: run_sd_inv run_sd_ended)

lemma run_sd_table:
  assumes "sd_inv st" and "sd_resolvers st k = Some p"
  shows "sd_resolvers (run_sd env api x st) k = Some p"
proof (cases x)
  case (OpNew n a opts)
  with resolver_table.acquire_keeps [OF assms(2), of env api "(n, a, opts)"] show ?thesis
    by (simp add: acquire_resolver_def)
qed (use assms in \<open>auto simp: watch_round_def Close_resolver_def Let_def split: prod.splits\<close>)

lemma runs_table:
  "sd_inv st \<Longrightarrow> sd_resolvers st k = Some p \<Longrightarrow> sd_resolvers (fold (run_sd env api) ops st) k = Some p"
  by (induction ops arbitrary: st) (simp_all add: run_sd_inv run_sd_table)

lemma close_then_watch:
  assumes inv: "sd_inv st" and p: "p < length (sd_heap st)"
  shows "cr_wg (sd_heap (run_sd env api (OpWatch p) (run_sd env api (OpClose p) st)) ! p) = 0"
    and "p < length (sd_heap (run_sd env api (OpWatch p) (run_sd env api (OpClose p) st)))"
proof -
  from Close_resolver_at [OF inv p] obtain cr ap where c:
    "Close_resolver p st = st\<lparr>sd_heap := (sd_heap st)[p := cr], sd_app := ap\<rparr>" "resolver_ok cr"
    "hc_cancelled (cr_httpCtx cr)" by metis
  let ?s = "run_sd env api (OpClose p) st"
  have s: "?s = st\<lparr>sd_heap := (sd_heap st)[p := cr], sd_app := ap\<rparr>" using c p by simp
  have i: "sd_inv ?s" by (rule run_sd_inv [OF inv])
  have l: "p < length (sd_heap ?s)" using s p by simp
  have cr: "sd_heap ?s ! p = cr" using s p by simp
  have "cr_wg (sd_heap (run_sd env api (OpWatch p) ?s) ! p) = 0 \<and> p < length (sd_heap (run_sd env api (OpWatch p) ?s))"
  proof (cases "cr_wg cr = 1")
    case True
    from watch_round_at [OF i l, of api] True cr c(3) obtain cr' where
      "sd_heap (snd (watch_round api p ?s)) = (sd_heap ?s)[p := cr']" "cr_wg cr' = 0" by (metis snd_conv)
    with True cr l show ?thesis by simp
  next
    case False
    with c(2) have "cr_wg cr = 0" by (auto simp: resolver_ok_def)
    with cr l show ?thesis by simp
  qed
  then show "cr_wg (sd_heap (run_sd env api (OpWatch p) ?s) ! p) = 0"
    and "p < length (sd_heap (run_sd env api (OpWatch p) ?s))" by simp_all
qed

section \<open>Properties\<close>

text \<open>
  C22. Round robin is fair: \<open>m\<close> calls for each known address, in a row and with no change of
  the addresses in between, return every address exactly \<open>m\<close> times as often as it is known,
  wherever the turn was, as long as the 64-bit counter does not wrap.
\<close>

theorem round_robin_fair:
  assumes "cr_policy cr \<noteq> RandPolicy" and "cr_addresses cr \<noteq> []"
    and "unat (cr_lbIndex cr) + m * length (cr_addresses cr) < 2 ^ 64" and "0 < m"
  shows "mset (addresses_in_turn rnd (m * length (cr_addresses cr)) (Some cr)) =
         image_mset Inr (repeat_mset m (mset (cr_addresses cr)))"
proof -
  have "length (cr_addresses cr) \<le> m * length (cr_addresses cr)" using assms(4) by simp
  with assms(3) have "length (cr_addresses cr) < 2 ^ 64" by linarith
  with assms have "addresses_in_turn rnd (m * length (cr_addresses cr)) (Some cr) =
      map Inr (map (\<lambda>j. cr_addresses cr ! ((unat (cr_lbIndex cr) + j) mod length (cr_addresses cr)))
        [0..<m * length (cr_addresses cr)])"
    by (simp add: addresses_in_turn_map)
  then show ?thesis using mset_rounds [OF assms(2), of "unat (cr_lbIndex cr)" m]
    by (simp only: mset_map [of Inr])
qed

definition idle_resolver :: "string list \<Rightarrow> 64 word \<Rightarrow> consul_resolver" where
  "idle_resolver addrs i =
     (new_resolver 7 (blank_ctx new_writer sample_req []) (caller_opts ''svc'' []))\<lparr>cr_addresses := addrs, cr_lbIndex := i\<rparr>"

theorem round_robin_fair_witness:
  "mset (addresses_in_turn (\<lambda>n. 0) 4 (Some (idle_resolver [''a:2'', ''b:3''] 5))) =
   replicate_mset 2 (Inr ''a:2'') + replicate_mset 2 (Inr ''b:3'')"
proof -
  let ?r = "idle_resolver [''a:2'', ''b:3''] 5"
  have a: "cr_addresses ?r = [''a:2'', ''b:3'']" "cr_lbIndex ?r = 5" by (simp_all add: idle_resolver_def)
  have "cr_policy ?r \<noteq> RandPolicy"
    by (simp add: idle_resolver_def new_resolver_def caller_opts_def resolver_opts.defs UnknownPolicy_def RandPolicy_def)
  from round_robin_fair [OF this, of 2 "\<lambda>n. 0"]
  show ?thesis by (simp add: a)
qed


text \<open>
  \<open>Close\<close> returns: in any state the package can reach, one turn of the goroutine after
  the cancellation ends it, whatever Consul answers, so that the wait of \<open>Close\<close> is over; and
  if it had ended before, \<open>Close\<close> does not wait.
\<close>

theorem Close_returns:
  assumes "st = fold (run_sd env api) ops (sd_start c ap)" and "p < length (sd_heap st)"
  shows "close_returns p (run_sd env api (OpWatch p) (run_sd env api (OpClose p) st))"
  using close_then_watch(1) [OF reached_sd_inv [of env api ops c ap, folded assms(1)] assms(2), of env api]
  by (simp add: close_returns_def)

text \<open>
  A closed resolver is handed out again: it stays in the table, so every later
  \<open>NewConsulResolver\<close> for its service, address, policy and tags returns it without an error,
  with the addresses it had when its goroutine ended, whatever happens to the service.
\<close>

theorem closed_resolver_is_handed_out:
  assumes "st = fold (run_sd env api) ops (sd_start c ap)"
    and "sd_resolvers st (resolver_key a (caller_opts n opts)) = Some p"
    and "closed = run_sd env api (OpWatch p) (run_sd env api (OpClose p) st)"
    and "later = fold (run_sd env api) ops' closed"
  shows "NewConsulResolver env api n a opts later = (Inr p, later) \<and>
         cr_addresses (sd_heap later ! p) = cr_addresses (sd_heap closed ! p)"
proof -
  have inv: "sd_inv st" using reached_sd_inv [of env api ops c ap] assms(1) by simp
  with assms(2) have p: "p < length (sd_heap st)" by (auto simp: sd_inv_def)
  have inv2: "sd_inv closed" unfolding assms(3) by (intro run_sd_inv inv)
  have "ended p (cr_addresses (sd_heap closed ! p)) closed"
    using close_then_watch [OF inv p, of env api] assms(3) by (simp add: ended_def)
  then have "ended p (cr_addresses (sd_heap closed ! p)) later"
    unfolding assms(4) by (intro runs_ended inv2)
  moreover have "sd_resolvers closed (resolver_key a (caller_opts n opts)) = Some p"
    unfolding assms(3) by (intro run_sd_table run_sd_inv inv assms(2))
  then have "sd_resolvers later (resolver_key a (caller_opts n opts)) = Some p"
    unfolding assms(4) by (intro runs_table inv2)
  ultimately show ?thesis by (simp add: ended_def NewConsulResolver_def Let_def)
qed

text \<open>A Consul that knows one service, whose entries are its state.\<close>

definition mem_consul :: "service_entry list consul_api" where
  "mem_consul =
     \<lparr>ca_NewClient = (\<lambda>a c. (Inr 7, c)),
      ca_Service = (\<lambda>cl n t ok q c. if qo_cancelled q then (Inl (QueryErr True (Errorf ''context canceled'')), c) else (Inr (c, 3), c)),
      ca_ServiceMultipleTags = (\<lambda>cl n t ok q c. if qo_cancelled q then (Inl (QueryErr True (Errorf ''context canceled'')), c) else (Inr (c, 3), c)),
      ca_Agent = (\<lambda>cl call c. (None, c))\<rparr>"

definition sample_sd_env :: sd_env where
  "sample_sd_env = \<lparr>sd_uuid = ''u'', sd_w0 = new_writer, sd_r0 = sample_req\<rparr>"

definition two_entries :: "service_entry list" where
  "two_entries =
     [\<lparr>se_Address = ''10.0.0.2'', se_Port = 80, se_Tags = []\<rparr>, \<lparr>se_Address = ''10.0.0.3'', se_Port = 80, se_Tags = [''v2'']\<rparr>]"

definition one_resolver :: "(service_entry list, string \<Rightarrow> string \<rightharpoonup> string, string) sd_state" where
  "one_resolver = fold (run_sd sample_sd_env mem_consul) [OpNew ''svc'' ''c:8500'' []] (sd_start two_entries sample_app)"

lemma mem_consul_resolver:
  assumes "sd_resolvers st (resolver_key a (caller_opts n opts)) = None"
  shows "fst (NewConsulResolver sample_sd_env mem_consul n a opts st) = Inr (length (sd_heap st))"
proof -
  obtain i st1 where "NewConsulClient mem_consul a (st\<lparr>sd_app := WgAdd (sd_app st)\<rparr>) = (Inr i, st1)"
    by (cases "cs_clients st a") (simp_all add: NewConsulClient_def mem_consul_def)
  moreover from NewConsulClient_frameD [OF this] have "sd_heap st1 = sd_heap st" by simp
  moreover have "resolve_sd mem_consul (new_resolver i (blank_ctx w r t) o1) c =
      (None, (new_resolver i (blank_ctx w r t) o1)
         \<lparr>cr_queryOptions := \<lparr>qo_WaitIndex = 3, qo_cancelled = False\<rparr>, cr_addresses := map entry_address c,
          cr_hasTags := (if c = [] then [] else se_Tags (last c))\<rparr>, c)" for w r t o1 c
    by (simp add: resolve_sd_def mem_consul_def new_resolver_def resolver_opts.defs blank_ctx_def)
  ultimately show ?thesis using assms
    by (simp add: NewConsulResolver_def NewHTTPContext_def Let_def)
qed

lemma one_resolver_fields:
  "length (sd_heap one_resolver) = 1"
  "sd_resolvers one_resolver (resolver_key ''c:8500'' (caller_opts ''svc'' [])) = Some 0"
proof -
  let ?st = "sd_start two_entries sample_app"
  have "sd_resolvers ?st k = None" "sd_heap ?st = []" for k by (simp_all add: sd_start_def)
  then have f: "fst (NewConsulResolver sample_sd_env mem_consul ''svc'' ''c:8500'' [] ?st) = Inr 0"
    using mem_consul_resolver [of ?st] by simp
  have "length (sd_heap (snd (NewConsulResolver sample_sd_env mem_consul ''svc'' ''c:8500'' [] ?st))) = 1 \<and>
      sd_resolvers (snd (NewConsulResolver sample_sd_env mem_consul ''svc'' ''c:8500'' [] ?st))
        (resolver_key ''c:8500'' (caller_opts ''svc'' [])) = Some 0"
    by (cases rule: NewConsulResolver_cases [of sample_sd_env mem_consul "''svc''" "''c:8500''" "[]" ?st])
      (use f in \<open>simp_all add: sd_start_def\<close>)
  then show "length (sd_heap one_resolver) = 1"
    "sd_resolvers one_resolver (resolver_key ''c:8500'' (caller_opts ''svc'' [])) = Some 0"
    by (simp_all add: one_resolver_def)
qed

theorem Close_returns_witness:
  "close_returns 0 (run_sd sample_sd_env mem_consul (OpWatch 0) (run_sd sample_sd_env mem_consul (OpClose 0) one_resolver))"
  by (rule Close_returns [OF one_resolver_def]) (simp add: one_resolver_fields)

theorem closed_resolver_is_handed_out_witness:
  "fst (NewConsulResolver sample_sd_env mem_consul ''svc'' ''c:8500'' []
     (run_sd sample_sd_env mem_consul (OpWatch 0) (run_sd sample_sd_env mem_consul (OpClose 0) one_resolver))) = Inr 0"
  using closed_resolver_is_handed_out [OF one_resolver_def one_resolver_fields(2) refl refl, of "[]"] by simp

end
