(* ===== verification/Resolver.thy ===== *)
theory Resolver
  imports ServiceDiscovery Configs
begin

text \<open>
  \<open>grpc/discovery/resolver\<close>: how a gRPC client learns the addresses of a service. The
  registry of gRPC maps a scheme to a builder, the last one registered; a builder that is
  changed through its pointer is known by its place in a list. A \<open>ClientConn\<close> is a number,
  and what it is told is appended to \<open>rs_told\<close>. The files of etcd need the build tag
  \<open>etcd\<close>; its client library is the record \<open>etcd_api\<close>.
\<close>

section \<open>common.go\<close>

definition StaticResolver :: string where "StaticResolver = ''static''"
definition ConsulResolver :: string where "ConsulResolver = ''consul''"
definition EtcdResolver :: string where "EtcdResolver = ''etcd''"

definition no_addresses :: "grpc_config \<Rightarrow> goerr" where
  "no_addresses c = Errorf (''please specify grpc '' @ gc_ServerName c @ '' Addresses'')"

definition scheme_of :: "grpc_config \<Rightarrow> string \<Rightarrow> string" where
  "scheme_of c a = gc_ResolverType c @ ''_'' @ gc_ServerName c @ ''_'' @ gc_Tag c @ ''_'' @ a"

definition CompleteResolverScheme :: "grpc_config \<Rightarrow> goerr + grpc_config" where
  "CompleteResolverScheme c =
     (if gc_ResolverScheme c = [] then
        (if gc_ResolverType c = StaticResolver then
           (case gc_Addresses c of
              [] \<Rightarrow> Inl (no_addresses c)
            | a # _ \<Rightarrow> Inr (c\<lparr>gc_ResolverScheme := scheme_of c a\<rparr>))
         else
           (case gc_ResolverAddresses c of
              [] \<Rightarrow> Inl (no_addresses c)
            | a # _ \<Rightarrow> Inr (c\<lparr>gc_ResolverScheme := scheme_of c a\<rparr>)))
      else Inr c)"

section \<open>The state\<close>

record static_builder =
  sb_scheme :: string
  sb_serviceName :: string
  sb_addrs :: "string list"

record consul_builder =
  cb_scheme :: string
  cb_address :: string
  cb_client :: nat
  cb_serviceName :: string
  cb_tag :: string
  cb_WaitIndex :: "64 word"

record etcd_builder =
  eb_rawAddr :: "string list"
  eb_cc :: "nat option"
  eb_cli :: "nat option"
  eb_schema :: string

datatype grpc_builder = StaticB static_builder | ConsulB nat | EtcdB nat

text \<open>What a \<open>ClientConn\<close> can be told.\<close>

datatype told = UpdateState "string list" | NewAddress "string list" | NewServiceConfig string

record grpc_resolver =
  gr_clientConn :: nat
  gr_builder :: nat
  gr_cancelled :: bool
  gr_started :: bool \<comment> \<open>\<open>watcher\<close> has called \<open>wg.Done\<close>\<close>
  gr_watching :: bool

record 'c resolver_state = "'c consul_state" +
  rs_registry :: "string \<rightharpoonup> grpc_builder"
  rs_consul :: "consul_builder list"
  rs_etcd :: "etcd_builder list"
  rs_resolvers :: "grpc_resolver list"
  rs_told :: "(nat \<times> told) list"
  rs_ended :: bool \<comment> \<open>the signal context is done\<close>

definition tell :: "nat \<Rightarrow> told \<Rightarrow> ('c, 'z) resolver_state_scheme \<Rightarrow> ('c, 'z) resolver_state_scheme" where
  "tell cc t st = st\<lparr>rs_told := rs_told st @ [(cc, t)]\<rparr>"

section \<open>static.go\<close>

definition NewStaticBuilder :: "string \<Rightarrow> string \<Rightarrow> string list \<Rightarrow> static_builder" where
  "NewStaticBuilder scheme serviceName addrs =
     \<lparr>sb_scheme = scheme, sb_serviceName = serviceName, sb_addrs = addrs\<rparr>"

text \<open>\<open>Build\<close> with \<open>start\<close>: a service of another name has no addresses.\<close>

definition build_static ::
  "static_builder \<Rightarrow> string \<Rightarrow> nat \<Rightarrow> ('c, 'z) resolver_state_scheme \<Rightarrow> ('c, 'z) resolver_state_scheme" where
  "build_static b endpoint cc st =
     (let addrsStore = [sb_serviceName b \<mapsto> sb_addrs b];
          addrs = (case addrsStore endpoint of Some l \<Rightarrow> l | None \<Rightarrow> [])
      in tell cc (UpdateState addrs) st)"

text \<open>
  The tests shared by the three functions that register a builder, with the builder to
  register as an argument. The scheme returned is the one the builder has.
\<close>

type_synonym ('c, 'z) registering =
  "('c, 'z) resolver_state_scheme \<Rightarrow> (goerr + string) outcome \<times> ('c, 'z) resolver_state_scheme"

definition complete_and_register ::
  "grpc_config \<Rightarrow> (grpc_config \<Rightarrow> ('c, 'z) registering) \<Rightarrow> ('c, 'z) registering" where
  "complete_and_register cc register st =
     (case CompleteResolverScheme cc of
        Inl e \<Rightarrow> (Returns (Inl e), st)
      | Inr c \<Rightarrow>
          if rs_registry st (gc_ResolverScheme c) \<noteq> None then (Returns (Inr (gc_ResolverScheme c)), st)
          else register c st)"

definition GenerateAndRegisterStaticResolver :: "grpc_config \<Rightarrow> ('c, 'z) registering" where
  "GenerateAndRegisterStaticResolver cc st =
     (if gc_Addresses cc = [] then (Returns (Inl (Errorf ''GrpcConfig has nil Addresses'')), st)
      else complete_and_register cc
        (\<lambda>c st. let b = NewStaticBuilder (gc_ResolverScheme c) (gc_ServerName c) (gc_Addresses c)
                in (Returns (Inr (sb_scheme b)), st\<lparr>rs_registry := (rs_registry st)(sb_scheme b \<mapsto> StaticB b)\<rparr>)) st)"

section \<open>consul.go\<close>

definition NewConsulBuilder ::
  "'c consul_api \<Rightarrow> string \<Rightarrow> string \<Rightarrow> string \<Rightarrow> ('c, 'z) consul_state_scheme \<Rightarrow>
    consul_builder option \<times> ('c, 'z) consul_state_scheme" where
  "NewConsulBuilder api scheme address tag st =
     (case NewConsulClient api address st of
        (Inl _, st1) \<Rightarrow> (None, st1)
      | (Inr cl, st1) \<Rightarrow>
          (Some \<lparr>cb_scheme = scheme, cb_address = address, cb_client = cl, cb_serviceName = [], cb_tag = tag,
                 cb_WaitIndex = 0\<rparr>, st1))"

text \<open>\<open>resolve\<close> of the builder at \<open>p\<close>.\<close>

definition resolve_grpc ::
  "'c consul_api \<Rightarrow> nat \<Rightarrow> ('c, 'z) resolver_state_scheme \<Rightarrow>
    (goerr + string list) \<times> ('c, 'z) resolver_state_scheme" where
  "resolve_grpc api p st =
     (let cb = rs_consul st ! p in
      case ca_Service api (cb_client cb) (cb_serviceName cb) (cb_tag cb) True
             \<lparr>qo_WaitIndex = cb_WaitIndex cb, qo_cancelled = rs_ended st\<rparr> (cs_srv st) of
        (Inl (QueryErr _ e), c) \<Rightarrow> (Inl e, st\<lparr>cs_srv := c\<rparr>)
      | (Inr (entries, lastIndex), c) \<Rightarrow>
          (Inr (map entry_address entries),
           st\<lparr>cs_srv := c, rs_consul := (rs_consul st)[p := cb\<lparr>cb_WaitIndex := lastIndex\<rparr>]\<rparr>))"

definition build_consul ::
  "'c consul_api \<Rightarrow> nat \<Rightarrow> string \<Rightarrow> nat \<Rightarrow> ('c, 'z) resolver_state_scheme \<Rightarrow>
    (goerr + nat) \<times> ('c, 'z) resolver_state_scheme" where
  "build_consul api p endpoint cc st =
     (let st1 = st\<lparr>rs_consul := (rs_consul st)[p := (rs_consul st ! p)\<lparr>cb_serviceName := endpoint\<rparr>]\<rparr> in
      case resolve_grpc api p st1 of
        (Inl e, st2) \<Rightarrow> (Inl e, st2)
      | (Inr adds, st2) \<Rightarrow>
          (let st3 = tell cc (NewServiceConfig []) (tell cc (NewAddress adds) st2);
               r = \<lparr>gr_clientConn = cc, gr_builder = p, gr_cancelled = rs_ended st, gr_started = False,
                    gr_watching = True\<rparr>
           in (Inr (length (rs_resolvers st3)), st3\<lparr>rs_resolvers := rs_resolvers st3 @ [r]\<rparr>)))"

text \<open>
  One turn of \<open>watcher\<close>, the first with the \<open>wg.Done\<close> before the loop. The channel \<open>rn\<close> is
  never made, so the case that reads it never fires. Every error of a query is skipped.
\<close>

definition watcher_round ::
  "'c consul_api \<Rightarrow> nat \<Rightarrow> ('c, 'z) resolver_state_scheme \<Rightarrow> ('c, 'z) resolver_state_scheme" where
  "watcher_round api i st =
     (let cr = (rs_resolvers st ! i)\<lparr>gr_started := True\<rparr>;
          st0 = st\<lparr>rs_resolvers := (rs_resolvers st)[i := cr]\<rparr>
      in if gr_cancelled cr \<or> rs_ended st then
           st0\<lparr>rs_resolvers := (rs_resolvers st)[i := cr\<lparr>gr_watching := False\<rparr>]\<rparr>
         else case resolve_grpc api (gr_builder cr) st0 of
           (Inl _, st1) \<Rightarrow> st1
         | (Inr adds, st1) \<Rightarrow>
             tell (gr_clientConn cr) (NewServiceConfig []) (tell (gr_clientConn cr) (NewAddress adds) st1))"

text \<open>\<open>Close\<close> cancels and then waits until the goroutine has started.\<close>

definition Close_grpc :: "nat \<Rightarrow> ('c, 'z) resolver_state_scheme \<Rightarrow> ('c, 'z) resolver_state_scheme" where
  "Close_grpc i st = st\<lparr>rs_resolvers := (rs_resolvers st)[i := (rs_resolvers st ! i)\<lparr>gr_cancelled := True\<rparr>]\<rparr>"

text \<open>The builder is registered under the \<open>ResolverType\<close>; \<open>Register(nil)\<close> calls a method of nil.\<close>

definition GenerateAndRegisterConsulResolver :: "'c consul_api \<Rightarrow> grpc_config \<Rightarrow> ('c, 'z) registering" where
  "GenerateAndRegisterConsulResolver api cc st =
     (if gc_ResolverAddresses cc = [] then (Returns (Inl (Errorf ''GrpcConfig has nil ResolverAddresses'')), st)
      else complete_and_register cc
        (\<lambda>c st. case NewConsulBuilder api (gc_ResolverType c) (gc_ResolverAddresses c ! 0) (gc_Tag c) st of
             (None, st1) \<Rightarrow> (Panics nil_deref, st1)
           | (Some b, st1) \<Rightarrow>
               (Returns (Inr (cb_scheme b)),
                st1\<lparr>rs_consul := rs_consul st1 @ [b],
                    rs_registry := (rs_registry st1)(cb_scheme b \<mapsto> ConsulB (length (rs_consul st1)))\<rparr>)) st)"

section \<open>etcd.go\<close>

datatype etcd_event = PUT string | DELETE string

record etcd_api =
  ea_New :: "string list \<Rightarrow> goerr + nat"
  ea_Get :: "nat \<Rightarrow> string \<Rightarrow> goerr + string list" \<comment> \<open>the keys with the prefix\<close>

definition NewEtcdBuilder :: "string \<Rightarrow> string list \<Rightarrow> etcd_builder" where
  "NewEtcdBuilder schema etcdAddrs =
     \<lparr>eb_rawAddr = etcdAddrs, eb_cc = None, eb_cli = None, eb_schema = schema\<rparr>"

definition GenerateAndRegisterEtcdResolver :: "grpc_config \<Rightarrow> ('c, 'z) registering" where
  "GenerateAndRegisterEtcdResolver cc st =
     (if gc_ResolverAddresses cc = [] then (Returns (Inl (Errorf ''GrpcConfig has nil ResolverAddresses'')), st)
      else complete_and_register cc
        (\<lambda>c st. let b = NewEtcdBuilder (gc_ResolverScheme c) (gc_ResolverAddresses c)
                in (Returns (Inr (eb_schema b)),
                    st\<lparr>rs_etcd := rs_etcd st @ [b],
                       rs_registry := (rs_registry st)(eb_schema b \<mapsto> EtcdB (length (rs_etcd st)))\<rparr>)) st)"

definition watch_prefix :: "string \<Rightarrow> string \<Rightarrow> string" where
  "watch_prefix scheme endpoint = ''/'' @ scheme @ ''/'' @ endpoint @ ''/''"

text \<open>\<open>Build\<close> makes the client once and starts \<open>watch\<close>; the result is the prefix it watches.\<close>

definition build_etcd ::
  "etcd_api \<Rightarrow> nat \<Rightarrow> string \<Rightarrow> string \<Rightarrow> nat \<Rightarrow> ('c, 'z) resolver_state_scheme \<Rightarrow>
    (goerr + string) \<times> ('c, 'z) resolver_state_scheme" where
  "build_etcd ea p scheme endpoint cc st =
     (let r = rs_etcd st ! p in
      case (case eb_cli r of Some cli \<Rightarrow> Inr cli | None \<Rightarrow> ea_New ea (eb_rawAddr r)) of
        Inl e \<Rightarrow> (Inl e, st)
      | Inr cli \<Rightarrow>
          (Inr (watch_prefix scheme endpoint),
           st\<lparr>rs_etcd := (rs_etcd st)[p := r\<lparr>eb_cli := Some cli, eb_cc := Some cc\<rparr>]\<rparr>))"

fun exist :: "string list \<Rightarrow> string \<Rightarrow> bool" where
  "exist [] addr = False"
| "exist (a # l) addr = (if a = addr then True else exist l addr)"

text \<open>The first match is overwritten with the last element, which is then cut off.\<close>

fun index_from :: "nat \<Rightarrow> string list \<Rightarrow> string \<Rightarrow> nat option" where
  "index_from i [] addr = None"
| "index_from i (a # l) addr = (if a = addr then Some i else index_from (i + 1) l addr)"

definition remove_addr :: "string list \<Rightarrow> string \<Rightarrow> string list option" where
  "remove_addr s addr =
     (case index_from 0 s addr of
        None \<Rightarrow> None
      | Some i \<Rightarrow> Some (take (length s - 1) (s[i := s ! (length s - 1)])))"

text \<open>The addresses known and those told, after an event.\<close>

fun watch_event :: "string \<Rightarrow> etcd_event \<Rightarrow> string list \<times> string list list \<Rightarrow> string list \<times> string list list" where
  "watch_event keyPrefix (PUT key) (addrList, out) =
     (let addr = trim_prefix key keyPrefix in
      if \<not> exist addrList addr then (addrList @ [addr], out @ [addrList @ [addr]]) else (addrList, out))"
| "watch_event keyPrefix (DELETE key) (addrList, out) =
     (let addr = trim_prefix key keyPrefix in
      case remove_addr addrList addr of
        Some s \<Rightarrow> (s, out @ [s])
      | None \<Rightarrow> (addrList, out))"

definition watch_start :: "string \<Rightarrow> goerr + string list \<Rightarrow> string list \<times> string list list" where
  "watch_start keyPrefix getResp =
     (let addrList = (case getResp of Inl _ \<Rightarrow> [] | Inr keys \<Rightarrow> map (\<lambda>k. trim_prefix k keyPrefix) keys)
      in (addrList, [addrList]))"

text \<open>\<open>watch\<close> over the responses of the channel, each a list of events.\<close>

definition watch_etcd :: "string \<Rightarrow> goerr + string list \<Rightarrow> etcd_event list list \<Rightarrow> string list \<times> string list list" where
  "watch_etcd keyPrefix getResp rch =
     fold (\<lambda>n. fold (watch_event keyPrefix) n) rch (watch_start keyPrefix getResp)"

section \<open>resolver.go\<close>

text \<open>\<open>ResolverFuncMap\<close> after the \<open>init\<close> functions, with and without the build tag.\<close>

definition ResolverFuncMap :: "bool \<Rightarrow> 'c consul_api \<Rightarrow> string \<rightharpoonup> (grpc_config \<Rightarrow> ('c, 'z) registering)" where
  "ResolverFuncMap etcd api =
     [StaticResolver \<mapsto> GenerateAndRegisterStaticResolver,
      ConsulResolver \<mapsto> GenerateAndRegisterConsulResolver api] ++
     (if etcd then [EtcdResolver \<mapsto> GenerateAndRegisterEtcdResolver] else Map.empty)"

definition GetAndRegisterResolver :: "bool \<Rightarrow> 'c consul_api \<Rightarrow> grpc_config \<Rightarrow> ('c, 'z) registering" where
  "GetAndRegisterResolver etcd api cc st =
     (case ResolverFuncMap etcd api (gc_ResolverType cc) of
        Some r \<Rightarrow> r cc st
      | None \<Rightarrow> GenerateAndRegisterStaticResolver (cc\<lparr>gc_ResolverType := StaticResolver\<rparr>) st)"

text \<open>
  What a dial to \<open>scheme:///endpoint\<close> does: the builder of the scheme builds for the endpoint.
  Without one, gRPC dials with its default scheme.
\<close>

definition dial_scheme ::
  "'c consul_api \<Rightarrow> etcd_api \<Rightarrow> string \<Rightarrow> string \<Rightarrow> nat \<Rightarrow> ('c, 'z) resolver_state_scheme \<Rightarrow>
    goerr option \<times> ('c, 'z) resolver_state_scheme" where
  "dial_scheme api ea scheme endpoint cc st =
     (case rs_registry st scheme of
        None \<Rightarrow> (Some (Errorf ''no builder''), st)
      | Some (StaticB b) \<Rightarrow> (None, build_static b endpoint cc st)
      | Some (ConsulB p) \<Rightarrow>
          (case build_consul api p endpoint cc st of (Inl e, st1) \<Rightarrow> (Some e, st1) | (Inr _, st1) \<Rightarrow> (None, st1))
      | Some (EtcdB p) \<Rightarrow>
          (case build_etcd ea p scheme endpoint cc st of (Inl e, st1) \<Rightarrow> (Some e, st1) | (Inr _, st1) \<Rightarrow> (None, st1)))"

section \<open>The addresses of etcd\<close>

lemma exist_iff [simp]: "exist l addr \<longleftrightarrow> addr \<in> set l"
  by (induction l) auto

lemma index_from_None [simp]: "index_from i l addr = None \<longleftrightarrow> addr \<notin> set l"
  by (induction l arbitrary: i) auto

lemma index_from_Some: "index_from i l addr = Some j \<Longrightarrow> i \<le> j \<and> j < i + length l \<and> l ! (j - i) = addr"
proof (induction l arbitrary: i)
  case (Cons a l)
  show ?case
  proof (cases "a = addr")
    case False
    with Cons.prems have "index_from (i + 1) l addr = Some j" by simp
    from Cons.IH [OF this] have j: "i + 1 \<le> j" "j < i + 1 + length l" "l ! (j - (i + 1)) = addr" by auto
    then have "j - i = Suc (j - (i + 1))" by simp
    with j show ?thesis by simp
  qed (use Cons.prems in simp)
qed simp

text \<open>What is left after the swap with the last element is the multiset without one occurrence.\<close>

lemma swap_with_last: "i < length s \<Longrightarrow> mset (take (length s - 1) (s[i := s ! (length s - 1)])) = mset s - {#s ! i#}"
proof (cases s rule: rev_cases)
  case (snoc ys y)
  assume i: "i < length s"
  show ?thesis
  proof (cases "i = length ys")
    case False
    with i snoc have "i < length ys" by simp
    then have "ys ! i \<in># mset ys" by simp
    then have "add_mset y (mset ys) - {#ys ! i#} = add_mset y (mset ys - {#ys ! i#})" by simp
    with \<open>i < length ys\<close> show ?thesis by (simp add: snoc list_update_append nth_append mset_update)
  qed (simp add: snoc)
qed simp

lemma remove_addr_None [simp]: "remove_addr s addr = None \<longleftrightarrow> addr \<notin> set s"
  using index_from_None [of 0 s addr]
  by (auto simp: remove_addr_def simp del: index_from_None split: option.splits)

lemma remove_addr_mset: "remove_addr s addr = Some t \<Longrightarrow> mset t = mset s - {#addr#} \<and> addr \<in> set s"
proof -
  assume r: "remove_addr s addr = Some t"
  then obtain i where i: "index_from 0 s addr = Some i" "t = take (length s - 1) (s[i := s ! (length s - 1)])"
    by (auto simp: remove_addr_def split: option.splits)
  from index_from_Some [OF i(1)] have "i < length s" "s ! i = addr" by auto
  with swap_with_last [of i s] i(2) show ?thesis by auto
qed

lemma remove_addr_distinct:
  assumes "remove_addr s addr = Some t" and "distinct s"
  shows "distinct t \<and> set t = set s - {addr}"
proof -
  from remove_addr_mset [OF assms(1)] have t: "mset t = mset (remove1 addr s)" by simp
  from mset_eq_setD [OF this] mset_eq_imp_distinct_iff [OF this] assms(2) show ?thesis by simp
qed

fun event_key :: "etcd_event \<Rightarrow> string" where
  "event_key (PUT k) = k"
| "event_key (DELETE k) = k"

text \<open>What the events do to the keys that etcd holds under the prefix.\<close>

fun key_event :: "etcd_event \<Rightarrow> string set \<Rightarrow> string set" where
  "key_event (PUT k) ks = insert k ks"
| "key_event (DELETE k) ks = ks - {k}"

definition known_keys :: "string \<Rightarrow> string list \<times> string list list \<Rightarrow> string set" where
  "known_keys keyPrefix s = (\<lambda>a. keyPrefix @ a) ` set (fst s)"

definition told_last :: "string list \<times> string list list \<Rightarrow> bool" where
  "told_last s \<longleftrightarrow> distinct (fst s) \<and> snd s \<noteq> [] \<and> last (snd s) = fst s"

lemma trim_prefix_has: "has_prefix k p \<Longrightarrow> p @ trim_prefix k p = k"
  by (auto simp: has_prefix_iff)

interpretation etcd_watch: simulation "watch_event keyPrefix" key_event "known_keys keyPrefix" told_last
  "\<lambda>e. has_prefix (event_key e) keyPrefix"
proof unfold_locales
  fix e and s :: "string list \<times> string list list"
  assume p: "has_prefix (event_key e) keyPrefix" and i: "told_last s"
  obtain l out where s: "s = (l, out)" by fastforce
  obtain a where a: "event_key e = keyPrefix @ a" using p by (auto simp: has_prefix_iff)
  show "told_last (watch_event keyPrefix e s)"
    by (cases e) (use i s a in \<open>auto simp: told_last_def Let_def dest: remove_addr_distinct split: option.splits\<close>)
  show "known_keys keyPrefix (watch_event keyPrefix e s) = key_event e (known_keys keyPrefix s)"
    by (cases e) (use i s a in \<open>auto simp: told_last_def known_keys_def Let_def dest: remove_addr_distinct split: option.splits\<close>)
qed

lemma fold_concat: "fold (fold f) xss s = fold f (concat xss) s"
  by (induction xss arbitrary: s) simp_all

section \<open>The registry\<close>

lemma CompleteResolverScheme_keeps:
  assumes "CompleteResolverScheme cc = Inr c"
  shows "gc_ResolverType c = gc_ResolverType cc" "gc_ServerName c = gc_ServerName cc"
    "gc_Addresses c = gc_Addresses cc" "gc_Tag c = gc_Tag cc"
    "gc_ResolverAddresses c = gc_ResolverAddresses cc"
  using assms by (auto simp: CompleteResolverScheme_def split: if_splits list.splits)

lemma NewConsulClient_registry [simp]:
  "rs_registry (snd (NewConsulClient api a st)) = rs_registry st"
  "rs_consul (snd (NewConsulClient api a st)) = rs_consul st"
  by (auto simp: NewConsulClient_def split: option.splits prod.splits sum.splits)

lemma NewConsulBuilder_cases:
  obtains (failed) "NewConsulBuilder api s a t st = (None, snd (NewConsulClient api a st))"
  | (made) b where "NewConsulBuilder api s a t st = (Some b, snd (NewConsulClient api a st))"
      "cb_scheme b = s" "cb_address b = a" "cb_tag b = t"
proof (cases "NewConsulClient api a st")
  case (Pair r st1)
  then show ?thesis
    by (cases r) (use failed made in \<open>auto simp: NewConsulBuilder_def\<close>)
qed

lemma complete_and_register_keeps:
  assumes "\<And>c. CompleteResolverScheme cc = Inr c \<Longrightarrow> rs_registry st (gc_ResolverScheme c) = None \<Longrightarrow>
      rs_registry (snd (register c st)) s = Some b"
    and "rs_registry st s = Some b"
  shows "rs_registry (snd (complete_and_register cc register st)) s = Some b"
  using assms by (auto simp: complete_and_register_def split: sum.splits)

text \<open>Registrations keep every scheme but the one that all Consul services share.\<close>

lemma GetAndRegisterResolver_keeps:
  assumes "rs_registry st s = Some b" and "s \<noteq> ConsulResolver"
  shows "rs_registry (snd (GetAndRegisterResolver etcd api cc st)) s = Some b"
proof -
  have static: "rs_registry (snd (GenerateAndRegisterStaticResolver d st)) s = Some b" for d
    using assms(1) unfolding GenerateAndRegisterStaticResolver_def
    by (auto intro!: complete_and_register_keeps simp: NewStaticBuilder_def)
  have etcd: "rs_registry (snd (GenerateAndRegisterEtcdResolver d st)) s = Some b" for d
    using assms(1) unfolding GenerateAndRegisterEtcdResolver_def
    by (auto intro!: complete_and_register_keeps simp: NewEtcdBuilder_def)
  have consul: "rs_registry (snd (GenerateAndRegisterConsulResolver api d st)) s = Some b"
    if "gc_ResolverType d = ConsulResolver" for d
  proof -
    have "rs_registry (snd (case NewConsulBuilder api (gc_ResolverType c) (gc_ResolverAddresses c ! 0) (gc_Tag c) st of
             (None, st1) \<Rightarrow> (Panics nil_deref, st1)
           | (Some b, st1) \<Rightarrow>
               (Returns (Inr (cb_scheme b)),
                st1\<lparr>rs_consul := rs_consul st1 @ [b],
                    rs_registry := (rs_registry st1)(cb_scheme b \<mapsto> ConsulB (length (rs_consul st1)))\<rparr>))) s = Some b"
      if "CompleteResolverScheme d = Inr c" for c
      using CompleteResolverScheme_keeps(1) [OF that] \<open>gc_ResolverType d = ConsulResolver\<close>
      by (cases rule: NewConsulBuilder_cases [of api "gc_ResolverType c" "gc_ResolverAddresses c ! 0" "gc_Tag c" st])
        (auto simp: assms)
    then show ?thesis
      unfolding GenerateAndRegisterConsulResolver_def
      by (auto intro!: complete_and_register_keeps simp: assms)
  qed
  show ?thesis
    by (auto simp: GetAndRegisterResolver_def ResolverFuncMap_def map_add_def static etcd consul
        split: option.splits if_splits)
qed

definition register_all ::
  "bool \<Rightarrow> 'c consul_api \<Rightarrow> grpc_config list \<Rightarrow> ('c, 'z) resolver_state_scheme \<Rightarrow> ('c, 'z) resolver_state_scheme" where
  "register_all etcd api ccs st = fold (\<lambda>cc st. snd (GetAndRegisterResolver etcd api cc st)) ccs st"

lemma register_all_keeps:
  "rs_registry st s = Some b \<Longrightarrow> s \<noteq> ConsulResolver \<Longrightarrow> rs_registry (register_all etcd api ccs st) s = Some b"
  unfolding register_all_def by (induction ccs arbitrary: st) (simp_all add: GetAndRegisterResolver_keeps)

lemma register_consul:
  assumes "gc_ResolverType cc = ConsulResolver" and "CompleteResolverScheme cc = Inr c"
    and "rs_registry st (gc_ResolverScheme c) = None"
    and "GetAndRegisterResolver etcd api cc st = (Returns (Inr s), st')"
  shows "s = ConsulResolver \<and>
         (\<exists>p. rs_registry st' = (rs_registry st)(ConsulResolver \<mapsto> ConsulB p) \<and> p < length (rs_consul st') \<and>
            cb_address (rs_consul st' ! p) = hd (gc_ResolverAddresses cc) \<and> cb_tag (rs_consul st' ! p) = gc_Tag cc)"
proof -
  note k = CompleteResolverScheme_keeps [OF assms(2)]
  have f: "GetAndRegisterResolver etcd api cc = GenerateAndRegisterConsulResolver api cc"
    by (auto simp: GetAndRegisterResolver_def ResolverFuncMap_def map_add_def assms(1) ConsulResolver_def
        EtcdResolver_def StaticResolver_def fun_eq_iff)
  have ne: "gc_ResolverAddresses cc \<noteq> []"
    using assms(4) unfolding f by (auto simp: GenerateAndRegisterConsulResolver_def)
  show ?thesis
  proof (cases rule: NewConsulBuilder_cases [of api "gc_ResolverType c" "gc_ResolverAddresses c ! 0" "gc_Tag c" st])
    case failed
    with assms(2,3,4) ne show ?thesis
      unfolding f by (simp add: GenerateAndRegisterConsulResolver_def complete_and_register_def)
  next
    case (made b)
    let ?st = "snd (NewConsulClient api (gc_ResolverAddresses c ! 0) st)"
    have "s = ConsulResolver" and "st' = ?st\<lparr>rs_consul := rs_consul ?st @ [b],
        rs_registry := (rs_registry ?st)(ConsulResolver \<mapsto> ConsulB (length (rs_consul ?st)))\<rparr>"
      using assms made(1,2) ne k(1)
      unfolding f by (simp_all add: GenerateAndRegisterConsulResolver_def complete_and_register_def)
    with made ne k show ?thesis by (auto simp: hd_conv_nth)
  qed
qed

section \<open>Properties\<close>

text \<open>
  C24. The addresses told to gRPC are those in etcd: after the keys of the first answer and any
  events, in any number of responses, the addresses told last are distinct, and with the prefix
  they are exactly the keys that are left when every \<open>PUT\<close> adds and every \<open>DELETE\<close> takes
  its key away.
\<close>

theorem etcd_watch_refines:
  assumes "distinct keys" and "\<forall>k \<in> set keys. has_prefix k keyPrefix"
    and "\<forall>n \<in> set rch. \<forall>e \<in> set n. has_prefix (event_key e) keyPrefix"
  shows "distinct (fst (watch_etcd keyPrefix (Inr keys) rch)) \<and>
         last (snd (watch_etcd keyPrefix (Inr keys) rch)) = fst (watch_etcd keyPrefix (Inr keys) rch) \<and>
         (\<lambda>a. keyPrefix @ a) ` set (fst (watch_etcd keyPrefix (Inr keys) rch)) =
           fold (fold key_event) rch (set keys)"
proof -
  let ?s = "watch_start keyPrefix (Inr keys)"
  have inj: "inj_on (\<lambda>k. trim_prefix k keyPrefix) (set keys)"
    using assms(2) by (intro inj_onI) (metis trim_prefix_has)
  have start: "told_last ?s"
    using assms(1) inj by (simp add: watch_start_def told_last_def distinct_map Let_def)
  have known: "known_keys keyPrefix ?s = set keys"
    using assms(2) by (force simp: known_keys_def watch_start_def trim_prefix_has image_image Let_def)
  have ok: "\<forall>e \<in> set (concat rch). has_prefix (event_key e) keyPrefix" using assms(3) by auto
  have w: "watch_etcd keyPrefix (Inr keys) rch = fold (watch_event keyPrefix) (concat rch) ?s"
    by (simp add: watch_etcd_def fold_concat)
  from etcd_watch.inv_run [OF ok start] etcd_watch.repr_run [OF ok start] show ?thesis
    unfolding w fold_concat known by (simp add: told_last_def known_keys_def)
qed

theorem etcd_watch_refines_witness:
  "(\<lambda>a. ''/s/'' @ a) ` set (fst (watch_etcd ''/s/'' (Inr [''/s/a'', ''/s/b'', ''/s/c''])
     [[DELETE ''/s/a''], [PUT ''/s/d'', DELETE ''/s/x'']])) = {''/s/b'', ''/s/c'', ''/s/d''}"
  using etcd_watch_refines [of "[''/s/a'', ''/s/b'', ''/s/c'']" "''/s/''"
      "[[DELETE ''/s/a''], [PUT ''/s/d'', DELETE ''/s/x'']]"] by auto

text \<open>
  A static service is dialled at its own addresses: once its resolver is registered,
  whatever resolvers are registered afterwards, of this or another kind, a dial to the scheme that
  was returned and the name of the service tells the connection exactly the configured addresses.
\<close>

theorem static_service_resolves:
  assumes "gc_ResolverType cc = StaticResolver" and "CompleteResolverScheme cc = Inr c"
    and "gc_Addresses cc \<noteq> []" and "rs_registry st (gc_ResolverScheme c) = None"
    and "gc_ResolverScheme c \<noteq> ConsulResolver"
    and "st1 = snd (GetAndRegisterResolver etcd api cc st)" and "st2 = register_all etcd api later st1"
  shows "fst (GetAndRegisterResolver etcd api cc st) = Returns (Inr (gc_ResolverScheme c)) \<and>
         dial_scheme api ea (gc_ResolverScheme c) (gc_ServerName cc) conn st2 =
           (None, tell conn (UpdateState (gc_Addresses cc)) st2)"
proof -
  note k = CompleteResolverScheme_keeps [OF assms(2)]
  have f: "GetAndRegisterResolver etcd api cc = GenerateAndRegisterStaticResolver cc"
    by (auto simp: GetAndRegisterResolver_def ResolverFuncMap_def map_add_def assms(1) ConsulResolver_def
        EtcdResolver_def StaticResolver_def fun_eq_iff)
  have r: "GetAndRegisterResolver etcd api cc st = (Returns (Inr (gc_ResolverScheme c)),
      st\<lparr>rs_registry := (rs_registry st)(gc_ResolverScheme c \<mapsto>
        StaticB (NewStaticBuilder (gc_ResolverScheme c) (gc_ServerName c) (gc_Addresses c)))\<rparr>)"
    unfolding f using assms(2,3,4)
    by (simp add: GenerateAndRegisterStaticResolver_def complete_and_register_def NewStaticBuilder_def)
  then have "rs_registry st2 (gc_ResolverScheme c) =
      Some (StaticB (NewStaticBuilder (gc_ResolverScheme c) (gc_ServerName c) (gc_Addresses c)))"
    unfolding assms(6,7) by (intro register_all_keeps assms(5)) simp
  with r show ?thesis by (simp add: dial_scheme_def build_static_def NewStaticBuilder_def k)
qed

definition static_config :: "string \<Rightarrow> string list \<Rightarrow> grpc_config" where
  "static_config name addrs =
     \<lparr>gc_ServerName = name, gc_Tag = [], gc_ResolverType = StaticResolver, gc_ResolverScheme = [],
      gc_ResolverAddresses = [], gc_BalancerName = [], gc_Addresses = addrs, gc_CertFile = [], gc_IsAuth = False\<rparr>"

definition consul_config :: "string \<Rightarrow> string \<Rightarrow> string \<Rightarrow> grpc_config" where
  "consul_config name tag addr =
     (static_config name [])\<lparr>gc_Tag := tag, gc_ResolverType := ConsulResolver, gc_ResolverAddresses := [addr]\<rparr>"

lemma consul_config_fields [simp]:
  "gc_ResolverType (consul_config n t a) = ConsulResolver" "gc_ServerName (consul_config n t a) = n"
  "gc_Tag (consul_config n t a) = t" "gc_ResolverAddresses (consul_config n t a) = [a]"
  "gc_ResolverScheme (consul_config n t a) = []"
  by (simp_all add: consul_config_def static_config_def)

definition no_resolvers :: "service_entry list resolver_state" where
  "no_resolvers =
     \<lparr>cs_clients = Map.empty, cs_srv = two_entries, rs_registry = Map.empty, rs_consul = [], rs_etcd = [],
      rs_resolvers = [], rs_told = [], rs_ended = False\<rparr>"

definition no_etcd :: etcd_api where
  "no_etcd = \<lparr>ea_New = (\<lambda>_. Inl (Errorf ''no etcd'')), ea_Get = (\<lambda>_ _. Inr [])\<rparr>"

theorem static_service_resolves_witness:
  "rs_told (snd (dial_scheme mem_consul no_etcd ''static_user__h:2'' ''user'' 5
     (register_all False mem_consul [consul_config ''order'' ''v2'' ''c:8500'']
       (snd (GetAndRegisterResolver False mem_consul (static_config ''user'' [''h:2'', ''h:3'']) no_resolvers))))) =
   rs_told (register_all False mem_consul [consul_config ''order'' ''v2'' ''c:8500'']
       (snd (GetAndRegisterResolver False mem_consul (static_config ''user'' [''h:2'', ''h:3'']) no_resolvers))) @
     [(5, UpdateState [''h:2'', ''h:3''])]"
proof -
  have "CompleteResolverScheme (static_config ''user'' [''h:2'', ''h:3'']) =
      Inr ((static_config ''user'' [''h:2'', ''h:3''])\<lparr>gc_ResolverScheme := ''static_user__h:2''\<rparr>)"
    by (simp add: CompleteResolverScheme_def static_config_def scheme_of_def StaticResolver_def)
  from static_service_resolves [OF _ this _ _ _ refl refl, where st = no_resolvers and api = mem_consul
      and ea = no_etcd and conn = 5 and etcd = False and later = "[consul_config ''order'' ''v2'' ''c:8500'']"]
  show ?thesis by (simp add: static_config_def no_resolvers_def ConsulResolver_def tell_def)
qed

text \<open>
  All Consul services share one scheme: when two services are registered, whatever
  their names, tags and Consul servers, both are told to dial \<open>consul\<close>, and the builder that
  answers there is the one of the second, so that a dial of the first asks the Consul and the tag of
  the second.
\<close>

theorem consul_services_share_a_builder:
  assumes "gc_ResolverType a = ConsulResolver" and "CompleteResolverScheme a = Inr ca"
    and "gc_ResolverType b = ConsulResolver" and "CompleteResolverScheme b = Inr cb"
    and "rs_registry st (gc_ResolverScheme ca) = None" and "rs_registry st1 (gc_ResolverScheme cb) = None"
    and "GetAndRegisterResolver etcd api a st = (Returns (Inr sa), st1)"
    and "GetAndRegisterResolver etcd api b st1 = (Returns (Inr sb), st2)"
  shows "sa = sb \<and>
         (\<exists>p. rs_registry st2 sa = Some (ConsulB p) \<and>
            cb_address (rs_consul st2 ! p) = hd (gc_ResolverAddresses b) \<and> cb_tag (rs_consul st2 ! p) = gc_Tag b \<and>
            dial_scheme api ea sa (gc_ServerName a) conn st2 =
              (case build_consul api p (gc_ServerName a) conn st2 of (Inl e, s) \<Rightarrow> (Some e, s) | (Inr _, s) \<Rightarrow> (None, s)))"
proof -
  from register_consul [OF assms(1,2,5,7)] have "sa = ConsulResolver" by simp
  moreover from register_consul [OF assms(3,4,6,8)] obtain p where
    "sb = ConsulResolver" "rs_registry st2 = (rs_registry st1)(ConsulResolver \<mapsto> ConsulB p)"
    "cb_address (rs_consul st2 ! p) = hd (gc_ResolverAddresses b)" "cb_tag (rs_consul st2 ! p) = gc_Tag b" by auto
  ultimately show ?thesis by (simp add: dial_scheme_def)
qed

theorem consul_services_share_a_builder_witness:
  "\<exists>p. rs_registry (register_all False mem_consul [consul_config ''user'' [] ''c:8500'', consul_config ''order'' ''v2'' ''d:8500'']
        no_resolvers) ConsulResolver = Some (ConsulB p) \<and>
     cb_tag (rs_consul (register_all False mem_consul
        [consul_config ''user'' [] ''c:8500'', consul_config ''order'' ''v2'' ''d:8500''] no_resolvers) ! p) = ''v2''"
proof -
  let ?a = "consul_config ''user'' [] ''c:8500''" and ?b = "consul_config ''order'' ''v2'' ''d:8500''"
  let ?st1 = "snd (GetAndRegisterResolver False mem_consul ?a no_resolvers)"
  have r: "GetAndRegisterResolver False mem_consul (consul_config n t c) st =
      (Returns (Inr ConsulResolver), snd (GetAndRegisterResolver False mem_consul (consul_config n t c) st))"
    if "rs_registry st (scheme_of (consul_config n t c) c) = None" for n t c st
    using that
    by (simp add: GetAndRegisterResolver_def ResolverFuncMap_def
        GenerateAndRegisterConsulResolver_def complete_and_register_def CompleteResolverScheme_def
        ConsulResolver_def StaticResolver_def EtcdResolver_def NewConsulBuilder_def NewConsulClient_def
        mem_consul_def split: option.splits)
  have cs: "CompleteResolverScheme (consul_config n t c) =
      Inr ((consul_config n t c)\<lparr>gc_ResolverScheme := scheme_of (consul_config n t c) c\<rparr>)" for n t c
    by (simp add: CompleteResolverScheme_def ConsulResolver_def StaticResolver_def)
  have n0: "rs_registry no_resolvers k = None" for k by (simp add: no_resolvers_def)
  have ra: "GetAndRegisterResolver False mem_consul ?a no_resolvers = (Returns (Inr ConsulResolver), ?st1)"
    by (rule r) (rule n0)
  have n1: "rs_registry ?st1 (scheme_of ?b ''d:8500'') = None"
    using register_consul [OF _ cs _ ra] by (auto simp: n0 scheme_of_def ConsulResolver_def)
  have rb: "GetAndRegisterResolver False mem_consul ?b ?st1 =
      (Returns (Inr ConsulResolver), snd (GetAndRegisterResolver False mem_consul ?b ?st1))"
    by (rule r) (rule n1)
  show ?thesis
    using consul_services_share_a_builder [OF _ cs _ cs _ _ ra rb, where ea = no_etcd and conn = 5]
    by (simp add: n0 n1 register_all_def) blast
qed

end
