(* ===== verification/Register.thy ===== *)
theory Register
  imports Resolver ServerAddress
begin

text \<open>
  \<open>grpc/discovery/register.go\<close> and \<open>register/\<close>: how a server announces itself to Consul or
  etcd. The goroutine that keeps a registration alive is a function of the list of what its
  select receives. The files of etcd need the build tag \<open>etcd\<close>; \<open>register/etcd.go\<close> reads a
  field \<open>ServiceID\<close> where the structure has \<open>ServerId\<close>, and is modelled with the latter.
\<close>

section \<open>common/register.go\<close>

record register_info =
  ri_Host :: string
  ri_Port :: int
  ri_ServerName :: string
  ri_ServerId :: string
  ri_UpdateInterval :: int
  ri_Tags :: "string list"

text \<open>The client library of etcd over a state of its own; a client and a lease are numbers.\<close>

record 'e etcd_kv =
  ek_New :: "string list \<Rightarrow> goerr + nat"
  ek_Count :: "nat \<Rightarrow> string \<Rightarrow> 'e \<Rightarrow> (goerr + nat) \<times> 'e"
  ek_Grant :: "nat \<Rightarrow> int \<Rightarrow> 'e \<Rightarrow> (goerr + nat) \<times> 'e"
  ek_Put :: "nat \<Rightarrow> string \<Rightarrow> string \<Rightarrow> nat \<Rightarrow> 'e \<Rightarrow> goerr option \<times> 'e"
  ek_KeepAlive :: "nat \<Rightarrow> nat \<Rightarrow> 'e \<Rightarrow> goerr option \<times> 'e"
  ek_Delete :: "nat \<Rightarrow> string \<Rightarrow> 'e \<Rightarrow> goerr option \<times> 'e"

record ('c, 'e) reg_env =
  re_consul :: "'c consul_api"
  re_etcd :: "'e etcd_kv"
  re_net :: net_env
  re_with_etcd :: bool

record ('c, 'e) reg_state = "'c consul_state" +
  rg_etcd :: 'e
  rg_wg :: int \<comment> \<open>the wait group of the signal context\<close>
  rg_ended :: bool \<comment> \<open>the signal context is done\<close>

definition wg_change :: "int \<Rightarrow> ('c, 'e) reg_state \<Rightarrow> ('c, 'e) reg_state" where
  "wg_change d st = st\<lparr>rg_wg := rg_wg st + d\<rparr>"

text \<open>What the select of a goroutine that keeps a registration alive receives.\<close>

datatype beat = Tick | SignalDone | OwnDone

section \<open>register/consul.go\<close>

record consul_register =
  cg_target :: string
  cg_ttl :: int
  cg_client :: "nat option"
  cg_cancelled :: "bool option" \<comment> \<open>\<open>None\<close>: \<open>ctx\<close> and \<open>cancel\<close> are nil\<close>
  cg_serviceID :: string
  cg_serverName :: string

definition NewConsulRegister :: "string list \<Rightarrow> int \<Rightarrow> consul_register" where
  "NewConsulRegister target ttl =
     \<lparr>cg_target = target ! 0, cg_ttl = ttl, cg_client = None, cg_cancelled = None, cg_serviceID = [],
      cg_serverName = []\<rparr>"

definition generateServiceId :: "string \<Rightarrow> string \<Rightarrow> string \<Rightarrow> int \<Rightarrow> string" where
  "generateServiceId hostname name host port = host @ ''-'' @ int_dec port @ ''-'' @ hostname"

definition agent ::
  "('c, 'e) reg_env \<Rightarrow> nat \<Rightarrow> agent_call \<Rightarrow> ('c, 'e) reg_state \<Rightarrow> goerr option \<times> ('c, 'e) reg_state" where
  "agent env cl call st = (let (e, c) = ca_Agent (re_consul env) cl call (cs_srv st) in (e, st\<lparr>cs_srv := c\<rparr>))"

text \<open>The identifier, and the two calls of \<open>Register\<close>.\<close>

definition service_id :: "('c, 'e) reg_env \<Rightarrow> register_info \<Rightarrow> string" where
  "service_id env info =
     (if ri_ServerId info = [] then
        generateServiceId (ne_hostname (re_net env)) (ri_ServerName info) (ri_Host info) (ri_Port info)
      else ri_ServerId info)"

definition service_registration :: "('c, 'e) reg_env \<Rightarrow> register_info \<Rightarrow> agent_call" where
  "service_registration env info =
     ServiceRegister (service_id env info) (ri_ServerName info) (ri_Tags info) (ri_Port info) (ri_Host info)"

definition check_registration :: "('c, 'e) reg_env \<Rightarrow> int \<Rightarrow> register_info \<Rightarrow> agent_call" where
  "check_registration env ttl info =
     CheckRegister (service_id env info) (ri_ServerName info) (service_id env info) (int_dec ttl @ ''s'') ''passing''"

definition Register_consul ::
  "('c, 'e) reg_env \<Rightarrow> register_info \<Rightarrow> consul_register \<Rightarrow> ('c, 'e) reg_state \<Rightarrow>
    goerr option \<times> consul_register \<times> ('c, 'e) reg_state" where
  "Register_consul env info cr st =
     (let cr = cr\<lparr>cg_cancelled := Some (rg_ended st), cg_serverName := ri_ServerName info\<rparr> in
      case NewConsulClient (re_consul env) (cg_target cr) st of
        (Inl e, st1) \<Rightarrow>
          (Some (Errorf (''create consul client error: '' @ err_text e)), cr\<lparr>cg_client := None\<rparr>, st1)
      | (Inr cl, st1) \<Rightarrow>
          (let cr = cr\<lparr>cg_client := Some cl, cg_serviceID := service_id env info\<rparr> in
           case agent env cl (service_registration env info) st1 of
             (Some e, st2) \<Rightarrow> (Some (Errorf (''register service to consul error: '' @ err_text e)), cr, st2)
           | (None, st2) \<Rightarrow>
               (case agent env cl (check_registration env (cg_ttl cr) info) st2 of
                  (Some e, st3) \<Rightarrow>
                    (Some (Errorf (''initial register service check to consul error: '' @ err_text e)), cr, st3)
                | (None, st3) \<Rightarrow> (None, cr, wg_change 1 st3))))"

text \<open>
  The goroutine of \<open>Register\<close>: \<open>NewTicker\<close> refuses an interval that is not positive. The
  result tells whether the loop has ended, and the register, which the goroutine may cancel.
\<close>

fun ttl_loop ::
  "('c, 'e) reg_env \<Rightarrow> nat \<Rightarrow> beat list \<Rightarrow> consul_register \<Rightarrow> ('c, 'e) reg_state \<Rightarrow>
    bool \<times> consul_register \<times> ('c, 'e) reg_state" where
  "ttl_loop env cl [] cr st = (False, cr, snd (agent env cl (UpdateTTL (cg_serviceID cr) [] ''passing'') st))"
| "ttl_loop env cl (b # bs) cr st =
     (let st1 = snd (agent env cl (UpdateTTL (cg_serviceID cr) [] ''passing'') st) in
      case b of
        SignalDone \<Rightarrow> (True, cr\<lparr>cg_cancelled := Some True\<rparr>, st1)
      | OwnDone \<Rightarrow> (True, cr, st1)
      | Tick \<Rightarrow> ttl_loop env cl bs cr st1)"

definition keep_ttl ::
  "('c, 'e) reg_env \<Rightarrow> nat \<Rightarrow> int \<Rightarrow> beat list \<Rightarrow> consul_register \<Rightarrow> ('c, 'e) reg_state \<Rightarrow>
    (bool \<times> consul_register \<times> ('c, 'e) reg_state) outcome" where
  "keep_ttl env cl interval bs cr st =
     (if i64 (interval * 10 ^ 9) \<le> 0 then Panics (PanicErr (Errorf ''non-positive interval for NewTicker''))
      else Returns (ttl_loop env cl bs cr st))"

text \<open>
  The deferred function lowers the wait group and cancels; without a client the first call
  panics before it runs, and without a context \<open>cancel\<close> is nil.
\<close>

definition UnRegister_consul ::
  "('c, 'e) reg_env \<Rightarrow> consul_register \<Rightarrow> ('c, 'e) reg_state \<Rightarrow>
    goerr option outcome \<times> consul_register \<times> ('c, 'e) reg_state" where
  "UnRegister_consul env cr st =
     (let (r, st1) =
        (case cg_client cr of
           None \<Rightarrow> (Panics nil_deref, st)
         | Some cl \<Rightarrow>
             (case agent env cl (ServiceDeregister (cg_serviceID cr)) st of
                (Some e, st1) \<Rightarrow> (Returns (Some (Errorf (''deregister service error: '' @ err_text e))), st1)
              | (None, st1) \<Rightarrow>
                  (case agent env cl (CheckDeregister (cg_serviceID cr)) st1 of
                     (Some e, st2) \<Rightarrow> (Returns (Some (Errorf (''deregister check error: '' @ err_text e))), st2)
                   | (None, st2) \<Rightarrow> (Returns None, st2))));
          st2 = wg_change (- 1) st1
      in case cg_cancelled cr of
           None \<Rightarrow> (Panics nil_deref, cr, st2)
         | Some _ \<Rightarrow> (r, cr\<lparr>cg_cancelled := Some True\<rparr>, st2))"

section \<open>register/etcd.go\<close>

record etcd_register =
  et_target :: "string list"
  et_ttl :: int
  et_key :: string
  et_addr :: string
  et_client :: "nat option"
  et_cancelled :: bool

definition NewEtcdRegister :: "bool \<Rightarrow> string list \<Rightarrow> int \<Rightarrow> etcd_register" where
  "NewEtcdRegister over target ttl =
     \<lparr>et_target = target, et_ttl = ttl, et_key = [], et_addr = [], et_client = None, et_cancelled = over\<rparr>"

definition etcd_key :: "string \<Rightarrow> string \<Rightarrow> string" where
  "etcd_key serverName addr = ''/'' @ (EtcdResolver @ ''_'' @ serverName) @ ''/'' @ serverName @ ''/'' @ addr"

definition Register_etcd ::
  "('c, 'e) reg_env \<Rightarrow> register_info \<Rightarrow> etcd_register \<Rightarrow> ('c, 'e) reg_state \<Rightarrow>
    goerr option \<times> etcd_register \<times> ('c, 'e) reg_state" where
  "Register_etcd env info er st =
     (case (case et_client er of Some cl \<Rightarrow> Inr cl | None \<Rightarrow> ek_New (re_etcd env) (et_target er)) of
        Inl e \<Rightarrow> (Some e, er, st)
      | Inr cl \<Rightarrow>
          (let addr = ri_Host info @ '':'' @ int_dec (ri_Port info) in
           (None,
            er\<lparr>et_client := Some cl, et_addr := addr,
               et_key := (if ri_ServerId info = [] then etcd_key (ri_ServerName info) addr else ri_ServerId info)\<rparr>,
            wg_change 1 st)))"

definition withAlive :: "'e etcd_kv \<Rightarrow> nat \<Rightarrow> etcd_register \<Rightarrow> 'e \<Rightarrow> goerr option \<times> 'e" where
  "withAlive ek cl er s =
     (case ek_Grant ek cl (et_ttl er) s of
        (Inl e, s1) \<Rightarrow> (Some e, s1)
      | (Inr lease, s1) \<Rightarrow>
          (case ek_Put ek cl (et_key er) (et_addr er) lease s1 of
             (Some e, s2) \<Rightarrow> (Some e, s2)
           | (None, s2) \<Rightarrow> ek_KeepAlive ek cl lease s2))"

text \<open>One turn of the goroutine, up to its select: errors are logged.\<close>

definition alive_turn :: "'e etcd_kv \<Rightarrow> nat \<Rightarrow> etcd_register \<Rightarrow> 'e \<Rightarrow> 'e" where
  "alive_turn ek cl er s =
     (case ek_Count ek cl (et_key er) s of
        (Inl _, s1) \<Rightarrow> s1
      | (Inr n, s1) \<Rightarrow> if n = 0 then snd (withAlive ek cl er s1) else s1)"

fun alive_loop :: "'e etcd_kv \<Rightarrow> nat \<Rightarrow> beat list \<Rightarrow> etcd_register \<Rightarrow> 'e \<Rightarrow> bool \<times> etcd_register \<times> 'e" where
  "alive_loop ek cl [] er s = (False, er, alive_turn ek cl er s)"
| "alive_loop ek cl (b # bs) er s =
     (let s1 = alive_turn ek cl er s in
      case b of
        SignalDone \<Rightarrow> (True, er\<lparr>et_cancelled := True\<rparr>, s1)
      | OwnDone \<Rightarrow> (True, er, s1)
      | Tick \<Rightarrow> alive_loop ek cl bs er s1)"

definition UnRegister_etcd ::
  "('c, 'e) reg_env \<Rightarrow> etcd_register \<Rightarrow> ('c, 'e) reg_state \<Rightarrow> goerr option \<times> etcd_register \<times> ('c, 'e) reg_state" where
  "UnRegister_etcd env er st =
     (case et_client er of
        None \<Rightarrow> (None, er, st)
      | Some cl \<Rightarrow>
          (let (e, s) = ek_Delete (re_etcd env) cl (et_key er) (rg_etcd st)
           in (e, er\<lparr>et_cancelled := True\<rparr>, wg_change (- 1) (st\<lparr>rg_etcd := s\<rparr>))))"

section \<open>register.go\<close>

text \<open>The values of the interface \<open>Register\<close>, and \<open>RegisterFuncMap\<close> after the \<open>init\<close> functions.\<close>

datatype server_register = ConsulReg consul_register | EtcdReg etcd_register

definition RegisterFuncMap :: "('c, 'e) reg_env \<Rightarrow> bool \<Rightarrow> string \<rightharpoonup> (string list \<Rightarrow> int \<Rightarrow> server_register)" where
  "RegisterFuncMap env over =
     [ConsulResolver \<mapsto> (\<lambda>target ttl. ConsulReg (NewConsulRegister target ttl))] ++
     (if re_with_etcd env then [EtcdResolver \<mapsto> (\<lambda>target ttl. EtcdReg (NewEtcdRegister over target ttl))]
      else Map.empty)"

fun Register_any ::
  "('c, 'e) reg_env \<Rightarrow> register_info \<Rightarrow> server_register \<Rightarrow> ('c, 'e) reg_state \<Rightarrow>
    goerr option \<times> server_register \<times> ('c, 'e) reg_state" where
  "Register_any env info (ConsulReg cr) st =
     (case Register_consul env info cr st of (e, cr', st') \<Rightarrow> (e, ConsulReg cr', st'))"
| "Register_any env info (EtcdReg er) st =
     (case Register_etcd env info er st of (e, er', st') \<Rightarrow> (e, EtcdReg er', st'))"

fun UnRegister_any ::
  "('c, 'e) reg_env \<Rightarrow> server_register \<Rightarrow> ('c, 'e) reg_state \<Rightarrow> goerr option outcome \<times> ('c, 'e) reg_state" where
  "UnRegister_any env (ConsulReg cr) st = (case UnRegister_consul env cr st of (r, _, st') \<Rightarrow> (r, st'))"
| "UnRegister_any env (EtcdReg er) st = (case UnRegister_etcd env er st of (e, _, st') \<Rightarrow> (Returns e, st'))"

definition register_info_of :: "server_config \<Rightarrow> string \<Rightarrow> int \<Rightarrow> register_info" where
  "register_info_of cc host port =
     \<lparr>ri_Host = host, ri_Port = port, ri_ServerName = sv_ServerName cc, ri_ServerId = [],
      ri_UpdateInterval = sv_UpdateInterval cc, ri_Tags = sv_Tags cc\<rparr>"

definition RegisterServer ::
  "('c, 'e) reg_env \<Rightarrow> server_config \<Rightarrow> string \<Rightarrow> ('c, 'e) reg_state \<Rightarrow>
    (server_register option \<times> goerr option) \<times> ('c, 'e) reg_state" where
  "RegisterServer env cc address st =
     (if sv_ResolverType cc = [] \<or> sv_ResolverAddresses cc = [] \<or> sv_ServerName cc = [] then ((None, None), st)
      else let cc = (if sv_UpdateInterval cc = 0 then cc\<lparr>sv_UpdateInterval := 10\<rparr> else cc) in
        case GetRegisterAddress (re_net env) (sv_Interface cc) address of
          (_, _, Some e) \<Rightarrow> ((None, Some e), st)
        | (host, port, None) \<Rightarrow>
            (case RegisterFuncMap env (rg_ended st) (sv_ResolverType cc) of
               None \<Rightarrow> ((None, Some (Errorf ''unsupport ResolverType'')), st)
             | Some rf \<Rightarrow>
                 (case Register_any env (register_info_of cc host port)
                         (rf (sv_ResolverAddresses cc) (i64 (sv_UpdateInterval cc * 2))) st of
                    (e, r, st1) \<Rightarrow> ((Some r, e), st1))))"

section \<open>A registered server\<close>

text \<open>
  The frame of \<open>RunGrpc\<close> and \<open>StartHTTP\<close>: register, serve, and with a register in hand
  and no error the deferred \<open>UnRegister\<close>, whose error is dropped.
\<close>

definition serve_registered ::
  "('c, 'e) reg_env \<Rightarrow> server_config \<Rightarrow> string \<Rightarrow> (('c, 'e) reg_state \<Rightarrow> goerr option \<times> ('c, 'e) reg_state) \<Rightarrow>
    ('c, 'e) reg_state \<Rightarrow> goerr option outcome \<times> ('c, 'e) reg_state" where
  "serve_registered env cc address serve st =
     (case RegisterServer env cc address st of
        ((_, Some e), st1) \<Rightarrow> (Returns (Some e), st1)
      | ((None, None), st1) \<Rightarrow> (let (e, st2) = serve st1 in (Returns e, st2))
      | ((Some r, None), st1) \<Rightarrow>
          (let (e, st2) = serve st1 in
           case UnRegister_any env r st2 of
             (Panics p, st3) \<Rightarrow> (Panics p, st3)
           | (Returns _, st3) \<Rightarrow> (Returns e, st3)))"

lemma agent_frame [simp]:
  "rg_wg (snd (agent env cl call st)) = rg_wg st" "rg_ended (snd (agent env cl call st)) = rg_ended st"
  "rg_etcd (snd (agent env cl call st)) = rg_etcd st"
  by (simp_all add: agent_def split: prod.splits)

lemma agent_frameD: "agent env cl call st = (e, st') \<Longrightarrow> rg_wg st' = rg_wg st"
  using agent_frame(1) [of env cl call st] by simp

lemma NewConsulClient_wg: "NewConsulClient api a st = (r, st') \<Longrightarrow> rg_wg st' = rg_wg st"
  by (auto simp: NewConsulClient_def split: option.splits prod.splits sum.splits)

lemma Register_consul_wg:
  assumes "Register_consul env info cr st = (e, cr', st')"
  shows "rg_wg st' = rg_wg st + (if e = None then 1 else 0)"
    and "e = None \<Longrightarrow> cg_client cr' \<noteq> None" and "cg_cancelled cr' \<noteq> None"
  using assms
  by (auto simp: Register_consul_def wg_change_def Let_def dest!: agent_frameD NewConsulClient_wg
      split: prod.splits sum.splits option.splits)

lemma UnRegister_consul_wg:
  assumes "cg_client cr \<noteq> None" and "cg_cancelled cr \<noteq> None"
  shows "rg_wg (snd (snd (UnRegister_consul env cr st))) = rg_wg st - 1"
    and "\<not> is_panic (fst (UnRegister_consul env cr st))"
  using assms
  by (auto simp: UnRegister_consul_def wg_change_def Let_def dest!: agent_frameD split: prod.splits option.splits)

lemma Register_any_wg:
  assumes "Register_any env info r st = (e, r', st')"
  shows "rg_wg st' = rg_wg st + (if e = None then 1 else 0)"
    and "e = None \<Longrightarrow> rg_wg (snd (UnRegister_any env r' st2)) = rg_wg st2 - 1 \<and>
           \<not> is_panic (fst (UnRegister_any env r' st2))"
proof -
  show "rg_wg st' = rg_wg st + (if e = None then 1 else 0)"
    using assms
    by (cases r) (auto simp: Register_etcd_def wg_change_def Let_def dest: Register_consul_wg(1)
        split: prod.splits sum.splits option.splits)
  assume "e = None"
  with assms show "rg_wg (snd (UnRegister_any env r' st2)) = rg_wg st2 - 1 \<and>
      \<not> is_panic (fst (UnRegister_any env r' st2))"
  proof (cases r)
    case (ConsulReg cr)
    with assms obtain cr' where c: "Register_consul env info cr st = (e, cr', st')" "r' = ConsulReg cr'"
      by (auto split: prod.splits)
    with \<open>e = None\<close> have "cg_client cr' \<noteq> None" "cg_cancelled cr' \<noteq> None"
      using Register_consul_wg(2,3) [OF c(1)] by auto
    from UnRegister_consul_wg [OF this, of env st2] c(2) show ?thesis by (auto split: prod.splits)
  next
    case (EtcdReg er)
    with assms \<open>e = None\<close> show ?thesis
      by (auto simp: Register_etcd_def UnRegister_etcd_def wg_change_def Let_def
          split: prod.splits sum.splits option.splits)
  qed
qed

lemma RegisterServer_cases:
  obtains (nothing) e where "RegisterServer env cc address st = ((None, e), st)"
  | (tried) r e st1 where "RegisterServer env cc address st = ((Some r, e), st1)"
      "rg_wg st1 = rg_wg st + (if e = None then 1 else 0)"
      "\<And>st2. e = None \<Longrightarrow> rg_wg (snd (UnRegister_any env r st2)) = rg_wg st2 - 1 \<and>
         \<not> is_panic (fst (UnRegister_any env r st2))"
proof (cases "RegisterServer env cc address st")
  case (Pair x st1)
  obtain ro e where x: "x = (ro, e)" by fastforce
  show ?thesis
  proof (cases ro)
    case None
    with Pair x have "st1 = st"
      by (auto simp: RegisterServer_def Let_def split: if_splits prod.splits option.splits)
    show ?thesis by (rule nothing) (use Pair x None \<open>st1 = st\<close> in simp)
  next
    case (Some r)
    with Pair x obtain info r0 where "Register_any env info r0 st = (e, r, st1)"
      by (auto simp: RegisterServer_def Let_def split: if_splits prod.splits option.splits)
    from Register_any_wg [OF this] Pair x Some tried show ?thesis by metis
  qed
qed

type_synonym ('c, 'e) server_run =
  "server_config \<times> string \<times> (('c, 'e) reg_state \<Rightarrow> goerr option \<times> ('c, 'e) reg_state)"

definition run_server :: "('c, 'e) reg_env \<Rightarrow> ('c, 'e) server_run \<Rightarrow> ('c, 'e) reg_state \<Rightarrow> ('c, 'e) reg_state" where
  "run_server env x st = (case x of (cc, address, serve) \<Rightarrow> snd (serve_registered env cc address serve st))"

definition serve_keeps :: "('c, 'e) server_run \<Rightarrow> bool" where
  "serve_keeps x \<longleftrightarrow> (\<forall>s. rg_wg (snd (snd (snd x) s)) = rg_wg s)"

lemma serve_registered_wg:
  assumes "\<forall>s. rg_wg (snd (serve s)) = rg_wg s"
  shows "rg_wg (snd (serve_registered env cc address serve st)) = rg_wg st"
proof (cases rule: RegisterServer_cases [of env cc address st])
  case (nothing e)
  with assms show ?thesis by (auto simp: serve_registered_def split: option.splits prod.splits) (metis snd_conv)
next
  case (tried r e st1)
  show ?thesis
  proof (cases e)
    case None
    obtain e2 st2 where s: "serve st1 = (e2, st2)" by fastforce
    with assms have "rg_wg st2 = rg_wg st1" by (metis snd_conv)
    obtain o3 st3 where u: "UnRegister_any env r st2 = (o3, st3)" by fastforce
    with tried(3) [OF None, of st2] have "rg_wg st3 = rg_wg st2 - 1" by simp
    with \<open>rg_wg st2 = rg_wg st1\<close> tried(1,2) None s u show ?thesis
      by (cases o3) (simp_all add: serve_registered_def)
  qed (use tried in \<open>simp add: serve_registered_def\<close>)
qed

interpretation server_wait: guarded_counter "run_server env" rg_wg serve_keeps
  by unfold_locales (auto simp: run_server_def serve_keeps_def serve_registered_wg)

section \<open>Properties\<close>


text \<open>A Consul agent that holds the identifiers of services and checks, and can refuse checks.\<close>

definition mem_agent :: "bool \<Rightarrow> (string list \<times> string list) consul_api" where
  "mem_agent checks =
     \<lparr>ca_NewClient = (\<lambda>a c. (Inr 7, c)), ca_Service = (\<lambda>cl n t ok q c. (Inr ([], 3), c)),
      ca_ServiceMultipleTags = (\<lambda>cl n t ok q c. (Inr ([], 3), c)),
      ca_Agent = (\<lambda>cl call (services, chks).
        case call of
          ServiceRegister i n t p a \<Rightarrow> (None, (i # services, chks))
        | CheckRegister i n si t s \<Rightarrow>
            if checks then (None, (services, i # chks)) else (Some (Errorf ''refused''), (services, chks))
        | UpdateTTL i out s \<Rightarrow> (None, (services, chks))
        | ServiceDeregister i \<Rightarrow> (None, (removeAll i services, chks))
        | CheckDeregister i \<Rightarrow> (None, (services, removeAll i chks)))\<rparr>"

definition no_kv :: "unit etcd_kv" where
  "no_kv =
     \<lparr>ek_New = (\<lambda>_. Inl (Errorf ''no etcd'')), ek_Count = (\<lambda>_ _ s. (Inr 0, s)), ek_Grant = (\<lambda>_ _ s. (Inr 0, s)),
      ek_Put = (\<lambda>_ _ _ _ s. (None, s)), ek_KeepAlive = (\<lambda>_ _ s. (None, s)), ek_Delete = (\<lambda>_ _ s. (None, s))\<rparr>"

definition sample_reg_env :: "bool \<Rightarrow> (string list \<times> string list, unit) reg_env" where
  "sample_reg_env checks =
     \<lparr>re_consul = mem_agent checks, re_etcd = no_kv, re_net = sample_net, re_with_etcd = False\<rparr>"

definition sample_server :: server_config where
  "sample_server =
     \<lparr>sv_Address = '':8080'', sv_CertFile = [], sv_KeyFile = [], sv_Phrase = [], sv_MaxRecvMsgSize = 0,
      sv_MaxSendMsgSize = 0, sv_ResolverType = ''consul'', sv_ResolverAddresses = [''c:8500''],
      sv_ServerName = ''user'', sv_UpdateInterval = 0, sv_Interface = [], sv_Tags = [''v2'']\<rparr>"

definition idle_process :: "(string list \<times> string list, unit) reg_state" where
  "idle_process =
     \<lparr>cs_clients = Map.empty, cs_srv = ([], []), rg_etcd = (), rg_wg = 4, rg_ended = False\<rparr>"


text \<open>
  What Consul is told: when a server is registered with Consul, the agent was told the
  service under the identifier made of its host, port and the name of the machine, with its name, its
  tags and the address that \<open>GetRegisterAddress\<close> gives, and then a check of this service, whose
  time to live is twice the interval of the updates, ten seconds when none is configured.
\<close>

theorem RegisterServer_announces:
  assumes "RegisterServer env cc address st = ((Some (ConsulReg r), None), st')"
  shows "\<exists>host port cl c1 c2.
     GetRegisterAddress (re_net env) (sv_Interface cc) address = (host, port, None) \<and>
     cs_clients st' (hd (sv_ResolverAddresses cc)) = Some cl \<and>
     ca_Agent (re_consul env) cl
       (ServiceRegister (host @ ''-'' @ int_dec port @ ''-'' @ ne_hostname (re_net env)) (sv_ServerName cc) (sv_Tags cc) port host) c1 =
       (None, c2) \<and>
     ca_Agent (re_consul env) cl
       (CheckRegister (host @ ''-'' @ int_dec port @ ''-'' @ ne_hostname (re_net env)) (sv_ServerName cc)
         (host @ ''-'' @ int_dec port @ ''-'' @ ne_hostname (re_net env))
         (int_dec (i64 (2 * (if sv_UpdateInterval cc = 0 then 10 else sv_UpdateInterval cc))) @ ''s'') ''passing'') c2 =
       (None, cs_srv st') \<and>
     cg_serviceID r = host @ ''-'' @ int_dec port @ ''-'' @ ne_hostname (re_net env)"
proof -
  let ?cc = "if sv_UpdateInterval cc = 0 then cc\<lparr>sv_UpdateInterval := 10\<rparr> else cc"
  have f: "sv_Interface ?cc = sv_Interface cc" "sv_ResolverAddresses ?cc = sv_ResolverAddresses cc"
    "sv_ServerName ?cc = sv_ServerName cc" "sv_Tags ?cc = sv_Tags cc"
    "sv_UpdateInterval ?cc = (if sv_UpdateInterval cc = 0 then 10 else sv_UpdateInterval cc)" by simp_all
  from assms obtain host port rf where
    a: "GetRegisterAddress (re_net env) (sv_Interface cc) address = (host, port, None)"
    and ne: "sv_ResolverAddresses cc \<noteq> []"
    and rf: "RegisterFuncMap env (rg_ended st) (sv_ResolverType ?cc) = Some rf"
    and reg: "Register_any env (register_info_of ?cc host port)
        (rf (sv_ResolverAddresses cc) (i64 (sv_UpdateInterval ?cc * 2))) st = (None, ConsulReg r, st')"
    by (auto simp: RegisterServer_def Let_def f(1,2) split: if_splits prod.splits option.splits)
  from rf reg obtain cl st1 st2 st3 where
    c: "NewConsulClient (re_consul env) (sv_ResolverAddresses cc ! 0) st = (Inr cl, st1)"
      "agent env cl (service_registration env (register_info_of ?cc host port)) st1 = (None, st2)"
      "agent env cl (check_registration env (i64 (sv_UpdateInterval ?cc * 2)) (register_info_of ?cc host port)) st2 =
        (None, st3)" "st' = wg_change 1 st3"
      "cg_serviceID r = service_id env (register_info_of ?cc host port)"
    by (auto simp: RegisterFuncMap_def map_add_def Register_consul_def NewConsulRegister_def Let_def
        split: if_splits prod.splits sum.splits option.splits)
  have k: "cs_clients st1 (sv_ResolverAddresses cc ! 0) = Some cl"
    using consul_clients.acquire_ok [OF c(1)] by simp
  have m: "cs_clients (snd (agent env cl call s)) = cs_clients s" for call s
    by (simp add: agent_def split: prod.splits)
  have k': "cs_clients st' (hd (sv_ResolverAddresses cc)) = Some cl"
    using m [of "service_registration env (register_info_of ?cc host port)" st1]
      m [of "check_registration env (i64 (sv_UpdateInterval ?cc * 2)) (register_info_of ?cc host port)" st2]
      c k ne by (simp add: hd_conv_nth wg_change_def)
  let ?id = "host @ ''-'' @ int_dec port @ ''-'' @ ne_hostname (re_net env)"
  have id: "service_id env (register_info_of ?cc host port) = ?id"
    by (simp add: service_id_def register_info_of_def generateServiceId_def)
  have s1: "ca_Agent (re_consul env) cl (ServiceRegister ?id (sv_ServerName cc) (sv_Tags cc) port host) (cs_srv st1) =
      (None, cs_srv st2)"
    using c(2) unfolding service_registration_def id
    by (auto simp: agent_def f register_info_of_def split: prod.splits)
  have "ca_Agent (re_consul env) cl (check_registration env (i64 (sv_UpdateInterval ?cc * 2)) (register_info_of ?cc host port))
      (cs_srv st2) = (None, cs_srv st')"
    using c(3,4) by (auto simp: agent_def wg_change_def split: prod.splits)
  then have s2: "ca_Agent (re_consul env) cl (CheckRegister ?id (sv_ServerName cc) ?id
      (int_dec (i64 (2 * (if sv_UpdateInterval cc = 0 then 10 else sv_UpdateInterval cc))) @ ''s'') ''passing'') (cs_srv st2) =
      (None, cs_srv st')"
    unfolding check_registration_def id f by (simp add: register_info_of_def mult.commute f)
  show ?thesis using a k' s1 s2 c(5) id by metis
qed

definition announced :: consul_register where
  "announced =
     (NewConsulRegister [''c:8500''] 20)\<lparr>cg_client := Some 7, cg_cancelled := Some False,
        cg_serviceID := ''10.0.0.7-8080-box'', cg_serverName := ''user''\<rparr>"

lemma sample_announce:
  "RegisterServer (sample_reg_env ok) sample_server '':8080'' idle_process =
     (if ok then ((Some (ConsulReg announced), None),
        idle_process\<lparr>cs_clients := [''c:8500'' \<mapsto> 7], cs_srv := ([''10.0.0.7-8080-box''], [''10.0.0.7-8080-box'']), rg_wg := 5\<rparr>)
      else ((Some (ConsulReg announced), Some (Errorf ''initial register service check to consul error: refused'')),
        idle_process\<lparr>cs_clients := [''c:8500'' \<mapsto> 7], cs_srv := ([''10.0.0.7-8080-box''], [])\<rparr>))"
proof -
  have d: "int_dec 8080 = ''8080''" by (simp add: int_dec_def nat_dec_eval)
  have h: "ne_hostname sample_net = ''box''" by (simp add: sample_net_def)
  show ?thesis
    by (simp add: RegisterServer_def sample_reg_env_def sample_server_def sample_net_address RegisterFuncMap_def
        ConsulResolver_def register_info_of_def Register_consul_def NewConsulRegister_def NewConsulClient_def
        idle_process_def mem_agent_def agent_def service_registration_def check_registration_def service_id_def
        generateServiceId_def d h wg_change_def announced_def i64_def Let_def)
qed

theorem RegisterServer_announces_witness:
  "\<exists>c1. ca_Agent (mem_agent True) 7 (ServiceRegister ''10.0.0.7-8080-box'' ''user'' [''v2''] 8080 ''10.0.0.7'') c1 =
       (None, ([''10.0.0.7-8080-box''], [])) \<and> fst c1 = [] \<and> cg_serviceID announced = ''10.0.0.7-8080-box''"
proof -
  have d: "int_dec 8080 = ''8080''" by (simp add: int_dec_def nat_dec_eval)
  have f: "re_net (sample_reg_env True) = sample_net" "re_consul (sample_reg_env True) = mem_agent True"
    "ne_hostname sample_net = ''box''" "sv_Interface sample_server = []" "sv_ResolverAddresses sample_server = [''c:8500'']"
    "sv_ServerName sample_server = ''user''" "sv_Tags sample_server = [''v2'']"
    by (simp_all add: sample_reg_env_def sample_net_def sample_server_def)
  have "RegisterServer (sample_reg_env True) sample_server '':8080'' idle_process = ((Some (ConsulReg announced), None),
      idle_process\<lparr>cs_clients := [''c:8500'' \<mapsto> 7], cs_srv := ([''10.0.0.7-8080-box''], [''10.0.0.7-8080-box'']), rg_wg := 5\<rparr>)"
    by (simp add: sample_announce)
  from RegisterServer_announces [OF this] show ?thesis
    by (auto simp: f sample_net_address d mem_agent_def split: prod.splits)
qed

text \<open>
  A check that Consul refuses leaves the service behind: the server ends with the error,
  and the two calls of the registration are all the agent was told, so that the service stays
  announced without a check.
\<close>

theorem refused_check_leaves_service:
  assumes "sv_ResolverType cc = ConsulResolver" and "sv_ResolverAddresses cc = a # as" and "sv_ServerName cc \<noteq> []"
    and "0 < sv_UpdateInterval cc"
    and "GetRegisterAddress (re_net env) (sv_Interface cc) address = (host, port, None)"
    and "NewConsulClient (re_consul env) a st = (Inr cl, st0)"
    and "ca_Agent (re_consul env) cl (service_registration env (register_info_of cc host port)) (cs_srv st0) = (None, c1)"
    and "ca_Agent (re_consul env) cl
           (check_registration env (i64 (sv_UpdateInterval cc * 2)) (register_info_of cc host port)) c1 = (Some e, c2)"
  shows "serve_registered env cc address serve st =
     (Returns (Some (Errorf (''initial register service check to consul error: '' @ err_text e))), st0\<lparr>cs_srv := c2\<rparr>)"
proof -
  have "RegisterFuncMap env (rg_ended st) ConsulResolver = Some (\<lambda>t n. ConsulReg (NewConsulRegister t n))"
    by (simp add: RegisterFuncMap_def map_add_def ConsulResolver_def EtcdResolver_def)
  with assms show ?thesis
    by (simp add: serve_registered_def RegisterServer_def ConsulResolver_def [symmetric] Register_consul_def
        NewConsulRegister_def agent_def Let_def) (simp add: ConsulResolver_def)
qed

definition ticking_server :: server_config where
  "ticking_server = sample_server\<lparr>sv_UpdateInterval := 10\<rparr>"

theorem refused_check_leaves_service_witness:
  "cs_srv (snd (serve_registered (sample_reg_env False) ticking_server '':8080'' (\<lambda>s. (None, s)) idle_process)) =
   ([''10.0.0.7-8080-box''], [])"
proof -
  have d: "int_dec 8080 = ''8080''" by (simp add: int_dec_def nat_dec_eval)
  have h: "ne_hostname sample_net = ''box''" by (simp add: sample_net_def)
  let ?st = "idle_process\<lparr>cs_clients := [''c:8500'' \<mapsto> 7]\<rparr>"
  have "serve_registered (sample_reg_env False) ticking_server '':8080'' (\<lambda>s. (None, s)) idle_process =
     (Returns (Some (Errorf (''initial register service check to consul error: '' @ err_text (Errorf ''refused'')))),
      ?st\<lparr>cs_srv := ([''10.0.0.7-8080-box''], [])\<rparr>)"
  proof (rule refused_check_leaves_service [where host = "''10.0.0.7''" and port = 8080 and cl = 7])
    show "NewConsulClient (re_consul (sample_reg_env False)) ''c:8500'' idle_process = (Inr 7, ?st)"
      by (simp add: NewConsulClient_def idle_process_def sample_reg_env_def mem_agent_def)
  qed (simp_all add: ticking_server_def sample_server_def ConsulResolver_def sample_reg_env_def sample_net_address
      idle_process_def mem_agent_def service_registration_def check_registration_def service_id_def register_info_of_def
      generateServiceId_def d h)
  then show ?thesis by simp
qed

lemma has_prefix_same [simp]: "has_prefix (x @ s) (x @ t) \<longleftrightarrow> has_prefix s t"
  by (auto simp: has_prefix_iff)

text \<open>
  C26. A server in etcd is not found by its clients: the key under which a server without an
  identifier of its own is registered never has the prefix that a client of the same service
  watches when its scheme is the default one, whatever the tag and the addresses.
\<close>

theorem etcd_registration_unseen:
  assumes "Register_etcd env info er st = (None, er', st')" and "ri_ServerId info = []"
    and "CompleteResolverScheme c = Inr c'" and "gc_ResolverScheme c = []"
    and "gc_ResolverType c = EtcdResolver" and "gc_ServerName c = ri_ServerName info"
  shows "\<not> has_prefix (et_key er') (watch_prefix (gc_ResolverScheme c') (gc_ServerName c'))"
proof -
  from assms(1,2) have k: "et_key er' = etcd_key (ri_ServerName info) (et_addr er')"
    by (auto simp: Register_etcd_def Let_def split: option.splits sum.splits)
  from assms(3-5) obtain a where s: "gc_ResolverScheme c' = scheme_of c a"
    by (auto simp: CompleteResolverScheme_def EtcdResolver_def StaticResolver_def split: list.splits)
  have n: "gc_ServerName c' = ri_ServerName info"
    using CompleteResolverScheme_keeps(2) [OF assms(3)] assms(6) by simp
  show ?thesis
    using assms(5,6) unfolding k s n by (simp add: etcd_key_def watch_prefix_def scheme_of_def EtcdResolver_def)
qed

theorem etcd_registration_unseen_witness:
  "\<not> has_prefix ''/etcd_user/user/h:2'' (watch_prefix ''etcd_user__e:2379'' ''user'')"
proof -
  let ?env = "(sample_reg_env True)\<lparr>re_etcd := no_kv\<lparr>ek_New := (\<lambda>_. Inr 7)\<rparr>\<rparr>"
  let ?info = "\<lparr>ri_Host = ''h'', ri_Port = 2, ri_ServerName = ''user'', ri_ServerId = [], ri_UpdateInterval = 10, ri_Tags = []\<rparr>"
  let ?er = "NewEtcdRegister False [''e:2379''] 20"
  have d: "int_dec 2 = ''2''" by (simp add: int_dec_def nat_dec_eval)
  have r: "Register_etcd ?env ?info ?er idle_process =
      (None, ?er\<lparr>et_client := Some 7, et_addr := ''h:2'', et_key := ''/etcd_user/user/h:2''\<rparr>, wg_change 1 idle_process)"
    by (simp add: Register_etcd_def NewEtcdRegister_def d etcd_key_def EtcdResolver_def Let_def)
  let ?c = "(consul_config ''user'' [] ''e:2379'')\<lparr>gc_ResolverType := EtcdResolver\<rparr>"
  have c: "CompleteResolverScheme ?c = Inr (?c\<lparr>gc_ResolverScheme := ''etcd_user__e:2379''\<rparr>)"
    by (simp add: CompleteResolverScheme_def EtcdResolver_def StaticResolver_def scheme_of_def)
  from etcd_registration_unseen [OF r _ c] show ?thesis by simp
qed

end
