(* ===== verification/P2c.thy ===== *)
theory P2c
  imports HTTPContext
begin

text \<open>
  \<open>grpc/balancer/p2c\<close>: the balancer that compares two connections. A connection is known
  by its place in \<open>pk_conns\<close>. Times are nanoseconds since \<open>initTime\<close> and arguments, as are
  the numbers the random generator draws. The two computations in floating point are the record
  \<open>float_env\<close>. A picker is used under its lock, so \<open>CompareAndSwap\<close> succeeds. The context of
  a pick is made and cancelled in the call and only logs.
\<close>

section \<open>accept.go\<close>

datatype grpc_code = OK | Canceled | Unknown | DeadlineExceeded | Internal | Unavailable | DataLoss | OtherCode

fun Acceptable :: "grpc_code \<Rightarrow> bool" where
  "Acceptable DeadlineExceeded = False"
| "Acceptable Internal = False"
| "Acceptable Unavailable = False"
| "Acceptable DataLoss = False"
| "Acceptable c = True"

section \<open>p2c.go\<close>

definition decayTime :: int where "decayTime = 10 * 10 ^ 9"
definition forcePick :: int where "forcePick = 10 ^ 9"
definition initSuccess :: "64 word" where "initSuccess = 1000"
definition throttleSuccess :: "64 word" where "throttleSuccess = 500"
definition penalty :: int where "penalty = 2 ^ 31 - 1"
definition pickTimes :: nat where "pickTimes = 3"
definition logInterval :: int where "logInterval = 60 * 10 ^ 9"

text \<open>
  \<open>fe_sqrt x\<close> is \<open>int64(math.Sqrt(float64(x)))\<close>. \<open>fe_mix td old new\<close> is the weighted mean
  of two values as a \<open>uint64\<close>: the old one has the weight \<open>exp(-td/decayTime)\<close>, or 0 without
  a \<open>td\<close>.
\<close>

record float_env =
  fe_sqrt :: "64 word \<Rightarrow> int"
  fe_mix :: "int option \<Rightarrow> 64 word \<Rightarrow> 64 word \<Rightarrow> 64 word"

record sub_conn =
  sc_addr :: string
  sc_conn :: nat
  sc_lag :: "64 word"
  sc_inflight :: int
  sc_success :: "64 word"
  sc_requests :: int
  sc_last :: int
  sc_pick :: int

record p2c_picker =
  pk_conns :: "sub_conn list"
  pk_stamp :: int

definition new_sub_conn :: "nat \<times> string \<Rightarrow> sub_conn" where
  "new_sub_conn c =
     \<lparr>sc_addr = snd c, sc_conn = fst c, sc_lag = 0, sc_inflight = 0, sc_success = initSuccess, sc_requests = 0,
      sc_last = 0, sc_pick = 0\<rparr>"

text \<open>\<open>Build\<close>: \<open>None\<close> is the picker that always fails. \<open>readySCs\<close> is a map, here in some order.\<close>

definition Build_p2c :: "(nat \<times> string) list \<Rightarrow> p2c_picker option" where
  "Build_p2c readySCs =
     (if readySCs = [] then None else Some \<lparr>pk_conns = map new_sub_conn readySCs, pk_stamp = 0\<rparr>)"

definition healthy :: "sub_conn \<Rightarrow> bool" where
  "healthy c \<longleftrightarrow> throttleSuccess < sc_success c"

definition load :: "float_env \<Rightarrow> sub_conn \<Rightarrow> int" where
  "load fe c =
     (let lag = fe_sqrt fe (sc_lag c + 1); l = i64 (lag * i64 (sc_inflight c + 1))
      in if l = 0 then penalty else l)"

definition stamp_pick :: "int \<Rightarrow> nat \<Rightarrow> sub_conn list \<Rightarrow> sub_conn list" where
  "stamp_pick t i conns = conns[i := (conns ! i)\<lparr>sc_pick := t\<rparr>]"

definition choose_conn :: "float_env \<Rightarrow> int \<Rightarrow> nat \<Rightarrow> nat option \<Rightarrow> sub_conn list \<Rightarrow> nat \<times> sub_conn list" where
  "choose_conn fe start c1 c2 conns =
     (case c2 of
        None \<Rightarrow> (c1, stamp_pick start c1 conns)
      | Some c2 \<Rightarrow>
          (let (c1, c2) = (if load fe (conns ! c2) < load fe (conns ! c1) then (c2, c1) else (c1, c2))
           in if forcePick < i64 (start - sc_pick (conns ! c2)) then (c2, stamp_pick start c2 conns)
              else (c1, stamp_pick start c1 conns)))"

text \<open>The loop of \<open>Pick\<close> over the numbers drawn, for \<open>n\<close> further turns.\<close>

fun draw_nodes :: "nat \<Rightarrow> (nat \<Rightarrow> nat \<times> nat) \<Rightarrow> nat \<Rightarrow> sub_conn list \<Rightarrow> nat \<times> nat \<Rightarrow> nat \<times> nat" where
  "draw_nodes i draws 0 conns nodes = nodes"
| "draw_nodes i draws (Suc n) conns nodes =
     (let (a, b) = draws i; b = (if a \<le> b then b + 1 else b)
      in if healthy (conns ! a) \<and> healthy (conns ! b) then (a, b)
         else draw_nodes (i + 1) draws n conns (a, b))"

definition ErrNoSubConnAvailable :: goerr where "ErrNoSubConnAvailable = Sentinel ''no SubConn is available''"

definition take_conn :: "nat \<Rightarrow> sub_conn list \<Rightarrow> sub_conn list" where
  "take_conn i conns =
     conns[i := (conns ! i)\<lparr>sc_inflight := i64 (sc_inflight (conns ! i) + 1),
                            sc_requests := i64 (sc_requests (conns ! i) + 1)\<rparr>]"

definition Pick ::
  "float_env \<Rightarrow> (nat \<Rightarrow> nat \<times> nat) \<Rightarrow> int \<Rightarrow> p2c_picker \<Rightarrow> (goerr + nat) \<times> p2c_picker" where
  "Pick fe draws now p =
     (let conns = pk_conns p; n = length conns in
      if n = 0 then (Inl ErrNoSubConnAvailable, p)
      else let (chosen, conns1) =
          (if n = 1 then choose_conn fe now 0 None conns
           else if n = 2 then choose_conn fe now 0 (Some 1) conns
           else case draw_nodes 0 draws pickTimes conns (0, 0) of
             (a, b) \<Rightarrow> choose_conn fe now a (Some b) conns)
        in (Inr chosen, p\<lparr>pk_conns := take_conn chosen conns1\<rparr>))"

definition logStats :: "sub_conn list \<Rightarrow> sub_conn list" where
  "logStats conns = map (\<lambda>c. c\<lparr>sc_requests := 0\<rparr>) conns"

text \<open>
  The function that \<open>buildDoneFunc\<close> returns, for a call that started at \<open>start\<close> on the
  connection \<open>i\<close> and ended at \<open>now\<close>.
\<close>

definition done_conn :: "float_env \<Rightarrow> int \<Rightarrow> int \<Rightarrow> grpc_code option \<Rightarrow> sub_conn \<Rightarrow> sub_conn" where
  "done_conn fe start now err c =
     (let td = max 0 (i64 (now - sc_last c)); lag = max 0 (i64 (now - start)); olag = sc_lag c;
          success = (case err of Some code \<Rightarrow> if Acceptable code then initSuccess else 0 | None \<Rightarrow> initSuccess);
          w = (if olag = 0 then None else Some td)
      in c\<lparr>sc_inflight := i64 (sc_inflight c - 1), sc_last := now,
           sc_lag := fe_mix fe w olag (of_int lag), sc_success := fe_mix fe w (sc_success c) success\<rparr>)"

definition Done ::
  "float_env \<Rightarrow> int \<Rightarrow> nat \<Rightarrow> int \<Rightarrow> grpc_code option \<Rightarrow> p2c_picker \<Rightarrow> p2c_picker" where
  "Done fe start i now err p =
     (let conns = (pk_conns p)[i := done_conn fe start now err (pk_conns p ! i)]
      in if logInterval \<le> i64 (now - pk_stamp p) then p\<lparr>pk_conns := logStats conns, pk_stamp := now\<rparr>
         else p\<lparr>pk_conns := conns\<rparr>)"

section \<open>Histories of calls\<close>

text \<open>
  Calls overlap: a pick adds a call to those under way, with its connection and its start, and
  a call that ends is any of them.
\<close>

datatype p2c_event = EvPick "nat \<Rightarrow> nat \<times> nat" int int | EvDone nat int "grpc_code option"

type_synonym p2c_state = "p2c_picker \<times> (nat \<times> int) list"

fun p2c_step :: "float_env \<Rightarrow> p2c_event \<Rightarrow> p2c_state \<Rightarrow> p2c_state" where
  "p2c_step fe (EvPick draws now start) (p, calls) =
     (case Pick fe draws now p of
        (Inl _, p') \<Rightarrow> (p', calls)
      | (Inr i, p') \<Rightarrow> (p', calls @ [(i, start)]))"
| "p2c_step fe (EvDone k now err) (p, calls) =
     (if k < length calls then
        (Done fe (snd (calls ! k)) (fst (calls ! k)) now err p, take k calls @ drop (Suc k) calls)
      else (p, calls))"

text \<open>What \<open>Intn(n)\<close> and \<open>Intn(n - 1)\<close> can return.\<close>

fun event_ok :: "nat \<Rightarrow> p2c_event \<Rightarrow> bool" where
  "event_ok n (EvPick draws now start) \<longleftrightarrow> (\<forall>i. fst (draws i) < n \<and> snd (draws i) < n - 1)"
| "event_ok n (EvDone k now err) \<longleftrightarrow> True"

definition calls_on :: "nat \<Rightarrow> (nat \<times> int) list \<Rightarrow> nat" where
  "calls_on i calls = length (filter (\<lambda>c. fst c = i) calls)"

definition p2c_inv :: "nat \<Rightarrow> p2c_state \<Rightarrow> bool" where
  "p2c_inv n s \<longleftrightarrow>
     length (pk_conns (fst s)) = n \<and> (\<forall>c \<in> set (snd s). fst c < n) \<and>
     (\<forall>i < n. sc_inflight (pk_conns (fst s) ! i) = int (calls_on i (snd s)))"

lemma draw_nodes_ok:
  assumes "\<forall>i. fst (draws i) < n \<and> snd (draws i) < n - 1" and "draw_nodes i draws k conns nodes = (a, b)"
    and "0 < k"
  shows "a < n \<and> b < n \<and> a \<noteq> b"
  using assms(2,3)
proof (induction k arbitrary: i nodes)
  case (Suc k)
  obtain x y where d: "draws i = (x, y)" by fastforce
  with assms(1) have xy: "x < n" "y < n - 1" by (metis fst_conv, metis snd_conv)
  let ?y = "if x \<le> y then y + 1 else y"
  have ok: "x < n \<and> ?y < n \<and> x \<noteq> ?y" using xy by auto
  from Suc.prems(1) have r:
    "(if healthy (conns ! x) \<and> healthy (conns ! ?y) then (x, ?y) else draw_nodes (i + 1) draws k conns (x, ?y)) = (a, b)"
    by (simp only: draw_nodes.simps d Let_def prod.case)
  show ?case
  proof (cases "k = 0 \<or> healthy (conns ! x) \<and> healthy (conns ! ?y)")
    case True
    with r have "(a, b) = (x, ?y)" by (metis draw_nodes.simps(1))
    with ok show ?thesis by (metis prod.inject)
  next
    case False
    with r have "draw_nodes (i + 1) draws k conns (x, ?y) = (a, b)" by argo
    with Suc.IH False show ?thesis by blast
  qed
qed simp

lemma choose_conn_cases:
  assumes "choose_conn fe t a b conns = (i, conns')"
  shows "(i = a \<or> b = Some i) \<and> conns' = stamp_pick t i conns"
  using assms by (auto simp: choose_conn_def Let_def split: option.splits if_splits)

lemma Pick_ok:
  assumes "pk_conns p \<noteq> []" and "\<forall>i. fst (draws i) < length (pk_conns p) \<and> snd (draws i) < length (pk_conns p) - 1"
  obtains i where "Pick fe draws t p = (Inr i, p\<lparr>pk_conns := take_conn i (stamp_pick t i (pk_conns p))\<rparr>)"
    "i < length (pk_conns p)"
proof -
  let ?conns = "pk_conns p"
  obtain a b where ab: "draw_nodes 0 draws pickTimes ?conns (0, 0) = (a, b)" by fastforce
  from draw_nodes_ok [OF assms(2) ab] have lt: "a < length ?conns" "b < length ?conns"
    by (simp_all add: pickTimes_def)
  define r where "r = (if length ?conns = 1 then choose_conn fe t 0 None ?conns
      else if length ?conns = 2 then choose_conn fe t 0 (Some 1) ?conns else choose_conn fe t a (Some b) ?conns)"
  obtain i conns' where r': "r = (i, conns')" by fastforce
  have i: "i < length ?conns \<and> conns' = stamp_pick t i ?conns"
    using r' lt assms(1) unfolding r_def by (auto dest!: choose_conn_cases split: if_splits)
  have "Pick fe draws t p = (Inr i, p\<lparr>pk_conns := take_conn i conns'\<rparr>)"
    using r' assms(1) unfolding r_def by (auto simp: Pick_def Let_def ab split: if_splits)
  with i that show ?thesis by simp
qed

lemma take_stamp:
  "i < length conns \<Longrightarrow>
   take_conn i (stamp_pick t i conns) =
     conns[i := (conns ! i)\<lparr>sc_pick := t, sc_inflight := i64 (sc_inflight (conns ! i) + 1),
                            sc_requests := i64 (sc_requests (conns ! i) + 1)\<rparr>]"
  by (simp add: take_conn_def stamp_pick_def)

lemma calls_on_append [simp]: "calls_on i (xs @ ys) = calls_on i xs + calls_on i ys"
  by (simp add: calls_on_def)

lemma calls_on_single [simp]: "calls_on i [(j, t)] = (if i = j then 1 else 0)"
  by (simp add: calls_on_def)

lemma calls_on_bound: "calls_on i calls \<le> length calls"
  by (simp add: calls_on_def)

lemma calls_on_remove:
  assumes "k < length calls"
  shows "calls_on i calls = calls_on i (take k calls @ drop (Suc k) calls) + (if fst (calls ! k) = i then 1 else 0)"
proof -
  have "calls = take k calls @ [calls ! k] @ drop (Suc k) calls"
    using assms by (simp add: id_take_nth_drop)
  then have "calls_on i calls = calls_on i (take k calls @ [calls ! k] @ drop (Suc k) calls)" by simp
  then show ?thesis by (simp add: calls_on_def)
qed

lemma p2c_step_inv:
  assumes inv: "p2c_inv n s" and "event_ok n e" and "0 < n" and few: "length (snd s) + 1 < 2 ^ 63"
  shows "p2c_inv n (p2c_step fe e s)" and "length (snd (p2c_step fe e s)) \<le> length (snd s) + 1"
proof -
  obtain p calls where s: "s = (p, calls)" by fastforce
  from inv s have n: "length (pk_conns p) = n" and c: "\<forall>i < n. sc_inflight (pk_conns p ! i) = int (calls_on i calls)"
    and l: "\<forall>c \<in> set calls. fst c < n" by (auto simp: p2c_inv_def)
  have small: "int (calls_on i calls) + 1 < 2 ^ 63" for i
    using calls_on_bound [of i calls] few s by simp
  have "p2c_inv n (p2c_step fe e s) \<and> length (snd (p2c_step fe e s)) \<le> length (snd s) + 1"
  proof (cases e)
    case (EvPick draws now start)
    have "pk_conns p \<noteq> []" using n assms(3) by auto
    moreover have "\<forall>i. fst (draws i) < length (pk_conns p) \<and> snd (draws i) < length (pk_conns p) - 1"
      using assms(2) EvPick n by simp
    ultimately obtain i where "Pick fe draws now p = (Inr i, p\<lparr>pk_conns := take_conn i (stamp_pick now i (pk_conns p))\<rparr>)"
      "i < length (pk_conns p)" by (rule Pick_ok)
    with EvPick s n c l small show ?thesis
      by (auto simp: p2c_inv_def take_stamp nth_list_update)
  next
    case (EvDone k now err)
    show ?thesis
    proof (cases "k < length calls")
      case True
      have d: "sc_inflight (pk_conns (Done fe st j now err p) ! i) =
          (if i = j then i64 (sc_inflight (pk_conns p ! i) - 1) else sc_inflight (pk_conns p ! i))"
        if "i < n" "j < n" for i j st
        using that n by (auto simp: Done_def logStats_def done_conn_def Let_def nth_list_update)
      have len: "length (pk_conns (Done fe st j now err p)) = n" for st j
        using n by (simp add: Done_def logStats_def Let_def)
      from l True have j: "fst (calls ! k) < n" by simp
      have "sc_inflight (pk_conns (Done fe (snd (calls ! k)) (fst (calls ! k)) now err p) ! i) =
          int (calls_on i (take k calls @ drop (Suc k) calls))" if "i < n" for i
        unfolding d [OF that j] using c that calls_on_remove [OF True, of i] small [of i] by auto
      with EvDone s True len l show ?thesis
        by (auto simp: p2c_inv_def dest: in_set_takeD in_set_dropD)
    qed (use EvDone s inv in auto)
  qed
  then show "p2c_inv n (p2c_step fe e s)" and "length (snd (p2c_step fe e s)) \<le> length (snd s) + 1" by simp_all
qed

lemma p2c_run_inv:
  assumes "\<forall>e \<in> set es. event_ok n e" and "0 < n" and "p2c_inv n s" and "length (snd s) + length es < 2 ^ 63"
  shows "p2c_inv n (fold (p2c_step fe) es s)"
  using assms
proof (induction es arbitrary: s)
  case (Cons e es)
  from Cons.prems p2c_step_inv [of n s e fe] have
    "p2c_inv n (p2c_step fe e s)" "length (snd (p2c_step fe e s)) \<le> length (snd s) + 1" by auto
  with Cons show ?case by simp
qed simp

lemma Build_p2c_inv:
  "Build_p2c scs = Some p \<Longrightarrow> p2c_inv (length scs) (p, [])"
  by (auto simp: Build_p2c_def p2c_inv_def new_sub_conn_def calls_on_def split: if_splits)

text \<open>What is used of the mean: it does not exceed both values, as rounding is monotone.\<close>

definition mean_ok :: "float_env \<Rightarrow> bool" where
  "mean_ok fe \<longleftrightarrow> (\<forall>td old new. unat (fe_mix fe td old new) \<le> max (unat old) (unat new))"

definition success_ok :: "p2c_state \<Rightarrow> bool" where
  "success_ok s \<longleftrightarrow> (\<forall>c \<in> set (pk_conns (fst s)). sc_success c \<le> initSuccess)"

lemma done_conn_success:
  assumes "mean_ok fe" and "sc_success c \<le> initSuccess"
  shows "sc_success (done_conn fe start now err c) \<le> initSuccess"
proof -
  have "unat (fe_mix fe w (sc_success c) x) \<le> unat initSuccess" if "x = initSuccess \<or> x = 0" for w x
  proof -
    have "unat (fe_mix fe w (sc_success c) x) \<le> max (unat (sc_success c)) (unat x)"
      using assms(1) by (auto simp: mean_ok_def)
    moreover have "unat (sc_success c) \<le> unat initSuccess" using assms(2) by (simp add: word_le_nat_alt)
    ultimately show ?thesis using that by auto
  qed
  then show ?thesis
    by (auto simp: done_conn_def Let_def word_le_nat_alt split: option.splits)
qed

lemma p2c_step_success:
  assumes "mean_ok fe" and "success_ok s" and "p2c_inv n s" and "event_ok n e" and "0 < n"
  shows "success_ok (p2c_step fe e s)"
proof -
  obtain p calls where s: "s = (p, calls)" by fastforce
  from assms(3) s have n: "length (pk_conns p) = n" and l: "\<forall>c \<in> set calls. fst c < n" by (auto simp: p2c_inv_def)
  show ?thesis
  proof (cases e)
    case (EvPick draws now start)
    have "pk_conns p \<noteq> []" using n assms(5) by auto
    moreover have "\<forall>i. fst (draws i) < length (pk_conns p) \<and> snd (draws i) < length (pk_conns p) - 1"
      using assms(4) EvPick n by simp
    ultimately obtain i where "Pick fe draws now p = (Inr i, p\<lparr>pk_conns := take_conn i (stamp_pick now i (pk_conns p))\<rparr>)"
      "i < length (pk_conns p)" by (rule Pick_ok)
    with EvPick s assms(2) show ?thesis
      by (auto simp: success_ok_def take_stamp dest!: subsetD [OF set_update_subset_insert])
  next
    case (EvDone k now err)
    show ?thesis
    proof (cases "k < length calls")
      case True
      with l n have "fst (calls ! k) < length (pk_conns p)" by simp
      with assms(2) s have "sc_success (pk_conns p ! fst (calls ! k)) \<le> initSuccess" by (simp add: success_ok_def)
      from done_conn_success [OF assms(1) this] EvDone s True assms(2) show ?thesis
        by (auto simp: success_ok_def Done_def logStats_def Let_def dest!: subsetD [OF set_update_subset_insert])
    qed (use EvDone s assms(2) in auto)
  qed
qed

lemma p2c_run_success:
  assumes "mean_ok fe" and "\<forall>e \<in> set es. event_ok n e" and "0 < n" and "p2c_inv n s" and "success_ok s"
    and "length (snd s) + length es < 2 ^ 63"
  shows "success_ok (fold (p2c_step fe) es s)"
  using assms(2-)
proof (induction es arbitrary: s)
  case (Cons e es)
  from Cons.prems p2c_step_inv [of n s e fe] have
    "p2c_inv n (p2c_step fe e s)" "length (snd (p2c_step fe e s)) \<le> length (snd s) + 1" by auto
  moreover from Cons.prems have "success_ok (p2c_step fe e s)" by (intro p2c_step_success [OF assms(1)]) auto
  ultimately show ?case using Cons by simp
qed simp

text \<open>A picker of two connections draws nothing.\<close>

lemma Pick_two:
  "length (pk_conns q) = 2 \<Longrightarrow>
   Pick fe d s q = (case choose_conn fe s 0 (Some 1) (pk_conns q) of
     (c, conns) \<Rightarrow> (Inr c, q\<lparr>pk_conns := take_conn c conns\<rparr>))"
  by (cases "pk_conns q") (simp_all add: Pick_def Let_def)

section \<open>Properties\<close>

text \<open>
  C27. The balancer knows its load: after any history of overlapping calls on the picker
  of a set of connections, whatever numbers were drawn, every connection counts exactly the calls that
  are under way on it, each of them on a connection that exists.
\<close>

theorem inflight_counts_calls:
  assumes "Build_p2c scs = Some p" and "\<forall>e \<in> set es. event_ok (length scs) e" and "length es < 2 ^ 63"
    and "(p', calls) = fold (p2c_step fe) es (p, [])" and "i < length scs"
  shows "sc_inflight (pk_conns p' ! i) = int (calls_on i calls) \<and> (\<forall>c \<in> set calls. fst c < length scs)"
proof -
  have n: "0 < length scs" using assms(5) by linarith
  have "length (snd (p, [] :: (nat \<times> int) list)) + length es < 2 ^ 63" using assms(3) by (simp only: snd_conv list.size)
  from p2c_run_inv [OF assms(2) n Build_p2c_inv [OF assms(1)] this] have "p2c_inv (length scs) (p', calls)"
    unfolding assms(4) .
  with assms(5) show ?thesis by (simp add: p2c_inv_def)
qed

definition plain_floats :: float_env where
  "plain_floats = \<lparr>fe_sqrt = uint, fe_mix = (\<lambda>td old new. new)\<rparr>"

definition three_conns :: "(nat \<times> string) list" where
  "three_conns = [(5, ''a:2''), (6, ''b:2''), (7, ''c:2'')]"

definition three_events :: "p2c_event list" where
  "three_events = [EvPick (\<lambda>_. (0, 1)) 9 9, EvPick (\<lambda>_. (1, 0)) 9 9, EvDone 0 20 (Some Unavailable)]"

theorem inflight_counts_calls_witness:
  "\<exists>p' calls. (p', calls) = fold (p2c_step plain_floats) three_events (\<lparr>pk_conns = map new_sub_conn three_conns, pk_stamp = 0\<rparr>, []) \<and>
     sc_inflight (pk_conns p' ! 2) = int (calls_on 2 calls)"
proof -
  have b: "Build_p2c three_conns = Some \<lparr>pk_conns = map new_sub_conn three_conns, pk_stamp = 0\<rparr>"
    by (simp add: Build_p2c_def three_conns_def)
  have e: "\<forall>e \<in> set three_events. event_ok (length three_conns) e"
    by (simp add: three_events_def three_conns_def)
  obtain p' calls where f: "(p', calls) =
      fold (p2c_step plain_floats) three_events (\<lparr>pk_conns = map new_sub_conn three_conns, pk_stamp = 0\<rparr>, [])"
    by (metis surj_pair)
  have "length three_events < 2 ^ 63" "2 < length three_conns" by (simp_all add: three_events_def three_conns_def)
  from inflight_counts_calls [OF b e this(1) f this(2)] f show ?thesis by blast
qed



text \<open>
  C29. An idle connection is tried again: of two connections, one that was not picked for more
  than a second is picked by the next call or by the one after it, if this comes within a second,
  whatever the loads are and whichever calls end in between.
\<close>

theorem idle_conn_is_tried:
  assumes "length (pk_conns p) = 2" and "i < 2" and "\<forall>c \<in> set (pk_conns p). 0 \<le> sc_pick c \<and> sc_pick c \<le> t"
    and "t \<le> t'" and "t' < 2 ^ 63" and "forcePick < t - sc_pick (pk_conns p ! i)" and "t' - t \<le> forcePick"
    and "Pick fe draws t p = (Inr a, p1)"
    and "length (pk_conns p2) = 2" and "\<forall>j < 2. sc_pick (pk_conns p2 ! j) = sc_pick (pk_conns p1 ! j)"
    and "Pick fe draws' t' p2 = (Inr b, p3)"
  shows "a = i \<or> b = i"
proof (rule disjCI)
  assume "b \<noteq> i"
  note pick = Pick_two
  obtain c1 c2 where c: "pk_conns p = [c1, c2]" using assms(1) by (auto simp: length_Suc_conv numeral_2_eq_2)
  have j: "i = 0 \<or> i = 1" using assms(2) by auto
  show "a = i"
  proof (rule ccontr)
    assume "a \<noteq> i"
    have p1: "sc_pick (pk_conns p1 ! i) = sc_pick (pk_conns p ! i) \<and> sc_pick (pk_conns p1 ! (1 - i)) = t \<and> a = 1 - i"
      using assms(8) \<open>a \<noteq> i\<close> j unfolding pick [OF assms(1)]
      by (auto simp: c choose_conn_def take_conn_def stamp_pick_def Let_def split: if_splits)
    have s: "sc_pick (pk_conns p2 ! i) = sc_pick (pk_conns p ! i)" "sc_pick (pk_conns p2 ! (1 - i)) = t"
      using assms(10) p1 assms(2) by auto
    have ge: "0 \<le> sc_pick (pk_conns p ! i)" using assms(1-3) by (simp add: nth_mem)
    have old: "i64 (t' - sc_pick (pk_conns p2 ! i)) = t' - sc_pick (pk_conns p ! i)"
      using s(1) ge assms(4-6) by (intro trans [OF i64_small]) (auto simp: forcePick_def)
    have young: "i64 (t' - sc_pick (pk_conns p2 ! (1 - i))) = t' - t"
      using s(2) assms(4,5,6) ge by (intro trans [OF i64_small]) (auto simp: forcePick_def)
    have "b = i"
      using assms(11) old young assms(4,6,7) j unfolding pick [OF assms(9)]
      by (auto simp: choose_conn_def Let_def split: if_splits)
    with \<open>b \<noteq> i\<close> show False by simp
  qed
qed

definition two_conns :: p2c_picker where
  "two_conns = \<lparr>pk_conns = map new_sub_conn [(5, ''a:2''), (6, ''b:2'')], pk_stamp = 0\<rparr>"

lemma two_conns_fields:
  "length (pk_conns two_conns) = 2" "c \<in> set (pk_conns two_conns) \<Longrightarrow> sc_pick c = 0"
  by (auto simp: two_conns_def new_sub_conn_def)

lemma Pick_two_result:
  assumes "length (pk_conns q) = 2"
  obtains c q' where "Pick fe d s q = (Inr c, q')" "length (pk_conns q') = 2"
  using assms
  by (cases "choose_conn fe s 0 (Some 1) (pk_conns q)")
    (auto simp: Pick_two take_conn_def dest!: choose_conn_cases simp: stamp_pick_def)

theorem idle_conn_is_tried_witness:
  "fst (Pick plain_floats (\<lambda>_. (0, 0)) 2000000000 two_conns) = Inr 0 \<or>
   fst (Pick plain_floats (\<lambda>_. (0, 0)) 2000000007 (snd (Pick plain_floats (\<lambda>_. (0, 0)) 2000000000 two_conns))) = Inr 0"
proof -
  obtain a p1 where a: "Pick plain_floats (\<lambda>_. (0, 0)) 2000000000 two_conns = (Inr a, p1)" "length (pk_conns p1) = 2"
    using Pick_two_result [OF two_conns_fields(1)] .
  obtain b p3 where b: "Pick plain_floats (\<lambda>_. (0, 0)) 2000000007 p1 = (Inr b, p3)"
    using Pick_two_result [OF a(2)] .
  have z: "sc_pick (pk_conns two_conns ! 0) = 0" using two_conns_fields by simp
  have "a = 0 \<or> b = 0"
    using idle_conn_is_tried [OF two_conns_fields(1) _ _ _ _ _ _ a(1) a(2) _ b, of 0]
    by (simp add: two_conns_fields(2) z forcePick_def)
  with a b show ?thesis by auto
qed

text \<open>
  Slow traffic goes to the busier connection: of two connections that were not picked for
  more than a second, the one with the higher load is picked, and afterwards both were picked no later
  than now, so that a client whose calls are more than a second apart always calls the more loaded one.
\<close>

theorem slow_traffic_picks_loaded:
  assumes "length (pk_conns p) = 2" and "\<forall>c \<in> set (pk_conns p). 0 \<le> sc_pick c \<and> sc_pick c + forcePick < t"
    and "t < 2 ^ 63" and "Pick fe draws t p = (Inr a, p1)"
  shows "(\<forall>c \<in> set (pk_conns p). load fe c \<le> load fe (pk_conns p ! a)) \<and>
         (\<forall>c \<in> set (pk_conns p1). 0 \<le> sc_pick c \<and> sc_pick c \<le> t)"
proof -
  obtain c1 c2 where c: "pk_conns p = [c1, c2]" using assms(1) by (auto simp: length_Suc_conv numeral_2_eq_2)
  have old: "forcePick < i64 (t - sc_pick x)" if "x \<in> set (pk_conns p)" for x
  proof -
    have "i64 (t - sc_pick x) = t - sc_pick x"
      using assms(2,3) that by (intro i64_small) (force simp: forcePick_def)+
    with assms(2) that show ?thesis by auto
  qed
  have t: "0 \<le> t" "sc_pick c1 \<le> t" "sc_pick c2 \<le> t" "0 \<le> sc_pick c1" "0 \<le> sc_pick c2"
    using assms(2) by (auto simp: c forcePick_def)
  show ?thesis
    using assms(4) old t unfolding Pick_two [OF assms(1)]
    by (auto simp: c choose_conn_def take_conn_def stamp_pick_def Let_def split: if_splits)
qed

theorem slow_traffic_picks_loaded_witness:
  "\<exists>a p1. Pick plain_floats (\<lambda>_. (0, 0)) 2000000000 (two_conns\<lparr>pk_conns := [(pk_conns two_conns ! 0)\<lparr>sc_inflight := 7\<rparr>, pk_conns two_conns ! 1]\<rparr>) =
     (Inr a, p1) \<and> 8 \<le> load plain_floats ([(pk_conns two_conns ! 0)\<lparr>sc_inflight := 7\<rparr>, pk_conns two_conns ! 1] ! a)"
proof -
  let ?p = "two_conns\<lparr>pk_conns := [(pk_conns two_conns ! 0)\<lparr>sc_inflight := 7\<rparr>, pk_conns two_conns ! 1]\<rparr>"
  have l: "length (pk_conns ?p) = 2" by simp
  obtain a p1 where a: "Pick plain_floats (\<lambda>_. (0, 0)) 2000000000 ?p = (Inr a, p1)"
    using Pick_two_result [OF l] .
  have z: "sc_pick (pk_conns two_conns ! 0) = 0" "sc_pick (pk_conns two_conns ! Suc 0) = 0" "sc_lag (pk_conns two_conns ! 0) = 0"
    by (simp_all add: two_conns_def new_sub_conn_def)
  have "load plain_floats ((pk_conns two_conns ! 0)\<lparr>sc_inflight := 7\<rparr>) = 8"
    by (simp add: load_def plain_floats_def z Let_def)
  with slow_traffic_picks_loaded [OF l _ _ a] a show ?thesis by (auto simp: z forcePick_def)
qed

end
