(* ===== verification/GrpcClient.thy ===== *)
theory GrpcClient
  imports Resolver
begin

text \<open>
  \<open>grpc/auth\<close> and \<open>grpc/client\<close>: tokens, connections and their table, calls with their
  retries, interceptors. gRPC itself, TLS and files are the record \<open>grpc_lib\<close>, over a state
  \<open>'g\<close> that is its own; connections and credentials are numbers. The table of connections
  holds the connection of an instance, or \<open>None\<close> while it has none; its locks are left out.
\<close>

section \<open>auth/auth.go\<close>

record grpc_auth =
  au_isHTTPS :: bool
  au_value :: string

type_synonym md = "string \<rightharpoonup> string list"

definition NewAuthWithHTTPS :: "string \<Rightarrow> grpc_auth" where
  "NewAuthWithHTTPS value = \<lparr>au_isHTTPS = True, au_value = value\<rparr>"

definition NewAuth :: "string \<Rightarrow> grpc_auth" where
  "NewAuth value = \<lparr>au_isHTTPS = False, au_value = value\<rparr>"

definition auth_getKey :: "grpc_auth \<Rightarrow> string" where "auth_getKey this = ''x''"
definition auth_getValue :: "grpc_auth \<Rightarrow> string" where "auth_getValue this = au_value this"

definition GetRequestMetadata :: "grpc_auth \<Rightarrow> (string \<times> string) list" where
  "GetRequestMetadata this = [(auth_getKey this, auth_getValue this)]"

definition RequireTransportSecurity :: "grpc_auth \<Rightarrow> bool" where
  "RequireTransportSecurity this = au_isHTTPS this"

definition Unauthenticated :: "string \<Rightarrow> goerr" where
  "Unauthenticated msg = Errorf (''rpc error: code = Unauthenticated desc = '' @ msg)"

text \<open>The metadata of the incoming call, \<open>None\<close> when it has none. An empty list has no \<open>val[0]\<close>.\<close>

definition Auth :: "grpc_auth \<Rightarrow> md option \<Rightarrow> goerr option outcome" where
  "Auth this mdo =
     (case mdo of
        None \<Rightarrow> Returns (Some (Errorf ''missing credentials''))
      | Some m \<Rightarrow>
          (case m (auth_getKey this) of
             None \<Rightarrow> Returns (Some (Unauthenticated ''not found token''))
           | Some [] \<Rightarrow> Panics (PanicMsg ''index out of range'')
           | Some (x # _) \<Rightarrow>
               if x \<noteq> auth_getValue this then Returns (Some (Unauthenticated ''invalid token'')) else Returns None))"

section \<open>client.go\<close>

datatype dial_option =
  WithInsecure | WithKeepaliveParams | WithTransportCredentials "nat option" | WithPerRPCCredentials grpc_auth
| WithDefaultServiceConfig string | WithUnaryInterceptor | WithStreamInterceptor | CallerOption nat

record client_creds =
  cc_ServerName :: string
  cc_CaFile :: string
  cc_CertFile :: string
  cc_KeyFile :: string

record 'g grpc_lib =
  gl_DialContext :: "string \<Rightarrow> dial_option list \<Rightarrow> 'g \<Rightarrow> (goerr + nat) \<times> 'g"
  gl_Close :: "nat \<Rightarrow> 'g \<Rightarrow> 'g"
  gl_LoadX509KeyPair :: "string \<Rightarrow> string \<Rightarrow> goerr + nat"
  gl_ReadFile :: "string \<Rightarrow> goerr + string"
  gl_AppendCerts :: "string \<Rightarrow> bool"
  gl_NewTLS :: "nat \<Rightarrow> string \<Rightarrow> string \<Rightarrow> nat" \<comment> \<open>certificate, server name, text of the CA\<close>
  gl_ClientTLSFromFile :: "string \<Rightarrow> string \<Rightarrow> goerr + nat"
  gl_stat :: file_stat
  gl_app_path :: string

definition NewClientConn ::
  "'g grpc_lib \<Rightarrow> string \<Rightarrow> dial_option list \<Rightarrow> 'g \<Rightarrow> (goerr + nat) \<times> 'g" where
  "NewClientConn gl address opts g =
     (if address = [] then (Inl (Errorf ''nil address''), g)
      else gl_DialContext gl address ([WithInsecure, WithKeepaliveParams] @ opts) g)"

text \<open>
  The credentials; a CA whose text holds no certificate gives neither credentials nor an error.
\<close>

definition GetCredentialsByCA :: "'g grpc_lib \<Rightarrow> client_creds \<Rightarrow> goerr + nat option" where
  "GetCredentialsByCA gl t =
     (case gl_LoadX509KeyPair gl (cc_CertFile t) (cc_KeyFile t) of
        Inl e \<Rightarrow> Inl e
      | Inr cert \<Rightarrow>
          (case gl_ReadFile gl (cc_CaFile t) of
             Inl e \<Rightarrow> Inl e
           | Inr ca \<Rightarrow> if \<not> gl_AppendCerts gl ca then Inr None else Inr (Some (gl_NewTLS gl cert (cc_ServerName t) ca))))"

definition GetTLSCredentials :: "'g grpc_lib \<Rightarrow> client_creds \<Rightarrow> goerr + nat option" where
  "GetTLSCredentials gl t =
     (case gl_ClientTLSFromFile gl (cc_CertFile t) (cc_ServerName t) of Inl e \<Rightarrow> Inl e | Inr c \<Rightarrow> Inr (Some c))"

definition GetCredentials :: "'g grpc_lib \<Rightarrow> client_creds \<Rightarrow> goerr + nat option" where
  "GetCredentials gl t = (if cc_CaFile t \<noteq> [] then GetCredentialsByCA gl t else GetTLSCredentials gl t)"

definition NewClientConnWithSecurity ::
  "'g grpc_lib \<Rightarrow> string \<Rightarrow> string \<Rightarrow> string \<Rightarrow> dial_option list \<Rightarrow> 'g \<Rightarrow> (goerr + nat) \<times> 'g" where
  "NewClientConnWithSecurity gl address certFile serverName opts g =
     (let certFile = (if \<not> IsExist (gl_stat gl) certFile then path_join [gl_app_path gl, certFile] else certFile) in
      if address = [] \<or> serverName = [] \<or> \<not> IsExist (gl_stat gl) certFile then
        (Inl (Errorf ''nil address or serverName or certFile not exist''), g)
      else case GetCredentials gl \<lparr>cc_ServerName = serverName, cc_CaFile = [], cc_CertFile = certFile, cc_KeyFile = []\<rparr> of
        Inl e \<Rightarrow> (Inl e, g)
      | Inr creds \<Rightarrow> gl_DialContext gl address (opts @ [WithTransportCredentials creds, WithKeepaliveParams]) g)"

section \<open>conn.go\<close>

record ('c, 'g) conn_state = "'c resolver_state" +
  cn_map :: "string \<rightharpoonup> nat option" \<comment> \<open>\<open>connInstanceMap\<close>\<close>
  cn_grpc :: 'g

definition balancer_name :: "string \<Rightarrow> string" where
  "balancer_name name =
     (if name = ''round_robin'' then ''round_robin'' else if name = ''pick_first'' then name else ''p2c'')"

definition balancer_option :: "string \<Rightarrow> dial_option" where
  "balancer_option name =
     WithDefaultServiceConfig
       ([CHR ''{'', CHR 0x22] @ ''loadBalancingConfig'' @ [CHR 0x22] @ '': [{'' @ [CHR 0x22] @ name @ [CHR 0x22] @ '':{}}]}'')"

definition newClientConn ::
  "'g grpc_lib \<Rightarrow> string \<Rightarrow> grpc_config \<Rightarrow> string \<Rightarrow> dial_option list \<Rightarrow> 'g \<Rightarrow> (goerr + nat) \<times> 'g" where
  "newClientConn gl address c authValue opts g =
     (let opts = (if contains address '':///'' then opts @ [balancer_option (balancer_name (gc_BalancerName c))] else opts);
          relative = gc_CertFile c \<noteq> [] \<and> \<not> is_abs (gc_CertFile c);
          certFile = (if relative then path_join [gl_app_path gl, gc_CertFile c] else gc_CertFile c)
      in if relative \<and> \<not> IsExist (gl_stat gl) certFile then
           (Inl (Errorf (''cert file: '' @ certFile @ '' not exist'')), g)
         else if gc_ServerName c \<noteq> [] \<and> certFile \<noteq> [] \<and> IsExist (gl_stat gl) certFile then
           NewClientConnWithSecurity gl address certFile (gc_ServerName c)
             (if gc_IsAuth c then opts @ [WithPerRPCCredentials (NewAuthWithHTTPS authValue)] else opts) g
         else
           NewClientConn gl address
             (if gc_IsAuth c then opts @ [WithPerRPCCredentials (NewAuth authValue)] else opts) g)"

definition dial_address :: "string \<Rightarrow> string \<Rightarrow> string" where
  "dial_address scheme serverName = scheme @ '':///'' @ serverName"

text \<open>Once an instance is in the table: register the resolver, dial, keep the connection.\<close>

definition dial_instance ::
  "bool \<Rightarrow> 'c consul_api \<Rightarrow> 'g grpc_lib \<Rightarrow> grpc_config \<Rightarrow> string \<Rightarrow> dial_option list \<Rightarrow>
    ('c, 'g, 'z) conn_state_scheme \<Rightarrow> (goerr + nat) outcome \<times> ('c, 'g, 'z) conn_state_scheme" where
  "dial_instance etcd api gl c authValue opts st =
     (case GetAndRegisterResolver etcd api c st of
        (Panics p, st2) \<Rightarrow> (Panics p, st2)
      | (Returns (Inl e), st2) \<Rightarrow> (Returns (Inl e), st2)
      | (Returns (Inr scheme), st2) \<Rightarrow>
          (case newClientConn gl (dial_address scheme (gc_ServerName c)) c authValue opts (cn_grpc st2) of
             (Inl e, g) \<Rightarrow> (Returns (Inl e), st2\<lparr>cn_grpc := g\<rparr>)
           | (Inr conn, g) \<Rightarrow>
               (Returns (Inr conn), st2\<lparr>cn_map := (cn_map st2)(gc_ResolverScheme c \<mapsto> Some conn), cn_grpc := g\<rparr>)))"

definition GetConnWithAuth ::
  "bool \<Rightarrow> 'c consul_api \<Rightarrow> 'g grpc_lib \<Rightarrow> grpc_config \<Rightarrow> string \<Rightarrow> dial_option list \<Rightarrow>
    ('c, 'g, 'z) conn_state_scheme \<Rightarrow> (goerr + nat) outcome \<times> ('c, 'g, 'z) conn_state_scheme" where
  "GetConnWithAuth etcd api gl c authValue opts st =
     (if gc_ServerName c = [] then (Returns (Inl (Errorf ''please specify grpc ServerName'')), st)
      else case CompleteResolverScheme c of
        Inl e \<Rightarrow> (Returns (Inl e), st)
      | Inr c \<Rightarrow>
          (case cn_map st (gc_ResolverScheme c) of
             Some (Some conn) \<Rightarrow> (Returns (Inr conn), st)
           | _ \<Rightarrow>
               dial_instance etcd api gl c authValue opts
                 (st\<lparr>cn_map := (cn_map st)(gc_ResolverScheme c \<mapsto> None)\<rparr>)))"

definition interceptor_options :: "dial_option list" where
  "interceptor_options = [WithUnaryInterceptor, WithStreamInterceptor]"

definition GetConnWithDefaultInterceptor ::
  "bool \<Rightarrow> 'c consul_api \<Rightarrow> 'g grpc_lib \<Rightarrow> grpc_config \<Rightarrow> dial_option list \<Rightarrow> ('c, 'g, 'z) conn_state_scheme \<Rightarrow>
    (goerr + nat) outcome \<times> ('c, 'g, 'z) conn_state_scheme" where
  "GetConnWithDefaultInterceptor etcd api gl c opts st = GetConnWithAuth etcd api gl c [] (interceptor_options @ opts) st"

definition GetConn ::
  "bool \<Rightarrow> 'c consul_api \<Rightarrow> 'g grpc_lib \<Rightarrow> grpc_config \<Rightarrow> dial_option list \<Rightarrow> ('c, 'g, 'z) conn_state_scheme \<Rightarrow>
    (goerr + nat) outcome \<times> ('c, 'g, 'z) conn_state_scheme" where
  "GetConn etcd api gl c opts st = GetConnWithDefaultInterceptor etcd api gl c opts st"

text \<open>\<open>removeClientConn\<close>, which nothing calls: an instance without a connection is a nil pointer.\<close>

definition removeClientConn ::
  "'g grpc_lib \<Rightarrow> bool \<Rightarrow> grpc_config \<Rightarrow> ('c, 'g, 'z) conn_state_scheme \<Rightarrow> unit outcome \<times> ('c, 'g, 'z) conn_state_scheme" where
  "removeClientConn gl unavailable c st =
     (if \<not> unavailable then (Returns (), st)
      else case CompleteResolverScheme c of
        Inl e \<Rightarrow> (Returns (), st)
      | Inr c \<Rightarrow>
          (case cn_map st (gc_ResolverScheme c) of
             None \<Rightarrow> (Returns (), st)
           | Some None \<Rightarrow> (Panics nil_deref, st)
           | Some (Some conn) \<Rightarrow>
               (Returns (), st\<lparr>cn_map := (cn_map st)(gc_ResolverScheme c := None), cn_grpc := gl_Close gl conn (cn_grpc st)\<rparr>)))"

section \<open>do.go\<close>

text \<open>\<open>do_state\<close> adds the process state and the store of \<open>RespErr\<close> values.\<close>

record ('c, 'g, 's, 't) do_state = "('c, 'g) conn_state" +
  do_app :: "('s, 't) app"
  do_errs :: resp_store

text \<open>
  What a call uses: identifiers by the number of the try, the call, the error of the context
  with the timeout before a try, and the outgoing metadata of the caller's context.
\<close>

record ('g, 'r) do_env =
  de_uuid :: "nat \<Rightarrow> string"
  de_w0 :: response_writer
  de_r0 :: http_request
  de_call :: "md \<Rightarrow> nat \<Rightarrow> 'g \<Rightarrow> ('r option \<times> call_err option) outcome \<times> 'g"
  de_done :: "nat \<Rightarrow> 'g \<Rightarrow> goerr option"
  de_md :: "md option"
  de_gopath :: string
  de_site :: "string \<times> int"

definition retry :: int where "retry = 3"

definition retry_num :: "grpc_config \<Rightarrow> int" where
  "retry_num c = (if gc_Addresses c \<noteq> [] then go_Min retry [int (length (gc_Addresses c)) + 1] else retry)"

text \<open>\<open>common.NewRespErr(500, ...)\<close>\<close>

definition resp_500 ::
  "('g, 'r) do_env \<Rightarrow> err_arg \<Rightarrow> ('c, 'g, 's, 't) do_state \<Rightarrow> call_err \<times> ('c, 'g, 's, 't) do_state" where
  "resp_500 env i st =
     (let (p, h) = NewRespErr (de_gopath env) (de_site env) 500 i (do_errs st) in (ErrResp p, st\<lparr>do_errs := h\<rparr>))"

text \<open>One try, in a context of its own that is cancelled when it is over, also by a panic.\<close>

definition try_call ::
  "('g, 'r) do_env \<Rightarrow> http_ctx \<Rightarrow> nat \<Rightarrow> nat \<Rightarrow> md \<Rightarrow> ('c, 'g, 's, 't) do_state \<Rightarrow>
    ('r option \<times> call_err option) outcome \<times> md \<times> ('c, 'g, 's, 't) do_state" where
  "try_call env httpCtx2 i conn m st =
     (case NewHTTPContextWithCtx (de_uuid env i) (de_w0 env) (de_r0 env) (Some httpCtx2) (do_app st) of
        (Panics p, ap) \<Rightarrow> (Panics p, m, st\<lparr>do_app := ap\<rparr>)
      | (Returns httpCtx, ap) \<Rightarrow>
          (let m' = m(GrpcTraceIDKey \<mapsto> [hc_traceID httpCtx]);
               (r, g) = de_call env m' conn (cn_grpc st)
           in (r, m', st\<lparr>cn_grpc := g, do_app := snd (HTTPContext_Cancel httpCtx ap)\<rparr>)))"

definition final :: "call_err option \<Rightarrow> bool" where
  "final err \<longleftrightarrow> (case err of Some (ErrPlain _) \<Rightarrow> False | _ \<Rightarrow> True)"

text \<open>The loop from the try \<open>i\<close> on with \<open>n\<close> tries left; \<open>res\<close> are the variables \<open>resp\<close> and \<open>err\<close>.\<close>

fun do_loop ::
  "('g, 'r) do_env \<Rightarrow> http_ctx \<Rightarrow> nat \<Rightarrow> nat \<Rightarrow> nat \<Rightarrow> md \<Rightarrow> 'r option \<times> call_err option \<Rightarrow>
    ('c, 'g, 's, 't) do_state \<Rightarrow> ('r option \<times> call_err option) outcome \<times> ('c, 'g, 's, 't) do_state" where
  "do_loop env httpCtx conn i 0 m res st =
     (case snd res of
        Some (ErrPlain e) \<Rightarrow> (let (er, st') = resp_500 env (ArgErr e) st in (Returns (fst res, Some er), st'))
      | _ \<Rightarrow> (Returns res, st))"
| "do_loop env httpCtx conn i (Suc n) m res st =
     (case de_done env i (cn_grpc st) of
        Some e \<Rightarrow> (let (er, st') = resp_500 env (ArgErr e) st in (Returns (None, Some er), st'))
      | None \<Rightarrow>
          (case try_call env httpCtx i conn m st of
             (Panics p, _, st1) \<Rightarrow> (Panics p, st1)
           | (Returns res1, m1, st1) \<Rightarrow>
               if final (snd res1) then (Returns res1, st1)
               else do_loop env httpCtx conn (i + 1) n m1 res1 st1))"

definition Do_grpc ::
  "bool \<Rightarrow> 'c consul_api \<Rightarrow> 'g grpc_lib \<Rightarrow> ('g, 'r) do_env \<Rightarrow> http_ctx option \<Rightarrow> grpc_config \<Rightarrow> dial_option list \<Rightarrow>
    ('c, 'g, 's, 't) do_state \<Rightarrow> ('r option \<times> call_err option) outcome \<times> ('c, 'g, 's, 't) do_state" where
  "Do_grpc etcd api gl env httpCtx c opts st =
     (case httpCtx of
        None \<Rightarrow> (let (er, st') = resp_500 env (ArgStr ''nil httpCtx'') st in (Returns (None, Some er), st'))
      | Some h \<Rightarrow>
          (case (if gc_IsAuth c then GetConnWithAuth etcd api gl c [] (interceptor_options @ opts) st
                 else GetConnWithDefaultInterceptor etcd api gl c opts st) of
             (Panics p, st1) \<Rightarrow> (Panics p, st1)
           | (Returns (Inl e), st1) \<Rightarrow>
               (let (er, st') = resp_500 env (ArgErr e) st1 in (Returns (None, Some er), st'))
           | (Returns (Inr conn), st1) \<Rightarrow>
               do_loop env h conn 0 (nat (retry_num c)) (case de_md env of Some m \<Rightarrow> m | None \<Rightarrow> Map.empty)
                 (None, None) st1))"

section \<open>interceptor.go\<close>

text \<open>
  The deferred functions: a panic of the call is recovered, which leaves the results at their
  zero values, and the context is cancelled.
\<close>

definition UnaryClientInterceptor ::
  "string \<Rightarrow> response_writer \<Rightarrow> http_request \<Rightarrow> grpc_ctx \<Rightarrow>
    (http_ctx \<Rightarrow> ('s, 't) app \<Rightarrow> goerr option outcome \<times> ('s, 't) app) \<Rightarrow> ('s, 't) app \<Rightarrow> goerr option \<times> ('s, 't) app" where
  "UnaryClientInterceptor uuid w0 r0 ctx invoker st =
     (let (httpCtx, st1) = NewHTTPContextWithGrpcOutgoingCtx uuid w0 r0 ctx st;
          (r, st2) = invoker httpCtx st1;
          (_, st3) = HTTPContext_Cancel httpCtx st2
      in (case r of Returns e \<Rightarrow> e | Panics _ \<Rightarrow> None, st3))"

definition StreamClientInterceptor ::
  "string \<Rightarrow> response_writer \<Rightarrow> http_request \<Rightarrow> grpc_ctx \<Rightarrow>
    (http_ctx \<Rightarrow> ('s, 't) app \<Rightarrow> (nat option \<times> goerr option) outcome \<times> ('s, 't) app) \<Rightarrow> ('s, 't) app \<Rightarrow>
    (nat option \<times> goerr option) \<times> ('s, 't) app" where
  "StreamClientInterceptor uuid w0 r0 ctx streamer st =
     (let (httpCtx, st1) = NewHTTPContextWithGrpcOutgoingCtx uuid w0 r0 ctx st;
          (r, st2) = streamer httpCtx st1;
          (_, st3) = HTTPContext_Cancel httpCtx st2
      in (case r of Returns x \<Rightarrow> x | Panics _ \<Rightarrow> (None, None), st3))"

section \<open>Facts\<close>

text \<open>Whatever the registration of a resolver does not touch stays.\<close>

lemma GetAndRegisterResolver_frame:
  fixes f :: "('c, 'z) resolver_state_scheme \<Rightarrow> 'a"
  assumes "\<And>x s. f (s\<lparr>cs_clients := x\<rparr>) = f s" and "\<And>x s. f (s\<lparr>cs_srv := x\<rparr>) = f s"
    and "\<And>x s. f (s\<lparr>rs_registry := x\<rparr>) = f s" and "\<And>x s. f (s\<lparr>rs_consul := x\<rparr>) = f s"
    and "\<And>x s. f (s\<lparr>rs_etcd := x\<rparr>) = f s"
  shows "f (snd (GetAndRegisterResolver etcd api c st)) = f st"
proof -
  have n: "f (snd (NewConsulClient api a s)) = f s" for a s
    by (auto simp: NewConsulClient_def assms split: option.splits prod.splits sum.splits)
  have static: "f (snd (GenerateAndRegisterStaticResolver d st)) = f st" for d
    by (auto simp: GenerateAndRegisterStaticResolver_def complete_and_register_def Let_def assms split: sum.splits)
  have etcd: "f (snd (GenerateAndRegisterEtcdResolver d st)) = f st" for d
    by (auto simp: GenerateAndRegisterEtcdResolver_def complete_and_register_def Let_def assms split: sum.splits)
  have b: "f (snd (case NewConsulBuilder api s a t st of
             (None, st1) \<Rightarrow> (Panics nil_deref, st1)
           | (Some b, st1) \<Rightarrow>
               (Returns (Inr (cb_scheme b)),
                st1\<lparr>rs_consul := rs_consul st1 @ [b],
                    rs_registry := (rs_registry st1)(cb_scheme b \<mapsto> ConsulB (length (rs_consul st1)))\<rparr>))) = f st" for s a t
    by (cases rule: NewConsulBuilder_cases [of api s a t st]) (simp_all add: assms n)
  have consul: "f (snd (GenerateAndRegisterConsulResolver api d st)) = f st" for d
    by (auto simp: GenerateAndRegisterConsulResolver_def complete_and_register_def b split: sum.splits)
  show ?thesis
    by (auto simp: GetAndRegisterResolver_def ResolverFuncMap_def map_add_def static etcd consul
        split: option.splits if_splits)
qed

lemma registering_keeps:
  "cn_map (snd (GetAndRegisterResolver etcd api c st)) = cn_map st"
  "cn_grpc (snd (GetAndRegisterResolver etcd api c st)) = cn_grpc st"
  by (rule GetAndRegisterResolver_frame; simp)+

lemma registering_keeps_do:
  "do_app (snd (GetAndRegisterResolver etcd api c st)) = do_app st"
  "do_errs (snd (GetAndRegisterResolver etcd api c st)) = do_errs st"
  by (rule GetAndRegisterResolver_frame; simp)+

text \<open>Connections are shared by scheme. A call that panics acquires nothing.\<close>

fun no_panic :: "(goerr + 'a) outcome \<Rightarrow> goerr + 'a" where
  "no_panic (Returns r) = r"
| "no_panic (Panics p) = Inl (Errorf ''panic'')"

type_synonym conn_request = "grpc_config \<times> string \<times> dial_option list"

definition acquire_conn ::
  "bool \<Rightarrow> 'c consul_api \<Rightarrow> 'g grpc_lib \<Rightarrow> conn_request \<Rightarrow> ('c, 'g, 'z) conn_state_scheme \<Rightarrow>
    (goerr + nat) \<times> ('c, 'g, 'z) conn_state_scheme" where
  "acquire_conn etcd api gl x st =
     (case x of (c, authValue, opts) \<Rightarrow>
        (case GetConnWithAuth etcd api gl c authValue opts st of (r, st') \<Rightarrow> (no_panic r, st')))"

definition conn_key :: "conn_request \<Rightarrow> string" where
  "conn_key x = (case CompleteResolverScheme (fst x) of Inl _ \<Rightarrow> [] | Inr c \<Rightarrow> gc_ResolverScheme c)"

definition conn_usable :: "conn_request \<Rightarrow> bool" where
  "conn_usable x \<longleftrightarrow> gc_ServerName (fst x) \<noteq> [] \<and> (\<exists>c. CompleteResolverScheme (fst x) = Inr c)"

definition conn_of :: "('c, 'g, 'z) conn_state_scheme \<Rightarrow> string \<Rightarrow> nat option" where
  "conn_of st k = (case cn_map st k of Some (Some conn) \<Rightarrow> Some conn | _ \<Rightarrow> None)"

text \<open>The three ways a connection is asked for.\<close>

lemma dial_instance_cases:
  assumes "dial_instance etcd api gl c au opts st = (r, st')"
  obtains (failed) e where "no_panic r = Inl e" "cn_map st' = cn_map st"
  | (made) conn where "r = Returns (Inr conn)" "cn_map st' = (cn_map st)(gc_ResolverScheme c \<mapsto> Some conn)"
proof -
  obtain r1 st1 where g: "GetAndRegisterResolver etcd api c st = (r1, st1)" by fastforce
  from registering_keeps(1) [of etcd api c st] g have k: "cn_map st1 = cn_map st" by simp
  show thesis
  proof (cases r1)
    case (Returns x)
    show thesis
    proof (cases x)
      case (Inr scheme)
      obtain y g1 where n: "newClientConn gl (dial_address scheme (gc_ServerName c)) c au opts (cn_grpc st1) = (y, g1)"
        by fastforce
      show thesis
        by (cases y) (use assms g k Returns Inr n failed made in \<open>auto simp: dial_instance_def\<close>)
    qed (use assms g k Returns failed in \<open>auto simp: dial_instance_def\<close>)
  qed (use assms g k failed in \<open>auto simp: dial_instance_def\<close>)
qed

lemma acquire_conn_cases:
  assumes "acquire_conn etcd api gl x st = (r, st')"
  obtains (hit) conn where "conn_of st (conn_key x) = Some conn" "r = Inr conn" "st' = st"
  | (refused) e where "r = Inl e" "conn_of st' = conn_of st"
  | (dialled) conn where "r = Inr conn" "conn_of st (conn_key x) = None"
      "conn_of st' = (conn_of st)(conn_key x \<mapsto> conn)"
proof -
  obtain c au opts where x: "x = (c, au, opts)" using prod_cases3 by blast
  obtain r0 where r0: "GetConnWithAuth etcd api gl c au opts st = (r0, st')" "r = no_panic r0"
    using assms by (auto simp: acquire_conn_def x split: prod.splits)
  show thesis
  proof (cases "gc_ServerName c = [] \<or> (\<exists>e. CompleteResolverScheme c = Inl e)")
    case True
    with r0 refused show thesis by (auto simp: GetConnWithAuth_def split: if_splits)
  next
    case False
    then obtain c' where c': "CompleteResolverScheme c = Inr c'" by (cases "CompleteResolverScheme c") auto
    then have key: "conn_key x = gc_ResolverScheme c'" by (simp add: conn_key_def x)
    show thesis
    proof (cases "conn_of st (conn_key x)")
      case (Some conn)
      with r0 False c' key hit show thesis
        by (auto simp: GetConnWithAuth_def conn_of_def split: option.splits)
    next
      case None
      let ?st1 = "st\<lparr>cn_map := (cn_map st)(gc_ResolverScheme c' \<mapsto> None)\<rparr>"
      have d: "dial_instance etcd api gl c' au opts ?st1 = (r0, st')"
        using r0 False c' None key by (auto simp: GetConnWithAuth_def conn_of_def split: option.splits)
      have same: "conn_of ?st1 = conn_of st" using None key by (auto simp: conn_of_def fun_eq_iff split: option.splits)
      from d show thesis
      proof (cases rule: dial_instance_cases)
        case (failed e)
        then have "conn_of st' = conn_of ?st1" by (simp add: conn_of_def fun_eq_iff)
        with same r0 failed refused show thesis by metis
      next
        case (made conn)
        then have "conn_of st' = (conn_of ?st1)(conn_key x \<mapsto> conn)" by (auto simp: conn_of_def fun_eq_iff key)
        with same r0 made None dialled show thesis by simp
      qed
    qed
  qed
qed

interpretation conn_table: keyed_cache "acquire_conn etcd api gl" conn_key conn_of conn_usable
proof unfold_locales
  fix x and st st' :: "('a, 'b, 'c) conn_state_scheme" and i j e
  show "conn_usable x \<Longrightarrow> conn_of st (conn_key x) = Some i \<Longrightarrow> acquire_conn etcd api gl x st = (Inr i, st)"
    by (cases x) (auto simp: acquire_conn_def GetConnWithAuth_def conn_key_def conn_of_def conn_usable_def
        split: option.splits)
  assume a: "acquire_conn etcd api gl x st = (Inr i, st')"
  then show "conn_of st' = (conn_of st)(conn_key x \<mapsto> i)"
    by (cases rule: acquire_conn_cases) (auto simp: fun_eq_iff)
  from a show "conn_of st (conn_key x) = Some j \<Longrightarrow> i = j"
    by (cases rule: acquire_conn_cases) auto
next
  fix x and st st' :: "('a, 'b, 'c) conn_state_scheme" and e
  assume "acquire_conn etcd api gl x st = (Inl e, st')"
  then show "conn_of st' = conn_of st" by (cases rule: acquire_conn_cases) auto
qed

text \<open>A try leaves the wait group as it was.\<close>

lemma try_call_wg:
  "try_call env h i conn m st = (r, m', st') \<Longrightarrow> ap_wg (do_app st') = ap_wg (do_app st)"
  by (auto simp: try_call_def NewHTTPContextWithCtx_def HTTPContext_Cancel_def blank_ctx_def WgAdd_def WgDone_def Let_def
      split: prod.splits)

lemma resp_500_app: "resp_500 env i st = (er, st') \<Longrightarrow> do_app st' = do_app st"
  by (auto simp: resp_500_def split: prod.splits)

lemma do_loop_wg: "ap_wg (do_app (snd (do_loop env h conn i n m res st))) = ap_wg (do_app st)"
proof (induction n arbitrary: i m res st)
  case 0
  show ?case by (auto dest: resp_500_app split: option.splits call_err.splits prod.splits)
next
  case (Suc n)
  show ?case
  proof (cases "de_done env i (cn_grpc st)")
    case None
    obtain r m1 st1 where t: "try_call env h i conn m st = (r, m1, st1)" using prod_cases3 by blast
    from try_call_wg [OF t] Suc None show ?thesis by (cases r) (simp_all add: t)
  qed (auto dest: resp_500_app split: prod.splits)
qed

text \<open>What a try does to the metadata and to gRPC, and its answer.\<close>

definition try_md :: "('g, 'r) do_env \<Rightarrow> http_ctx \<Rightarrow> nat \<Rightarrow> md \<Rightarrow> md" where
  "try_md env h i m = m(GrpcTraceIDKey \<mapsto> [GetPureUUID (de_uuid env i) [hc_traceID h]])"

lemma try_call_result:
  "try_call env h i conn m st =
     (fst (de_call env (try_md env h i m) conn (cn_grpc st)), try_md env h i m,
      snd (snd (try_call env h i conn m st)))"
  "cn_grpc (snd (snd (try_call env h i conn m st))) = snd (de_call env (try_md env h i m) conn (cn_grpc st))"
  "do_errs (snd (snd (try_call env h i conn m st))) = do_errs st"
  by (simp_all add: try_call_def NewHTTPContextWithCtx_def try_md_def blank_ctx_def Let_def split: prod.splits)

lemma try_md_twice: "try_md env h j (try_md env h i m) = try_md env h j m"
  by (simp add: try_md_def)

text \<open>
  The reference: the tries one after the other on the state of gRPC alone, until one is final
  or none is left. The metadata of a try differs from the caller's in the trace identifier.
\<close>

fun tries :: "('g, 'r) do_env \<Rightarrow> http_ctx \<Rightarrow> nat \<Rightarrow> md \<Rightarrow> nat \<Rightarrow> nat \<Rightarrow> 'g \<Rightarrow> ('r option \<times> call_err option) list \<times> 'g" where
  "tries env h conn m i 0 g = ([], g)"
| "tries env h conn m i (Suc n) g =
     (case de_call env (try_md env h i m) conn g of
        (Panics _, g1) \<Rightarrow> ([], g1)
      | (Returns res, g1) \<Rightarrow>
          if final (snd res) then ([res], g1)
          else (let (rest, g2) = tries env h conn m (i + 1) n g1 in (res # rest, g2)))"

definition calm :: "('g, 'r) do_env \<Rightarrow> bool" where
  "calm env \<longleftrightarrow> (\<forall>i g. de_done env i g = None) \<and> (\<forall>m conn g. \<not> is_panic (fst (de_call env m conn g)))"

text \<open>What \<open>Do\<close> makes of the result of its last try: an error that is not final is wrapped.\<close>

definition answer_of :: "'r option \<times> call_err option \<Rightarrow> 'r option \<times> call_err option \<Rightarrow> bool" where
  "answer_of res r \<longleftrightarrow>
     (if final (snd res) then r = res else fst r = fst res \<and> (\<exists>p. snd r = Some (ErrResp p)))"

lemma do_loop_last:
  "\<exists>r st'. do_loop env h conn i 0 m res st = (Returns r, st') \<and> answer_of res r \<and> cn_grpc st' = cn_grpc st"
  by (cases res; cases "snd res")
    (auto simp: answer_of_def final_def resp_500_def split: call_err.splits prod.splits)

lemma do_loop_tries:
  assumes "calm env" and "\<forall>j. try_md env h j m' = try_md env h j m"
  shows "\<exists>r st'. do_loop env h conn i n m' res st = (Returns r, st') \<and>
           answer_of (last (res # fst (tries env h conn m i n (cn_grpc st)))) r \<and>
           cn_grpc st' = snd (tries env h conn m i n (cn_grpc st))"
  using assms(2)
proof (induction n arbitrary: i m' res st)
  case 0
  show ?case using do_loop_last [of env h conn i m' res st] by simp
next
  case (Suc n)
  obtain r1 g1 where c: "de_call env (try_md env h i m) conn (cn_grpc st) = (r1, g1)" by fastforce
  from assms(1) have "\<not> is_panic (fst (de_call env (try_md env h i m) conn (cn_grpc st)))" by (simp add: calm_def)
  then obtain res1 where r1: "r1 = Returns res1" using c by (cases r1) auto
  obtain st1 where t: "try_call env h i conn m' st = (Returns res1, try_md env h i m, st1)" and g: "cn_grpc st1 = g1"
    using try_call_result(1,2) [of env h i conn m' st] c r1 Suc.prems by simp
  have d: "de_done env i (cn_grpc st) = None" using assms(1) by (simp add: calm_def)
  show ?case
  proof (cases "final (snd res1)")
    case True
    then show ?thesis by (simp add: d t c r1 g answer_of_def)
  next
    case False
    have "\<forall>j. try_md env h j (try_md env h i m) = try_md env h j m" by (simp add: try_md_twice)
    from Suc.IH [OF this, of "i + 1" res1 st1] False g show ?thesis
      by (auto simp: d t c r1 split: prod.splits)
  qed
qed

lemma tries_length: "length (fst (tries env h conn m i n g)) \<le> n"
proof (induction n arbitrary: i g)
  case (Suc n)
  obtain r g1 where c: "de_call env (try_md env h i m) conn g = (r, g1)" by fastforce
  from Suc [of "i + 1" g1] show ?case by (cases r) (auto simp: c split: prod.splits)
qed simp

lemma dial_instance_do:
  fixes st :: "('c, 'g, 's, 't) do_state"
  shows "do_app (snd (dial_instance etcd api gl c au opts st)) = do_app st"
    and "do_errs (snd (dial_instance etcd api gl c au opts st)) = do_errs st"
proof -
  obtain r1 st1 where g: "GetAndRegisterResolver etcd api c st = (r1, st1)" by fastforce
  with registering_keeps_do [of etcd api c st] have k: "do_app st1 = do_app st" "do_errs st1 = do_errs st" by simp_all
  show "do_app (snd (dial_instance etcd api gl c au opts st)) = do_app st"
    "do_errs (snd (dial_instance etcd api gl c au opts st)) = do_errs st"
    by (auto simp: dial_instance_def g k split: outcome.splits sum.splits prod.splits)
qed

lemma GetConnWithAuth_do:
  fixes st :: "('c, 'g, 's, 't) do_state"
  shows "do_app (snd (GetConnWithAuth etcd api gl c au opts st)) = do_app st"
  by (auto simp: GetConnWithAuth_def dial_instance_do split: sum.splits option.splits)

definition conn_requests ::
  "bool \<Rightarrow> 'c consul_api \<Rightarrow> 'g grpc_lib \<Rightarrow> conn_request list \<Rightarrow> ('c, 'g, 'z) conn_state_scheme \<Rightarrow>
    ('c, 'g, 'z) conn_state_scheme" where
  "conn_requests etcd api gl xs st = fold (\<lambda>x s. snd (acquire_conn etcd api gl x s)) xs st"

lemma conn_requests_all: "conn_requests etcd api gl xs st = conn_table.acquire_all etcd api gl xs st"
  unfolding conn_requests_def by (induction xs arbitrary: st) simp_all

section \<open>Properties\<close>

text \<open>
  A connection is shared by everybody with its scheme: once one was dialled, every later
  request with the same scheme gets it and dials nothing, whatever was asked for in between, and
  whatever token and options it brings; the token of the first request is the one that is sent.
\<close>

theorem conn_shared_whatever_token:
  assumes "GetConnWithAuth etcd api gl c au opts st = (Returns (Inr conn), st1)"
    and "gc_ServerName d \<noteq> []" and "CompleteResolverScheme c = Inr c'" and "CompleteResolverScheme d = Inr d'"
    and "gc_ResolverScheme d' = gc_ResolverScheme c'" and "st2 = conn_requests etcd api gl xs st1"
  shows "GetConnWithAuth etcd api gl d au' opts' st2 = (Returns (Inr conn), st2)"
proof -
  have "acquire_conn etcd api gl (c, au, opts) st = (Inr conn, st1)"
    using assms(1) by (simp add: acquire_conn_def)
  moreover have "conn_usable (d, au', opts')" "conn_key (d, au', opts') = conn_key (c, au, opts)"
    using assms(2-5) by (auto simp: conn_usable_def conn_key_def)
  ultimately have "acquire_conn etcd api gl (d, au', opts') st2 = (Inr conn, st2)"
    unfolding assms(6) conn_requests_all by (rule conn_table.acquire_shared)
  then show ?thesis
    by (cases "GetConnWithAuth etcd api gl d au' opts' st2"; cases "fst (GetConnWithAuth etcd api gl d au' opts' st2)")
      (auto simp: acquire_conn_def)
qed

text \<open>A gRPC that counts its connections from 7, without files.\<close>

definition mem_grpc :: "nat grpc_lib" where
  "mem_grpc =
     \<lparr>gl_DialContext = (\<lambda>a opts g. (Inr (7 + g), g + 1)), gl_Close = (\<lambda>c g. g),
      gl_LoadX509KeyPair = (\<lambda>_ _. Inl (Errorf ''no file'')), gl_ReadFile = (\<lambda>_. Inl (Errorf ''no file'')),
      gl_AppendCerts = (\<lambda>_. False), gl_NewTLS = (\<lambda>_ _ _. 0), gl_ClientTLSFromFile = (\<lambda>_ _. Inl (Errorf ''no file'')),
      gl_stat = (\<lambda>_. StatErr ''no file'' False), gl_app_path = ''/app''\<rparr>"

definition no_conns :: "(service_entry list, nat) conn_state" where
  "no_conns = resolver_state.extend no_resolvers \<lparr>cn_map = Map.empty, cn_grpc = 0\<rparr>"

definition user_config :: grpc_config where
  "user_config = static_config ''user'' [''h:2'']"

lemma user_scheme:
  "CompleteResolverScheme user_config = Inr (user_config\<lparr>gc_ResolverScheme := ''static_user__h:2''\<rparr>)"
  by (simp add: CompleteResolverScheme_def user_config_def static_config_def scheme_of_def StaticResolver_def)

lemma user_config_fields [simp]:
  "gc_ServerName user_config = ''user''" "gc_ResolverType user_config = StaticResolver"
  "gc_Addresses user_config = [''h:2'']" "gc_CertFile user_config = []" "gc_IsAuth user_config = False"
  by (simp_all add: user_config_def static_config_def)

lemma no_conns_fields [simp]:
  "cn_map no_conns = Map.empty" "cn_grpc no_conns = 0" "rs_registry no_conns = Map.empty"
  by (simp_all add: no_conns_def no_resolvers_def resolver_state.defs)

text \<open>A first connection to a service at fixed addresses.\<close>

lemma first_static_conn:
  assumes "cn_map st = Map.empty" and "rs_registry st = Map.empty" and "cn_grpc st = (0 :: nat)"
  shows "fst (GetConnWithAuth False api mem_grpc user_config au opts st) = Returns (Inr 7)"
    and "cn_grpc (snd (GetConnWithAuth False api mem_grpc user_config au opts st)) = 1"
proof -
  let ?c = "user_config\<lparr>gc_ResolverScheme := ''static_user__h:2''\<rparr>"
  let ?st = "st\<lparr>cn_map := [''static_user__h:2'' \<mapsto> None]\<rparr>"
  have r: "GetAndRegisterResolver False api ?c ?st = (Returns (Inr ''static_user__h:2''),
      ?st\<lparr>rs_registry := [''static_user__h:2'' \<mapsto> StaticB (NewStaticBuilder ''static_user__h:2'' ''user'' [''h:2''])]\<rparr>)"
    by (simp add: GetAndRegisterResolver_def ResolverFuncMap_def GenerateAndRegisterStaticResolver_def StaticResolver_def
        ConsulResolver_def complete_and_register_def CompleteResolverScheme_def NewStaticBuilder_def assms)
  have n: "newClientConn mem_grpc a ?c au opts 0 = (Inr 7, 1)" if "a \<noteq> []" for a
    using that by (simp add: newClientConn_def NewClientConn_def mem_grpc_def Let_def)
  have g: "GetConnWithAuth False api mem_grpc user_config au opts st = dial_instance False api mem_grpc ?c au opts ?st"
    by (simp add: GetConnWithAuth_def user_scheme assms)
  show "fst (GetConnWithAuth False api mem_grpc user_config au opts st) = Returns (Inr 7)"
    "cn_grpc (snd (GetConnWithAuth False api mem_grpc user_config au opts st)) = 1"
    unfolding g by (simp_all add: dial_instance_def r n assms dial_address_def)
qed

theorem conn_shared_whatever_token_witness:
  "fst (GetConnWithAuth False mem_consul mem_grpc user_config ''second'' []
     (snd (GetConnWithAuth False mem_consul mem_grpc user_config ''first'' [] no_conns))) = Returns (Inr 7)"
proof -
  obtain st1 where a: "GetConnWithAuth False mem_consul mem_grpc user_config ''first'' [] no_conns = (Returns (Inr 7), st1)"
    using first_static_conn(1) [of no_conns mem_consul "''first''" "[]"] by (metis no_conns_fields prod.collapse)
  from conn_shared_whatever_token [OF a _ user_scheme user_scheme refl, of st1 "[]"] show ?thesis
    by (simp add: a conn_requests_def)
qed

text \<open>
  C30. A call is tried in order until it is settled: with a connection, a context that does
  not end and a call that does not panic, \<open>Do\<close> makes exactly the tries of the reference, at most
  three, and for fixed addresses at most one more than there are; it answers with the last of them, its
  error wrapped in a \<open>RespErr\<close> when it is one that would have been tried again.
\<close>

theorem Do_equals_tries:
  assumes "calm env"
    and "GetConnWithAuth etcd api gl c [] (interceptor_options @ opts) st = (Returns (Inr conn), st1)"
    and "m = (case de_md env of Some m \<Rightarrow> m | None \<Rightarrow> Map.empty)"
    and "rs = fst (tries env h conn m 0 (nat (retry_num c)) (cn_grpc st1))"
  shows "length rs \<le> 3 \<and> (gc_Addresses c \<noteq> [] \<longrightarrow> length rs \<le> length (gc_Addresses c) + 1) \<and>
         (\<exists>r st2. Do_grpc etcd api gl env (Some h) c opts st = (Returns r, st2) \<and> answer_of (last ((None, None) # rs)) r \<and>
            cn_grpc st2 = snd (tries env h conn m 0 (nat (retry_num c)) (cn_grpc st1)))"
proof -
  have "nat (retry_num c) \<le> 3" "gc_Addresses c \<noteq> [] \<Longrightarrow> nat (retry_num c) \<le> length (gc_Addresses c) + 1"
    by (auto simp: retry_num_def retry_def)
  with tries_length [of env h conn m 0 "nat (retry_num c)" "cn_grpc st1"] have b:
    "length rs \<le> 3 \<and> (gc_Addresses c \<noteq> [] \<longrightarrow> length rs \<le> length (gc_Addresses c) + 1)"
    unfolding assms(4) by (metis order_trans)
  have "Do_grpc etcd api gl env (Some h) c opts st = do_loop env h conn 0 (nat (retry_num c)) m (None, None) st1"
    using assms(2,3) by (simp add: Do_grpc_def GetConnWithDefaultInterceptor_def)
  with b do_loop_tries [OF assms(1), of h m m conn 0 "nat (retry_num c)" "(None, None)" st1] show ?thesis
    unfolding assms(4) by auto
qed

text \<open>
  A call gives back what it took: whatever the call does, if it answers, fails, panics or
  runs out of time, the wait group of the process is afterwards what it was.
\<close>

theorem Do_keeps_wait_group:
  "ap_wg (do_app (snd (Do_grpc etcd api gl env h c opts st))) = ap_wg (do_app st)"
proof -
  have conn: "do_app (snd (GetConnWithAuth etcd api gl c [] (interceptor_options @ opts) st)) = do_app st"
    by (rule GetConnWithAuth_do)
  have "snd (GetConnWithAuth etcd api gl c [] (interceptor_options @ opts) st) = st1 \<Longrightarrow> do_app st1 = do_app st" for st1
    using conn by simp
  then show ?thesis
    by (auto simp: Do_grpc_def GetConnWithDefaultInterceptor_def do_loop_wg dest!: resp_500_app
        split: option.splits outcome.splits sum.splits prod.splits)
qed

text \<open>
  The default kind of resolver is refused: a configuration that leaves the kind and the
  scheme out, as its comment allows for a static service, gets an error instead of a connection,
  whatever its addresses are, although the registration behind the check would treat it as static.
\<close>

theorem default_resolver_refused:
  assumes "gc_ResolverType c = []" and "gc_ResolverScheme c = []" and "gc_ResolverAddresses c = []"
    and "gc_ServerName c \<noteq> []" and "gc_Addresses c = a # as" and "rs_registry st (scheme_of (c\<lparr>gc_ResolverType := StaticResolver\<rparr>) a) = None"
  shows "GetConnWithAuth etcd api gl c au opts st = (Returns (Inl (no_addresses c)), st) \<and>
         fst (GetAndRegisterResolver etcd api c st) = Returns (Inr (scheme_of (c\<lparr>gc_ResolverType := StaticResolver\<rparr>) a))"
  using assms
  by (simp add: GetConnWithAuth_def CompleteResolverScheme_def StaticResolver_def GetAndRegisterResolver_def
      ResolverFuncMap_def ConsulResolver_def EtcdResolver_def map_add_def GenerateAndRegisterStaticResolver_def
      complete_and_register_def NewStaticBuilder_def Let_def scheme_of_def)

theorem default_resolver_refused_witness:
  "GetConnWithAuth False mem_consul mem_grpc (user_config\<lparr>gc_ResolverType := []\<rparr>) [] [] no_conns =
   (Returns (Inl (no_addresses (user_config\<lparr>gc_ResolverType := []\<rparr>))), no_conns)"
  using default_resolver_refused [of "user_config\<lparr>gc_ResolverType := []\<rparr>" "''h:2''" "[]" no_conns False mem_consul mem_grpc "[]" "[]"]
  by (simp add: user_config_def static_config_def no_conns_def no_resolvers_def resolver_state.defs)

text \<open>
  A token is accepted if it is the one expected: of the metadata that a client with the
  token \<open>v\<close> sends, with or without TLS, a server with the token \<open>w\<close> accepts exactly equal ones,
  and metadata without the key is refused.
\<close>

theorem token_accepted_iff_equal:
  "(Auth (NewAuth w) (Some (map_of (map (\<lambda>(k, v). (k, [v])) (GetRequestMetadata (NewAuth v))))) = Returns None \<longleftrightarrow> v = w) \<and>
   (Auth (NewAuthWithHTTPS w) (Some (map_of (map (\<lambda>(k, v). (k, [v])) (GetRequestMetadata (NewAuthWithHTTPS v))))) = Returns None \<longleftrightarrow> v = w) \<and>
   Auth (NewAuth w) (Some Map.empty) \<noteq> Returns None \<and> Auth (NewAuth w) None \<noteq> Returns None"
  by (simp add: Auth_def GetRequestMetadata_def auth_getKey_def auth_getValue_def NewAuth_def NewAuthWithHTTPS_def)

text \<open>
  A panic of a call looks like success: when the call behind an interceptor panics, the
  interceptor returns no error, and for a stream no stream either, while the wait group is given back
  if the call kept it.
\<close>

theorem interceptor_hides_panic:
  assumes "fst (invoker (fst (NewHTTPContextWithGrpcOutgoingCtx uuid w0 r0 (GrpcMeta m) st))
             (snd (NewHTTPContextWithGrpcOutgoingCtx uuid w0 r0 (GrpcMeta m) st))) = Panics p"
    and "\<And>h s. ap_wg (snd (invoker h s)) = ap_wg s"
  shows "fst (UnaryClientInterceptor uuid w0 r0 (GrpcMeta m) invoker st) = None \<and>
         ap_wg (snd (UnaryClientInterceptor uuid w0 r0 (GrpcMeta m) invoker st)) = ap_wg st"
proof -
  obtain h s where h: "NewHTTPContextWithGrpcOutgoingCtx uuid w0 r0 (GrpcMeta m) st = (h, s)" by fastforce
  then have live: "\<not> hc_isCanceled h" "ap_wg s = ap_wg st + 1"
    by (auto simp: NewHTTPContextWithGrpcOutgoingCtx_def blank_ctx_def WgAdd_def)
  obtain s2 where i: "invoker h s = (Panics p, s2)" using assms(1) by (cases "invoker h s") (simp add: h)
  with assms(2) [of h s] live show ?thesis
    by (simp add: UnaryClientInterceptor_def h HTTPContext_Cancel_def WgDone_def)
qed

theorem interceptor_hides_panic_witness:
  "fst (UnaryClientInterceptor ''u'' new_writer sample_req (GrpcMeta (\<lambda>_. [])) (\<lambda>h s. (Panics nil_deref, s)) sample_app) = None \<and>
   ap_wg (snd (UnaryClientInterceptor ''u'' new_writer sample_req (GrpcMeta (\<lambda>_. [])) (\<lambda>h s. (Panics nil_deref, s)) sample_app)) = 0"
  using interceptor_hides_panic [where invoker = "\<lambda>h s. (Panics nil_deref, s)" and st = sample_app and uuid = "''u''"
      and ?w0.0 = new_writer and ?r0.0 = sample_req and m = "\<lambda>_. []" and p = nil_deref]
  by (simp add: sample_app_def)

text \<open>A service that fails once.\<close>

definition flaky :: "(nat, string) do_env" where
  "flaky =
     \<lparr>de_uuid = (\<lambda>i. ''u''), de_w0 = new_writer, de_r0 = sample_req,
      de_call = (\<lambda>m conn g. (Returns (if g < 2 then (None, Some (ErrPlain (Errorf ''again''))) else (Some ''pong'', None)), g + 1)),
      de_done = (\<lambda>i g. None), de_md = None, de_gopath = [], de_site = (''main.go'', 7)\<rparr>"

definition calling :: "(service_entry list, nat, string \<Rightarrow> string \<rightharpoonup> string, string) do_state" where
  "calling = resolver_state.extend no_resolvers \<lparr>cn_map = Map.empty, cn_grpc = 0, do_app = sample_app, do_errs = []\<rparr>"

theorem Do_equals_tries_witness:
  "\<exists>st2. Do_grpc False mem_consul mem_grpc flaky (Some (blank_ctx new_writer sample_req ''t'')) user_config [] calling =
     (Returns (Some ''pong'', None), st2) \<and> cn_grpc st2 = 3"
proof -
  have c: "calm flaky" by (simp add: calm_def flaky_def)
  have f: "cn_map calling = Map.empty" "rs_registry calling = Map.empty" "cn_grpc calling = 0"
    by (simp_all add: calling_def no_resolvers_def resolver_state.defs)
  obtain st1 where g: "GetConnWithAuth False mem_consul mem_grpc user_config [] (interceptor_options @ []) calling =
      (Returns (Inr 7), st1)" "cn_grpc st1 = 1"
    using first_static_conn [OF f, of mem_consul "[]" "interceptor_options @ []"] by (metis prod.collapse)
  have n: "nat (retry_num user_config) = 2" by (simp add: retry_num_def retry_def)
  have t: "tries flaky h 7 m 0 2 (Suc 0) = ([(None, Some (ErrPlain (Errorf ''again''))), (Some ''pong'', None)], 3)" for h m
    by (simp add: flaky_def final_def numeral_2_eq_2 eval_nat_numeral)
  from Do_equals_tries [OF c g(1) refl refl, of "blank_ctx new_writer sample_req ''t''"] show ?thesis
    by (auto simp: g(2) n t answer_of_def final_def)
qed

end
