(* ===== verification/GrpcServer.thy ===== *)
theory GrpcServer
  imports LifecycleProps GrpcClient
begin

text \<open>
  \<open>grpc/server/server.go\<close> and the interceptors of \<open>server\_grpc.go\<close>: how a gRPC server is
  put together, and what happens around each call it answers. A handler is the user's function; it
  gets the context and may change it. Metrics and log output are left out.
\<close>

section \<open>server.go\<close>

record server_creds =
  se_CaFile :: string
  se_CertFile :: string
  se_KeyFile :: string

datatype server_option =
  Creds nat | MaxRecvMsgSize int | MaxSendMsgSize int | KeepaliveEnforcementPolicy | KeepaliveParams
| UnaryInterceptor | StreamInterceptor | CallerServerOption nat

text \<open>TLS and files, as a server uses them; credentials are numbers.\<close>

record tls_env =
  tl_stat :: file_stat
  tl_LoadX509KeyPair :: "string \<Rightarrow> string \<Rightarrow> goerr + nat"
  tl_ReadFile :: "string \<Rightarrow> goerr + string"
  tl_AppendCerts :: "string \<Rightarrow> bool"
  tl_NewTLS :: "nat \<Rightarrow> string \<Rightarrow> nat" \<comment> \<open>certificate, text of the CA; clients must show one\<close>
  tl_ServerTLSFromFile :: "string \<Rightarrow> string \<Rightarrow> goerr + nat"

definition server_GetCredentialsByCA :: "tls_env \<Rightarrow> server_creds \<Rightarrow> goerr + nat" where
  "server_GetCredentialsByCA te t =
     (case tl_LoadX509KeyPair te (se_CertFile t) (se_KeyFile t) of
        Inl e \<Rightarrow> Inl e
      | Inr cert \<Rightarrow>
          (case tl_ReadFile te (se_CaFile t) of
             Inl e \<Rightarrow> Inl e
           | Inr ca \<Rightarrow>
               if \<not> tl_AppendCerts te ca then Inl (Errorf ''certPool.AppendCertsFromPEM err'')
               else Inr (tl_NewTLS te cert ca)))"

definition server_GetTLSCredentials :: "tls_env \<Rightarrow> server_creds \<Rightarrow> goerr + nat" where
  "server_GetTLSCredentials te t = tl_ServerTLSFromFile te (se_CertFile t) (se_KeyFile t)"

definition server_GetCredentials :: "tls_env \<Rightarrow> server_creds \<Rightarrow> goerr + nat" where
  "server_GetCredentials te t =
     (if IsExist (tl_stat te) (se_CaFile t) then server_GetCredentialsByCA te t else server_GetTLSCredentials te t)"

definition keepalive_options :: "server_option list" where
  "keepalive_options = [KeepaliveEnforcementPolicy, KeepaliveParams]"

definition size_options :: "server_config \<Rightarrow> server_option list" where
  "size_options c =
     (if 0 < sv_MaxRecvMsgSize c then [MaxRecvMsgSize (sv_MaxRecvMsgSize c)] else []) @
     (if 0 < sv_MaxSendMsgSize c then [MaxSendMsgSize (sv_MaxSendMsgSize c)] else [])"

text \<open>
  The options a server is made with; \<open>grpcServer\<close>, here the second component, is what was made
  last and stays when nothing is.
\<close>

definition NewServer ::
  "tls_env \<Rightarrow> server_config \<Rightarrow> server_option list \<Rightarrow> server_option list option \<Rightarrow>
    (goerr + server_option list) \<times> server_option list option" where
  "NewServer te c opt grpcServer =
     (let made = (\<lambda>opt. let s = opt @ size_options c @ keepalive_options in (Inr s, Some s)) in
      if IsExist (tl_stat te) (sv_CertFile c) \<and> IsExist (tl_stat te) (sv_KeyFile c) then
        (case server_GetCredentials te \<lparr>se_CaFile = [], se_CertFile = sv_CertFile c, se_KeyFile = sv_KeyFile c\<rparr> of
           Inl e \<Rightarrow> (Inl e, grpcServer)
         | Inr creds \<Rightarrow> made (opt @ [Creds creds]))
      else made opt)"

definition NewGrpcServer ::
  "tls_env \<Rightarrow> all_config \<Rightarrow> server_option list option \<Rightarrow>
    (goerr + server_option list) \<times> server_option list option" where
  "NewGrpcServer te cfg =
     NewServer te (server_config.truncate (ac_Server cfg)) [UnaryInterceptor, StreamInterceptor]"

section \<open>Interceptors\<close>

text \<open>
  What the deferred function makes of the error: a panic other than \<open>ErrStopRun\<close> becomes an
  error, \<open>ErrStopRun\<close> leaves the results at their zero values.
\<close>

definition recovered :: "panic_value \<Rightarrow> goerr option" where
  "recovered p = (if p = StopRun then None else Some (Errorf ''panic''))"

definition grpc_prefix :: "string \<Rightarrow> http_ctx \<Rightarrow> http_ctx" where
  "grpc_prefix meth ctx = ctx\<lparr>hc_prefix := hc_prefix ctx @ ''Path:'' @ meth\<rparr>"

type_synonym ('s, 't, 'r) grpc_handler =
  "http_ctx \<Rightarrow> ('s, 't) app \<Rightarrow> 'r outcome \<times> http_ctx \<times> ('s, 't) app"

text \<open>
  The order of the deferred calls: counter down and recover, then \<open>Cancel\<close> of the context
  that the handler may have changed.
\<close>

definition leave_call ::
  "'r outcome \<times> http_ctx \<times> ('s, 't) app \<Rightarrow> (panic_value \<Rightarrow> 'r) \<Rightarrow> 'r \<times> http_ctx \<times> ('s, 't) app" where
  "leave_call r recover =
     (case r of (o1, ctx, st) \<Rightarrow>
        (let (ctx', st') = HTTPContext_Cancel ctx (online_down st)
         in (case o1 of Returns x \<Rightarrow> x | Panics p \<Rightarrow> recover p, ctx', st')))"

definition UnaryServerInterceptor ::
  "('s, 't) srv_env \<Rightarrow> response_writer \<Rightarrow> http_request \<Rightarrow> grpc_ctx \<Rightarrow> string \<Rightarrow>
    ('s, 't, 'r option \<times> goerr option) grpc_handler \<Rightarrow> ('s, 't) app \<Rightarrow>
    ('r option \<times> goerr option) \<times> http_ctx \<times> ('s, 't) app" where
  "UnaryServerInterceptor env w0 r0 ctx meth handler st =
     (let (h, st1) = NewHTTPContextWithGrpcIncomingCtx (sv_uuid env) w0 r0 ctx st;
          httpCtx = grpc_prefix meth h;
          st2 = online_up st1
      in leave_call
           (case checkConcurrence env (ap_online st2) of
              Some e \<Rightarrow> (Returns (None, Some e), httpCtx, st2)
            | None \<Rightarrow> handler httpCtx st2)
           (\<lambda>p. (None, recovered p)))"

text \<open>
  The stream that the handler of a stream gets: the one of gRPC with the context replaced.
\<close>

record 'x server_stream =
  ss_stream :: 'x
  ss_ctx :: http_ctx

definition WarpServerStream :: "'x \<Rightarrow> http_ctx \<Rightarrow> 'x server_stream" where
  "WarpServerStream ss httpCtx = \<lparr>ss_stream = ss, ss_ctx = httpCtx\<rparr>"

definition Stream_Context :: "'x server_stream \<Rightarrow> http_ctx" where
  "Stream_Context w = ss_ctx w"

definition StreamServerInterceptor ::
  "('s, 't) srv_env \<Rightarrow> response_writer \<Rightarrow> http_request \<Rightarrow> 'x \<Rightarrow> grpc_ctx \<Rightarrow> string \<Rightarrow>
    ('x server_stream \<Rightarrow> ('s, 't) app \<Rightarrow> goerr option outcome \<times> http_ctx \<times> ('s, 't) app) \<Rightarrow> ('s, 't) app \<Rightarrow>
    goerr option \<times> http_ctx \<times> ('s, 't) app" where
  "StreamServerInterceptor env w0 r0 ss ctx meth handler st =
     (let (h, st1) = NewHTTPContextWithGrpcIncomingCtx (sv_uuid env) w0 r0 ctx st;
          httpCtx = grpc_prefix meth h;
          st2 = online_up st1
      in leave_call
           (case checkConcurrence env (ap_online st2) of
              Some e \<Rightarrow> (Returns (Some e), httpCtx, st2)
            | None \<Rightarrow> handler (WarpServerStream ss httpCtx) st2)
           recovered)"

section \<open>Facts\<close>

text \<open>A handler that keeps the counters, apart from cancelling its own context.\<close>

lemma leave_call_answer:
  "fst (leave_call (r, ctx, st) f) = (case r of Returns x \<Rightarrow> x | Panics p \<Rightarrow> f p)"
  "hc_isCanceled (fst (snd (leave_call (r, ctx, st) f)))"
  by (auto simp: leave_call_def HTTPContext_Cancel_def split: prod.splits)

definition call_keeps :: "('s, 't, 'r) grpc_handler \<Rightarrow> bool" where
  "call_keeps h \<longleftrightarrow>
     (\<forall>ctx st. case h ctx st of (_, ctx', st') \<Rightarrow>
        ap_online st' = ap_online st \<and> ap_wg st' - owed ctx' = ap_wg st - owed ctx)"

lemma call_keepsD:
  "call_keeps h \<Longrightarrow> h ctx st = (r, ctx', st') \<Longrightarrow>
   ap_online st' = ap_online st \<and> ap_wg st' - owed ctx' = ap_wg st - owed ctx"
  unfolding call_keeps_def by (metis (mono_tags, lifting) old.prod.case)

lemma owed_grpc_prefix [simp]: "owed (grpc_prefix m ctx) = owed ctx"
  by (simp add: owed_def grpc_prefix_def)

lemma Cancel_counters:
  "ap_online (snd (HTTPContext_Cancel ctx st)) = ap_online st"
  "ap_wg (snd (HTTPContext_Cancel ctx st)) = ap_wg st - owed ctx"
  using Cancel_settles [of ctx st] by (metis prod.collapse)+

lemma leave_call_counters:
  assumes "ap_online st' = ap_online (online_up st)" and "ap_wg st' - owed ctx' = ap_wg (online_up st) - owed ctx"
  shows "counters (snd (snd (leave_call (r, ctx', st') f))) = (ap_online st, ap_wg st - owed ctx)"
proof -
  have "snd (snd (leave_call (r, ctx', st') f)) = snd (HTTPContext_Cancel ctx' (online_down st'))"
    by (simp add: leave_call_def split: prod.splits)
  then show ?thesis
    using assms by (simp add: Cancel_counters counters_def online_up_def online_down_def)
qed

lemma UnaryServerInterceptor_counters:
  assumes "call_keeps handler"
  shows "counters (snd (snd (UnaryServerInterceptor env w0 r0 (GrpcMeta md) meth handler st))) = counters st"
proof -
  let ?h = "blank_ctx w0 r0 (GetTraceIDFromIncomingContext (sv_uuid env) md)"
  let ?st = "WgAdd st"
  obtain r ctx' st' where b: "(case checkConcurrence env (ap_online (online_up ?st)) of
      Some e \<Rightarrow> (Returns (None, Some e), grpc_prefix meth ?h, online_up ?st)
    | None \<Rightarrow> handler (grpc_prefix meth ?h) (online_up ?st)) = (r, ctx', st')"
    using prod_cases3 by blast
  have "ap_online st' = ap_online (online_up ?st)" "ap_wg st' - owed ctx' = ap_wg (online_up ?st) - owed ?h"
    using b call_keepsD [OF assms, of "grpc_prefix meth ?h" "online_up ?st"] by (auto split: option.splits)
  then have "counters (snd (snd (leave_call (r, ctx', st') f))) = (ap_online ?st, ap_wg ?st - owed ?h)" for f
    by (rule leave_call_counters)
  then show ?thesis
    unfolding UnaryServerInterceptor_def NewHTTPContextWithGrpcIncomingCtx_def Let_def
    by (simp add: b) (simp add: counters_def WgAdd_def owed_def blank_ctx_def)
qed

text \<open>A stream is served like a call without a reply.\<close>

definition as_unary ::
  "'x \<Rightarrow> ('x server_stream \<Rightarrow> ('s, 't) app \<Rightarrow> goerr option outcome \<times> http_ctx \<times> ('s, 't) app) \<Rightarrow>
    ('s, 't, unit option \<times> goerr option) grpc_handler" where
  "as_unary ss handler ctx st =
     (case handler (WarpServerStream ss ctx) st of (r, ctx', st') \<Rightarrow> (map_outcome_value (Pair None) r, ctx', st'))"

lemma leave_call_map:
  "(\<And>p. f p = g (f' p)) \<Longrightarrow>
   leave_call (map_outcome_value g r, ctx, st) f = (case leave_call (r, ctx, st) f' of (x, y) \<Rightarrow> (g x, y))"
  by (cases r) (simp_all add: leave_call_def split: prod.splits)

lemma StreamServerInterceptor_unary:
  "(case StreamServerInterceptor env w0 r0 ss ctx meth handler st of (e, x) \<Rightarrow> ((None, e), x)) =
   UnaryServerInterceptor env w0 r0 ctx meth (as_unary ss handler) st"
proof -
  obtain h st1 where h: "NewHTTPContextWithGrpcIncomingCtx (sv_uuid env) w0 r0 ctx st = (h, st1)" by fastforce
  obtain r ctx' st' where b: "(case checkConcurrence env (ap_online (online_up st1)) of
      Some e \<Rightarrow> (Returns (Some e), grpc_prefix meth h, online_up st1)
    | None \<Rightarrow> handler (WarpServerStream ss (grpc_prefix meth h)) (online_up st1)) = (r, ctx', st')"
    using prod_cases3 by blast
  then have "(case checkConcurrence env (ap_online (online_up st1)) of
      Some e \<Rightarrow> (Returns (None, Some e), grpc_prefix meth h, online_up st1)
    | None \<Rightarrow> as_unary ss handler (grpc_prefix meth h) (online_up st1)) = (map_outcome_value (Pair None) r, ctx', st')"
    by (auto simp: as_unary_def split: option.splits)
  then show ?thesis
    unfolding StreamServerInterceptor_def UnaryServerInterceptor_def h Let_def
    by (simp add: b leave_call_map [where g = "Pair None" and f' = recovered])
qed

datatype ('s, 't, 'r, 'x) grpc_call =
  UnaryCall "('s, 't, 'r option \<times> goerr option) grpc_handler"
| StreamCall 'x "'x server_stream \<Rightarrow> ('s, 't) app \<Rightarrow> goerr option outcome \<times> http_ctx \<times> ('s, 't) app"

record ('s, 't, 'r, 'x) grpc_incoming =
  gi_env :: "('s, 't) srv_env"
  gi_writer :: response_writer
  gi_request :: http_request
  gi_md :: "string \<Rightarrow> string list"
  gi_method :: string
  gi_call :: "('s, 't, 'r, 'x) grpc_call"

definition answer_call :: "('s, 't, 'r, 'x) grpc_incoming \<Rightarrow> ('s, 't) app \<Rightarrow> ('s, 't) app" where
  "answer_call x st =
     (case gi_call x of
        UnaryCall h \<Rightarrow>
          snd (snd (UnaryServerInterceptor (gi_env x) (gi_writer x) (gi_request x) (GrpcMeta (gi_md x)) (gi_method x) h st))
      | StreamCall ss h \<Rightarrow>
          snd (snd (StreamServerInterceptor (gi_env x) (gi_writer x) (gi_request x) ss (GrpcMeta (gi_md x)) (gi_method x) h st)))"

definition incoming_ok :: "('s, 't, 'r, 'x) grpc_incoming \<Rightarrow> bool" where
  "incoming_ok x \<longleftrightarrow> (case gi_call x of UnaryCall h \<Rightarrow> call_keeps h | StreamCall ss h \<Rightarrow> call_keeps (as_unary ss h))"

lemma answer_call_counters: "incoming_ok x \<Longrightarrow> counters (answer_call x st) = counters st"
proof (cases "gi_call x")
  case (StreamCall ss h)
  assume "incoming_ok x"
  with StreamCall have "call_keeps (as_unary ss h)" by (simp add: incoming_ok_def)
  from UnaryServerInterceptor_counters [OF this] show ?thesis
    by (simp add: answer_call_def StreamCall flip: StreamServerInterceptor_unary) (simp add: case_prod_beta)
qed (simp add: answer_call_def incoming_ok_def UnaryServerInterceptor_counters)

interpretation grpc_count: guarded_counter answer_call counters incoming_ok
  by unfold_locales (rule answer_call_counters)


section \<open>Properties\<close>

text \<open>
  C31. Calls of a gRPC server balance the counters of the process: whatever calls and streams it
  answers one after the other, each of them refused, answered, failed or panicked, the number of
  requests in hand and the wait group are afterwards what they were, as long as the handlers touch
  them only by cancelling the context they got.
\<close>

theorem grpc_calls_balance_counters:
  assumes "list_all incoming_ok xs"
  shows "ap_online (fold answer_call xs st) = ap_online st \<and> ap_wg (fold answer_call xs st) = ap_wg st"
  using grpc_count.run_all_count [of xs st] assms by (simp add: counters_def list_all_iff)

text \<open>
  A panic of a gRPC handler does not escape: the caller gets the error \<open>panic\<close> without a
  reply, unless the handler stopped itself with \<open>ErrStopRun\<close>, which the caller sees as
  success without a reply; with more calls in hand than allowed the handler does not run and the
  caller gets the error of the limit. The context is cancelled in each case.
\<close>

theorem grpc_panic_is_error:
  assumes "NewHTTPContextWithGrpcIncomingCtx (sv_uuid env) w0 r0 ctx st = (h, st1)"
    and "fst (handler (grpc_prefix meth h) (online_up st1)) = Panics p"
  shows "fst (UnaryServerInterceptor env w0 r0 ctx meth handler st) =
           (None, case checkConcurrence env (ap_online st1 + 1) of
                    Some e \<Rightarrow> Some e
                  | None \<Rightarrow> if p = StopRun then None else Some (Errorf ''panic'')) \<and>
         hc_isCanceled (fst (snd (UnaryServerInterceptor env w0 r0 ctx meth handler st)))"
proof -
  obtain ctx' st' where b: "handler (grpc_prefix meth h) (online_up st1) = (Panics p, ctx', st')"
    using assms(2) by (metis prod.collapse)
  have o: "ap_online (online_up st1) = ap_online st1 + 1" by (simp add: online_up_def)
  show ?thesis
    by (cases "checkConcurrence env (ap_online st1 + 1)")
      (simp_all only: UnaryServerInterceptor_def assms(1) Let_def prod.case o option.case b leave_call_answer
        recovered_def outcome.case simp_thms)
qed

definition ping_call :: "('s, 't, string option \<times> goerr option) grpc_handler" where
  "ping_call ctx st = (Returns (Some ''pong'', None), HTTPContext_Cancel ctx st)"

definition boom_call :: "unit server_stream \<Rightarrow> ('s, 't) app \<Rightarrow> goerr option outcome \<times> http_ctx \<times> ('s, 't) app" where
  "boom_call w st = (Panics (PanicMsg ''boom''), Stream_Context w, st)"

definition incoming :: "(string \<Rightarrow> string \<rightharpoonup> string, string, string, unit) grpc_call \<Rightarrow>
    (string \<Rightarrow> string \<rightharpoonup> string, string, string, unit) grpc_incoming" where
  "incoming c = \<lparr>gi_env = sample_srv_env, gi_writer = new_writer, gi_request = sample_req, gi_md = (\<lambda>_. []),
     gi_method = ''/user/Get'', gi_call = c\<rparr>"

lemma sample_calls_ok: "incoming_ok (incoming (UnaryCall ping_call))" "incoming_ok (incoming (StreamCall () boom_call))"
proof -
  have "call_keeps ping_call"
    unfolding call_keeps_def ping_call_def by (auto simp: HTTPContext_Cancel_def owed_def WgDone_def)
  then show "incoming_ok (incoming (UnaryCall ping_call))" by (simp add: incoming_ok_def incoming_def)
  show "incoming_ok (incoming (StreamCall () boom_call))"
    by (simp add: incoming_ok_def incoming_def call_keeps_def as_unary_def boom_call_def Stream_Context_def WarpServerStream_def)
qed

theorem grpc_calls_balance_counters_witness:
  "ap_online (fold answer_call [incoming (UnaryCall ping_call), incoming (StreamCall () boom_call)] sample_app) =
     ap_online sample_app \<and>
   ap_wg (fold answer_call [incoming (UnaryCall ping_call), incoming (StreamCall () boom_call)] sample_app) = ap_wg sample_app"
  by (rule grpc_calls_balance_counters) (simp add: sample_calls_ok)

theorem grpc_panic_is_error_witness:
  "fst (UnaryServerInterceptor sample_srv_env new_writer sample_req (GrpcMeta (\<lambda>_. [])) ''/user/Get''
      (\<lambda>ctx st. (Panics (PanicMsg ''boom''), ctx, st)) sample_app) = (None :: nat option, Some (Errorf ''panic''))"
proof -
  have "checkConcurrence sample_srv_env 1 = None"
    by (simp add: checkConcurrence_def sample_srv_env_def zero_config_def)
  then show ?thesis
    using grpc_panic_is_error [where handler =
        "\<lambda>ctx st. (Panics (PanicMsg ''boom'') :: (nat option \<times> goerr option) outcome, ctx, st)" and env = sample_srv_env
      and ?w0.0 = new_writer and ?r0.0 = sample_req and ctx = "GrpcMeta (\<lambda>_. [])" and meth = "''/user/Get''"
      and st = sample_app and p = "PanicMsg ''boom''"]
    by (simp add: NewHTTPContextWithGrpcIncomingCtx_def StopRun_def WgAdd_def sample_app_def)
qed

end
