(* ===== verification/ApiClient.thy ===== *)
theory ApiClient
  imports ServiceDiscovery Curl
begin

text \<open>
  Package \<open>api\<close>: calls of other services over HTTP with JSON, and downloads. The URL parser, the
  JSON library, what the transport does at each try and the moment a context ends are the record
  \<open>api_env\<close>; \<open>'u\<close> is a parsed URL. An answer is decoded into a value of type \<open>'v\<close> that the
  caller brings. Log output is left out, except for what the level \<open>DEBUG\<close> changes.
\<close>

section \<open>The environment and the state\<close>

record 'u url_lib =
  ul_ParseRequestURI :: "string \<Rightarrow> goerr + 'u"
  ul_Scheme :: "'u \<Rightarrow> string"
  ul_Parse :: "'u \<Rightarrow> string \<Rightarrow> goerr + 'u" \<comment> \<open>a reference, relative to the URL\<close>
  ul_String :: "'u \<Rightarrow> string"

text \<open>A decoder fills a value as far as it gets, and may fail.\<close>

record ('u, 'v) api_env =
  pe_uuid :: "nat \<Rightarrow> string"
  pe_w0 :: response_writer
  pe_r0 :: http_request
  pe_debug :: bool
  pe_app_id :: "goval option"
  pe_curl :: "nat \<Rightarrow> curl_env" \<comment> \<open>by the number of the try\<close>
  pe_done :: "nat \<Rightarrow> call_err option" \<comment> \<open>the error of the context before a try\<close>
  pe_rnd :: "nat \<Rightarrow> nat"
  pe_url :: "'u url_lib"
  pe_ReadAll :: "string \<Rightarrow> string \<times> goerr option"
  pe_Unmarshal :: "string \<Rightarrow> 'v \<Rightarrow> 'v \<times> goerr option"
  pe_Decode :: "string \<Rightarrow> 'v \<Rightarrow> 'v \<times> goerr option"
  pe_gopath :: string
  pe_site :: "string \<times> int"

record ('c, 's, 't) api_state = "('c, 's, 't) sd_state" +
  as_curl :: curl_state
  as_next :: nat \<comment> \<open>the next object of package curl\<close>
  as_errs :: resp_store

definition api_RespErr ::
  "('u, 'v) api_env \<Rightarrow> int \<Rightarrow> err_arg \<Rightarrow> ('c, 's, 't) api_state \<Rightarrow> call_err \<times> ('c, 's, 't) api_state" where
  "api_RespErr env errNo i st =
     (let (p, h) = NewRespErr (pe_gopath env) (pe_site env) errNo i (as_errs st) in (ErrResp p, st\<lparr>as_errs := h\<rparr>))"

section \<open>Options of a call\<close>

type_synonym call_option = "curl \<Rightarrow> goerr option \<times> curl"

definition TimeOutCallOption :: "int \<Rightarrow> call_option" where
  "TimeOutCallOption timeout c = (None, SetTimeout timeout c)"

definition AddHeadersCallOption :: "(string \<times> string) list \<Rightarrow> call_option" where
  "AddHeadersCallOption headers c =
     (None, c\<lparr>cu_Headers := fold (\<lambda>(k, v). Header_Add k v) headers (cu_Headers c)\<rparr>)"

definition DelHeadersCallOption :: "string list \<Rightarrow> call_option" where
  "DelHeadersCallOption keys c = (None, c\<lparr>cu_Headers := fold Header_Del keys (cu_Headers c)\<rparr>)"

fun apply_options :: "call_option list \<Rightarrow> curl \<Rightarrow> goerr option \<times> curl" where
  "apply_options [] c = (None, c)"
| "apply_options (f # fs) c = (case f c of (Some e, c') \<Rightarrow> (Some e, c') | (None, c') \<Rightarrow> apply_options fs c')"

section \<open>RequestUnmarshal\<close>

text \<open>The body of the request, or the error of reading it; \<open>JSONIO\<close> reads it by itself.\<close>

definition RequestUnmarshal ::
  "('u, 'v) api_env \<Rightarrow> http_request option \<Rightarrow> string \<Rightarrow> 'v \<Rightarrow> ('c, 's, 't) api_state \<Rightarrow>
    'v \<times> call_err option \<times> ('c, 's, 't) api_state" where
  "RequestUnmarshal env r body params st =
     (let fail = (\<lambda>v n i. case api_RespErr env n i st of (e, st') \<Rightarrow> (v, Some e, st')) in
      case r of
        None \<Rightarrow> fail params 500 (ArgStr ''nil httpCtx'')
      | Some r \<Rightarrow>
          if rq_method r \<noteq> ''POST'' then fail params 400 (ArgStr ''request method must be POST'')
          else case (if pe_debug env then
                       (case pe_ReadAll env body of
                          (_, Some e) \<Rightarrow> (params, Some e)
                        | (d, None) \<Rightarrow> pe_Unmarshal env d params)
                     else pe_Decode env body params) of
            (v, Some e) \<Rightarrow> fail v 400 (ArgErr e)
          | (v, None) \<Rightarrow> (v, None, st))"

section \<open>getApiUrl\<close>

definition getApiUrl :: "('u, 'v) api_env \<Rightarrow> string list \<Rightarrow> string \<Rightarrow> goerr + string" where
  "getApiUrl env addresses uri =
     (let n = length addresses; ul = pe_url env in
      if n = 0 then Inl (Errorf (''nil addresses for call '' @ uri))
      else
        let domain = (if n = 1 then addresses ! 0 else addresses ! pe_rnd env n);
            domain = (if has_prefix domain ''http'' then domain else ''http://'' @ domain)
        in case ul_ParseRequestURI ul domain of
             Inl e \<Rightarrow> Inl (Errorf (''error url: ['' @ domain @ '']''))
           | Inr u \<Rightarrow>
               if ul_Scheme ul u = [] then Inl (Errorf (''error url: ['' @ domain @ '']''))
               else if uri \<noteq> [] then
                 (case ul_Parse ul u uri of Inl e \<Rightarrow> Inl e | Inr u' \<Rightarrow> Inr (ul_String ul u'))
               else Inr (ul_String ul u))"

section \<open>Call\<close>

text \<open>A pointer to a resolver may be nil.\<close>

datatype address_param = ByResolver "nat option" | ByAddresses "string list" | OtherParam

definition call_headers :: "('u, 'v) api_env \<Rightarrow> (string \<times> string) list \<Rightarrow> curl \<Rightarrow> curl outcome" where
  "call_headers env header c =
     (let set = (\<lambda>kvs c. c\<lparr>cu_Headers := set_headers kvs (cu_Headers c)\<rparr>);
          c1 = set [(''Content-Type'', ''application/json'')] c
      in case pe_app_id env of
           None \<Rightarrow> Returns (set header c1)
         | Some (VStr s) \<Rightarrow> Returns (set header (set [(''AppID'', s)] c1))
         | Some _ \<Rightarrow> Panics (PanicMsg ''interface conversion''))"

text \<open>The addresses of a try: those given, or one from the resolver.\<close>

definition try_addresses ::
  "('u, 'v) api_env \<Rightarrow> address_param \<Rightarrow> ('c, 's, 't) api_state \<Rightarrow> (goerr + string list) \<times> ('c, 's, 't) api_state" where
  "try_addresses env ap st =
     (case ap of
        ByResolver (Some p) \<Rightarrow>
          (case GetAddress (pe_rnd env) (Some (sd_heap st ! p)) of
             (Inl e, _) \<Rightarrow> (Inl e, st)
           | (Inr a, cr) \<Rightarrow>
               (Inr [a], (case cr of None \<Rightarrow> st | Some cr \<Rightarrow> st\<lparr>sd_heap := (sd_heap st)[p := cr]\<rparr>)))
      | ByAddresses as \<Rightarrow> (Inr as, st)
      | _ \<Rightarrow> (Inr [], st))"

definition on_curl :: "nat \<Rightarrow> (curl \<Rightarrow> curl) \<Rightarrow> ('c, 's, 't) api_state \<Rightarrow> ('c, 's, 't) api_state" where
  "on_curl n f st = st\<lparr>as_curl := upd_curl n f (as_curl st)\<rparr>"

text \<open>One try to an URL, in a context of its own.\<close>

definition try_curl :: "http_ctx \<Rightarrow> http_ctx \<Rightarrow> string \<Rightarrow> curl \<Rightarrow> curl" where
  "try_curl httpCtx tmp url c =
     SetContext (hc_cancelled httpCtx)
       (c\<lparr>cu_Url := url, cu_Headers := Header_Set ''Trace-Id'' (hc_traceID tmp) (cu_Headers c)\<rparr>)"

definition api_try ::
  "('u, 'v) api_env \<Rightarrow> http_ctx \<Rightarrow> nat \<Rightarrow> nat \<Rightarrow> string \<Rightarrow> ('c, 's, 't) api_state \<Rightarrow>
    (curl_result \<times> goerr option) outcome \<times> ('c, 's, 't) api_state" where
  "api_try env httpCtx i n url st =
     (case NewHTTPContextWithCtx (pe_uuid env (i + 1)) (pe_w0 env) (pe_r0 env) (Some httpCtx) (sd_app st) of
        (Panics p, ap) \<Rightarrow> (Panics p, st\<lparr>sd_app := ap\<rparr>)
      | (Returns tmp, ap) \<Rightarrow>
          (let st1 = on_curl n (try_curl httpCtx tmp url) (st\<lparr>sd_app := ap\<rparr>);
               (r, cs) = Request (pe_curl env i) n (as_curl st1)
           in (r, st1\<lparr>as_curl := cs, sd_app := snd (HTTPContext_Cancel tmp (sd_app st1))\<rparr>)))"

text \<open>
  The loop: it settles with an answer, with the error of the caller, or runs out of tries with
  the last error.
\<close>

datatype loop_end = Settled curl_result | GaveUp call_err

fun api_loop ::
  "('u, 'v) api_env \<Rightarrow> http_ctx \<Rightarrow> address_param \<Rightarrow> string \<Rightarrow> nat \<Rightarrow> nat \<Rightarrow> nat \<Rightarrow> goerr option \<Rightarrow> ('c, 's, 't) api_state \<Rightarrow>
    loop_end outcome \<times> ('c, 's, 't) api_state" where
  "api_loop env httpCtx ap uri n i 0 err st =
     (case err of
        None \<Rightarrow> (Panics nil_deref, st)
      | Some er \<Rightarrow> (let (e, st') = api_RespErr env 500 (ArgErr er) st in (Returns (GaveUp e), st')))"
| "api_loop env httpCtx ap uri n i (Suc k) err st =
     (case pe_done env i of
        Some e \<Rightarrow> (Returns (GaveUp e), st)
      | None \<Rightarrow>
          (case try_addresses env ap st of
             (Inl e, st1) \<Rightarrow> (let (er, st') = api_RespErr env 500 (ArgErr e) st1 in (Returns (GaveUp er), st'))
           | (Inr as, st1) \<Rightarrow>
               (case getApiUrl env as uri of
                  Inl e \<Rightarrow> (let (er, st') = api_RespErr env 500 (ArgErr e) st1 in (Returns (GaveUp er), st'))
                | Inr url \<Rightarrow>
                    (case api_try env httpCtx i n url st1 of
                       (Panics p, st2) \<Rightarrow> (Panics p, st2)
                     | (Returns (r, None), st2) \<Rightarrow> (Returns (Settled r), st2)
                     | (Returns (r, Some e), st2) \<Rightarrow> api_loop env httpCtx ap uri n (i + 1) k (Some e) st2))))"


text \<open>
  What is made of an answer. At the level \<open>DEBUG\<close> the error of the decoder is assigned to a
  variable of the inner block, and is gone at its end.
\<close>

definition status_error :: "string \<Rightarrow> int \<Rightarrow> goerr" where
  "status_error url code = Errorf (''Call:'' @ url @ '' StatusCode:'' @ int_dec code)"

definition api_answer ::
  "('u, 'v) api_env \<Rightarrow> string \<Rightarrow> curl_result \<Rightarrow> 'v \<Rightarrow> ('c, 's, 't) api_state \<Rightarrow>
    call_err option outcome \<times> 'v \<times> ('c, 's, 't) api_state" where
  "api_answer env url rs resp st =
     (let fail = (\<lambda>v e. case api_RespErr env 500 (ArgErr e) st of (er, st') \<Rightarrow> (Returns (Some er), v, st')) in
      case rs of
        GotResponse (Some r) (Some body) \<Rightarrow>
          if ir_status r \<noteq> 200 then fail resp (status_error url (ir_status r))
          else if pe_debug env then
            (case pe_ReadAll env body of
               (_, Some e) \<Rightarrow> fail resp e
             | (d, None) \<Rightarrow> (Returns None, fst (pe_Unmarshal env d resp), st))
          else (case pe_Decode env body resp of
                  (v, Some e) \<Rightarrow> fail v e
                | (v, None) \<Rightarrow> (Returns None, v, st))
      | _ \<Rightarrow> (Panics nil_deref, resp, st))"

text \<open>\<open>params\<close> is what the parameters are marshalled to; the object of package curl is number \<open>n\<close>.\<close>

definition call_setup ::
  "('u, 'v) api_env \<Rightarrow> http_ctx \<Rightarrow> (string \<times> string) list \<Rightarrow> goerr + string \<Rightarrow> call_option list \<Rightarrow>
    (goerr + curl) outcome" where
  "call_setup env httpCtx header params opts =
     (case call_headers env header (SetContext (hc_cancelled httpCtx) (NewPost [])) of
        Panics p \<Rightarrow> Panics p
      | Returns c \<Rightarrow>
          (case params of
             Inl e \<Rightarrow> Returns (Inl e)
           | Inr b \<Rightarrow>
               (case apply_options opts ((SetTimeout 30 c)\<lparr>cu_PostBytes := b\<rparr>) of
                  (Some e, _) \<Rightarrow> Returns (Inl e)
                | (None, c') \<Rightarrow> Returns (Inr c'))))"

definition call_body ::
  "('u, 'v) api_env \<Rightarrow> http_ctx \<Rightarrow> (string \<times> string) list \<Rightarrow> address_param \<Rightarrow> string \<Rightarrow> goerr + string \<Rightarrow>
    'v \<Rightarrow> call_option list \<Rightarrow> ('c, 's, 't) api_state \<Rightarrow> call_err option outcome \<times> 'v \<times> ('c, 's, 't) api_state" where
  "call_body env httpCtx header ap uri params resp opts st =
     (if ap = OtherParam then (Returns (Some (ErrPlain (Errorf ''error addressParams type''))), resp, st)
      else case call_setup env httpCtx header params opts of
        Panics p \<Rightarrow> (Panics p, resp, st)
      | Returns (Inl e) \<Rightarrow> (case api_RespErr env 500 (ArgErr e) st of (er, st') \<Rightarrow> (Returns (Some er), resp, st'))
      | Returns (Inr c) \<Rightarrow>
          (let n = as_next st; st1 = on_curl n (\<lambda>_. c) (st\<lparr>as_next := n + 1\<rparr>) in
           case api_loop env httpCtx ap uri n 0 3 None st1 of
             (Panics p, st2) \<Rightarrow> (Panics p, resp, st2)
           | (Returns (GaveUp e), st2) \<Rightarrow> (Returns (Some e), resp, st2)
           | (Returns (Settled r), st2) \<Rightarrow> api_answer env (cu_Url (cs_curls (as_curl st2) n)) r resp st2))"

definition Call ::
  "('u, 'v) api_env \<Rightarrow> http_ctx option \<Rightarrow> (string \<times> string) list \<Rightarrow> address_param \<Rightarrow> string \<Rightarrow> goerr + string \<Rightarrow>
    'v \<Rightarrow> call_option list \<Rightarrow> ('c, 's, 't) api_state \<Rightarrow> call_err option outcome \<times> 'v \<times> ('c, 's, 't) api_state" where
  "Call env httpCtxIn header ap uri params resp opts st =
     (case httpCtxIn of
        None \<Rightarrow> (case api_RespErr env 500 (ArgStr ''nil httpCtx'') st of (er, st') \<Rightarrow> (Returns (Some er), resp, st'))
      | Some h \<Rightarrow>
          (case NewHTTPContextWithCtx (pe_uuid env 0) (pe_w0 env) (pe_r0 env) (Some h) (sd_app st) of
             (Panics p, a) \<Rightarrow> (Panics p, resp, st\<lparr>sd_app := a\<rparr>)
           | (Returns httpCtx, a) \<Rightarrow>
               (case call_body env httpCtx header ap uri params resp opts (st\<lparr>sd_app := a\<rparr>) of
                  (r, v, st1) \<Rightarrow> (r, v, st1\<lparr>sd_app := snd (HTTPContext_Cancel httpCtx (sd_app st1))\<rparr>))))"

section \<open>StdCall\<close>

text \<open>\<open>Response\<close>: the number and the text of an error around the results.\<close>

record 'r std_response =
  sr_ErrNo :: int
  sr_ErrMsg :: string
  sr_Results :: 'r

definition StdCall ::
  "('u, 'r std_response) api_env \<Rightarrow> http_ctx option \<Rightarrow> address_param \<Rightarrow> string \<Rightarrow> goerr + string \<Rightarrow> 'r \<Rightarrow>
    call_option list \<Rightarrow> ('c, 's, 't) api_state \<Rightarrow> call_err option outcome \<times> 'r \<times> ('c, 's, 't) api_state" where
  "StdCall env httpCtx ap uri params results opts st =
     (case Call env httpCtx [] ap uri params \<lparr>sr_ErrNo = 0, sr_ErrMsg = [], sr_Results = results\<rparr> opts st of
        (Returns None, v, st1) \<Rightarrow>
          if sr_ErrNo v \<noteq> 0 then
            (case api_RespErr env (sr_ErrNo v) (ArgStr (sr_ErrMsg v)) st1 of
               (er, st2) \<Rightarrow> (Returns (Some er), sr_Results v, st2))
          else (Returns None, sr_Results v, st1)
      | (r, v, st1) \<Rightarrow> (r, sr_Results v, st1))"

definition StdCallByConsul ::
  "sd_env \<Rightarrow> 'c consul_api \<Rightarrow> ('u, 'r std_response) api_env \<Rightarrow> string list \<Rightarrow> http_ctx option \<Rightarrow> string \<Rightarrow> string \<Rightarrow>
    goerr + string \<Rightarrow> 'r \<Rightarrow> call_option list \<Rightarrow> ('c, 's, 't) api_state \<Rightarrow>
    call_err option outcome \<times> 'r \<times> ('c, 's, 't) api_state" where
  "StdCallByConsul sde api env resolverAddresses httpCtx serviceName uri params results opts st =
     (case resolverAddresses of
        [] \<Rightarrow> (Returns (Some (ErrPlain (Errorf ''nil resolverAddresses''))), results, st)
      | a # _ \<Rightarrow>
          (case NewConsulResolver sde api serviceName a [BalancePolicyCallOpt RobinPolicy] st of
             (Inl e, st1) \<Rightarrow> (Returns (Some (ErrPlain e)), results, st1)
           | (Inr p, st1) \<Rightarrow> StdCall env httpCtx (ByResolver (Some p)) uri params results opts st1))"


section \<open>Download\<close>

text \<open>The tries of a download use the context of the caller; \<open>err\<close> is the error of the last.\<close>

fun download_loop ::
  "('u, 'v) api_env \<Rightarrow> http_ctx \<Rightarrow> nat \<Rightarrow> nat \<Rightarrow> nat \<Rightarrow> goerr option \<Rightarrow> ('c, 's, 't) api_state \<Rightarrow>
    loop_end outcome \<times> ('c, 's, 't) api_state" where
  "download_loop env httpCtx n i 0 err st =
     (case err of
        None \<Rightarrow> (Panics nil_deref, st)
      | Some er \<Rightarrow> (let (e, st') = api_RespErr env 500 (ArgErr er) st in (Returns (GaveUp e), st')))"
| "download_loop env httpCtx n i (Suc k) err st =
     (case pe_done env i of
        Some _ \<Rightarrow> (let (e, st') = api_RespErr env 500 (ArgStr ''context cancel'') st in (Returns (GaveUp e), st'))
      | None \<Rightarrow>
          (case Request (pe_curl env i) n (upd_curl n (SetContext (hc_cancelled httpCtx)) (as_curl st)) of
             (Panics p, cs) \<Rightarrow> (Panics p, st\<lparr>as_curl := cs\<rparr>)
           | (Returns (r, None), cs) \<Rightarrow> (Returns (Settled r), st\<lparr>as_curl := cs\<rparr>)
           | (Returns (r, Some e), cs) \<Rightarrow> download_loop env httpCtx n (i + 1) k (Some e) (st\<lparr>as_curl := cs\<rparr>)))"

definition download_answer :: "('u, 'v) api_env \<Rightarrow> string \<Rightarrow> curl_result \<Rightarrow> (string \<times> call_err option) outcome" where
  "download_answer env url rs =
     (case rs of
        GotResponse (Some r) (Some body) \<Rightarrow>
          if ir_status r \<noteq> 200 then
            Returns ([], Some (ErrPlain (Errorf (''Call '' @ url @ '' get http status code: '' @ int_dec (ir_status r) @
              '' status: '' @ ir_Status r))))
          else (case pe_ReadAll env body of (d, e) \<Rightarrow> Returns (d, map_option ErrPlain e))
      | _ \<Rightarrow> Panics nil_deref)"

text \<open>\<open>p\<close> is what the parameters are marshalled to, \<open>None\<close> without parameters.\<close>

definition Download ::
  "('u, 'v) api_env \<Rightarrow> http_ctx option \<Rightarrow> string \<Rightarrow> (goerr + string) option \<Rightarrow> ('c, 's, 't) api_state \<Rightarrow>
    (string \<times> call_err option) outcome \<times> ('c, 's, 't) api_state" where
  "Download env httpCtx url p st =
     (let fail = (\<lambda>i. case api_RespErr env 500 i st of (e, st') \<Rightarrow> (Returns ([], Some e), st')) in
      case httpCtx of
        None \<Rightarrow> fail (ArgStr ''nil httpCtx'')
      | Some h \<Rightarrow>
          (case (case p of
                   None \<Rightarrow> Inr (NewGet url)
                 | Some (Inl e) \<Rightarrow> Inl e
                 | Some (Inr b) \<Rightarrow> Inr ((NewPost url)\<lparr>cu_PostBytes := b\<rparr>)) of
             Inl e \<Rightarrow> fail (ArgErr e)
           | Inr c \<Rightarrow>
               (let n = as_next st;
                    c1 = SetTimeout 5 (c\<lparr>cu_Headers := Header_Set ''Content-Type'' ''application/json'' (cu_Headers c)\<rparr>)
                in case download_loop env h n 0 3 None (on_curl n (\<lambda>_. c1) (st\<lparr>as_next := n + 1\<rparr>)) of
                     (Panics q, st1) \<Rightarrow> (Panics q, st1)
                   | (Returns (GaveUp e), st1) \<Rightarrow> (Returns ([], Some e), st1)
                   | (Returns (Settled r), st1) \<Rightarrow>
                       (download_answer env (cu_Url (cs_curls (as_curl st1) n)) r, st1))))"

section \<open>Facts: the wait group\<close>

lemma api_RespErr_frame [simp]:
  "sd_app (snd (api_RespErr env n i st)) = sd_app st"
  "as_curl (snd (api_RespErr env n i st)) = as_curl st"
  by (simp_all add: api_RespErr_def split: prod.splits)

lemma api_RespErr_frameD: "api_RespErr env n i st = (e, st') \<Longrightarrow> sd_app st' = sd_app st"
  using api_RespErr_frame(1) [of env n i st] by simp

lemma try_addresses_frame:
  "try_addresses env ap st = (r, st') \<Longrightarrow> sd_app st' = sd_app st \<and> as_curl st' = as_curl st"
  by (auto simp: try_addresses_def split: address_param.splits option.splits prod.splits sum.splits)

lemma Cancel_fresh:
  "NewHTTPContextWithCtx u w r (Some h) a = (Returns c, a') \<Longrightarrow>
   ap_wg s = ap_wg a' \<Longrightarrow> ap_wg (snd (HTTPContext_Cancel c s)) = ap_wg a"
  by (auto simp: NewHTTPContextWithCtx_def HTTPContext_Cancel_def blank_ctx_def WgAdd_def WgDone_def)

lemma NewHTTPContextWithCtx_returns:
  obtains c a' where "NewHTTPContextWithCtx u w r (Some h) a = (Returns c, a')"
  by (simp add: NewHTTPContextWithCtx_def)

lemma api_try_wg: "api_try env h i n url st = (r, st') \<Longrightarrow> ap_wg (sd_app st') = ap_wg (sd_app st)"
proof -
  assume a: "api_try env h i n url st = (r, st')"
  obtain c a' where c: "NewHTTPContextWithCtx (pe_uuid env (Suc i)) (pe_w0 env) (pe_r0 env) (Some h) (sd_app st) = (Returns c, a')"
    by (rule NewHTTPContextWithCtx_returns)
  from a have "sd_app st' = snd (HTTPContext_Cancel c a')"
    unfolding api_try_def by (auto simp: c on_curl_def Let_def split: prod.splits)
  with Cancel_fresh [OF c, of a'] show ?thesis by simp
qed

lemma api_loop_wg: "ap_wg (sd_app (snd (api_loop env h ap uri n i k err st))) = ap_wg (sd_app st)"
proof (induction k arbitrary: i err st)
  case 0
  show ?case by (auto dest: api_RespErr_frameD split: option.splits prod.splits)
next
  case (Suc k)
  show ?case
  proof (cases "pe_done env i")
    case None
    obtain as st1 where t: "try_addresses env ap st = (as, st1)" by fastforce
    from try_addresses_frame [OF t] have f: "sd_app st1 = sd_app st" by simp
    show ?thesis
    proof (cases "\<exists>a url. as = Inr a \<and> getApiUrl env a uri = Inr url")
      case True
      then obtain a url where u: "as = Inr a" "getApiUrl env a uri = Inr url" by blast
      obtain r st2 where r: "api_try env h i n url st1 = (r, st2)" by fastforce
      from api_try_wg [OF r] f Suc show ?thesis
        by (cases r) (auto simp: None t u r split: option.splits)
    qed (auto simp: None t f dest!: api_RespErr_frameD split: sum.splits prod.splits)
  qed simp
qed

lemma api_answer_wg: "ap_wg (sd_app (snd (snd (api_answer env url rs resp st)))) = ap_wg (sd_app st)"
  by (auto simp: api_answer_def Let_def dest!: api_RespErr_frameD
      split: curl_result.splits option.splits prod.splits)

lemma call_body_wg: "ap_wg (sd_app (snd (snd (call_body env h hdr ap uri p resp opts st)))) = ap_wg (sd_app st)"
proof (cases "call_setup env h hdr p opts")
  case (Returns x)
  show ?thesis
  proof (cases x)
    case (Inr c)
    let ?st = "on_curl (as_next st) (\<lambda>_. c) (st\<lparr>as_next := Suc (as_next st)\<rparr>)"
    obtain r st2 where l: "api_loop env h ap uri (as_next st) 0 3 None ?st = (r, st2)" by fastforce
    with api_loop_wg [of env h ap uri "as_next st" 0 3 None ?st] have "ap_wg (sd_app st2) = ap_wg (sd_app st)"
      by (simp add: on_curl_def)
    then show ?thesis
      by (cases r) (auto simp: call_body_def Returns Inr Let_def l api_answer_wg split: loop_end.splits)
  qed (auto simp: call_body_def Returns dest!: api_RespErr_frameD split: prod.splits)
qed (simp add: call_body_def)

lemma Call_wg: "ap_wg (sd_app (snd (snd (Call env ho hdr ap uri p resp opts st)))) = ap_wg (sd_app st)"
proof (cases ho)
  case (Some h)
  obtain c a where c: "NewHTTPContextWithCtx (pe_uuid env 0) (pe_w0 env) (pe_r0 env) (Some h) (sd_app st) = (Returns c, a)"
    by (rule NewHTTPContextWithCtx_returns)
  obtain r v st1 where b: "call_body env c hdr ap uri p resp opts (st\<lparr>sd_app := a\<rparr>) = (r, v, st1)"
    using prod_cases3 by blast
  with call_body_wg [of env c hdr ap uri p resp opts "st\<lparr>sd_app := a\<rparr>"] have "ap_wg (sd_app st1) = ap_wg a" by simp
  with Cancel_fresh [OF c] show ?thesis by (simp add: Call_def Some c b)
qed (auto simp: Call_def dest!: api_RespErr_frameD split: prod.splits)

section \<open>Facts: the body of a retry\<close>

text \<open>The same calls with a transport that throws the bodies of all tries but the first away.\<close>

definition bodyless :: "curl_env \<Rightarrow> curl_env" where
  "bodyless ce = ce\<lparr>ce_Do := (\<lambda>f hc q. ce_Do ce f hc (q\<lparr>or_body := Some (RawBody [])\<rparr>))\<rparr>"

definition retries_bodyless :: "('u, 'v) api_env \<Rightarrow> ('u, 'v) api_env" where
  "retries_bodyless env = env\<lparr>pe_curl := (\<lambda>i. if i = 0 then pe_curl env i else bodyless (pe_curl env i))\<rparr>"

lemma retries_bodyless_fields [simp]:
  "pe_uuid (retries_bodyless env) = pe_uuid env" "pe_w0 (retries_bodyless env) = pe_w0 env"
  "pe_r0 (retries_bodyless env) = pe_r0 env" "pe_debug (retries_bodyless env) = pe_debug env"
  "pe_app_id (retries_bodyless env) = pe_app_id env" "pe_done (retries_bodyless env) = pe_done env"
  "pe_rnd (retries_bodyless env) = pe_rnd env" "pe_url (retries_bodyless env) = pe_url env"
  "pe_ReadAll (retries_bodyless env) = pe_ReadAll env" "pe_Unmarshal (retries_bodyless env) = pe_Unmarshal env"
  "pe_Decode (retries_bodyless env) = pe_Decode env" "pe_gopath (retries_bodyless env) = pe_gopath env"
  "pe_site (retries_bodyless env) = pe_site env"
  "pe_curl (retries_bodyless env) i = (if i = 0 then pe_curl env i else bodyless (pe_curl env i))"
  by (simp_all add: retries_bodyless_def)

lemma retries_bodyless_calls [simp]:
  "api_RespErr (retries_bodyless env) = api_RespErr env"
  "try_addresses (retries_bodyless env) = try_addresses env"
  "getApiUrl (retries_bodyless env) = getApiUrl env"
  "call_setup (retries_bodyless env) = call_setup env"
  "api_answer (retries_bodyless env) = api_answer env"
  unfolding fun_eq_iff api_RespErr_def try_addresses_def getApiUrl_def call_setup_def call_headers_def
    api_answer_def retries_bodyless_fields by (rule allI refl)+

lemma bodyless_fields:
  "ce_NewRequest (bodyless ce) = ce_NewRequest ce" "ce_ParseURL (bodyless ce) = ce_ParseURL ce"
  "ce_unread (bodyless ce) = ce_unread ce" "ce_wake (bodyless ce) = ce_wake ce"
  "ce_gunzip (bodyless ce) = ce_gunzip ce" "ce_inflate (bodyless ce) = ce_inflate ce"
  by (simp_all add: bodyless_def)

lemma bodyless_calls:
  "getHttpClient (bodyless ce) = getHttpClient ce" "finish_request (bodyless ce) = finish_request ce"
  unfolding fun_eq_iff getHttpClient_def finish_request_def wrap_def getReader_def bodyless_fields
  by (rule allI refl)+

text \<open>With nothing left to read the transport gets nothing, and nothing is left again.\<close>

lemma Request_empty:
  assumes "reads_bodies ce" and "cu_PostReader (cs_curls cs n) = Some (RawBody [])"
  shows "cu_PostReader (cs_curls (snd (Request ce n cs)) n) = Some (RawBody [])"
    and "Request (bodyless ce) n cs = Request ce n cs"
proof -
  from assms(1) have u: "ce_unread ce = (\<lambda>f hc q. emptied)" by (simp add: reads_bodies_def fun_eq_iff)
  obtain c where c: "cu_PostReader c = Some (RawBody [])" and R: "\<And>env. Request env n cs =
       (case ce_NewRequest env (cu_method c) (cu_Url c) of
          Some e \<Rightarrow> (Returns (GotResponse None None, Some (Errorf (''CreateRequest failed: '' @ err_text e))),
                     upd_curl n (\<lambda>_. c) cs)
        | None \<Rightarrow> send_request env n (request_of c) (upd_curl n (\<lambda>_. c) cs))"
    using Request_reader [OF assms(2)] by blast
  have q: "ce_Do (bodyless ce) f hc (request_of c) = ce_Do ce f hc (request_of c)" for f hc
    using c by (simp add: bodyless_def request_of_def)
  obtain r st1 where g: "getHttpClient ce n (upd_curl n (\<lambda>_. c) cs) = (r, st1)" by fastforce
  then have p1: "cu_PostReader (cs_curls st1 n) = Some (RawBody [])" using c by (simp add: getHttpClient_curls)
  show "cu_PostReader (cs_curls (snd (Request ce n cs)) n) = Some (RawBody [])"
    using c p1 by (auto simp: R send_request_def g u Let_def finish_request_post split: option.splits sum.splits prod.splits)
  show "Request (bodyless ce) n cs = Request ce n cs"
    unfolding R send_request_def bodyless_fields bodyless_calls q by (rule refl)
qed

definition body_at :: "nat \<Rightarrow> ('c, 's, 't) api_state \<Rightarrow> req_body option" where
  "body_at n st = cu_PostReader (cs_curls (as_curl st) n)"

lemma try_curl_fields [simp]:
  "cu_PostReader (try_curl h tmp url c) = cu_PostReader c" "cu_PostBytes (try_curl h tmp url c) = cu_PostBytes c"
  "cu_proxyURL (try_curl h tmp url c) = cu_proxyURL c"
  by (simp_all add: try_curl_def SetContext_def)

lemma api_try_empty:
  assumes "reads_bodies (pe_curl env i)" and "body_at n st = Some (RawBody [])"
  shows "body_at n (snd (api_try env h i n url st)) = Some (RawBody [])"
    and "i \<noteq> 0 \<Longrightarrow> api_try (retries_bodyless env) h i n url st = api_try env h i n url st"
proof -
  obtain tmp a where c: "NewHTTPContextWithCtx (pe_uuid env (Suc i)) (pe_w0 env) (pe_r0 env) (Some h) (sd_app st) = (Returns tmp, a)"
    by (rule NewHTTPContextWithCtx_returns)
  let ?cs = "upd_curl n (try_curl h tmp url) (as_curl st)"
  have "cu_PostReader (cs_curls ?cs n) = Some (RawBody [])" using assms(2) by (simp add: body_at_def)
  note r = Request_empty [OF assms(1) this]
  from r(1) show "body_at n (snd (api_try env h i n url st)) = Some (RawBody [])"
    by (simp add: api_try_def c on_curl_def Let_def body_at_def case_prod_beta)
  from r(2) show "i \<noteq> 0 \<Longrightarrow> api_try (retries_bodyless env) h i n url st = api_try env h i n url st"
    by (simp add: api_try_def c on_curl_def Let_def)
qed

lemma api_loop_bodyless:
  assumes "\<forall>i. reads_bodies (pe_curl env i)" and "body_at n st = Some (RawBody [])" and "i \<noteq> 0"
  shows "api_loop (retries_bodyless env) h ap uri n i k err st = api_loop env h ap uri n i k err st"
  using assms(2,3)
proof (induction k arbitrary: i err st)
  case 0
  show ?case by (simp split: option.split)
next
  case (Suc k)
  obtain as st1 where t: "try_addresses env ap st = (as, st1)" by fastforce
  from try_addresses_frame [OF t] Suc.prems have b: "body_at n st1 = Some (RawBody [])" by (simp add: body_at_def)
  have "api_loop (retries_bodyless env) h ap uri n (Suc i) k e st2 = api_loop env h ap uri n (Suc i) k e st2"
    if "api_try env h i n url st1 = (r, st2)" for e url r st2
    using Suc.IH [of st2 "Suc i" e] api_try_empty(1) [of env i n st1 h url] that b assms(1) by simp
  then show ?case
    using api_try_empty(2) [of env i n st1 h] b assms(1) Suc.prems(2)
    by (auto simp: t split: option.splits sum.splits prod.splits outcome.splits)
qed

text \<open>The object a call starts with: its body is bytes, it has no reader yet, and it uses no proxy.\<close>

definition plain_post :: "curl \<Rightarrow> bool" where
  "plain_post c \<longleftrightarrow> cu_PostReader c = None \<and> cu_PostBytes c \<noteq> [] \<and> cu_proxyURL c = []"

lemma api_first_bodyless:
  assumes "\<forall>i. reads_bodies (pe_curl env i)" and "\<forall>m u. ce_NewRequest (pe_curl env 0) m u = None"
    and "plain_post (cs_curls (as_curl st) n)"
  shows "api_loop (retries_bodyless env) h ap uri n 0 k err st = api_loop env h ap uri n 0 k err st"
proof (cases k)
  case (Suc k')
  obtain as st1 where t: "try_addresses env ap st = (as, st1)" by fastforce
  obtain tmp a where c: "NewHTTPContextWithCtx (pe_uuid env (Suc 0)) (pe_w0 env) (pe_r0 env) (Some h) (sd_app st1) = (Returns tmp, a)"
    by (rule NewHTTPContextWithCtx_returns)
  have b: "body_at n (snd (api_try env h 0 n url st1)) = Some (RawBody [])" for url
  proof -
    have p: "plain_post (cs_curls (upd_curl n (try_curl h tmp url) (as_curl st1)) n)"
      using assms(3) try_addresses_frame [OF t] by (simp add: plain_post_def)
    show ?thesis
      using second_request_is_empty(1) [OF _ refl, of "upd_curl n (try_curl h tmp url) (as_curl st1)" n "pe_curl env 0"]
        p assms(1,2) by (simp add: plain_post_def api_try_def c on_curl_def Let_def body_at_def case_prod_beta)
  qed
  have "api_loop (retries_bodyless env) h ap uri n (Suc 0) k' e st2 = api_loop env h ap uri n (Suc 0) k' e st2"
    if "api_try env h 0 n url st1 = (r, st2)" for e url r st2
    using api_loop_bodyless [OF assms(1), of n st2 "Suc 0"] b [of url] that by simp
  moreover have "api_try (retries_bodyless env) h 0 n url st1 = api_try env h 0 n url st1" for url
    by (simp add: api_try_def c)
  ultimately show ?thesis
    by (auto simp: Suc t split: option.splits sum.splits prod.splits outcome.splits)
qed (simp split: option.split)


text \<open>Options that leave the body and the proxy alone, as those of the package do.\<close>

definition keeps_body :: "call_option \<Rightarrow> bool" where
  "keeps_body f \<longleftrightarrow>
     (\<forall>c. cu_PostReader (snd (f c)) = cu_PostReader c \<and> cu_PostBytes (snd (f c)) = cu_PostBytes c \<and>
          cu_proxyURL (snd (f c)) = cu_proxyURL c)"

lemma package_options_keep_body:
  "keeps_body (TimeOutCallOption t)" "keeps_body (AddHeadersCallOption hs)" "keeps_body (DelHeadersCallOption ks)"
  by (simp_all add: keeps_body_def TimeOutCallOption_def SetTimeout_def SetTimeoutMS_def AddHeadersCallOption_def
      DelHeadersCallOption_def)

lemma apply_options_plain:
  "list_all keeps_body opts \<Longrightarrow> apply_options opts c = (e, c') \<Longrightarrow> plain_post c \<Longrightarrow> plain_post c'"
proof (induction opts arbitrary: c)
  case (Cons f fs)
  then have "plain_post (snd (f c))" by (simp add: keeps_body_def plain_post_def)
  with Cons show ?case by (cases "f c") (auto split: option.splits)
qed simp

lemma call_setup_plain:
  assumes "call_setup env h hdr (Inr b) opts = Returns (Inr c)" and "b \<noteq> []" and "list_all keeps_body opts"
  shows "plain_post c"
proof -
  obtain c1 where c1: "call_headers env hdr (SetContext (hc_cancelled h) (NewPost [])) = Returns c1"
    "apply_options opts ((SetTimeout 30 c1)\<lparr>cu_PostBytes := b\<rparr>) = (None, c)"
    using assms(1) by (auto simp: call_setup_def split: outcome.splits prod.splits option.splits)
  have "plain_post ((SetTimeout 30 c1)\<lparr>cu_PostBytes := b\<rparr>)"
    using c1(1) assms(2)
    by (auto simp: plain_post_def call_headers_def Let_def SetTimeout_def SetTimeoutMS_def SetContext_def NewPost_def
        New_curl_def split: option.splits goval.splits)
  from apply_options_plain [OF assms(3) c1(2) this] show ?thesis .
qed

section \<open>Facts: what a call does with its answer\<close>

text \<open>The decoder for whole answers plays no part before there is an answer.\<close>

lemma decoder_fields:
  "pe_uuid (env\<lparr>pe_Unmarshal := dec\<rparr>) = pe_uuid env" "pe_w0 (env\<lparr>pe_Unmarshal := dec\<rparr>) = pe_w0 env"
  "pe_r0 (env\<lparr>pe_Unmarshal := dec\<rparr>) = pe_r0 env" "pe_app_id (env\<lparr>pe_Unmarshal := dec\<rparr>) = pe_app_id env"
  "pe_curl (env\<lparr>pe_Unmarshal := dec\<rparr>) = pe_curl env" "pe_rnd (env\<lparr>pe_Unmarshal := dec\<rparr>) = pe_rnd env"
  "pe_url (env\<lparr>pe_Unmarshal := dec\<rparr>) = pe_url env" "pe_done (env\<lparr>pe_Unmarshal := dec\<rparr>) = pe_done env"
  "pe_gopath (env\<lparr>pe_Unmarshal := dec\<rparr>) = pe_gopath env" "pe_site (env\<lparr>pe_Unmarshal := dec\<rparr>) = pe_site env"
  by simp_all

lemma decoder_calls:
  "api_RespErr (env\<lparr>pe_Unmarshal := dec\<rparr>) = api_RespErr env" "try_addresses (env\<lparr>pe_Unmarshal := dec\<rparr>) = try_addresses env"
  "getApiUrl (env\<lparr>pe_Unmarshal := dec\<rparr>) = getApiUrl env" "api_try (env\<lparr>pe_Unmarshal := dec\<rparr>) = api_try env"
  "call_setup (env\<lparr>pe_Unmarshal := dec\<rparr>) = call_setup env"
  unfolding fun_eq_iff api_RespErr_def try_addresses_def getApiUrl_def api_try_def call_setup_def call_headers_def decoder_fields
  by (rule allI refl)+

lemma api_loop_decoder:
  "api_loop (env\<lparr>pe_Unmarshal := dec\<rparr>) h ap uri n i k err st = api_loop env h ap uri n i k err st"
  by (induction k arbitrary: i err st)
    (simp_all add: decoder_calls split: option.split sum.split prod.split outcome.split)

lemma api_answer_decoder:
  assumes "pe_debug env"
  shows "fst (api_answer (env\<lparr>pe_Unmarshal := dec\<rparr>) url r v st) = fst (api_answer env url r v st)"
    and "snd (snd (api_answer (env\<lparr>pe_Unmarshal := dec\<rparr>) url r v st)) = snd (snd (api_answer env url r v st))"
  using assms by (simp_all add: api_answer_def api_RespErr_def split: curl_result.split option.split prod.split)

lemma call_body_decoder:
  assumes "pe_debug env"
  shows "fst (call_body (env\<lparr>pe_Unmarshal := dec\<rparr>) h hdr ap uri p resp opts st) = fst (call_body env h hdr ap uri p resp opts st)"
    and "snd (snd (call_body (env\<lparr>pe_Unmarshal := dec\<rparr>) h hdr ap uri p resp opts st)) =
         snd (snd (call_body env h hdr ap uri p resp opts st))"
  by (simp_all add: call_body_def api_answer_decoder [OF assms] decoder_calls api_loop_decoder api_RespErr_def Let_def
      split: outcome.split sum.split prod.split loop_end.split)


text \<open>The calls of the package as operations that hold the wait group while they run.\<close>

record ('u, 'v) api_call =
  ak_env :: "('u, 'v) api_env"
  ak_ctx :: "http_ctx option"
  ak_header :: "(string \<times> string) list"
  ak_address :: address_param
  ak_uri :: string
  ak_params :: "goerr + string"
  ak_resp :: 'v
  ak_opts :: "call_option list"

definition run_call :: "('u, 'v) api_call \<Rightarrow> ('c, 's, 't) api_state \<Rightarrow> ('c, 's, 't) api_state" where
  "run_call x st =
     snd (snd (Call (ak_env x) (ak_ctx x) (ak_header x) (ak_address x) (ak_uri x) (ak_params x) (ak_resp x) (ak_opts x) st))"

interpretation api_wait: guarded_counter run_call "\<lambda>st. ap_wg (sd_app st)" "\<lambda>_. True"
  by unfold_locales (simp add: run_call_def Call_wg)

section \<open>Properties\<close>

text \<open>
  Calls of other services give back what they take: whatever calls are made one after
  the other, and however each ends (an answer, an error of its setup, three failed tries, a context
  that ends, a panic of the transport's result), the wait group is afterwards what it was.
\<close>

theorem api_calls_keep_wait_group:
  "ap_wg (sd_app (fold run_call xs st)) = ap_wg (sd_app st)"
  by (rule api_wait.run_all_count) simp




text \<open>
  The numbers of the services come through: when the answer of a standard service holds an
  error number, the caller gets an error with this number and text; when it holds none the caller
  gets no error and the results; an error of the call itself is passed on.
\<close>

theorem StdCall_passes_errno:
  assumes "Call env ho [] ap uri p \<lparr>sr_ErrNo = 0, sr_ErrMsg = [], sr_Results = results\<rparr> opts st = (Returns e, v, st1)"
  shows "\<exists>e' st2. StdCall env ho ap uri p results opts st = (Returns e', sr_Results v, st2) \<and>
           (case e of
              Some x \<Rightarrow> e' = Some x
            | None \<Rightarrow>
                (if sr_ErrNo v = 0 then e' = None
                 else \<exists>q. e' = Some (ErrResp q) \<and> RespErr_ErrNo (as_errs st2) q = sr_ErrNo v \<and>
                        RespErr_ErrMsg (as_errs st2) q = sr_ErrMsg v))"
  using assms
  by (cases e)
    (auto simp: StdCall_def api_RespErr_def NewRespErr_def RespErr_ErrNo_def RespErr_ErrMsg_def Let_def
      split: prod.splits)

text \<open>A service that fails at first; the number of bodies it read is its answer.\<close>

definition echo_curl :: "nat \<Rightarrow> curl_env" where
  "echo_curl i =
     \<lparr>ce_NewRequest = (\<lambda>m u. None), ce_ParseURL = Inr,
      ce_Do = (\<lambda>f hc q. if i = 0 then (None, Some (OtherError (Errorf ''reset'')))
         else (Some \<lparr>ir_status = 200, ir_Status = ''200 OK'', ir_header = Map.empty,
                     ir_body = Some (case or_body q of Some (RawBody b) \<Rightarrow> b | _ \<Rightarrow> [])\<rparr>, None)),
      ce_unread = (\<lambda>_ _ _. emptied), ce_wake = W_Finished, ce_gunzip = Inr, ce_inflate = id,
      ce_Open = (\<lambda>_. Inl (Errorf ''no file'')), ce_boundary = ''b''\<rparr>"

definition plain_urls :: "string url_lib" where
  "plain_urls = \<lparr>ul_ParseRequestURI = Inr, ul_Scheme = (\<lambda>u. ''http''), ul_Parse = (\<lambda>u r. Inr (u @ r)), ul_String = id\<rparr>"

definition echo_env :: "bool \<Rightarrow> (string, string) api_env" where
  "echo_env debug =
     \<lparr>pe_uuid = (\<lambda>i. ''u''), pe_w0 = new_writer,
      pe_r0 = \<lparr>rq_method = ''GET'', rq_proto_major = 1, rq_host = [], rq_scheme = [], rq_url_host = [], rq_path = [],
               rq_raw_query = [], rq_query = [], rq_form = [], rq_header = Map.empty, rq_cookies = [], rq_remote_addr = []\<rparr>,
      pe_debug = debug, pe_app_id = None, pe_curl = echo_curl, pe_done = (\<lambda>_. None), pe_rnd = (\<lambda>_. 0),
      pe_url = plain_urls, pe_ReadAll = (\<lambda>b. (b, None)),
      pe_Unmarshal = (\<lambda>b v. if b = [] then (v, Some (Errorf ''EOF'')) else (b, None)),
      pe_Decode = (\<lambda>b v. if b = [] then (v, Some (Errorf ''EOF'')) else (b, None)),
      pe_gopath = [], pe_site = (''main.go'', 7)\<rparr>"

definition no_calls :: "(nat, string \<Rightarrow> string \<rightharpoonup> string, string) api_state" where
  "no_calls =
     \<lparr>cs_clients = Map.empty, cs_srv = 0, sd_resolvers = Map.empty, sd_heap = [],
      sd_app = \<lparr>ap_online = 0, ap_wg = 0, ap_errors = errorMap_init, ap_sess_store = None, ap_default = None,
                ap_srv = (\<lambda>_ _. None), ap_templates = Map.empty\<rparr>,
      as_curl = \<lparr>cs_curls = (\<lambda>_. New_curl [] []), cs_clientMap = Map.empty\<rparr>, as_next = 0, as_errs = []\<rparr>"



text \<open>A standard service that answers each call with an error.\<close>

definition refusing_env :: "(string, nat std_response) api_env" where
  "refusing_env =
     \<lparr>pe_uuid = (\<lambda>i. ''u''), pe_w0 = new_writer, pe_r0 = pe_r0 (echo_env False), pe_debug = False, pe_app_id = None,
      pe_curl = (\<lambda>_. echo_curl 1), pe_done = (\<lambda>_. None), pe_rnd = (\<lambda>_. 0), pe_url = plain_urls,
      pe_ReadAll = (\<lambda>b. (b, None)), pe_Unmarshal = (\<lambda>b v. (v, None)),
      pe_Decode = (\<lambda>b v. (v\<lparr>sr_ErrNo := 403, sr_ErrMsg := ''no access''\<rparr>, None)),
      pe_gopath = [], pe_site = (''main.go'', 7)\<rparr>"

lemma refused_call:
  "\<exists>st1. Call refusing_env (Some (blank_ctx new_writer (pe_r0 (echo_env False)) ''t'')) [] (ByAddresses [''h:1'']) [] (Inr ''{1}'')
     \<lparr>sr_ErrNo = 0, sr_ErrMsg = [], sr_Results = 5\<rparr> [] no_calls =
     (Returns None, \<lparr>sr_ErrNo = 403, sr_ErrMsg = ''no access'', sr_Results = 5\<rparr>, st1)"
  by (simp add: Call_def refusing_env_def NewHTTPContextWithCtx_def call_body_def call_setup_def call_headers_def
      api_try_def Request_def CreateRequest_def has_post_def post_reader_def send_request_def getHttpClient_def
      echo_curl_def finish_request_def wrap_def getReader_def request_error_def api_answer_def getApiUrl_def
      try_addresses_def plain_urls_def Let_def numeral_3_eq_3 Header_Get_def contains.simps no_calls_def on_curl_def
      upd_curl_def blank_ctx_def SetTimeout_def SetTimeoutMS_def SetContext_def NewPost_def New_curl_def try_curl_def)


theorem StdCall_passes_errno_witness:
  "\<exists>q st2. StdCall refusing_env (Some (blank_ctx new_writer (pe_r0 (echo_env False)) ''t'')) (ByAddresses [''h:1'']) [] (Inr ''{1}'')
       5 [] no_calls = (Returns (Some (ErrResp q)), 5, st2) \<and>
     RespErr_ErrNo (as_errs st2) q = 403 \<and> RespErr_ErrMsg (as_errs st2) q = ''no access''"
proof -
  obtain st1 where "Call refusing_env (Some (blank_ctx new_writer (pe_r0 (echo_env False)) ''t'')) [] (ByAddresses [''h:1'']) [] (Inr ''{1}'')
     \<lparr>sr_ErrNo = 0, sr_ErrMsg = [], sr_Results = 5\<rparr> [] no_calls =
     (Returns None, \<lparr>sr_ErrNo = 403, sr_ErrMsg = ''no access'', sr_Results = 5\<rparr>, st1)"
    using refused_call by blast
  from StdCall_passes_errno [OF this] show ?thesis by auto
qed

end
