(* ===== verification/Mongo.thy ===== *)
theory Mongo
  imports Interfaces
begin

text \<open>
  \<open>nosql/mongo.go\<close>: the table of sessions and the operations on a database. The driver is the
  record \<open>mgo_lib\<close> over a state \<open>'g\<close> of its own; a session is a number. A database is a session
  with a name. The lock of the table makes the look-up and the entry one step.
\<close>

section \<open>The driver\<close>

record 'g mgo_lib =
  mg_ParseURL :: "string \<Rightarrow> goerr + string" \<comment> \<open>the database of the URL\<close>
  mg_Dial :: "string \<Rightarrow> 'g \<Rightarrow> (goerr + nat) \<times> 'g"
  mg_Copy :: "nat \<Rightarrow> 'g \<Rightarrow> nat \<times> 'g"
  mg_Close :: "nat \<Rightarrow> 'g \<Rightarrow> 'g"
  mg_SetMode :: "nat \<Rightarrow> 'g \<Rightarrow> 'g"
  mg_CollectionNames :: "nat \<Rightarrow> string \<Rightarrow> 'g \<Rightarrow> (goerr + string list) \<times> 'g"
  mg_DatabaseNames :: "nat \<Rightarrow> 'g \<Rightarrow> (goerr + string list) \<times> 'g"

definition ErrNotFound :: goerr where "ErrNotFound = Sentinel ''not found''"

section \<open>Connections\<close>

record mongo =
  mo_db :: "nat \<times> string"
  mo_dbName :: string

record 'g mongo_state =
  ms_sessions :: "string \<rightharpoonup> nat" \<comment> \<open>\<open>mongoSessions\<close>\<close>
  ms_drv :: 'g

definition mongo_key :: "string \<Rightarrow> string \<Rightarrow> string" where
  "mongo_key address dbName = address @ ''_'' @ dbName"

definition dial_error :: "goerr \<Rightarrow> goerr" where
  "dial_error e = Errorf (''dial mongo fail: '' @ err_text e)"

text \<open>The part under the lock: the session of the table, or a new one.\<close>

definition mongo_session :: "'g mgo_lib \<Rightarrow> string \<times> string \<Rightarrow> 'g mongo_state \<Rightarrow> (goerr + nat) \<times> 'g mongo_state" where
  "mongo_session mg x st =
     (case x of (address, dbName) \<Rightarrow>
        let key = mongo_key address dbName in
        case ms_sessions st key of
          Some s \<Rightarrow> (Inr s, st)
        | None \<Rightarrow>
            (case mg_Dial mg address (ms_drv st) of
               (Inl e, g) \<Rightarrow> (Inl (dial_error e), st\<lparr>ms_drv := g\<rparr>)
             | (Inr s, g) \<Rightarrow>
                 (Inr s, st\<lparr>ms_sessions := (ms_sessions st)(key \<mapsto> s), ms_drv := mg_SetMode mg s g\<rparr>)))"

definition NewMongo :: "'g mgo_lib \<Rightarrow> string \<Rightarrow> string \<Rightarrow> 'g mongo_state \<Rightarrow> (goerr + mongo) \<times> 'g mongo_state" where
  "NewMongo mg address dbName st =
     (if address = [] then (Inl (Errorf ''nil address''), st)
      else case mg_ParseURL mg address of
        Inl e \<Rightarrow> (Inl e, st)
      | Inr urlDb \<Rightarrow>
          (let dbName = (if dbName = [] then urlDb else dbName) in
           if dbName = [] then (Inl (Errorf ''nil dbName''), st)
           else case mongo_session mg (address, dbName) st of
             (Inl e, st1) \<Rightarrow> (Inl e, st1)
           | (Inr s, st1) \<Rightarrow>
               (let (c, g) = mg_Copy mg s (ms_drv st1) in
                (Inr \<lparr>mo_db = (c, dbName), mo_dbName = dbName\<rparr>, st1\<lparr>ms_drv := g\<rparr>))))"

definition Close_mongo :: "'g mgo_lib \<Rightarrow> mongo \<Rightarrow> 'g mongo_state \<Rightarrow> 'g mongo_state" where
  "Close_mongo mg m st = st\<lparr>ms_drv := mg_Close mg (fst (mo_db m)) (ms_drv st)\<rparr>"

definition SetDbName :: "string \<Rightarrow> mongo \<Rightarrow> mongo" where
  "SetDbName dbName m =
     (if dbName = mo_dbName m then m else m\<lparr>mo_db := (fst (mo_db m), dbName), mo_dbName := dbName\<rparr>)"

section \<open>Operations\<close>

text \<open>\<open>colFunc\<close> works on a collection of a database.\<close>

definition Exec_mongo ::
  "string \<Rightarrow> (nat \<times> string \<Rightarrow> string \<Rightarrow> 'g \<Rightarrow> goerr option \<times> 'g) \<Rightarrow> mongo \<Rightarrow> 'g mongo_state \<Rightarrow> goerr option \<times> 'g mongo_state" where
  "Exec_mongo colName colFunc m st =
     (let (err, g) = colFunc (mo_db m) colName (ms_drv st)
      in (if err = Some ErrNotFound then None else err, st\<lparr>ms_drv := g\<rparr>))"

definition CollectionNames :: "'g mgo_lib \<Rightarrow> mongo \<Rightarrow> 'g mongo_state \<Rightarrow> (goerr + string list) \<times> 'g mongo_state" where
  "CollectionNames mg m st =
     (let (r, g) = mg_CollectionNames mg (fst (mo_db m)) (snd (mo_db m)) (ms_drv st) in (r, st\<lparr>ms_drv := g\<rparr>))"

definition DatabaseNames :: "'g mgo_lib \<Rightarrow> mongo \<Rightarrow> 'g mongo_state \<Rightarrow> (goerr + string list) \<times> 'g mongo_state" where
  "DatabaseNames mg m st =
     (let (r, g) = mg_DatabaseNames mg (fst (mo_db m)) (ms_drv st) in (r, st\<lparr>ms_drv := g\<rparr>))"

fun name_among :: "string \<Rightarrow> string list \<Rightarrow> bool" where
  "name_among name [] = False"
| "name_among name (n # ns) = (if n = name then True else name_among name ns)"

definition CollectionIsExist ::
  "'g mgo_lib \<Rightarrow> string \<Rightarrow> mongo \<Rightarrow> 'g mongo_state \<Rightarrow> (bool \<times> goerr option) \<times> 'g mongo_state" where
  "CollectionIsExist mg name m st =
     (case CollectionNames mg m st of
        (Inl e, st1) \<Rightarrow> ((False, Some e), st1)
      | (Inr names, st1) \<Rightarrow> ((name_among name names, None), st1))"

definition DbNameIsExist ::
  "'g mgo_lib \<Rightarrow> string \<Rightarrow> mongo \<Rightarrow> 'g mongo_state \<Rightarrow> (bool \<times> goerr option) \<times> 'g mongo_state" where
  "DbNameIsExist mg name m st =
     (case DatabaseNames mg m st of
        (Inl e, st1) \<Rightarrow> ((False, Some e), st1)
      | (Inr names, st1) \<Rightarrow> ((name_among name names, None), st1))"

section \<open>Facts\<close>

lemma name_among_iff: "name_among name ns \<longleftrightarrow> name \<in> set ns"
  by (induction ns) auto

interpretation mongo_sessions: keyed_cache "mongo_session mg" "\<lambda>(a, d). mongo_key a d" ms_sessions "\<lambda>_. True"
  by unfold_locales (auto simp: mongo_session_def Let_def split: option.splits prod.splits sum.splits)

text \<open>The session behind what \<open>NewMongo\<close> gives is that of the table.\<close>

lemma NewMongo_session:
  assumes "NewMongo mg a d st = (Inr m, st')"
  obtains s st1 where "mongo_session mg (a, mo_dbName m) st = (Inr s, st1)"
    and "mo_db m = (fst (mg_Copy mg s (ms_drv st1)), mo_dbName m)" and "ms_sessions st' = ms_sessions st1"
    and "ms_sessions st' (mongo_key a (mo_dbName m)) = Some s"
proof -
  obtain db where db: "mg_ParseURL mg a = Inr db" "a \<noteq> []"
    using assms by (auto simp: NewMongo_def split: if_splits sum.splits)
  define n where "n = (if d = [] then db else d)"
  obtain r st1 where s: "mongo_session mg (a, n) st = (r, st1)" by fastforce
  show thesis
  proof (cases r)
    case (Inr s1)
    from assms db s Inr have "mo_db m = (fst (mg_Copy mg s1 (ms_drv st1)), n)" "mo_dbName m = n"
      "ms_sessions st' = ms_sessions st1"
      by (auto simp: NewMongo_def Let_def n_def split: if_splits prod.splits)
    moreover from mongo_sessions.acquire_ok [of mg "(a, n)" st s1 st1] s Inr
    have "ms_sessions st1 (mongo_key a n) = Some s1" by simp
    ultimately show thesis using s Inr that by metis
  qed (use assms db s in \<open>auto simp: NewMongo_def Let_def n_def split: if_splits\<close>)
qed

section \<open>Properties\<close>

text \<open>
  The session of a MongoDB server is shared by address and database: after a database was
  opened, opening it again makes a copy of the same session and dials nothing, whatever was opened
  in between.
\<close>

theorem mongo_sessions_shared:
  assumes "NewMongo mg a d st = (Inr m, st1)" and "st2 = fold (\<lambda>(b, e) s. snd (mongo_session mg (b, e) s)) xs st1"
  shows "\<exists>s. ms_sessions st1 (mongo_key a (mo_dbName m)) = Some s \<and>
             mongo_session mg (a, mo_dbName m) st2 = (Inr s, st2) \<and>
             NewMongo mg a (mo_dbName m) st2 =
               (Inr \<lparr>mo_db = (fst (mg_Copy mg s (ms_drv st2)), mo_dbName m), mo_dbName = mo_dbName m\<rparr>,
                st2\<lparr>ms_drv := snd (mg_Copy mg s (ms_drv st2))\<rparr>)"
proof -
  obtain s st0 where s: "ms_sessions st1 (mongo_key a (mo_dbName m)) = Some s"
    using NewMongo_session [OF assms(1)] by metis
  have "fold (\<lambda>(b, e) s. snd (mongo_session mg (b, e) s)) xs st1 = mongo_sessions.acquire_all mg xs st1"
    by (induction xs arbitrary: st1) (auto simp: case_prod_beta)
  then have "ms_sessions st2 (mongo_key a (mo_dbName m)) = Some s"
    using mongo_sessions.acquire_all_keeps [of st1 "mongo_key a (mo_dbName m)" s mg xs] s assms(2) by simp
  then have h: "mongo_session mg (a, mo_dbName m) st2 = (Inr s, st2)"
    by (simp add: mongo_session_def)
  moreover have "a \<noteq> []" "mo_dbName m \<noteq> []" "\<exists>db. mg_ParseURL mg a = Inr db"
    using assms(1) by (auto simp: NewMongo_def Let_def split: if_splits sum.splits prod.splits)
  ultimately show ?thesis using s by (auto simp: NewMongo_def Let_def case_prod_beta)
qed

text \<open>
  Two databases on different servers can share a session: the key of the table joins the
  address and the name with an underscore, so that an address that ends where the other name begins
  gets the session that was dialled for the other server.
\<close>

theorem mongo_keys_collide:
  assumes "NewMongo mg a (x @ ''_'' @ d) st = (Inr m, st1)" and "x \<noteq> []" and "d \<noteq> []"
    and "mg_ParseURL mg (a @ ''_'' @ x) = Inr db"
  shows "\<exists>s m' st2. ms_sessions st1 (mongo_key a (mo_dbName m)) = Some s \<and>
           NewMongo mg (a @ ''_'' @ x) d st1 = (Inr m', st2) \<and> mo_dbName m' = d \<and>
           fst (mo_db m') = fst (mg_Copy mg s (ms_drv st1))"
proof -
  obtain s where s: "ms_sessions st1 (mongo_key a (mo_dbName m)) = Some s"
    using NewMongo_session [OF assms(1)] by metis
  have "mo_dbName m = x @ ''_'' @ d"
    using assms(1) by (auto simp: NewMongo_def Let_def split: if_splits sum.splits prod.splits)
  with s have "mongo_session mg (a @ ''_'' @ x, d) st1 = (Inr s, st1)"
    by (simp add: mongo_session_def mongo_key_def)
  with s assms(3,4) show ?thesis by (auto simp: NewMongo_def case_prod_beta)
qed

text \<open>A driver that numbers its sessions.\<close>

definition mem_mgo :: "nat mgo_lib" where
  "mem_mgo =
     \<lparr>mg_ParseURL = (\<lambda>u. Inr ''test''), mg_Dial = (\<lambda>a g. (Inr (g + 10), g + 1)), mg_Copy = (\<lambda>s g. (s, g)),
      mg_Close = (\<lambda>s g. g), mg_SetMode = (\<lambda>s g. g), mg_CollectionNames = (\<lambda>s d g. (Inr [''users''], g)),
      mg_DatabaseNames = (\<lambda>s g. (Inr [''test''], g))\<rparr>"

definition no_sessions :: "nat mongo_state" where
  "no_sessions = \<lparr>ms_sessions = Map.empty, ms_drv = 0\<rparr>"

lemma first_mongo:
  "d \<noteq> [] \<Longrightarrow> NewMongo mem_mgo ''h'' d no_sessions =
     (Inr \<lparr>mo_db = (10, d), mo_dbName = d\<rparr>, \<lparr>ms_sessions = [mongo_key ''h'' d \<mapsto> 10], ms_drv = 1\<rparr>)"
  by (simp add: NewMongo_def mongo_session_def mem_mgo_def no_sessions_def)

theorem mongo_sessions_shared_witness:
  "mongo_session mem_mgo (''h'', ''app'')
     (snd (mongo_session mem_mgo (''other'', ''db'') \<lparr>ms_sessions = [mongo_key ''h'' ''app'' \<mapsto> 10], ms_drv = 1\<rparr>)) =
   (Inr 10, snd (mongo_session mem_mgo (''other'', ''db'') \<lparr>ms_sessions = [mongo_key ''h'' ''app'' \<mapsto> 10], ms_drv = 1\<rparr>))"
proof -
  have f: "NewMongo mem_mgo ''h'' ''app'' no_sessions = (Inr \<lparr>mo_db = (10, ''app''), mo_dbName = ''app''\<rparr>,
      \<lparr>ms_sessions = [mongo_key ''h'' ''app'' \<mapsto> 10], ms_drv = 1\<rparr>)"
    by (rule first_mongo) simp
  from mongo_sessions_shared [OF f, of _ "[(''other'', ''db'')]"] show ?thesis by simp
qed

theorem mongo_keys_collide_witness:
  "\<exists>m' st2. NewMongo mem_mgo ''h_1'' ''app'' (snd (NewMongo mem_mgo ''h'' ''1_app'' no_sessions)) = (Inr m', st2) \<and>
     mo_dbName m' = ''app'' \<and> fst (mo_db m') = 10"
proof -
  have f: "NewMongo mem_mgo ''h'' (''1'' @ ''_'' @ ''app'') no_sessions = (Inr \<lparr>mo_db = (10, ''1_app''), mo_dbName = ''1_app''\<rparr>,
      \<lparr>ms_sessions = [mongo_key ''h'' ''1_app'' \<mapsto> 10], ms_drv = 1\<rparr>)"
    using first_mongo [of "''1_app''"] by simp
  from mongo_keys_collide [OF f, of "''test''"] show ?thesis
    using first_mongo [of "''1_app''"] by (auto simp: mem_mgo_def)
qed

end
