(* ===== verification/WebSocket.thy ===== *)
theory WebSocket
  imports HTTPContext
begin

text \<open>
  \<open>wslib/websocket.go\<close>: a WebSocket with the goroutine that keeps it alive. The protocol is the
  record \<open>ws_lib\<close>, over a state \<open>'g\<close> of its own; a connection is a number. \<open>ws_mt\<close> tells
  whether the instance has its mutex: a write locks it, and a nil mutex is a nil pointer. Log output
  is left out.
\<close>

section \<open>The protocol\<close>

datatype ws_message = TextMessage string | PingMessage | CloseMessage string

text \<open>The kinds of errors of the library; \<open>WsOther\<close> is any other error with its text.\<close>

datatype ws_err = CloseError nat string | ErrCloseSent | WsOther string

record 'g ws_lib =
  wl_Upgrade :: "(http_request \<Rightarrow> bool) option \<Rightarrow> response_writer \<Rightarrow> http_request \<Rightarrow> header \<Rightarrow> 'g \<Rightarrow> (goerr + nat) \<times> 'g"
  wl_Write :: "nat \<Rightarrow> ws_message \<Rightarrow> 'g \<Rightarrow> ws_err option \<times> 'g"
  wl_Read :: "nat \<Rightarrow> 'g \<Rightarrow> (ws_err + nat \<times> string) \<times> 'g"
  wl_Close :: "nat \<Rightarrow> 'g \<Rightarrow> ws_err option \<times> 'g"
  wl_FormatClose :: "nat \<Rightarrow> string \<Rightarrow> string"
  wl_text :: "ws_err \<Rightarrow> string"

definition CloseNormalClosure :: nat where "CloseNormalClosure = 1000"
definition CloseGoingAway :: nat where "CloseGoingAway = 1001"
definition CloseNoStatusReceived :: nat where "CloseNoStatusReceived = 1005"
definition CloseAbnormalClosure :: nat where "CloseAbnormalClosure = 1006"
definition CloseServiceRestart :: nat where "CloseServiceRestart = 1012"

section \<open>Instances\<close>

record ws_ins =
  ws_HTTPCtx :: http_ctx
  ws_ws :: nat
  ws_keepTimeout :: int
  ws_mt :: bool

record ('s, 't, 'g) ws_state =
  wst_app :: "('s, 't) app"
  wst_net :: 'g
  wst_check :: "(http_request \<Rightarrow> bool) option" \<comment> \<open>\<open>upgrader.CheckOrigin\<close>\<close>

definition SetCheckOrigin :: "(http_request \<Rightarrow> bool) \<Rightarrow> ('s, 't, 'g) ws_state \<Rightarrow> ('s, 't, 'g) ws_state" where
  "SetCheckOrigin f st = st\<lparr>wst_check := Some f\<rparr>"

definition NewUpgrader :: "(http_request \<Rightarrow> bool) \<Rightarrow> (http_request \<Rightarrow> bool) option" where
  "NewUpgrader f = Some f"

text \<open>What both constructors do with an upgrader; they differ in the mutex.\<close>

definition upgrade_with ::
  "'g ws_lib \<Rightarrow> bool \<Rightarrow> (http_request \<Rightarrow> bool) option \<Rightarrow> http_ctx \<Rightarrow> header \<Rightarrow> ('s, 't, 'g) ws_state \<Rightarrow>
    (goerr + ws_ins) \<times> ('s, 't, 'g) ws_state" where
  "upgrade_with wl mutex check ctx h st =
     (case wl_Upgrade wl check (hc_ResponseWriter ctx) (hc_Request ctx) h (wst_net st) of
        (Inl e, g) \<Rightarrow> (Inl e, st\<lparr>wst_net := g\<rparr>)
      | (Inr ws, g) \<Rightarrow>
          (Inr \<lparr>ws_HTTPCtx = ctx, ws_ws = ws, ws_keepTimeout = 60, ws_mt = mutex\<rparr>, st\<lparr>wst_net := g\<rparr>))"

definition NewWS ::
  "'g ws_lib \<Rightarrow> http_ctx \<Rightarrow> header \<Rightarrow> ('s, 't, 'g) ws_state \<Rightarrow> (goerr + ws_ins) \<times> ('s, 't, 'g) ws_state" where
  "NewWS wl ctx h st = upgrade_with wl True (wst_check st) ctx h st"

definition NewWSWithUpgrader ::
  "'g ws_lib \<Rightarrow> http_ctx \<Rightarrow> header \<Rightarrow> (http_request \<Rightarrow> bool) option \<Rightarrow> ('s, 't, 'g) ws_state \<Rightarrow>
    (goerr + ws_ins) \<times> ('s, 't, 'g) ws_state" where
  "NewWSWithUpgrader wl ctx h upgrader st = upgrade_with wl False upgrader ctx h st"

section \<open>Reading, writing, closing\<close>

definition Close_ws ::
  "'g ws_lib \<Rightarrow> ws_ins \<Rightarrow> ('s, 't, 'g) ws_state \<Rightarrow> ws_err option \<times> ws_ins \<times> ('s, 't, 'g) ws_state" where
  "Close_ws wl w st =
     (let (ctx, a) = HTTPContext_Cancel (ws_HTTPCtx w) (wst_app st);
          (e, g) = wl_Close wl (ws_ws w) (wst_net st)
      in (e, w\<lparr>ws_HTTPCtx := ctx\<rparr>, st\<lparr>wst_app := a, wst_net := g\<rparr>))"

definition ReadMessage ::
  "'g ws_lib \<Rightarrow> ws_ins \<Rightarrow> ('s, 't, 'g) ws_state \<Rightarrow> (ws_err + nat \<times> string) \<times> ('s, 't, 'g) ws_state" where
  "ReadMessage wl w st = (let (r, g) = wl_Read wl (ws_ws w) (wst_net st) in (r, st\<lparr>wst_net := g\<rparr>))"

text \<open>A write under the mutex.\<close>

definition write_ws ::
  "'g ws_lib \<Rightarrow> ws_ins \<Rightarrow> ws_message \<Rightarrow> ('s, 't, 'g) ws_state \<Rightarrow> ws_err option outcome \<times> ('s, 't, 'g) ws_state" where
  "write_ws wl w m st =
     (if \<not> ws_mt w then (Panics nil_deref, st)
      else let (e, g) = wl_Write wl (ws_ws w) m (wst_net st) in (Returns e, st\<lparr>wst_net := g\<rparr>))"

definition WritePingMessage ::
  "'g ws_lib \<Rightarrow> ws_ins \<Rightarrow> ('s, 't, 'g) ws_state \<Rightarrow> ws_err option outcome \<times> ('s, 't, 'g) ws_state" where
  "WritePingMessage wl w = write_ws wl w PingMessage"

definition WriteTextMessage ::
  "'g ws_lib \<Rightarrow> ws_ins \<Rightarrow> string \<Rightarrow> ('s, 't, 'g) ws_state \<Rightarrow> ws_err option outcome \<times> ('s, 't, 'g) ws_state" where
  "WriteTextMessage wl w data = write_ws wl w (TextMessage data)"

definition WriteCloseMessage ::
  "'g ws_lib \<Rightarrow> ws_ins \<Rightarrow> nat \<Rightarrow> string \<Rightarrow> ('s, 't, 'g) ws_state \<Rightarrow> ws_err option outcome \<times> ('s, 't, 'g) ws_state" where
  "WriteCloseMessage wl w closeCode text = write_ws wl w (CloseMessage (wl_FormatClose wl closeCode text))"

definition IsCloseError :: "ws_err \<Rightarrow> nat list \<Rightarrow> bool" where
  "IsCloseError e codes = (case e of CloseError code _ \<Rightarrow> code \<in> set codes | _ \<Rightarrow> False)"

definition IsWebSocketCloseError :: "'g ws_lib \<Rightarrow> ws_err option \<Rightarrow> bool" where
  "IsWebSocketCloseError wl err =
     (case err of
        None \<Rightarrow> False
      | Some e \<Rightarrow>
          if IsCloseError e [CloseNormalClosure, CloseGoingAway, CloseAbnormalClosure, CloseNoStatusReceived] \<or>
             e = ErrCloseSent then True
          else contains (wl_text wl e) ''closed network'')"

section \<open>The goroutine\<close>

text \<open>
  The loop of \<open>keep\<close>: what each select sees, the end of the context or a minute without it. The
  last part tells whether the loop has ended; it runs on while there are events.
\<close>

datatype keep_event = CtxDone | KeepTick

fun keep_ws ::
  "'g ws_lib \<Rightarrow> ws_ins \<Rightarrow> keep_event list \<Rightarrow> ('s, 't, 'g) ws_state \<Rightarrow> bool outcome \<times> ws_ins \<times> ('s, 't, 'g) ws_state" where
  "keep_ws wl w [] st = (Returns False, w, st)"
| "keep_ws wl w (CtxDone # es) st =
     (case WriteCloseMessage wl w CloseServiceRestart ''keep ctx done'' st of
        (Panics p, st1) \<Rightarrow> (Panics p, w, st1)
      | (Returns _, st1) \<Rightarrow> (Returns True, w, st1))"
| "keep_ws wl w (KeepTick # es) st =
     (case WritePingMessage wl w st of
        (Panics p, st1) \<Rightarrow> (Panics p, w, st1)
      | (Returns None, st1) \<Rightarrow> keep_ws wl w es st1
      | (Returns (Some _), st1) \<Rightarrow> (case Close_ws wl w st1 of (_, w', st2) \<Rightarrow> (Returns True, w', st2)))"


section \<open>Facts\<close>

lemma made_with:
  "NewWS wl ctx h st = (Inr w, st1) \<Longrightarrow> ws_mt w \<and> ws_HTTPCtx w = ctx"
  "NewWSWithUpgrader wl ctx h u st = (Inr w, st1) \<Longrightarrow> \<not> ws_mt w \<and> ws_HTTPCtx w = ctx"
  by (auto simp: NewWS_def NewWSWithUpgrader_def upgrade_with_def split: prod.splits sum.splits)

lemmas ws_writes = WritePingMessage_def WriteTextMessage_def WriteCloseMessage_def write_ws_def

lemma write_ws_frame:
  "write_ws wl w m st = (r, st') \<Longrightarrow> wst_app st' = wst_app st \<and> (is_panic r \<longleftrightarrow> \<not> ws_mt w)"
  by (auto simp: write_ws_def split: if_splits prod.splits)

lemma Close_ws_settles:
  "Close_ws wl w st = (e, w', st') \<Longrightarrow>
   ap_wg (wst_app st') - owed (ws_HTTPCtx w') = ap_wg (wst_app st) - owed (ws_HTTPCtx w) \<and>
   hc_isCanceled (ws_HTTPCtx w')"
  by (auto simp: Close_ws_def owed_def dest!: Cancel_settles split: prod.splits)

text \<open>The goroutine touches the wait group only by cancelling the context, and ends cleanly.\<close>

lemma keep_cases:
  assumes "keep_ws wl w es st = (r, w', st')"
  shows "(is_panic r \<longleftrightarrow> \<not> ws_mt w \<and> es \<noteq> []) \<and>
         ap_wg (wst_app st') - owed (ws_HTTPCtx w') = ap_wg (wst_app st) - owed (ws_HTTPCtx w)"
  using assms
proof (induction wl w es st rule: keep_ws.induct)
  case (2 wl w es st)
  obtain x st1 where x: "WriteCloseMessage wl w CloseServiceRestart ''keep ctx done'' st = (x, st1)" by fastforce
  then have "wst_app st1 = wst_app st \<and> (is_panic x \<longleftrightarrow> \<not> ws_mt w)"
    by (auto simp: WriteCloseMessage_def dest!: write_ws_frame)
  with 2 x show ?case by (cases x) auto
next
  case (3 wl w es st)
  obtain x st1 where x: "WritePingMessage wl w st = (x, st1)" by fastforce
  then have f: "wst_app st1 = wst_app st \<and> (is_panic x \<longleftrightarrow> \<not> ws_mt w)"
    by (auto simp: WritePingMessage_def dest!: write_ws_frame)
  show ?case
  proof (cases x)
    case (Returns e)
    show ?thesis
    proof (cases e)
      case None
      with 3 x f Returns show ?thesis by auto
    next
      case (Some er)
      obtain e2 w2 st2 where c: "Close_ws wl w st1 = (e2, w2, st2)" using prod_cases3 by blast
      from Close_ws_settles [OF c] 3(2) x f Returns Some c show ?thesis by auto
    qed
  qed (use 3(2) x f in auto)
qed auto

text \<open>What the peer has got after \<open>n\<close> pings.\<close>

fun pinged :: "'g ws_lib \<Rightarrow> nat \<Rightarrow> nat \<Rightarrow> 'g \<Rightarrow> 'g" where
  "pinged wl ws 0 g = g"
| "pinged wl ws (Suc n) g = pinged wl ws n (snd (wl_Write wl ws PingMessage g))"

fun pings_ok :: "'g ws_lib \<Rightarrow> nat \<Rightarrow> nat \<Rightarrow> 'g \<Rightarrow> bool" where
  "pings_ok wl ws 0 g = True"
| "pings_ok wl ws (Suc n) g \<longleftrightarrow>
     fst (wl_Write wl ws PingMessage g) = None \<and> pings_ok wl ws n (snd (wl_Write wl ws PingMessage g))"

lemma replicate_snoc: "replicate (Suc n) x @ xs = replicate n x @ x # xs"
  by (induction n) simp_all

lemma keep_pings:
  "ws_mt w \<Longrightarrow> pings_ok wl (ws_ws w) n (wst_net st) \<Longrightarrow>
   keep_ws wl w (replicate n KeepTick @ es) st = keep_ws wl w es (st\<lparr>wst_net := pinged wl (ws_ws w) n (wst_net st)\<rparr>)"
  by (induction n arbitrary: st) (auto simp: ws_writes split: prod.splits)

section \<open>Properties\<close>

text \<open>
  A WebSocket is kept alive until its context ends: the goroutine of \<open>NewWS\<close> sends a ping a
  minute as long as they succeed; when the context ends, the peer gets one close message and the
  goroutine is over; when a ping fails, the connection is closed and the context is cancelled, which
  gives the wait group back what the context held.
\<close>

theorem websocket_kept_alive:
  assumes "NewWS wl ctx h st0 = (Inr w, st)" and "pings_ok wl (ws_ws w) n (wst_net st)"
    and "g = pinged wl (ws_ws w) n (wst_net st)"
  shows "keep_ws wl w (replicate n KeepTick @ CtxDone # es) st =
           (Returns True, w, st\<lparr>wst_net := snd (wl_Write wl (ws_ws w)
              (CloseMessage (wl_FormatClose wl CloseServiceRestart ''keep ctx done'')) g)\<rparr>) \<and>
         (\<forall>e g1. wl_Write wl (ws_ws w) PingMessage g = (Some e, g1) \<longrightarrow>
            (\<exists>w' st'. keep_ws wl w (replicate (Suc n) KeepTick @ es) st = (Returns True, w', st') \<and>
               wst_net st' = snd (wl_Close wl (ws_ws w) g1) \<and> hc_isCanceled (ws_HTTPCtx w') \<and>
               ap_wg (wst_app st') = ap_wg (wst_app st) - owed ctx))"
proof -
  from made_with(1) [OF assms(1)] have w: "ws_mt w" "ws_HTTPCtx w = ctx" by auto
  note k = keep_pings [OF w(1) assms(2), folded assms(3)]
  have "keep_ws wl w (replicate (Suc n) KeepTick @ es) st = keep_ws wl w (KeepTick # es) (st\<lparr>wst_net := g\<rparr>)"
    by (simp only: replicate_snoc k)
  then show ?thesis
    using k [of "CtxDone # es"] w
    by (auto simp: ws_writes Close_ws_def dest!: Cancel_settles split: prod.splits)
qed

text \<open>
  A WebSocket made with an upgrader of its own ends the process: every write on it
  panics, and its goroutine, which nothing recovers, panics at the first ping or when the context
  ends, whichever comes first, while one made by \<open>NewWS\<close> never panics.
\<close>

theorem upgrader_websocket_panics:
  fixes st st0 :: "('s, 't, 'g) ws_state"
  shows
  "(NewWSWithUpgrader wl ctx h u st0 = (Inr w, st) \<longrightarrow>
      (\<forall>data code t (s :: ('s, 't, 'g) ws_state). is_panic (fst (WriteTextMessage wl w data s)) \<and> is_panic (fst (WritePingMessage wl w s)) \<and>
         is_panic (fst (WriteCloseMessage wl w code t s))) \<and>
      (\<forall>e es (s :: ('s, 't, 'g) ws_state). keep_ws wl w (e # es) s = (Panics nil_deref, w, s))) \<and>
   (NewWS wl ctx h st0 = (Inr w, st) \<longrightarrow> (\<forall>es (s :: ('s, 't, 'g) ws_state). \<not> is_panic (fst (keep_ws wl w es s))))"
proof (intro conjI impI allI)
  assume "NewWSWithUpgrader wl ctx h u st0 = (Inr w, st)"
  then have mt: "\<not> ws_mt w" by (auto dest: made_with(2))
  fix s :: "('s, 't, 'g) ws_state"
  show "is_panic (fst (WriteTextMessage wl w data s))" "is_panic (fst (WritePingMessage wl w s))"
    "is_panic (fst (WriteCloseMessage wl w code t s))" for data code t
    using mt by (simp_all add: ws_writes)
  show "keep_ws wl w (e # es) s = (Panics nil_deref, w, s)" for e es
    using mt by (cases e) (simp_all add: ws_writes)
next
  assume "NewWS wl ctx h st0 = (Inr w, st)"
  then have "ws_mt w" by (auto dest: made_with(1))
  then show "\<not> is_panic (fst (keep_ws wl w es s))" for es and s :: "('s, 't, 'g) ws_state"
    using keep_cases [of wl w es s] by (cases "keep_ws wl w es s") auto
qed


text \<open>A network that writes everything down.\<close>

definition log_ws :: "ws_message list ws_lib" where
  "log_ws =
     \<lparr>wl_Upgrade = (\<lambda>c w r h g. (Inr 1, g)), wl_Write = (\<lambda>i m g. (if length g < 3 then None else Some ErrCloseSent, g @ [m])),
      wl_Read = (\<lambda>i g. (Inl ErrCloseSent, g)), wl_Close = (\<lambda>i g. (None, g)), wl_FormatClose = (\<lambda>c t. t), wl_text = (\<lambda>e. [])\<rparr>"

definition quiet_ws :: "(string \<Rightarrow> string \<rightharpoonup> string, string, ws_message list) ws_state" where
  "quiet_ws =
     \<lparr>wst_app = \<lparr>ap_online = 0, ap_wg = 1, ap_errors = errorMap_init, ap_sess_store = None, ap_default = None,
                  ap_srv = (\<lambda>_ _. None), ap_templates = Map.empty\<rparr>,
      wst_net = [], wst_check = None\<rparr>"

definition bare_req :: http_request where
  "bare_req = \<lparr>rq_method = ''GET'', rq_proto_major = 1, rq_host = [], rq_scheme = [], rq_url_host = [], rq_path = [],
     rq_raw_query = [], rq_query = [], rq_form = [], rq_header = Map.empty, rq_cookies = [], rq_remote_addr = []\<rparr>"

theorem websocket_kept_alive_witness:
  "\<exists>w. NewWS log_ws (blank_ctx new_writer bare_req ''t'') Map.empty quiet_ws = (Inr w, quiet_ws) \<and>
     wst_net (snd (snd (keep_ws log_ws w [KeepTick, KeepTick, CtxDone] quiet_ws))) =
       [PingMessage, PingMessage, CloseMessage ''keep ctx done'']"
proof -
  let ?ctx = "blank_ctx new_writer bare_req ''t''"
  obtain w where w: "NewWS log_ws ?ctx Map.empty quiet_ws = (Inr w, quiet_ws)" "ws_ws w = 1"
    by (simp add: NewWS_def upgrade_with_def log_ws_def)
  have "pings_ok log_ws (ws_ws w) 2 (wst_net quiet_ws)"
    by (simp add: log_ws_def quiet_ws_def numeral_2_eq_2)
  from websocket_kept_alive [OF w(1) this refl, of "[]"] w(1) show ?thesis
    by (auto simp: log_ws_def quiet_ws_def numeral_2_eq_2)
qed

theorem upgrader_websocket_panics_witness:
  "\<exists>w. NewWSWithUpgrader log_ws (blank_ctx new_writer bare_req ''t'') Map.empty None quiet_ws = (Inr w, quiet_ws) \<and>
     fst (keep_ws log_ws w [KeepTick] quiet_ws) = Panics nil_deref"
proof -
  let ?ctx = "blank_ctx new_writer bare_req ''t''"
  obtain w where w: "NewWSWithUpgrader log_ws ?ctx Map.empty None quiet_ws = (Inr w, quiet_ws)"
    by (simp add: NewWSWithUpgrader_def upgrade_with_def log_ws_def)
  with upgrader_websocket_panics [of log_ws ?ctx Map.empty None quiet_ws w quiet_ws] show ?thesis
    by (metis fst_conv)
qed

end
