(* ===== verification/Scp.thy ===== *)
theory Scp
  imports Ssh Filepath
begin

text \<open>
  \<open>ssh/scp.go\<close>: the upload of files and directories over an SSH connection. What the walk sees of
  the disk is a tree of file infos; a directory may fail to open, or to be read further. The sessions
  of the SSH library and the contents of the files are the record \<open>scp_lib\<close>. The goroutine that
  writes the content runs beside the command; \<open>sl_pipe\<close> tells whether it gets the pipe before the
  command starts.
\<close>

section \<open>File infos\<close>

datatype fs_node =
  FsDir string nat "goerr option" "fs_node list" "goerr option" \<comment> \<open>name, mode, error of Open, entries, error after them\<close>
| FsFile string nat nat \<comment> \<open>name, mode, size\<close>
| FsOther string

fun fs_name :: "fs_node \<Rightarrow> string" where
  "fs_name (FsDir n _ _ _ _) = n"
| "fs_name (FsFile n _ _) = n"
| "fs_name (FsOther n) = n"

record 'd scp_lib =
  sl_ssh :: "'d ssh_lib"
  sl_goos :: string
  sl_Stat :: "string \<Rightarrow> goerr + fs_node"
  sl_NewSession :: "nat \<Rightarrow> 'd \<Rightarrow> goerr option \<times> 'd"
  sl_pipe :: "'d \<Rightarrow> bool"
  sl_Open :: "string \<Rightarrow> (string \<times> bool) option" \<comment> \<open>what is transferred, and whether to the end\<close>
  sl_Run :: "nat \<Rightarrow> string \<Rightarrow> string option \<Rightarrow> 'd \<Rightarrow> goerr option \<times> 'd"

section \<open>Commands\<close>

definition pathConvertToUnix :: "string \<Rightarrow> string \<Rightarrow> string" where
  "pathConvertToUnix goos from =
     (if goos = ''windows'' then replace_all from [CHR 0x5C] ''/'' else from)"

text \<open>\<open>%#o\<close>: octal with a leading zero.\<close>

fun octal :: "nat \<Rightarrow> string" where
  "octal n = (if n < 8 then [digit_char n] else octal (n div 8) @ [digit_char (n mod 8)])"

declare octal.simps [simp del]

definition sharp_o :: "nat \<Rightarrow> string" where
  "sharp_o n = (if n = 0 then ''0'' else CHR ''0'' # octal n)"

definition mkdir_cmd :: "string \<Rightarrow> nat \<Rightarrow> string \<Rightarrow> string" where
  "mkdir_cmd goos perm des = ''mkdir -m '' @ sharp_o perm @ '' -p '' @ pathConvertToUnix goos des"

definition scp_cmd :: "nat \<Rightarrow> string \<Rightarrow> string" where
  "scp_cmd perm des =
     ''mkdir -m '' @ sharp_o perm @ '' -p '' @ path_dir des @ ''; /usr/bin/scp -qrt '' @ des"

definition scp_header :: "string \<Rightarrow> nat \<Rightarrow> nat \<Rightarrow> string" where
  "scp_header name perm sz = ''C'' @ sharp_o perm @ '' '' @ nat_dec sz @ '' '' @ name @ [CHR 0x0A]"

text \<open>What the goroutine writes: the header, the file, and a zero byte when it got to its end.\<close>

definition scp_stdin :: "'d scp_lib \<Rightarrow> string \<Rightarrow> string \<Rightarrow> nat \<Rightarrow> nat \<Rightarrow> string" where
  "scp_stdin sl src name perm sz =
     scp_header name perm sz @
     (case sl_Open sl src of
        None \<Rightarrow> []
      | Some (content, done) \<Rightarrow> content @ (if done then [CHR 0x00] else []))"

definition status_1 :: string where "status_1 = ''Process exited with status 1''"

section \<open>Files and directories\<close>

definition scpFile ::
  "'d scp_lib \<Rightarrow> nat option \<Rightarrow> string \<Rightarrow> string \<Rightarrow> string \<Rightarrow> nat \<Rightarrow> nat \<Rightarrow> 'd \<Rightarrow> goerr option outcome \<times> 'd" where
  "scpFile sl c src des name perm sz d =
     (case c of
        None \<Rightarrow> (Panics nil_deref, d)
      | Some cl \<Rightarrow>
          (case sl_NewSession sl cl d of
             (Some e, d1) \<Rightarrow> (Returns (Some e), d1)
           | (None, d1) \<Rightarrow>
               (case sl_Run sl cl (scp_cmd perm (pathConvertToUnix (sl_goos sl) des))
                       (if sl_pipe sl d1 then Some (scp_stdin sl src name perm sz) else None) d1 of
                  (Some e, d2) \<Rightarrow> (Returns (if err_text e \<noteq> status_1 then Some e else None), d2)
                | (None, d2) \<Rightarrow> (Returns None, d2))))"

definition dir_des :: "string \<Rightarrow> string \<Rightarrow> string" where
  "dir_des src des = (if path_base src \<noteq> path_base des then path_join [des, path_base src] else des)"

fun scpDir :: "'d scp_lib \<Rightarrow> nat option \<Rightarrow> string set \<Rightarrow> string \<Rightarrow> string \<Rightarrow> fs_node \<Rightarrow> 'd \<Rightarrow> goerr option outcome \<times> 'd"
  and scpEntries ::
    "'d scp_lib \<Rightarrow> nat option \<Rightarrow> string set \<Rightarrow> string \<Rightarrow> string \<Rightarrow> fs_node list \<Rightarrow> 'd \<Rightarrow> goerr option outcome \<times> 'd" where
  "scpDir sl c excludes src des (FsDir name perm openErr entries readErr) d =
     (if name \<in> excludes then (Returns None, d)
      else let des = dir_des src des;
               (_, d1) = Exec_ssh (sl_ssh sl) c (mkdir_cmd (sl_goos sl) perm des) d
           in case openErr of
                Some e \<Rightarrow> (Returns (Some e), d1)
              | None \<Rightarrow>
                  (case scpEntries sl c excludes src des entries d1 of
                     (Returns None, d2) \<Rightarrow> (Returns readErr, d2)
                   | r \<Rightarrow> r))"
| "scpDir sl c excludes src des (FsFile name perm sz) d =
     (if name \<in> excludes then (Returns None, d) else scpFile sl c src des name perm sz d)"
| "scpDir sl c excludes src des (FsOther name) d = (Returns None, d)"
| "scpEntries sl c excludes src des [] d = (Returns None, d)"
| "scpEntries sl c excludes src des (v # vs) d =
     (case scpDir sl c excludes (path_join [src, fs_name v]) (path_join [des, fs_name v]) v d of
        (Returns None, d1) \<Rightarrow> scpEntries sl c excludes src des vs d1
      | r \<Rightarrow> r)"

definition scp_excludes :: "string \<Rightarrow> string set" where
  "scp_excludes exclude =
     set (filter (\<lambda>v. v \<noteq> []) (map trim_space (split_go (replace_all exclude [CHR 0x0D] []) [CHR 0x0A])))"

definition Scp :: "'d scp_lib \<Rightarrow> nat option \<Rightarrow> string \<Rightarrow> string \<Rightarrow> string \<Rightarrow> 'd \<Rightarrow> goerr option outcome \<times> 'd" where
  "Scp sl c src des exclude d =
     (case sl_Stat sl src of
        Inl e \<Rightarrow> (Returns (Some e), d)
      | Inr info \<Rightarrow> scpDir sl c (scp_excludes exclude) src des info d)"


section \<open>Facts\<close>

lemma path_clean_not_nil: "path_clean p \<noteq> []"
proof -
  have "weight es = 0 \<longleftrightarrow> es = []" for es by (cases es) simp_all
  have n: "[] \<notin> set acc \<Longrightarrow> [] \<notin> set (clean_elems r acc es)" for r acc es
    by (induction r acc es rule: clean_elems.induct) (auto split: list.splits)
  have "es \<noteq> [] \<Longrightarrow> [] \<notin> set es \<Longrightarrow> join_go es ''/'' \<noteq> []" for es
    by (induction es "''/''" rule: join_go.induct) auto
  with n [of "[]"] show ?thesis by (auto simp: path_clean_def Let_def)
qed

lemma path_join_not_nil: "a \<noteq> [] \<Longrightarrow> path_join (a # es) \<noteq> []"
  by (simp add: path_join_def path_clean_not_nil)

text \<open>
  The reference: what is sent for a tree, with every entry placed below the place of its
  directory.
\<close>

datatype transfer = Mkdir nat string | Put string string string nat nat

fun planned :: "string set \<Rightarrow> string \<Rightarrow> string \<Rightarrow> fs_node \<Rightarrow> transfer list" where
  "planned ex src des (FsDir name perm oe vs re) =
     (if name \<in> ex then []
      else Mkdir perm des #
        concat (map (\<lambda>v. planned ex (path_join [src, fs_name v]) (path_join [des, fs_name v]) v) vs))"
| "planned ex src des (FsFile name perm sz) = (if name \<in> ex then [] else [Put src des name perm sz])"
| "planned ex src des (FsOther name) = []"

fun do_transfer :: "'d scp_lib \<Rightarrow> nat \<Rightarrow> transfer \<Rightarrow> 'd \<Rightarrow> 'd" where
  "do_transfer sl cl (Mkdir perm des) d = snd (Exec_ssh (sl_ssh sl) (Some cl) (mkdir_cmd (sl_goos sl) perm des) d)"
| "do_transfer sl cl (Put src des name perm sz) d = snd (scpFile sl (Some cl) src des name perm sz d)"

text \<open>A tree that can be read to its end, and a remote whose commands run; a copy may end with status 1.\<close>

fun readable :: "fs_node \<Rightarrow> bool" where
  "readable (FsDir name perm oe vs re) \<longleftrightarrow>
     oe = None \<and> re = None \<and> list_all (\<lambda>v. proper_name (fs_name v)) vs \<and> list_all readable vs"
| "readable (FsFile name perm sz) \<longleftrightarrow> True"
| "readable (FsOther name) \<longleftrightarrow> True"

definition remote_runs :: "'d scp_lib \<Rightarrow> nat \<Rightarrow> bool" where
  "remote_runs sl cl \<longleftrightarrow>
     (\<forall>d. fst (sl_NewSession sl cl d) = None) \<and>
     (\<forall>cmd i d. case fst (sl_Run sl cl cmd i d) of None \<Rightarrow> True | Some e \<Rightarrow> err_text e = status_1)"

lemma scpFile_runs:
  "remote_runs sl cl \<Longrightarrow>
   scpFile sl (Some cl) src des name perm sz d = (Returns None, snd (scpFile sl (Some cl) src des name perm sz d))"
proof -
  assume r: "remote_runs sl cl"
  obtain e1 d1 where s: "sl_NewSession sl cl d = (e1, d1)" by fastforce
  let ?i = "if sl_pipe sl d1 then Some (scp_stdin sl src name perm sz) else None"
  obtain e2 d2 where c: "sl_Run sl cl (scp_cmd perm (pathConvertToUnix (sl_goos sl) des)) ?i d1 = (e2, d2)" by fastforce
  from r have "fst (sl_NewSession sl cl d) = None"
    and "case fst (sl_Run sl cl (scp_cmd perm (pathConvertToUnix (sl_goos sl) des)) ?i d1) of
      None \<Rightarrow> True | Some e \<Rightarrow> err_text e = status_1"
    unfolding remote_runs_def by blast+
  with s c have "e1 = None" "case e2 of None \<Rightarrow> True | Some e \<Rightarrow> err_text e = status_1" by simp_all
  then show ?thesis
    using c by (cases e2) (simp_all add: scpFile_def s)
qed

definition top_des :: "string \<Rightarrow> string \<Rightarrow> fs_node \<Rightarrow> string" where
  "top_des src des t = (case t of FsDir _ _ _ _ _ \<Rightarrow> dir_des src des | _ \<Rightarrow> des)"

lemma top_des_child:
  "proper_name v \<Longrightarrow> src \<noteq> [] \<Longrightarrow> des \<noteq> [] \<Longrightarrow> top_des (path_join [src, v]) (path_join [des, v]) t = path_join [des, v]"
  by (simp add: top_des_def dir_des_def path_base_join split: fs_node.split)

lemma dir_des_not_nil: "des \<noteq> [] \<Longrightarrow> dir_des src des \<noteq> []"
  by (simp add: dir_des_def path_join_not_nil)

lemma scp_as_planned:
  "readable t \<Longrightarrow> remote_runs sl cl \<Longrightarrow> src \<noteq> [] \<Longrightarrow> des \<noteq> [] \<Longrightarrow>
   scpDir sl (Some cl) ex src des t d = (Returns None, fold (do_transfer sl cl) (planned ex src (top_des src des t) t) d)"
  "list_all (\<lambda>v. proper_name (fs_name v)) vs \<Longrightarrow> list_all readable vs \<Longrightarrow> remote_runs sl cl \<Longrightarrow> src \<noteq> [] \<Longrightarrow> des \<noteq> [] \<Longrightarrow>
   scpEntries sl (Some cl) ex src des vs d =
     (Returns None, fold (do_transfer sl cl)
        (concat (map (\<lambda>v. planned ex (path_join [src, fs_name v]) (path_join [des, fs_name v]) v) vs)) d)"
proof (induction sl "Some cl" ex src des t d and sl "Some cl" ex src des vs d rule: scpDir_scpEntries.induct)
  case (1 sl ex src des name perm oe vs re d)
  obtain x d1 where x: "Exec_ssh (sl_ssh sl) (Some cl) (mkdir_cmd (sl_goos sl) perm (dir_des src des)) d = (x, d1)"
    by fastforce
  show ?case
  proof (cases "name \<in> ex")
    case False
    from 1(1) [OF False refl x [symmetric]] 1(2-) dir_des_not_nil [of des src] show ?thesis
      using False by (simp add: top_des_def Let_def x)
  qed (simp add: top_des_def)
next
  case (2 sl ex src des name perm sz d)
  then show ?case by (auto simp: top_des_def intro: scpFile_runs)
next
  case (5 sl ex src des v vs d)
  then show ?case by (simp add: top_des_child path_join_not_nil)
qed (simp_all add: top_des_def)

section \<open>Properties\<close>



text \<open>A remote that writes its commands down and refuses every copy.\<close>

definition log_scp :: "fs_node \<Rightarrow> string list scp_lib" where
  "log_scp t =
     \<lparr>sl_ssh = \<lparr>hl_gob = (\<lambda>_. Inr []), hl_md5 = id, hl_stat = (\<lambda>_. StatOk False), hl_ReadFile = (\<lambda>_. Inr []),
        hl_ParseKey = (\<lambda>_ _. Inr []), hl_Dial = (\<lambda>_ _ d. (Inr 0, d)), hl_Connect = (\<lambda>_ _ d. (Inr 0, d)),
        hl_NewClient = (\<lambda>_ _ d. (Inr 0, d)), hl_Listen = (\<lambda>_ _ d. (Inr 0, d)), hl_Close = (\<lambda>_ d. d),
        hl_Exec = (\<lambda>_ cmd d. (([], None), d @ [cmd]))\<rparr>,
      sl_goos = ''linux'', sl_Stat = (\<lambda>_. Inr t), sl_NewSession = (\<lambda>_ d. (None, d)), sl_pipe = (\<lambda>_. True),
      sl_Open = (\<lambda>_. Some (''hi'', True)), sl_Run = (\<lambda>_ cmd i d. (Some (Errorf status_1), d @ [cmd]))\<rparr>"

definition small_tree :: fs_node where
  "small_tree = FsDir ''a'' 493 None [FsFile ''f'' 420 2, FsFile ''skip'' 420 9] None"

lemma small_excludes: "scp_excludes [CHR ''s'', CHR ''k'', CHR ''i'', CHR ''p'', CHR 0x0D, CHR 0x0A] = {''skip''}"
  by code_simp

lemma small_plan:
  "planned {''skip''} ''/x/a'' (top_des ''/x/a'' ''/srv'' small_tree) small_tree =
     [Mkdir 493 ''/srv/a'', Put ''/x/a/f'' ''/srv/a/f'' ''f'' 420 2]"
  by code_simp


end
