(* ===== verification/Environment.thy ===== *)
theory Environment
  imports Common Encoding Filepath
begin

text \<open>
  \<open>common/env.go\<close>: the flags of the command line, the environment variables, and where the
  application lives. The operating system is the record \<open>os_env\<close>; the package variables are
  \<open>env_vars\<close>. Flags are parsed as package flag does it, with one flag set made anew by each
  call; the text of its usage message is \<open>oe_usage\<close>.
\<close>

section \<open>The operating system\<close>

record os_env =
  oe_args :: "string list" \<comment> \<open>without the program\<close>
  oe_arg0 :: string
  oe_getenv :: "string \<Rightarrow> string"
  oe_getwd :: "goerr + string"
  oe_stat :: file_stat
  oe_goos :: string
  oe_usage :: string
  oe_test_flags :: "(string \<rightharpoonup> bool \<times> (string \<Rightarrow> bool))" \<comment> \<open>that \<open>testing.Init\<close> adds: boolean, values it takes\<close>

record env_vars =
  ev_VERSION :: string
  ev_ENVIRONMENT :: string
  ev_isGoRun :: bool
  ev_isGoTest :: bool

definition DEV_ENV :: string where "DEV_ENV = ''dev''"
definition TEST_ENV :: string where "TEST_ENV = ''test''"
definition PROD_ENV :: string where "PROD_ENV = ''prod''"

definition IsProdEnv :: "env_vars \<Rightarrow> bool" where "IsProdEnv v \<longleftrightarrow> ev_ENVIRONMENT v = PROD_ENV"
definition IsTestEnv :: "env_vars \<Rightarrow> bool" where "IsTestEnv v \<longleftrightarrow> ev_ENVIRONMENT v = TEST_ENV"
definition IsDevEnv :: "env_vars \<Rightarrow> bool" where "IsDevEnv v \<longleftrightarrow> ev_ENVIRONMENT v = DEV_ENV"

section \<open>Flags\<close>

text \<open>What is set while the arguments are parsed: \<open>-e\<close>, \<open>-p\<close>.\<close>

record flag_vals =
  fv_e :: string
  fv_p :: bool

definition parse_bool :: "string \<Rightarrow> bool option" where
  "parse_bool s =
     (if s \<in> {''1'', ''t'', ''T'', ''TRUE'', ''true'', ''True''} then Some True
      else if s \<in> {''0'', ''f'', ''F'', ''FALSE'', ''false'', ''False''} then Some False else None)"

text \<open>\<open>loadFlag\<close> adds the flags of package testing under go test.\<close>

definition loadFlag :: "os_env \<Rightarrow> env_vars \<Rightarrow> string \<rightharpoonup> bool \<times> (string \<Rightarrow> bool)" where
  "loadFlag oe v = (if ev_isGoTest v then oe_test_flags oe else Map.empty)"

text \<open>The name of an argument and its value after the equals sign, which is not at its start.\<close>

definition flag_parts :: "string \<Rightarrow> string \<times> string option" where
  "flag_parts s =
     (case s of
        [] \<Rightarrow> ([], None)
      | c # cs \<Rightarrow>
          (case dropWhile (\<lambda>x. x \<noteq> CHR ''='') cs of
             [] \<Rightarrow> (s, None)
           | _ # v \<Rightarrow> (c # takeWhile (\<lambda>x. x \<noteq> CHR ''='') cs, Some v)))"

text \<open>Whether a flag is boolean, and what a value does; \<open>None\<close> for a flag that is not defined.\<close>

definition flag_of ::
  "(string \<rightharpoonup> bool \<times> (string \<Rightarrow> bool)) \<Rightarrow> string \<Rightarrow> (bool \<times> (string \<Rightarrow> flag_vals \<Rightarrow> flag_vals option)) option" where
  "flag_of extra name =
     (if name = ''e'' then Some (False, \<lambda>x f. Some (f\<lparr>fv_e := x\<rparr>))
      else if name = ''p'' then Some (True, \<lambda>x f. map_option (\<lambda>b. f\<lparr>fv_p := b\<rparr>) (parse_bool x))
      else map_option (\<lambda>(b, ok). (b, \<lambda>x f. if ok x then Some f else None)) (extra name))"

definition flag_error :: "string \<Rightarrow> string \<Rightarrow> string" where
  "flag_error usage msg = msg @ [CHR 0x0A] @ usage"

definition invalid_value :: "bool \<Rightarrow> string \<Rightarrow> string \<Rightarrow> string" where
  "invalid_value isBool x name =
     ''invalid '' @ (if isBool then ''boolean value '' else ''value '') @ strconv_Quote x @
     '' for '' @ (if isBool then ''-'' else ''flag -'') @ name @ '': parse error''"

text \<open>\<open>FlagSet.Parse\<close>: the values it sets, and the text of the output when it fails.\<close>

fun parse_flags ::
  "string \<Rightarrow> (string \<rightharpoonup> bool \<times> (string \<Rightarrow> bool)) \<Rightarrow> string list \<Rightarrow> flag_vals \<Rightarrow> flag_vals \<times> string option" where
  "parse_flags usage extra [] f = (f, None)"
| "parse_flags usage extra (s # args) f =
     (if length s < 2 \<or> hd s \<noteq> CHR ''-'' then (f, None)
      else if s = ''--'' then (f, None)
      else
        let name = (if s ! 1 = CHR ''-'' then drop 2 s else drop 1 s) in
        if name = [] \<or> hd name = CHR ''-'' \<or> hd name = CHR ''='' then
          (f, Some (flag_error usage (''bad flag syntax: '' @ s)))
        else case flag_parts name of
          (n, v) \<Rightarrow>
            (case flag_of extra n of
               None \<Rightarrow>
                 (f, Some (if n = ''help'' \<or> n = ''h'' then usage
                           else flag_error usage (''flag provided but not defined: -'' @ n)))
             | Some (isBool, put) \<Rightarrow>
                 (case (if isBool then Some (case v of None \<Rightarrow> ''true'' | Some x \<Rightarrow> x) else v) of
                    Some x \<Rightarrow>
                      (case put x f of
                         None \<Rightarrow> (f, Some (flag_error usage (invalid_value isBool x n)))
                       | Some f' \<Rightarrow> parse_flags usage extra args f')
                  | None \<Rightarrow>
                      (case args of
                         [] \<Rightarrow> (f, Some (flag_error usage (''flag needs an argument: -'' @ n)))
                       | x # args' \<Rightarrow>
                           (case put x f of
                              None \<Rightarrow> (f, Some (flag_error usage (invalid_value isBool x n)))
                            | Some f' \<Rightarrow> parse_flags usage extra args' f')))))"

text \<open>\<open>ParseFlag\<close> goes on with an error, or ends the process after the version was printed.\<close>

datatype flag_end = Exits string | Parsed "goerr option"

definition ParseFlag :: "os_env \<Rightarrow> env_vars \<Rightarrow> flag_end \<times> env_vars" where
  "ParseFlag oe v =
     (let (f, err) = parse_flags (oe_usage oe) (loadFlag oe v) (oe_args oe) \<lparr>fv_e = [], fv_p = False\<rparr>;
          version = (if oe_getenv oe ''VERSION'' \<noteq> [] then oe_getenv oe ''VERSION'' else ev_VERSION v);
          e1 = (if fv_e f = [] then oe_getenv oe ''ENVIRONMENT'' else fv_e f);
          e2 = (if e1 = [] \<and> (ev_isGoRun v \<or> ev_isGoTest v) then DEV_ENV else e1);
          v' = v\<lparr>ev_VERSION := version, ev_ENVIRONMENT := e2\<rparr>
      in (if fv_p f then Exits version else Parsed (map_option Errorf err), v'))"

section \<open>Where the application lives\<close>

definition filepath_Abs :: "os_env \<Rightarrow> string \<Rightarrow> string" where
  "filepath_Abs oe p =
     (if is_abs p then path_clean p
      else case oe_getwd oe of Inl _ \<Rightarrow> [] | Inr wd \<Rightarrow> path_join [wd, p])"

definition stripSuffix :: "os_env \<Rightarrow> string \<Rightarrow> string" where
  "stripSuffix oe path = (if oe_goos oe = ''windows'' then trim_suffix path ''.exe'' else path)"

definition minLen :: "os_env \<Rightarrow> nat" where
  "minLen oe = (if oe_goos oe = ''windows'' then 3 else 1)"

definition is_app_root :: "os_env \<Rightarrow> string \<Rightarrow> bool" where
  "is_app_root oe p \<longleftrightarrow>
     IsExist (oe_stat oe) (path_join [p, ''config'']) \<or> IsExist (oe_stat oe) (path_join [p, ''main.go'']) \<or>
     IsExist (oe_stat oe) (path_join [p, ''controllers''])"

text \<open>The loop over the parent directories; \<open>Dir\<close> shortens each path that it is asked for.\<close>

function find_root :: "os_env \<Rightarrow> string \<Rightarrow> string" where
  "find_root oe p =
     (if is_app_root oe p then p
      else if length p \<le> minLen oe then p
      else find_root oe (path_dir p))"
  by pat_completeness auto
termination
proof (relation "measure (\<lambda>(oe, p). length p)")
  fix oe :: os_env and p :: string assume "\<not> length p \<le> minLen oe"
  then have "1 < length p" by (simp add: minLen_def split: if_splits)
  then show "((oe, path_dir p), oe, p) \<in> measure (\<lambda>(oe, p). length p)" by (simp add: path_dir_shorter)
qed simp

declare find_root.simps [simp del]

definition is_temp_build :: "string \<Rightarrow> bool" where
  "is_temp_build pwd \<longleftrightarrow> contains pwd ''go-build'' \<or> contains pwd ''go_build'' \<or> contains pwd ''___''"

definition getAppPath :: "os_env \<Rightarrow> env_vars \<Rightarrow> string outcome \<times> env_vars" where
  "getAppPath oe v =
     (let pwd = filepath_Abs oe (oe_arg0 oe) in
      if is_temp_build pwd then
        (let pwd = stripSuffix oe pwd;
             v' = (if has_suffix pwd ''.test'' \<or> contains pwd ''Test'' then v\<lparr>ev_isGoTest := True\<rparr>
                   else v\<lparr>ev_isGoRun := True\<rparr>)
         in case oe_getwd oe of
              Inl e \<Rightarrow> (Panics (PanicErr e), v')
            | Inr wd \<Rightarrow> (Returns (find_root oe wd), v'))
      else (Returns (path_dir pwd), v))"

definition getAppName :: "os_env \<Rightarrow> env_vars \<Rightarrow> string outcome \<times> env_vars" where
  "getAppName oe v =
     (if ev_isGoRun v \<or> ev_isGoTest v then
        (case getAppPath oe v of (r, v') \<Rightarrow> (map_outcome_value path_base r, v'))
      else (Returns (stripSuffix oe (to_lower (path_base (filepath_Abs oe (oe_arg0 oe))))), v))"

text \<open>The initialisation of the package: \<open>appPath\<close>, then \<open>appName\<close>.\<close>

definition init_app :: "os_env \<Rightarrow> env_vars \<Rightarrow> (string \<times> string) outcome \<times> env_vars" where
  "init_app oe v =
     (case getAppPath oe v of
        (Panics p, v1) \<Rightarrow> (Panics p, v1)
      | (Returns path, v1) \<Rightarrow>
          (case getAppName oe v1 of
             (Panics p, v2) \<Rightarrow> (Panics p, v2)
           | (Returns name, v2) \<Rightarrow> (Returns (path, name), v2)))"


section \<open>Parsing the flags that are given\<close>

text \<open>The flags that a command line can give, in the forms in which package flag takes them.\<close>

datatype given_flag = E_next string | E_eq string | P_alone | P_eq bool

definition flag_args :: "given_flag \<Rightarrow> string list" where
  "flag_args g =
     (case g of
        E_next x \<Rightarrow> [''-e'', x]
      | E_eq x \<Rightarrow> [''--e='' @ x]
      | P_alone \<Rightarrow> [''-p'']
      | P_eq b \<Rightarrow> [if b then ''-p=true'' else ''-p=false''])"

definition give :: "given_flag \<Rightarrow> flag_vals \<Rightarrow> flag_vals" where
  "give g f =
     (case g of
        E_next x \<Rightarrow> f\<lparr>fv_e := x\<rparr> | E_eq x \<Rightarrow> f\<lparr>fv_e := x\<rparr>
      | P_alone \<Rightarrow> f\<lparr>fv_p := True\<rparr> | P_eq b \<Rightarrow> f\<lparr>fv_p := b\<rparr>)"

text \<open>Where parsing stops without an error.\<close>

definition no_flag :: "string list \<Rightarrow> bool" where
  "no_flag args \<longleftrightarrow>
     (case args of [] \<Rightarrow> True | s # _ \<Rightarrow> length s < 2 \<or> hd s \<noteq> CHR ''-'' \<or> s = ''--'')"

lemma parse_flags_stop: "no_flag args \<Longrightarrow> parse_flags usage extra args f = (f, None)"
  by (cases args) (auto simp: no_flag_def)

lemma parse_flags_given:
  "parse_flags usage extra (flag_args g @ args) f = parse_flags usage extra args (give g f)"
  by (cases g) (simp_all add: flag_args_def give_def flag_parts_def flag_of_def parse_bool_def Let_def)

lemma parse_flags_render:
  assumes "no_flag rest"
  shows "parse_flags usage extra (concat (map flag_args gs) @ rest) f = (fold give gs f, None)"
  by (induction gs arbitrary: f) (simp_all add: parse_flags_given parse_flags_stop [OF assms])

text \<open>The environment by the order of its sources.\<close>

definition environment_of :: "string \<Rightarrow> string \<Rightarrow> bool \<Rightarrow> string" where
  "environment_of given env dev =
     (if given \<noteq> [] then given else if env \<noteq> [] then env else if dev then DEV_ENV else [])"


definition sample_os :: os_env where
  "sample_os = \<lparr>oe_args = [''--e=test'', ''-p=false'', ''-e'', ''prod'', ''run'', ''-p''],
     oe_arg0 = ''/srv/app/app'', oe_getenv = (\<lambda>n. if n = ''VERSION'' then ''v2'' else []),
     oe_getwd = Inr ''/srv/app'', oe_stat = (\<lambda>_. StatErr [] True), oe_goos = ''linux'', oe_usage = [],
     oe_test_flags = Map.empty\<rparr>"

definition sample_vars :: env_vars where
  "sample_vars = \<lparr>ev_VERSION = ''v0.1'', ev_ENVIRONMENT = ''dev'', ev_isGoRun = True, ev_isGoTest = False\<rparr>"


text \<open>A print flag before a bad flag: the process ends as if the command line had been parsed.\<close>

lemma print_hides_error:
  "fst (ParseFlag oe v) = Exits x \<longleftrightarrow>
     fv_p (fst (parse_flags (oe_usage oe) (loadFlag oe v) (oe_args oe) \<lparr>fv_e = [], fv_p = False\<rparr>)) \<and>
     x = (if oe_getenv oe ''VERSION'' \<noteq> [] then oe_getenv oe ''VERSION'' else ev_VERSION v)"
  by (auto simp: ParseFlag_def Let_def split: prod.splits)

section \<open>The directory that is found\<close>

definition root_stop :: "os_env \<Rightarrow> string \<Rightarrow> bool" where
  "root_stop oe p \<longleftrightarrow> is_app_root oe p \<or> length p \<le> minLen oe"

lemma find_root_step:
  "find_root oe p = (if root_stop oe p then p else find_root oe (path_dir p))"
  by (subst find_root.simps) (simp add: root_stop_def)

lemma find_root_stops: "root_stop oe (find_root oe p)"
proof (induction oe p rule: find_root.induct)
  case (1 oe p)
  then show ?case by (subst find_root_step) (simp add: root_stop_def)
qed

lemma find_root_ancestor: "\<exists>n. find_root oe p = (path_dir ^^ n) p"
proof (induction oe p rule: find_root.induct)
  case (1 oe p)
  show ?case
  proof (cases "root_stop oe p")
    case True
    then show ?thesis by (intro exI [of _ 0]) (simp add: find_root_step [of oe p])
  next
    case False
    with 1 obtain n where "find_root oe (path_dir p) = (path_dir ^^ n) (path_dir p)"
      by (auto simp: root_stop_def)
    with False show ?thesis
      by (intro exI [of _ "Suc n"]) (simp add: find_root_step [of oe p] funpow_swap1)
  qed
qed


end
