(* ===== verification/Prometheus.thy ===== *)
theory Prometheus
  imports Configs
begin

text \<open>
  \<open>prometheus/prometheus.go\<close>: the two collectors of the server and what each request adds
  to them. The metrics library is written out as far as it is used here: its registry refuses a
  name that it has, a counter is a number and a summary the list of what it observed, both by
  labels. A duration is in nanoseconds, an observation the pair of it and the divisor.
\<close>

type_synonym labels = "string \<times> string \<times> string \<times> string" \<comment> \<open>app, host, path, method\<close>

record collector_opts =
  co_Name :: string
  co_Help :: string

record prom_state =
  pm_registry :: "string list"
  pm_conf :: prometheus_config
  pm_total_opts :: "collector_opts option" \<comment> \<open>\<open>requestsTotal\<close>, nil at first\<close>
  pm_total :: "labels \<Rightarrow> nat"
  pm_cost_opts :: "collector_opts option" \<comment> \<open>\<open>requestsCosttime\<close>\<close>
  pm_cost :: "labels \<Rightarrow> (int \<times> int) list"

definition float64Duration :: int where "float64Duration = 1000000"

definition replace_char :: "char \<Rightarrow> char \<Rightarrow> string \<Rightarrow> string" where
  "replace_char a b s = map (\<lambda>c. if c = a then b else c) s"

definition collector :: "string \<Rightarrow> collector_opts" where
  "collector name = \<lparr>co_Name = name, co_Help = replace_char CHR ''_'' CHR '' '' name\<rparr>"

text \<open>promauto registers with the default registry and panics when it refuses.\<close>

definition promauto :: "string \<Rightarrow> prom_state \<Rightarrow> unit outcome \<times> prom_state" where
  "promauto name st =
     (if name \<in> set (pm_registry st)
      then (Panics (PanicErr (Errorf ''duplicate metrics collector registration attempted'')), st)
      else (Returns (), st\<lparr>pm_registry := name # pm_registry st\<rparr>))"

definition Init_prometheus :: "prometheus_config \<Rightarrow> prom_state \<Rightarrow> unit outcome \<times> prom_state" where
  "Init_prometheus c st =
     (if \<not> pc_IsEnable c then (Returns (), st)
      else case promauto (pc_RequestsTotal c) (st\<lparr>pm_conf := c\<rparr>) of
        (Panics p, st1) \<Rightarrow> (Panics p, st1)
      | (Returns _, st1) \<Rightarrow>
          (case promauto (pc_RequestsCosttime c)
                  (st1\<lparr>pm_total_opts := Some (collector (pc_RequestsTotal c))\<rparr>) of
             (Panics p, st2) \<Rightarrow> (Panics p, st2)
           | (Returns _, st2) \<Rightarrow>
               (Returns (), st2\<lparr>pm_cost_opts := Some (collector (pc_RequestsCosttime c))\<rparr>)))"

definition RequestsTotal :: "string \<Rightarrow> string \<Rightarrow> string \<Rightarrow> string \<Rightarrow> prom_state \<Rightarrow> unit outcome \<times> prom_state" where
  "RequestsTotal app host path m st =
     (if \<not> pc_IsEnable (pm_conf st) then (Returns (), st)
      else case pm_total_opts st of
        None \<Rightarrow> (Panics nil_deref, st)
      | Some _ \<Rightarrow>
          (let l = (app, host, path, m)
           in (Returns (), st\<lparr>pm_total := (pm_total st)(l := pm_total st l + 1)\<rparr>)))"

definition RequestsCosttime ::
  "string \<Rightarrow> string \<Rightarrow> string \<Rightarrow> string \<Rightarrow> int \<Rightarrow> prom_state \<Rightarrow> unit outcome \<times> prom_state" where
  "RequestsCosttime app host path m duration st =
     (if \<not> pc_IsEnable (pm_conf st) then (Returns (), st)
      else case pm_cost_opts st of
        None \<Rightarrow> (Panics nil_deref, st)
      | Some _ \<Rightarrow>
          (let l = (app, host, path, m)
           in (Returns (), st\<lparr>pm_cost := (pm_cost st)(l := (duration, float64Duration) # pm_cost st l)\<rparr>)))"

section \<open>Counting requests\<close>

text \<open>What a request adds: its count when it starts, its time when it ends.\<close>

definition count_request :: "string \<Rightarrow> string \<Rightarrow> (string \<times> string \<times> int) \<Rightarrow> prom_state \<Rightarrow> prom_state" where
  "count_request app host q st =
     snd (RequestsCosttime app host (fst q) (fst (snd q)) (snd (snd q))
            (snd (RequestsTotal app host (fst q) (fst (snd q)) st)))"

definition requests_to :: "string \<Rightarrow> string \<Rightarrow> (string \<times> string \<times> int) list \<Rightarrow> (string \<times> string \<times> int) list" where
  "requests_to path m qs = filter (\<lambda>q. fst q = path \<and> fst (snd q) = m) qs"

definition prom_ready :: "prom_state \<Rightarrow> bool" where
  "prom_ready st \<longleftrightarrow>
     (pc_IsEnable (pm_conf st) \<longrightarrow> pm_total_opts st \<noteq> None \<and> pm_cost_opts st \<noteq> None)"

lemma Init_prometheus_ready:
  "prom_ready st \<Longrightarrow> Init_prometheus c st = (Returns (), st') \<Longrightarrow> prom_ready st'"
  by (auto simp: Init_prometheus_def promauto_def prom_ready_def split: if_splits)

lemma requests_never_panic:
  "prom_ready st \<Longrightarrow> fst (RequestsTotal app host path m st) = Returns ()"
  "prom_ready st \<Longrightarrow> fst (RequestsCosttime app host path m d st) = Returns ()"
  by (auto simp: RequestsCosttime_def RequestsTotal_def prom_ready_def Let_def split: option.splits)

lemma count_request_frame [simp]:
  "pm_conf (count_request app host q st) = pm_conf st"
  "pm_total_opts (count_request app host q st) = pm_total_opts st"
  "pm_cost_opts (count_request app host q st) = pm_cost_opts st"
  by (simp_all add: count_request_def RequestsCosttime_def RequestsTotal_def Let_def split: option.splits)

lemma count_request_counts:
  assumes "prom_ready st" "pc_IsEnable (pm_conf st)"
  shows "pm_total (count_request app host q st) l =
      pm_total st l + (if l = (app, host, fst q, fst (snd q)) then 1 else 0)"
    "pm_cost (count_request app host q st) l =
      (if l = (app, host, fst q, fst (snd q)) then [(snd (snd q), float64Duration)] else []) @ pm_cost st l"
  using assms
  by (auto simp: count_request_def RequestsCosttime_def RequestsTotal_def Let_def prom_ready_def
      split: option.splits)

text \<open>
  Once the metrics are set up, the counter of a path and a method is the number of requests it
  had, and its summary has the time of each of them, the last first.
\<close>

theorem metrics_count_requests:
  assumes "prom_ready st" "pc_IsEnable (pm_conf st)"
  shows "pm_total (fold (count_request app host) qs st) (app, host, path, m) =
      pm_total st (app, host, path, m) + length (requests_to path m qs) \<and>
    pm_cost (fold (count_request app host) qs st) (app, host, path, m) =
      rev (map (\<lambda>q. (snd (snd q), float64Duration)) (requests_to path m qs)) @
        pm_cost st (app, host, path, m)"
  using assms
proof (induction qs arbitrary: st)
  case Nil
  then show ?case by (simp add: requests_to_def)
next
  case (Cons q qs)
  have "prom_ready (count_request app host q st)" "pc_IsEnable (pm_conf (count_request app host q st))"
    using Cons.prems by (simp_all add: prom_ready_def)
  from Cons.IH [OF this] show ?case
    by (simp add: count_request_counts [OF Cons.prems] requests_to_def)
qed

definition no_prom :: prom_state where
  "no_prom = \<lparr>pm_registry = [],
     pm_conf = \<lparr>pc_IsEnable = False, pc_RoutePath = [], pc_RequestsTotal = [], pc_RequestsCosttime = [], pc_Tags = []\<rparr>,
     pm_total_opts = None, pm_total = (\<lambda>_. 0), pm_cost_opts = None, pm_cost = (\<lambda>_. [])\<rparr>"

definition sample_prom :: prometheus_config where
  "sample_prom = \<lparr>pc_IsEnable = True, pc_RoutePath = ''/metrics'', pc_RequestsTotal = ''requests_total'',
     pc_RequestsCosttime = ''requests_costtime'', pc_Tags = [''prometheus'']\<rparr>"

theorem metrics_count_requests_witness:
  "(case Init_prometheus sample_prom no_prom of (r, st) \<Rightarrow>
     r = Returns () \<and>
     pm_total (fold (count_request ''app'' ''h'') [(''/a'', ''GET'', 7), (''/b'', ''GET'', 8), (''/a'', ''GET'', 9)] st)
       (''app'', ''h'', ''/a'', ''GET'') = 2)"
proof -
  let ?st = "snd (Init_prometheus sample_prom no_prom)"
  have i: "Init_prometheus sample_prom no_prom = (Returns (), ?st)"
    by (simp add: Init_prometheus_def promauto_def sample_prom_def no_prom_def)
  have r: "prom_ready ?st" by (rule Init_prometheus_ready [OF _ i]) (simp add: prom_ready_def no_prom_def)
  have e: "pc_IsEnable (pm_conf ?st)" "pm_total ?st l = 0" for l
    by (simp_all add: Init_prometheus_def promauto_def sample_prom_def no_prom_def)
  from metrics_count_requests [OF r e(1), of "''app''" "''h''"
      "[(''/a'', ''GET'', 7), (''/b'', ''GET'', 8), (''/a'', ''GET'', 9)]" "''/a''" "''GET''"]
  show ?thesis by (subst i) (simp add: e(2) requests_to_def)
qed

text \<open>Two collectors of one name: the set-up panics after the first is registered.\<close>

lemma equal_names_panic:
  assumes "pc_IsEnable c" "pc_RequestsTotal c = pc_RequestsCosttime c"
  shows "is_panic (fst (Init_prometheus c st))"
  using assms by (simp add: Init_prometheus_def promauto_def)

end
