(* ===== verification/HttpServer.thy ===== *)
theory HttpServer
  imports Register Signal Lifecycle
begin

text \<open>
  \<open>server_http.go\<close>, \<open>run.go\<close> and \<open>RunGrpc\<close> of \<open>server_grpc.go\<close>: the one HTTP server of the
  process, how it listens, registers and serves, and how a running server ends with the shutdown of
  \<open>signal\<close>. gracehttp, package net and the gRPC server are the record \<open>serve_lib\<close>; serving is
  a function of it that works on the state of the registrations. Log output is left out, and
  \<open>Fatal\<close> of the logger is log output.
\<close>

section \<open>The multiplexer\<close>

type_synonym 'st handler = "response_writer \<Rightarrow> http_request \<Rightarrow> 'st \<Rightarrow> unit outcome \<times> response_writer \<times> 'st"

text \<open>\<open>defaultC\<close> and \<open>defaultF\<close>, a nil function at first.\<close>

record 'st cook =
  ck_C :: "http_request \<Rightarrow> bool"
  ck_F :: "'st handler option"

definition no_cook :: "'st cook" where "no_cook = \<lparr>ck_C = (\<lambda>_. False), ck_F = None\<rparr>"

definition RegisterServeHTTPCook :: "(http_request \<Rightarrow> bool) \<Rightarrow> 'st handler option \<Rightarrow> 'st cook \<Rightarrow> 'st cook" where
  "RegisterServeHTTPCook c f k = k\<lparr>ck_C := c, ck_F := f\<rparr>"

definition newMux_ServeHTTP :: "'st cook \<Rightarrow> 'st handler \<Rightarrow> 'st handler" where
  "newMux_ServeHTTP k mux w r st =
     (if ck_C k r then (case ck_F k of None \<Rightarrow> (Panics nil_deref, w, st) | Some f \<Rightarrow> f w r st)
      else mux w r st)"

section \<open>The server\<close>

text \<open>An address to listen on and the time-outs, in nanoseconds.\<close>

record grace_server =
  gs_Addr :: string
  gs_ReadTimeout :: int
  gs_WriteTimeout :: int

text \<open>
  What is used of the libraries: a listener is the text of its address. \<open>sl_serve\<close> is
  \<open>ListenAndServe\<close>, with a certificate and a key \<open>ListenAndServeTLS\<close>; \<open>sl_grpc\<close> serves
  until the context is cancelled and the server is stopped.
\<close>

record ('c, 'e, 'n) serve_lib =
  sl_stat :: file_stat
  sl_listen :: "string \<Rightarrow> 'n \<Rightarrow> (goerr + string) \<times> 'n"
  sl_serve :: "grace_server \<Rightarrow> (string \<times> string) option \<Rightarrow> ('c, 'e) reg_state \<Rightarrow> goerr option \<times> ('c, 'e) reg_state"
  sl_grpc :: "string \<Rightarrow> ('c, 'e) reg_state \<Rightarrow> goerr option \<times> ('c, 'e) reg_state"

record 'n http_state =
  ht_s :: "grace_server option"
  ht_listener :: "string option"
  ht_grpcListener :: "string option"
  ht_net :: 'n

definition seconds :: "int \<Rightarrow> int" where "seconds n = i64 (n * 1000000000)"

text \<open>The server is made once; its listener is asked for until it is there.\<close>

definition init_listener ::
  "('c, 'e, 'n) serve_lib \<Rightarrow> grace_server \<Rightarrow> 'n http_state \<Rightarrow> goerr option \<times> 'n http_state" where
  "init_listener lib s st =
     (if ht_listener st \<noteq> None then (None, st)
      else case sl_listen lib (gs_Addr s) (ht_net st) of
        (Inl e, n) \<Rightarrow> (Some e, st\<lparr>ht_net := n\<rparr>)
      | (Inr a, n) \<Rightarrow> (None, st\<lparr>ht_listener := Some a, ht_net := n\<rparr>))"

definition newHTTPServer ::
  "('c, 'e, 'n) serve_lib \<Rightarrow> http_server_config \<Rightarrow> 'n http_state \<Rightarrow> goerr option \<times> 'n http_state" where
  "newHTTPServer lib config st =
     (case ht_s st of
        Some s \<Rightarrow> init_listener lib s st
      | None \<Rightarrow>
          (case GetAddrForListen (sv_Address config) of
             Inl e \<Rightarrow> (Some e, st)
           | Inr addr \<Rightarrow>
               (let s = \<lparr>gs_Addr = addr, gs_ReadTimeout = seconds (hs_ReadTimeout config),
                         gs_WriteTimeout = seconds (hs_WriteTimeout config)\<rparr>
                in init_listener lib s (st\<lparr>ht_s := Some s\<rparr>))))"

definition GetHTTPServerListener :: "'n http_state \<Rightarrow> string option" where
  "GetHTTPServerListener st = ht_listener st"

definition GetHTTPServerAddr ::
  "('c, 'e, 'n) serve_lib \<Rightarrow> http_server_config \<Rightarrow> 'n http_state \<Rightarrow> (goerr + string) outcome \<times> 'n http_state" where
  "GetHTTPServerAddr lib config st =
     (case newHTTPServer lib config st of
        (Some e, st1) \<Rightarrow> (Returns (Inl e), st1)
      | (None, st1) \<Rightarrow>
          (case ht_listener st1 of None \<Rightarrow> (Panics nil_deref, st1) | Some a \<Rightarrow> (Returns (Inr a), st1)))"

definition tls_files :: "('c, 'e, 'n) serve_lib \<Rightarrow> http_server_config \<Rightarrow> (string \<times> string) option" where
  "tls_files lib config =
     (if IsExist (sl_stat lib) (sv_CertFile config) \<and> IsExist (sl_stat lib) (sv_KeyFile config)
      then Some (sv_CertFile config, sv_KeyFile config) else None)"

definition StartHTTP ::
  "('c, 'e, 'n) serve_lib \<Rightarrow> ('c, 'e) reg_env \<Rightarrow> http_server_config \<Rightarrow> ('c, 'e) reg_state \<times> 'n http_state \<Rightarrow>
    goerr option outcome \<times> ('c, 'e) reg_state \<times> 'n http_state" where
  "StartHTTP lib env config x =
     (case x of (rg, st) \<Rightarrow>
       (case newHTTPServer lib config st of
          (Some e, st1) \<Rightarrow> (Returns (Some e), rg, st1)
        | (None, st1) \<Rightarrow>
            (case (ht_s st1, ht_listener st1) of
               (Some s, Some a) \<Rightarrow>
                 (case serve_registered env (server_config.truncate config)
                         (GetServerAddr a (sv_Address config)) (sl_serve lib s (tls_files lib config)) rg of
                    (r, rg1) \<Rightarrow> (r, rg1, st1))
             | _ \<Rightarrow> (Panics nil_deref, rg, st1))))"

text \<open>\<open>RunGrpc\<close> up to its deferred \<open>Shutdowned\<close>; its listener is a new one each time.\<close>

definition GetGrpcServerListener :: "'n http_state \<Rightarrow> string option" where
  "GetGrpcServerListener st = ht_grpcListener st"

definition serve_grpc ::
  "('c, 'e, 'n) serve_lib \<Rightarrow> ('c, 'e) reg_env \<Rightarrow> server_config \<Rightarrow> ('c, 'e) reg_state \<times> 'n http_state \<Rightarrow>
    goerr option outcome \<times> ('c, 'e) reg_state \<times> 'n http_state" where
  "serve_grpc lib env config x =
     (case x of (rg, st) \<Rightarrow>
       (case GetAddrForListen (sv_Address config) of
          Inl e \<Rightarrow> (Returns (Some e), rg, st)
        | Inr address \<Rightarrow>
            (case sl_listen lib address (ht_net st) of
               (Inl e, n) \<Rightarrow> (Returns (Some e), rg, st\<lparr>ht_grpcListener := None, ht_net := n\<rparr>)
             | (Inr a, n) \<Rightarrow>
                 (case serve_registered env config (GetServerAddr a (sv_Address config)) (sl_grpc lib a) rg of
                    (r, rg1) \<Rightarrow> (r, rg1, st\<lparr>ht_grpcListener := Some a, ht_net := n\<rparr>)))))"

section \<open>Running\<close>

text \<open>
  Both \<open>Run\<close> and \<open>RunGrpc\<close> do their body and then, whatever it did, \<open>Shutdowned\<close>. Without an
  address \<open>Run\<close> waits for the context instead of serving; with one it is an HTTP process.
\<close>

datatype run_kind = Run_NoAddress | Run_Http | Run_Grpc

datatype run_phase =
  R_Start | R_Body | R_Leave "goerr option outcome" | R_Blocked "goerr option outcome"
| R_Over "goerr option outcome"

definition Run_kind :: "http_server_config \<Rightarrow> run_kind" where
  "Run_kind server = (if sv_Address server = [] then Run_NoAddress else Run_Http)"

definition Run_begin :: "run_kind \<Rightarrow> sig_state \<Rightarrow> sig_state" where
  "Run_begin k s = (if k = Run_Http then s\<lparr>sg_IsHTTP := True\<rparr> else s)"

text \<open>The other goroutines leave it to the run to return from its own \<open>Shutdowned\<close>.\<close>

definition own_call :: "run_phase \<Rightarrow> nat" where
  "own_call p = (case p of R_Blocked _ \<Rightarrow> 1 | _ \<Rightarrow> 0)"

type_synonym 'x run_state = "run_phase \<times> sig_state \<times> 'x"

inductive run_step ::
  "run_kind \<Rightarrow> ('x \<Rightarrow> goerr option outcome \<times> 'x) \<Rightarrow> 'x run_state \<Rightarrow> 'x run_state \<Rightarrow> bool" for k body where
  started: "sg_crash s = Running \<Longrightarrow> run_step k body (R_Start, s, x) (R_Body, Run_begin k s, x)"
| woken: "sg_crash s = Running \<Longrightarrow> k = Run_NoAddress \<Longrightarrow> sg_cancelled s \<Longrightarrow>
    run_step k body (R_Body, s, x) (R_Leave (Returns None), s, x)"
| served_out: "sg_crash s = Running \<Longrightarrow> k \<noteq> Run_NoAddress \<Longrightarrow> body x = (r, x') \<Longrightarrow>
    run_step k body (R_Body, s, x) (R_Leave r, s, x')"
| leaving: "sg_crash s = Running \<Longrightarrow> run_step k body (R_Leave r, s, x) (R_Blocked r, Shutdowned_start s, x)"
| over: "sg_crash s = Running \<Longrightarrow> sg_done s \<Longrightarrow>
    run_step k body (R_Blocked r, s, x) (R_Over r, Shutdowned_end s, x)"
| other: "sig_step ev s s' \<Longrightarrow> (ev = EvReturn \<Longrightarrow> own_call p < sg_blocked s) \<Longrightarrow>
    run_step k body (p, s, x) (p, s', x)"

inductive_cases run_stepE: "run_step k body a b"

inductive run_steps ::
  "run_kind \<Rightarrow> ('x \<Rightarrow> goerr option outcome \<times> 'x) \<Rightarrow> 'x run_state \<Rightarrow> 'x run_state \<Rightarrow> bool" for k body where
  here: "run_steps k body a a"
| on: "run_step k body a b \<Longrightarrow> run_steps k body b c \<Longrightarrow> run_steps k body a c"

lemma run_steps_trans: "run_steps k body a b \<Longrightarrow> run_steps k body b c \<Longrightarrow> run_steps k body a c"
  by (induction rule: run_steps.induct) (auto intro: run_steps.on)

text \<open>What holds of every state that is reached.\<close>

fun run_ok :: "'x run_state \<Rightarrow> bool" where
  "run_ok (p, s, x) \<longleftrightarrow>
     sig_ok s \<and> own_call p \<le> sg_blocked s \<and> (case p of R_Over _ \<Rightarrow> sg_done s | _ \<Rightarrow> True)"

lemma sig_ok_http: "sig_ok (Run_begin k s) \<longleftrightarrow> sig_ok s"
  by (simp add: sig_ok_def Run_begin_def)

lemma sig_step_done: "sig_step ev s s' \<Longrightarrow> sg_done s \<Longrightarrow> sg_done s'"
  by (erule sig_stepE; auto simp: step_defs)

lemma sig_step_blocked:
  "sig_step ev s s' \<Longrightarrow> (ev = EvReturn \<Longrightarrow> n < sg_blocked s) \<Longrightarrow> n \<le> sg_blocked s \<Longrightarrow> n \<le> sg_blocked s'"
  by (erule sig_stepE; auto simp: step_defs)

lemma Shutdowned_ok: "sig_ok s \<Longrightarrow> sig_ok (Shutdowned_start s)"
  by (auto simp: sig_ok_def step_defs)

lemma Shutdowned_end_ok: "sig_ok s \<Longrightarrow> sg_done s \<Longrightarrow> sig_ok (Shutdowned_end s)"
  by (auto simp: sig_ok_def step_defs)

lemma own_call_simps [simp]:
  "own_call R_Start = 0" "own_call R_Body = 0" "own_call (R_Leave r) = 0" "own_call (R_Blocked r) = 1"
  "own_call (R_Over r) = 0"
  by (simp_all add: own_call_def)

lemma Shutdowned_fields [simp]:
  "sg_blocked (Shutdowned_start s) = sg_blocked s + 1" "sg_done (Shutdowned_end s) = sg_done s"
  by (simp_all add: step_defs)

lemma run_step_ok: "run_step k body a b \<Longrightarrow> run_ok a \<Longrightarrow> run_ok b"
proof (induction rule: run_step.induct)
  case (other ev s s' p x)
  then have "sig_ok s'" by (simp add: sig_step_ok [OF other(1)])
  moreover have "own_call p \<le> sg_blocked s'" using other by (intro sig_step_blocked [OF other(1)]) auto
  ultimately show ?case using other(3) sig_step_done [OF other(1)] by (cases p) auto
qed (auto simp: sig_ok_http Shutdowned_ok Shutdowned_end_ok)

lemma run_steps_ok: "run_steps k body a b \<Longrightarrow> run_ok a \<Longrightarrow> run_ok b"
  by (induction rule: run_steps.induct) (auto dest: run_step_ok)

lemma run_ok_start: "run_ok (R_Start, init_sig http, x)"
  by (simp add: sig_ok_init own_call_def)

text \<open>A call of \<open>Shutdowned\<close> that waits can be answered: by the timer, if by nothing else.\<close>

lemma other_step:
  assumes "sig_step ev s s'" "ev \<noteq> EvReturn" "run_steps k body (p, s', x) c"
  shows "run_steps k body (p, s, x) c"
proof -
  have "run_step k body (p, s, x) (p, s', x)" using assms(2) by (intro run_step.other [OF assms(1)]) simp
  then show ?thesis using assms(3) by (rule run_steps.on)
qed

lemma done_reachable:
  assumes "sig_ok s" "sg_crash s = Running" "0 < sg_blocked s"
  shows "\<exists>s'. run_steps k body (p, s, x) (p, s', x) \<and> sg_done s' \<and> sg_crash s' = Running"
proof -
  have locked: "\<exists>s'. run_steps k body (p, s, x) (p, s', x) \<and> sg_done s' \<and> sg_crash s' = Running"
    if a: "sg_locked s" "\<not> sg_done s" "sg_crash s = Running" for s
  proof (intro exI conjI)
    show "run_steps k body (p, s, x) (p, select_timeout s, x)"
      by (rule other_step [OF sig_step.timeout [OF a(3,1)] _ run_steps.here]) simp
  qed (use a in \<open>simp_all add: step_defs\<close>)
  consider "sg_done s" | "\<not> sg_done s" "sg_locked s" | "\<not> sg_done s" "\<not> sg_locked s" "\<not> sg_doing s" "0 < sg_waiting_lock s"
    using assms(1,3) by (auto simp: sig_ok_def)
  then show ?thesis
  proof cases
    case 1
    with assms(2) show ?thesis by (blast intro: run_steps.here)
  next
    case 2
    with assms(2) locked show ?thesis by blast
  next
    case 3
    with locked [of "doShutdownDone_start s"] assms(2) obtain s' where
      "run_steps k body (p, doShutdownDone_start s, x) (p, s', x)" "sg_done s'" "sg_crash s' = Running"
      by (auto simp: step_defs)
    moreover from this(1) have "run_steps k body (p, s, x) (p, s', x)"
      by (rule other_step [OF sig_step.lock [OF assms(2) 3(4,2)], rotated]) simp
    ultimately show ?thesis by blast
  qed
qed

text \<open>What a run is going to return; \<open>None\<close> while it waits for the context without an address.\<close>

definition run_result ::
  "run_kind \<Rightarrow> ('x \<Rightarrow> goerr option outcome \<times> 'x) \<Rightarrow> run_phase \<Rightarrow> 'x \<Rightarrow> goerr option outcome option" where
  "run_result k body p x =
     (case p of
        R_Leave r \<Rightarrow> Some r | R_Blocked r \<Rightarrow> Some r | R_Over r \<Rightarrow> Some r
      | _ \<Rightarrow> if k = Run_NoAddress then None else Some (fst (body x)))"

lemma blocked_gets_over:
  assumes "run_ok (R_Blocked r, s, x)" "sg_crash s = Running"
  shows "\<exists>s'. run_steps k body (R_Blocked r, s, x) (R_Over r, s', x) \<and> sg_crash s' = Running"
proof -
  from assms done_reachable [of s k body "R_Blocked r" x] obtain s' where
    d: "run_steps k body (R_Blocked r, s, x) (R_Blocked r, s', x)" "sg_done s'" "sg_crash s' = Running"
    by auto
  have "run_steps k body (R_Blocked r, s', x) (R_Over r, Shutdowned_end s', x)"
    by (rule run_steps.on [OF run_step.over [OF d(3,2)] run_steps.here])
  with d(1) have "run_steps k body (R_Blocked r, s, x) (R_Over r, Shutdowned_end s', x)"
    by (rule run_steps_trans)
  moreover have "sg_crash (Shutdowned_end s') = Running" using d(3) by (simp add: step_defs)
  ultimately show ?thesis by blast
qed

lemma leave_gets_over:
  assumes "run_ok (R_Leave r, s, x)" "sg_crash s = Running"
  shows "\<exists>s'. run_steps k body (R_Leave r, s, x) (R_Over r, s', x) \<and> sg_crash s' = Running"
proof -
  have l: "run_step k body (R_Leave r, s, x) (R_Blocked r, Shutdowned_start s, x)"
    using assms(2) by (rule run_step.leaving)
  have "sg_crash (Shutdowned_start s) = Running" using assms(2) by (simp add: step_defs)
  from blocked_gets_over [OF run_step_ok [OF l assms(1)] this] obtain s' where
    "run_steps k body (R_Blocked r, Shutdowned_start s, x) (R_Over r, s', x)" "sg_crash s' = Running"
    by blast
  with run_steps.on [OF l] show ?thesis by (intro exI conjI)
qed

lemma body_gets_over:
  assumes "run_ok (R_Body, s, x)" "sg_crash s = Running" "k \<noteq> Run_NoAddress"
  shows "\<exists>s' x'. run_steps k body (R_Body, s, x) (R_Over (fst (body x)), s', x') \<and> sg_crash s' = Running"
proof -
  have b: "run_step k body (R_Body, s, x) (R_Leave (fst (body x)), s, snd (body x))"
    using assms(2,3) by (intro run_step.served_out) simp_all
  from leave_gets_over [OF run_step_ok [OF b assms(1)] assms(2)] obtain s' where
    "run_steps k body (R_Leave (fst (body x)), s, snd (body x)) (R_Over (fst (body x)), s', snd (body x))"
    "sg_crash s' = Running"
    by blast
  with run_steps.on [OF b] show ?thesis by (intro exI conjI)
qed

section \<open>Properties\<close>

text \<open>
  C37. A server that ran returns to its caller only when the shutdown of the process is over: the
  context was cancelled and the wait group got empty, or the thirty seconds were over.
\<close>

theorem run_returns_after_shutdown:
  assumes "run_steps k body (R_Start, init_sig http, x) (R_Over r, s, x')"
  shows "sg_done s \<and> (sg_timed_out s \<or> sg_waiter s = W_Over \<and> sg_cancelled s)"
proof -
  have "run_ok (R_Over r, s, x')" using run_steps_ok [OF assms run_ok_start] .
  then show ?thesis by (auto simp: sig_ok_def)
qed

text \<open>A process that serves once, with the steps of its end.\<close>

definition quick_end :: sig_state where
  "quick_end = Shutdowned_end (select_timeout (doShutdownDone_start (Shutdowned_start (init_sig True))))"

lemma quick_run:
  "run_steps Run_Http (\<lambda>x. (Returns None, Suc x)) (R_Start, init_sig False, 0) (R_Over (Returns None), quick_end, 1)"
proof -
  let ?s1 = "Shutdowned_start (init_sig True)" let ?s2 = "doShutdownDone_start ?s1"
  have h: "Run_begin Run_Http (init_sig False) = init_sig True" by (simp add: Run_begin_def init_sig_def)
  have r: "sg_crash ?s1 = Running" "0 < sg_waiting_lock ?s1" "\<not> sg_locked ?s1"
    "sg_crash ?s2 = Running" "sg_locked ?s2" "sg_crash (select_timeout ?s2) = Running" "sg_done (select_timeout ?s2)"
    by (simp_all add: step_defs init_sig_def)
  show ?thesis
    unfolding quick_end_def
    by (rule run_steps.on [OF run_step.started], simp, subst h, rule run_steps.on [OF run_step.served_out],
        simp, simp, simp, rule run_steps.on [OF run_step.leaving], simp,
        rule other_step [OF sig_step.lock [OF r(1-3)]], simp,
        rule other_step [OF sig_step.timeout [OF r(4,5)]], simp,
        rule run_steps.on [OF run_step.over [OF r(6,7)]], simp add: run_steps.here)
qed

theorem run_returns_after_shutdown_witness:
  "sg_done quick_end \<and> (sg_timed_out quick_end \<or> sg_waiter quick_end = W_Over \<and> sg_cancelled quick_end)"
  by (rule run_returns_after_shutdown [OF quick_run])



text \<open>
  The first address is kept: once a call had an address to listen on, every later call listens
  there, whatever address and time-outs it is given, also when the first could not listen; a
  listener that is there is the answer of all of them.
\<close>

theorem first_address_kept:
  assumes "ht_s st = None" "GetAddrForListen (sv_Address config) = Inr addr"
    and "newHTTPServer lib config st = (e, st1)"
  shows "map_option gs_Addr (ht_s st1) = Some addr \<and>
    newHTTPServer lib config' st1 = newHTTPServer lib config st1 \<and>
    (e = None \<longrightarrow> newHTTPServer lib config' st1 = (None, st1) \<and>
      GetHTTPServerAddr lib config' st1 = (Returns (Inr (the (GetHTTPServerListener st1))), st1))"
  using assms
  by (auto simp: newHTTPServer_def init_listener_def GetHTTPServerAddr_def GetHTTPServerListener_def Let_def
      split: prod.splits sum.splits if_splits option.splits)

text \<open>A machine on which the port 80 is taken.\<close>

definition sample_lib :: "('c, 'e, nat) serve_lib" where
  "sample_lib =
     \<lparr>sl_stat = (\<lambda>_. StatErr [] True),
      sl_listen = (\<lambda>a n. (if a = '':80'' then Inl (Errorf ''in use'') else Inr a, Suc n)),
      sl_serve = (\<lambda>_ _ s. (None, s)), sl_grpc = (\<lambda>_ s. (None, s))\<rparr>"

definition sample_http :: "string \<Rightarrow> http_server_config" where
  "sample_http a = server_config.extend (sample_server\<lparr>sv_Address := a\<rparr>)
     (http_server_config.fields 100 3 3)"

abbreviation no_reg_lib :: "(unit, unit, nat) serve_lib" where "no_reg_lib \<equiv> sample_lib"

theorem first_address_kept_witness:
  "fst (newHTTPServer no_reg_lib (sample_http '':8080'')
     (snd (newHTTPServer no_reg_lib (sample_http '':80'')
       \<lparr>ht_s = None, ht_listener = None, ht_grpcListener = None, ht_net = 0\<rparr>))) = Some (Errorf ''in use'')"
proof -
  let ?st = "\<lparr>ht_s = None, ht_listener = None, ht_grpcListener = None, ht_net = 0\<rparr> :: nat http_state"
  have g: "GetAddrForListen (sv_Address (sample_http '':80'')) = Inr '':80''"
    by (simp add: sample_http_def server_config.defs http_server_config.defs) code_simp
  obtain e st1 where n: "newHTTPServer no_reg_lib (sample_http '':80'') ?st = (e, st1)" by fastforce
  have "newHTTPServer no_reg_lib (sample_http '':8080'') st1 = newHTTPServer no_reg_lib (sample_http '':80'') st1"
    using first_address_kept [OF _ g n] by simp
  moreover have "fst (newHTTPServer no_reg_lib (sample_http '':80'') st1) = Some (Errorf ''in use'')"
    using n by (auto simp: newHTTPServer_def init_listener_def g sample_lib_def Let_def)
  ultimately show ?thesis by (simp add: n)
qed

end
