(* ===== verification/Program.thy ===== *)
theory Program
  imports HttpServer Environment Prometheus XormDao RedisProps
begin

text \<open>
  \<open>init.go\<close>: how the process is set up when the package is loaded, from the command line over
  the configuration, the log, Redis, the database and the metrics, with the models of those
  packages; and what an application finds that calls \<open>Init\<close> and \<open>Run\<close> afterwards. The logger is
  the list of the calls it got for its set-up; log output is left out.
\<close>

section \<open>The log\<close>

datatype log_call =
  SetLogGoID bool | SetLevelStr string | SetConsole bool | SetRollingDaily string
| SetRollingFile string int int string | SetPrefix string

text \<open>What the process is: operating system, place and name of the application, libraries.\<close>

record ('d, 's) prog_env =
  pe_os :: os_env
  pe_app_path :: string
  pe_app_name :: string
  pe_hostname :: string
  pe_glob :: "string \<Rightarrow> goerr + string list"
  pe_decode :: "all_config decoder"
  pe_verbose :: bool
  pe_radix :: "'s radix"
  pe_xorm :: "'d xorm"
  pe_dsn :: dsn_map

definition log_file :: "('d, 's) prog_env \<Rightarrow> string" where
  "log_file env =
     path_join [if IsExist (oe_stat (pe_os env)) ''/opt/log'' then ''/opt/log'' else pe_app_path env,
                pe_app_name env @ ''.log'']"

text \<open>The file of the log; an unknown type is the error.\<close>

definition log_target :: "('d, 's) prog_env \<Rightarrow> logger_config \<Rightarrow> goerr option \<times> log_call list" where
  "log_target env lc =
     (if lc_LogFile lc \<noteq> [] then
        (let cs = [SetLevelStr (lc_LogLevel lc), SetConsole (lc_IsConsole lc)] in
         if to_lower (lc_LogType lc) = ''daily'' then (None, cs @ [SetRollingDaily (lc_LogFile lc)])
         else if to_lower (lc_LogType lc) = ''roll'' then
           (None, cs @ [SetRollingFile (lc_LogFile lc) (lc_LogMaxNum lc) (lc_LogSize lc) (lc_LogUnit lc)])
         else (Some (Errorf ''undefined logtype''), cs))
      else (None, [SetLevelStr ''debug'', SetRollingFile (log_file env) 2 1 ''GB'']))"

definition log_console :: "('d, 's) prog_env \<Rightarrow> env_vars \<Rightarrow> log_call list" where
  "log_console env v =
     (if ev_isGoTest v then [SetConsole (pe_verbose env)]
      else if ev_isGoRun v then [SetConsole True] else [])"

definition initLog :: "('d, 's) prog_env \<Rightarrow> env_vars \<Rightarrow> logger_config \<Rightarrow> goerr option \<times> log_call list" where
  "initLog env v lc =
     (case log_target env lc of
        (Some e, cs) \<Rightarrow> (Some e, SetLogGoID (lc_LogGoID lc) # cs)
      | (None, cs) \<Rightarrow>
          (None, SetLogGoID (lc_LogGoID lc) # cs @ log_console env v @
                 [SetPrefix (path_join [pe_app_name env, ev_ENVIRONMENT v, pe_hostname env])]))"

section \<open>The set-up\<close>

record ('d, 's) prog_state =
  ps_isInited :: bool
  ps_vars :: env_vars
  ps_configs :: all_config \<comment> \<open>\<open>configs.Config\<close>\<close>
  ps_Config :: all_config
  ps_log :: "log_call list"
  ps_DefaultIns :: "client option"
  ps_DefaultDao :: "dao option"
  ps_db :: "('d, 's) db_state"
  ps_prom :: prom_state
  ps_patterns :: "string list" \<comment> \<open>of \<open>http.DefaultServeMux\<close>\<close>

text \<open>The set-up returns, panics, or ends the process with a version on the screen.\<close>

datatype set_up = Exited string | Broken panic_value | SetUp "goerr option"

definition app_env_of :: "('d, 's) prog_env \<Rightarrow> env_vars \<Rightarrow> app_env" where
  "app_env_of env v =
     \<lparr>ae_app_path = pe_app_path env, ae_env = ev_ENVIRONMENT v, ae_go_run = ev_isGoRun v,
      ae_go_test = ev_isGoTest v, ae_stat = oe_stat (pe_os env), ae_glob = pe_glob env\<rparr>"

text \<open>\<open>Handle\<close> on the multiplexer, which refuses an empty pattern and one that it has.\<close>

definition Handle :: "string \<Rightarrow> ('d, 's) prog_state \<Rightarrow> unit outcome \<times> ('d, 's) prog_state" where
  "Handle pattern st =
     (case HandlerFunc_pattern pattern of
        Panics p \<Rightarrow> (Panics p, st)
      | Returns _ \<Rightarrow>
          (if pattern = [] then (Panics (PanicMsg ''http: invalid pattern''), st)
           else if pattern \<in> set (ps_patterns st) then
             (Panics (PanicMsg (''http: multiple registrations for '' @ pattern)), st)
           else (Returns (), st\<lparr>ps_patterns := pattern # ps_patterns st\<rparr>)))"

definition init_prometheus :: "('d, 's) prog_state \<Rightarrow> set_up \<times> ('d, 's) prog_state" where
  "init_prometheus st =
     (let c = ac_Prometheus (ps_Config st) in
      if \<not> pc_IsEnable c then (SetUp None, st)
      else case Init_prometheus c (ps_prom st) of
        (Panics p, pm) \<Rightarrow> (Broken p, st\<lparr>ps_prom := pm\<rparr>)
      | (Returns _, pm) \<Rightarrow>
          (case Handle (pc_RoutePath c) (st\<lparr>ps_prom := pm\<rparr>) of
             (Panics p, st1) \<Rightarrow> (Broken p, st1)
           | (Returns _, st1) \<Rightarrow> (SetUp None, st1)))"

text \<open>The variables are set also when the call that makes their value fails.\<close>

definition init_db :: "('d, 's) prog_env \<Rightarrow> ('d, 's) prog_state \<Rightarrow> set_up \<times> ('d, 's) prog_state" where
  "init_db env st =
     (let c = ps_Config st in
      if ds_Driver (ac_Db c) = [] then init_prometheus st
      else case NewXormDao (pe_xorm env) (pe_dsn env) (pe_radix env) c (ac_Db c) (ps_db st) of
        (Panics p, db) \<Rightarrow> (Broken p, st\<lparr>ps_db := db\<rparr>)
      | (Returns (d, Some e), db) \<Rightarrow>
          (SetUp (Some (Errorf (''connect to default mysql faild: '' @ err_text e))),
           st\<lparr>ps_DefaultDao := d, ps_db := db\<rparr>)
      | (Returns (d, None), db) \<Rightarrow> init_prometheus (st\<lparr>ps_DefaultDao := d, ps_db := db\<rparr>))"

definition on_redis :: "'s redis_state \<Rightarrow> ('d, 's) prog_state \<Rightarrow> ('d, 's) prog_state" where
  "on_redis r st = st\<lparr>ps_db := (ps_db st)\<lparr>db_redis := r\<rparr>\<rparr>"

definition init_redis :: "('d, 's) prog_env \<Rightarrow> ('d, 's) prog_state \<Rightarrow> set_up \<times> ('d, 's) prog_state" where
  "init_redis env st =
     (let c = ac_Redis (ps_Config st) in
      if rc_Addresses c = [] then init_db env st
      else case New (pe_radix env) c (db_redis (ps_db st)) of
        ((d, Some e), r) \<Rightarrow>
          (SetUp (Some (Errorf (''connect to default redis faild: '' @ err_text e))),
           (on_redis r st)\<lparr>ps_DefaultIns := d\<rparr>)
      | ((d, None), r) \<Rightarrow> init_db env ((on_redis r st)\<lparr>ps_DefaultIns := d\<rparr>))"

definition init_log :: "('d, 's) prog_env \<Rightarrow> ('d, 's) prog_state \<Rightarrow> set_up \<times> ('d, 's) prog_state" where
  "init_log env st =
     (case initLog env (ps_vars st) (ac_Logger (ps_Config st)) of
        (Some e, cs) \<Rightarrow> (SetUp (Some e), st\<lparr>ps_log := ps_log st @ cs\<rparr>)
      | (None, cs) \<Rightarrow> init_redis env (st\<lparr>ps_log := ps_log st @ cs\<rparr>))"

definition init_config :: "('d, 's) prog_env \<Rightarrow> ('d, 's) prog_state \<Rightarrow> set_up \<times> ('d, 's) prog_state" where
  "init_config env st =
     (case LoadDefaultConfig (app_env_of env (ps_vars st)) (pe_decode env) (ps_configs st) of
        (c, Some e) \<Rightarrow> (SetUp (Some e), st\<lparr>ps_configs := c\<rparr>)
      | (c, None) \<Rightarrow> init_log env (st\<lparr>ps_configs := c, ps_Config := c\<rparr>))"

text \<open>An error of the command line is only logged.\<close>

definition Init :: "('d, 's) prog_env \<Rightarrow> ('d, 's) prog_state \<Rightarrow> set_up \<times> ('d, 's) prog_state" where
  "Init env st =
     (if ps_isInited st then (SetUp None, st)
      else case ParseFlag (pe_os env) (ps_vars st) of
        (Exits version, v) \<Rightarrow> (Exited version, st\<lparr>ps_isInited := True, ps_vars := v\<rparr>)
      | (Parsed _, v) \<Rightarrow> init_config env (st\<lparr>ps_isInited := True, ps_vars := v\<rparr>))"

text \<open>Loading the package: place and name of the application, then \<open>Init\<close>, its error dropped.\<close>

definition load_program ::
  "os_env \<Rightarrow> (string \<Rightarrow> string \<Rightarrow> ('d, 's) prog_env) \<Rightarrow> ('d, 's) prog_state \<Rightarrow> set_up \<times> ('d, 's) prog_state" where
  "load_program oe mk st =
     (case init_app oe (ps_vars st) of
        (Panics p, v) \<Rightarrow> (Broken p, st\<lparr>ps_vars := v\<rparr>)
      | (Returns (path, name), v) \<Rightarrow>
          (case Init (mk path name) (st\<lparr>ps_vars := v\<rparr>) of
             (SetUp _, st1) \<Rightarrow> (SetUp None, st1)
           | r \<Rightarrow> r))"

text \<open>The program as it runs: the run of \<open>HttpServer\<close> on the configuration of the set-up.\<close>

definition Run_body ::
  "('c, 'e, 'n) serve_lib \<Rightarrow> ('c, 'e) reg_env \<Rightarrow> all_config \<Rightarrow> ('c, 'e) reg_state \<times> 'n http_state \<Rightarrow>
    goerr option outcome \<times> ('c, 'e) reg_state \<times> 'n http_state" where
  "Run_body lib env config x = StartHTTP lib env (ac_Server config) x"

definition Run ::
  "('c, 'e, 'n) serve_lib \<Rightarrow> ('c, 'e) reg_env \<Rightarrow> all_config \<Rightarrow>
    (('c, 'e) reg_state \<times> 'n http_state) run_state \<Rightarrow> (('c, 'e) reg_state \<times> 'n http_state) run_state \<Rightarrow> bool" where
  "Run lib env config = run_steps (Run_kind (ac_Server config)) (Run_body lib env config)"

definition RunGrpc ::
  "('c, 'e, 'n) serve_lib \<Rightarrow> ('c, 'e) reg_env \<Rightarrow> server_config \<Rightarrow>
    (('c, 'e) reg_state \<times> 'n http_state) run_state \<Rightarrow> (('c, 'e) reg_state \<times> 'n http_state) run_state \<Rightarrow> bool" where
  "RunGrpc lib env config = run_steps Run_Grpc (serve_grpc lib env config)"

section \<open>A set-up without an error\<close>

text \<open>What is there after it, for every part that the configuration asks for.\<close>

definition redis_set :: "('d, 's) prog_env \<Rightarrow> ('d, 's) prog_state \<Rightarrow> bool" where
  "redis_set env st \<longleftrightarrow>
     (let c = ac_Redis (ps_Config st) in
      rc_Addresses c = [] \<or> (\<exists>p. ps_DefaultIns st = Some (fresh_client (pe_radix env) c (Some p))))"

definition dao_set :: "('d, 's) prog_state \<Rightarrow> bool" where
  "dao_set st \<longleftrightarrow>
     (let c = ac_Db (ps_Config st) in
      ds_Driver c = [] \<or>
      (\<exists>d. ps_DefaultDao st = Some d \<and> xd_config d = c \<and> (dc_CacheType c \<noteq> [] \<longrightarrow> xd_cacher d \<noteq> None)))"

definition metrics_set :: "('d, 's) prog_state \<Rightarrow> bool" where
  "metrics_set st \<longleftrightarrow>
     (let c = ac_Prometheus (ps_Config st) in
      pc_IsEnable c \<longrightarrow>
        pm_conf (ps_prom st) = c \<and> prom_ready (ps_prom st) \<and> pc_RoutePath c \<in> set (ps_patterns st))"

definition log_set :: "('d, 's) prog_env \<Rightarrow> ('d, 's) prog_state \<Rightarrow> bool" where
  "log_set env st \<longleftrightarrow>
     (\<exists>cs. ps_log st = cs @ [SetPrefix (path_join [pe_app_name env, ev_ENVIRONMENT (ps_vars st), pe_hostname env])])"

definition program_ready :: "('d, 's) prog_env \<Rightarrow> ('d, 's) prog_state \<Rightarrow> bool" where
  "program_ready env st \<longleftrightarrow>
     ps_configs st = ps_Config st \<and> log_set env st \<and> redis_set env st \<and> dao_set st \<and> metrics_set st"

text \<open>What the later parts of the set-up leave as it is.\<close>

definition same_base :: "('d, 's) prog_state \<Rightarrow> ('d, 's) prog_state \<Rightarrow> bool" where
  "same_base st st1 \<longleftrightarrow>
     ps_isInited st1 = ps_isInited st \<and> ps_vars st1 = ps_vars st \<and> ps_configs st1 = ps_configs st \<and>
     ps_Config st1 = ps_Config st \<and> ps_log st1 = ps_log st"

lemma NewXormDao_made:
  assumes "NewXormDao xl fm rx config c st = (Returns (d, None), st1)"
  shows "\<exists>d'. d = Some d' \<and> xd_config d' = c \<and> (dc_CacheType c \<noteq> [] \<longrightarrow> xd_cacher d' \<noteq> None)"
  using assms
  by (auto simp: NewXormDao_def Let_def split: if_splits prod.splits option.splits outcome.splits sum.splits)

lemma Init_prometheus_made:
  assumes "Init_prometheus c pm = (Returns u, pm1)" "pc_IsEnable c"
  shows "pm_conf pm1 = c \<and> prom_ready pm1"
  using assms
  by (auto simp: Init_prometheus_def promauto_def prom_ready_def split: if_splits)

lemma Handle_made:
  assumes "Handle pattern st = (Returns u, st1)"
  shows "st1 = st\<lparr>ps_patterns := pattern # ps_patterns st\<rparr>"
  using assms by (auto simp: Handle_def split: outcome.splits if_splits)

lemma init_prometheus_made:
  assumes "init_prometheus st = (SetUp None, st1)"
  shows "same_base st st1 \<and> ps_DefaultIns st1 = ps_DefaultIns st \<and> ps_DefaultDao st1 = ps_DefaultDao st \<and>
    metrics_set st1"
proof (cases "pc_IsEnable (ac_Prometheus (ps_Config st))")
  case False
  with assms show ?thesis by (auto simp: init_prometheus_def same_base_def metrics_set_def Let_def)
next
  case True
  with assms obtain pm u where
    "Init_prometheus (ac_Prometheus (ps_Config st)) (ps_prom st) = (Returns u, pm)"
    "Handle (pc_RoutePath (ac_Prometheus (ps_Config st))) (st\<lparr>ps_prom := pm\<rparr>) = (Returns (), st1)"
    by (auto simp: init_prometheus_def Let_def split: prod.splits outcome.splits)
  with Init_prometheus_made [OF this(1) True] Handle_made [OF this(2)] show ?thesis
    by (auto simp: same_base_def metrics_set_def Let_def)
qed

lemma init_db_made:
  assumes "init_db env st = (SetUp None, st1)"
  shows "same_base st st1 \<and> ps_DefaultIns st1 = ps_DefaultIns st \<and> dao_set st1 \<and> metrics_set st1"
proof (cases "ds_Driver (ac_Db (ps_Config st)) = []")
  case True
  with assms have "init_prometheus st = (SetUp None, st1)" by (simp add: init_db_def Let_def)
  from init_prometheus_made [OF this] True show ?thesis by (auto simp: dao_set_def same_base_def Let_def)
next
  case False
  with assms obtain d db where
    n: "NewXormDao (pe_xorm env) (pe_dsn env) (pe_radix env) (ps_Config st) (ac_Db (ps_Config st)) (ps_db st)
        = (Returns (d, None), db)"
    and p: "init_prometheus (st\<lparr>ps_DefaultDao := d, ps_db := db\<rparr>) = (SetUp None, st1)"
    by (auto simp: init_db_def Let_def split: prod.splits outcome.splits option.splits)
  from init_prometheus_made [OF p] NewXormDao_made [OF n] show ?thesis
    by (auto simp: dao_set_def same_base_def Let_def)
qed

lemma init_redis_made:
  assumes "init_redis env st = (SetUp None, st1)"
  shows "same_base st st1 \<and> redis_set env st1 \<and> dao_set st1 \<and> metrics_set st1"
proof (cases "rc_Addresses (ac_Redis (ps_Config st)) = []")
  case True
  with assms have "init_db env st = (SetUp None, st1)" by (simp add: init_redis_def Let_def)
  from init_db_made [OF this] True show ?thesis by (auto simp: redis_set_def same_base_def Let_def)
next
  case False
  with assms obtain d r where
    n: "New (pe_radix env) (ac_Redis (ps_Config st)) (db_redis (ps_db st)) = ((d, None), r)"
    and p: "init_db env ((on_redis r st)\<lparr>ps_DefaultIns := d\<rparr>) = (SetUp None, st1)"
    by (auto simp: init_redis_def Let_def split: prod.splits option.splits)
  from n have "\<exists>p. d = Some (fresh_client (pe_radix env) (ac_Redis (ps_Config st)) (Some p))"
    by (simp add: New_def newClient_pool [THEN iffD1])
  with init_db_made [OF p] show ?thesis
    by (auto simp: redis_set_def same_base_def on_redis_def Let_def)
qed

lemma init_config_made:
  assumes "init_config env st = (SetUp None, st1)"
  shows "program_ready env st1 \<and> ps_isInited st1 = ps_isInited st \<and> ps_vars st1 = ps_vars st \<and>
    LoadDefaultConfig (app_env_of env (ps_vars st)) (pe_decode env) (ps_configs st) = (ps_Config st1, None)"
proof -
  from assms obtain c where
    c: "LoadDefaultConfig (app_env_of env (ps_vars st)) (pe_decode env) (ps_configs st) = (c, None)"
    and "init_log env (st\<lparr>ps_configs := c, ps_Config := c\<rparr>) = (SetUp None, st1)"
    by (auto simp: init_config_def split: prod.splits option.splits)
  then obtain cs where
    l: "initLog env (ps_vars st) (ac_Logger c) = (None, cs)"
    and r: "init_redis env (st\<lparr>ps_configs := c, ps_Config := c, ps_log := ps_log st @ cs\<rparr>) = (SetUp None, st1)"
    by (auto simp: init_log_def split: prod.splits option.splits)
  from l have "\<exists>cs'. cs = cs' @ [SetPrefix (path_join [pe_app_name env, ev_ENVIRONMENT (ps_vars st), pe_hostname env])]"
    by (auto simp: initLog_def split: prod.splits option.splits)
  with init_redis_made [OF r] c show ?thesis
    by (auto simp: program_ready_def log_set_def same_base_def)
qed

text \<open>A set-up that is over is never repeated.\<close>

lemma inited_frame:
  "ps_isInited (snd (init_prometheus st)) = ps_isInited st"
  "ps_isInited (snd (init_db env st)) = ps_isInited st"
  "ps_isInited (snd (init_redis env st)) = ps_isInited st"
proof -
  have h: "ps_isInited (snd (Handle p st)) = ps_isInited st" for p and st :: "('a, 'b) prog_state"
    by (auto simp: Handle_def split: outcome.splits)
  have p: "ps_isInited (snd (init_prometheus st)) = ps_isInited st" for st :: "('a, 'b) prog_state"
    using h [of _ "st\<lparr>ps_prom := _\<rparr>"]
    by (auto simp: init_prometheus_def Let_def split: prod.splits outcome.splits) (metis prod.sel(2))+
  have d: "ps_isInited (snd (init_db env st)) = ps_isInited st" for st :: "('a, 'b) prog_state"
    by (auto simp: init_db_def p Let_def split: prod.splits outcome.splits option.splits)
  show "ps_isInited (snd (init_prometheus st)) = ps_isInited st" by (rule p)
  show "ps_isInited (snd (init_db env st)) = ps_isInited st" by (rule d)
  show "ps_isInited (snd (init_redis env st)) = ps_isInited st"
    by (auto simp: init_redis_def d on_redis_def Let_def split: prod.splits option.splits)
qed

lemma Init_inited: "ps_isInited (snd (Init env st))"
  by (auto simp: Init_def init_config_def init_log_def inited_frame
      split: prod.splits option.splits flag_end.splits)

section \<open>A run without an address\<close>

fun idle_run :: "'x \<Rightarrow> 'x run_state \<Rightarrow> bool" where
  "idle_run x0 (p, s, x) \<longleftrightarrow>
     x = x0 \<and> (case p of R_Leave r \<Rightarrow> r = Returns None | R_Blocked r \<Rightarrow> r = Returns None
                | R_Over r \<Rightarrow> r = Returns None | _ \<Rightarrow> True)"

lemma idle_run_step: "run_step Run_NoAddress body a b \<Longrightarrow> idle_run x0 a \<Longrightarrow> idle_run x0 b"
  by (induction rule: run_step.induct) auto

lemma idle_run_steps: "run_steps Run_NoAddress body a b \<Longrightarrow> idle_run x0 a \<Longrightarrow> idle_run x0 b"
  by (induction rule: run_steps.induct) (auto dest: idle_run_step)

section \<open>Properties\<close>

text \<open>
  C39. A set-up that reports no error is complete: the configuration is the one that was loaded with
  its defaults, the log has its prefix, and Redis, the database object with its cache, and the
  metrics with their route are there as far as the configuration asks for them; later calls of
  \<open>Init\<close> change nothing.
\<close>

theorem set_up_is_complete:
  assumes "Init env st = (SetUp None, st1)" "\<not> ps_isInited st"
  shows "program_ready env st1 \<and>
    LoadDefaultConfig (app_env_of env (ps_vars st1)) (pe_decode env) (ps_configs st) = (ps_Config st1, None) \<and>
    Init env st1 = (SetUp None, st1)"
proof -
  from assms obtain v where
    i: "init_config env (st\<lparr>ps_isInited := True, ps_vars := v\<rparr>) = (SetUp None, st1)"
    by (auto simp: Init_def split: prod.splits flag_end.splits if_splits)
  have "ps_isInited st1" using Init_inited [of env st] assms(1) by simp
  with init_config_made [OF i] show ?thesis by (simp add: Init_def [of env st1])
qed

definition sample_all :: all_config where
  "sample_all = zero_config\<lparr>ac_Redis := sample_config, ac_Prometheus := sample_prom\<rparr>"

definition sample_prog :: "bool \<Rightarrow> (mem_db, string \<rightharpoonup> string) prog_env" where
  "sample_prog ok =
     \<lparr>pe_os = sample_os\<lparr>oe_stat := (\<lambda>p. if p = ''/srv/app'' then StatOk True else StatErr [] True)\<rparr>,
      pe_app_path = ''/srv/app'', pe_app_name = ''app'', pe_hostname = ''h'',
      pe_glob = (\<lambda>_. Inr [''/srv/app/config.toml'']),
      pe_decode = (\<lambda>f c. (sample_all, if ok then None else Some (Errorf ''bad''))),
      pe_verbose = False, pe_radix = mem_radix, pe_xorm = mem_xorm None, pe_dsn = Map.empty\<rparr>"

definition sample_start :: "(mem_db, string \<rightharpoonup> string) prog_state" where
  "sample_start =
     \<lparr>ps_isInited = False, ps_vars = sample_vars\<lparr>ev_isGoRun := False\<rparr>, ps_configs = zero_config, ps_Config = zero_config,
      ps_log = [], ps_DefaultIns = Some (DefaultIns_init mem_radix), ps_DefaultDao = None,
      ps_db = \<lparr>db_engineMap = Map.empty, db_cacherMap = Map.empty, db_xorm = (0, []),
               db_redis = \<lparr>rs_insMap = Map.empty, rs_srv = Map.empty\<rparr>\<rparr>,
      ps_prom = no_prom, ps_patterns = [''/'']\<rparr>"

lemma sample_start_ok: "fst (Init (sample_prog True) sample_start) = SetUp None"
  by code_simp

lemma sample_start_routes: "ps_patterns (snd (Init (sample_prog True) sample_start)) = [''/metrics'', ''/'']"
  by code_simp

theorem set_up_is_complete_witness:
  "program_ready (sample_prog True) (snd (Init (sample_prog True) sample_start)) \<and>
   ps_patterns (snd (Init (sample_prog True) sample_start)) = [''/metrics'', ''/'']"
proof -
  have "Init (sample_prog True) sample_start = (SetUp None, snd (Init (sample_prog True) sample_start))"
    by (simp add: prod_eq_iff sample_start_ok)
  from set_up_is_complete [OF this] sample_start_routes show ?thesis by (simp add: sample_start_def)
qed

text \<open>
  C40. A configuration that cannot be read is forgotten: the set-up at the start of the package has
  the error, but an application that calls \<open>Init\<close> is told of none, and its \<open>Run\<close> has no address,
  serves nothing, waits for the end of the process and reports no error either.
\<close>

theorem unread_config_is_silent:
  assumes "\<not> ps_isInited st" "sv_Address (ac_Server (ps_Config st)) = []"
    and "ParseFlag (pe_os env) (ps_vars st) = (Parsed e0, v)"
    and "LoadDefaultConfig (app_env_of env v) (pe_decode env) (ps_configs st) = (c, Some e)"
    and "Init env st = (r, st1)"
    and "Run lib renv (ps_Config st1) (R_Start, s0, x) (R_Over q, s, x')"
  shows "r = SetUp (Some e) \<and> Init env st1 = (SetUp None, st1) \<and> q = Returns None \<and> x' = x"
proof -
  have i: "r = SetUp (Some e)" "ps_isInited st1" "ps_Config st1 = ps_Config st"
    using assms(1,3-5) by (auto simp: Init_def init_config_def)
  have "Run_kind (ac_Server (ps_Config st1)) = Run_NoAddress" using i(3) assms(2) by (simp add: Run_kind_def)
  with assms(6) have "run_steps Run_NoAddress (Run_body lib renv (ps_Config st1)) (R_Start, s0, x) (R_Over q, s, x')"
    by (simp add: Run_def)
  from idle_run_steps [OF this, of x] i show ?thesis by (simp add: Init_def [of env st1])
qed

text \<open>A run that is woken by the end of the context, and its end by the timer.\<close>

definition woken_end :: sig_state where
  "woken_end =
     Shutdowned_end (select_timeout (doShutdownDone_start (Shutdowned_start ((init_sig False)\<lparr>sg_cancelled := True\<rparr>))))"

lemma woken_run:
  "run_steps Run_NoAddress body (R_Start, init_sig False, x) (R_Over (Returns None), woken_end, x)"
proof -
  let ?s0 = "(init_sig False)\<lparr>sg_cancelled := True\<rparr>"
  let ?s1 = "Shutdowned_start ?s0" let ?s2 = "doShutdownDone_start ?s1"
  have b: "Run_begin Run_NoAddress (init_sig False) = init_sig False" by (simp add: Run_begin_def)
  have c: "sg_crash ?s0 = Running" "sg_cancelled ?s0" by (simp_all add: init_sig_def)
  have r: "sg_crash ?s1 = Running" "0 < sg_waiting_lock ?s1" "\<not> sg_locked ?s1"
    "sg_crash ?s2 = Running" "sg_locked ?s2" "sg_crash (select_timeout ?s2) = Running" "sg_done (select_timeout ?s2)"
    by (simp_all add: step_defs init_sig_def)
  show ?thesis
    unfolding woken_end_def
    by (rule run_steps.on [OF run_step.started], simp, subst b,
        rule other_step [OF sig_step.cancel], simp, simp,
        rule run_steps.on [OF run_step.woken [OF c(1) _ c(2)]], simp,
        rule run_steps.on [OF run_step.leaving [OF c(1)]],
        rule other_step [OF sig_step.lock [OF r(1-3)]], simp,
        rule other_step [OF sig_step.timeout [OF r(4,5)]], simp,
        rule run_steps.on [OF run_step.over [OF r(6,7)]], rule run_steps.here)
qed

theorem unread_config_is_silent_witness:
  "fst (Init (sample_prog False) sample_start) = SetUp (Some (Errorf ''bad'')) \<and>
   Init (sample_prog False) (snd (Init (sample_prog False) sample_start)) =
     (SetUp None, snd (Init (sample_prog False) sample_start))"
proof -
  let ?e = "sample_prog False" let ?v = "snd (ParseFlag (pe_os ?e) (ps_vars sample_start))"
  let ?st1 = "snd (Init ?e sample_start)"
  have p: "fst (ParseFlag (pe_os ?e) (ps_vars sample_start)) = Parsed None" by code_simp
  have l: "snd (LoadDefaultConfig (app_env_of ?e ?v) (pe_decode ?e) (ps_configs sample_start)) = Some (Errorf ''bad'')"
    by code_simp
  have a: "sv_Address (ac_Server (ps_Config sample_start)) = []" "\<not> ps_isInited sample_start"
    "sv_Address (ac_Server (ps_Config ?st1)) = []"
    by code_simp+
  have n: "Run_kind (ac_Server (ps_Config ?st1)) = Run_NoAddress" using a(3) by (simp add: Run_kind_def)
  have "Run sample_lib (sample_reg_env False) (ps_Config ?st1)
     (R_Start, init_sig False, x) (R_Over (Returns None), woken_end, x)" for x
    unfolding Run_def n by (rule woken_run)
  from unread_config_is_silent [OF a(2,1) _ _ _ this, of ?e None ?v
      "fst (LoadDefaultConfig (app_env_of ?e ?v) (pe_decode ?e) (ps_configs sample_start))" "Errorf ''bad''"
      "fst (Init ?e sample_start)"
      "(idle_process, \<lparr>ht_s = None, ht_listener = None, ht_grpcListener = None, ht_net = 0\<rparr>)"] p l
  show ?thesis by (simp add: prod_eq_iff)
qed

end
