(* ===== verification/Dates.thy ===== *)
theory Dates
  imports Encoding
begin

text \<open>
  \<open>encoding/type.go\<close>: \<open>DateTime\<close> and \<open>Date\<close>, with what they use of package time: formatting
  and parsing by their two layouts. A time is known by its fields in its location and its offset
  from UTC there. The local zone is the record \<open>zone\<close>: the time that the fields stand for, which
  differs from them only where clocks are turned forward, and its offset. A fraction of a second
  has at most nine digits, as in Go 1.13.
\<close>

section \<open>Times\<close>

record civil =
  cv_year :: int
  cv_month :: nat
  cv_day :: nat
  cv_hour :: nat
  cv_min :: nat
  cv_sec :: nat
  cv_nsec :: nat

record go_time = civil +
  tm_offset :: int \<comment> \<open>seconds east of UTC\<close>

record zone =
  zn_fields :: "civil \<Rightarrow> civil"
  zn_offset :: "civil \<Rightarrow> int"

definition is_leap :: "int \<Rightarrow> bool" where
  "is_leap y \<longleftrightarrow> 4 dvd y \<and> (\<not> 100 dvd y \<or> 400 dvd y)"

definition days_in :: "nat \<Rightarrow> int \<Rightarrow> nat" where
  "days_in m y = (if m = 2 \<and> is_leap y then 29 else [31, 28, 31, 30, 31, 30, 31, 31, 30, 31, 30, 31] ! (m - 1))"

text \<open>\<open>time.Date\<close> in the local zone, and the zero time.\<close>

definition local_Date :: "zone \<Rightarrow> civil \<Rightarrow> go_time" where
  "local_Date z c = civil.extend (zn_fields z c) (go_time.fields (zn_offset z c))"

definition zero_time :: go_time where
  "zero_time = \<lparr>cv_year = 1, cv_month = 1, cv_day = 1, cv_hour = 0, cv_min = 0, cv_sec = 0, cv_nsec = 0, tm_offset = 0\<rparr>"

text \<open>Days since the first of January 1970, by the days of the years and months before.\<close>

definition days_before :: "nat \<Rightarrow> int \<Rightarrow> nat" where
  "days_before m y = sum_list (map (\<lambda>k. days_in k y) [1..<m])"

definition epoch_days :: "int \<Rightarrow> nat \<Rightarrow> nat \<Rightarrow> int" where
  "epoch_days y m d =
     (let p = y - 1 in 365 * p + p div 4 - p div 100 + p div 400 - 719162 + int (days_before m y) + int d - 1)"

definition time_Unix :: "go_time \<Rightarrow> int" where
  "time_Unix t =
     i64 (epoch_days (cv_year t) (cv_month t) (cv_day t) * 86400 + int (cv_hour t) * 3600 + int (cv_min t) * 60 +
          int (cv_sec t) - tm_offset t)"

definition time_UnixNano :: "go_time \<Rightarrow> int" where
  "time_UnixNano t = i64 (time_Unix t * 1000000000 + int (cv_nsec t))"

section \<open>Formatting\<close>

definition pad_int :: "nat \<Rightarrow> nat \<Rightarrow> string" where
  "pad_int w n = replicate (w - length (nat_dec n)) CHR ''0'' @ nat_dec n"

definition append_int :: "nat \<Rightarrow> int \<Rightarrow> string" where
  "append_int w i = (if i < 0 then CHR ''-'' # pad_int w (nat (- i)) else pad_int w (nat i))"

definition format_date :: "'a civil_scheme \<Rightarrow> string" where
  "format_date t = append_int 4 (cv_year t) @ ''-'' @ pad_int 2 (cv_month t) @ ''-'' @ pad_int 2 (cv_day t)"

definition format_clock :: "'a civil_scheme \<Rightarrow> string" where
  "format_clock t = pad_int 2 (cv_hour t) @ '':'' @ pad_int 2 (cv_min t) @ '':'' @ pad_int 2 (cv_sec t)"

section \<open>Parsing\<close>

text \<open>The literal parts of a layout: a blank stands for any number of blanks.\<close>

definition is_blank :: "char \<Rightarrow> bool" where "is_blank c \<longleftrightarrow> c = CHR '' ''"

function skip_lit :: "string \<Rightarrow> string \<Rightarrow> string option" where
  "skip_lit v [] = Some v"
| "skip_lit v (p # ps) =
     (if is_blank p then
        (if v \<noteq> [] \<and> \<not> is_blank (hd v) then None
         else skip_lit (dropWhile is_blank v) (dropWhile is_blank ps))
      else if v = [] \<or> hd v \<noteq> p then None else skip_lit (tl v) ps)"
  by pat_completeness auto
termination
  by (relation "measure (\<lambda>(v, p). length p)") (auto simp: le_imp_less_Suc length_dropWhile_le)

definition digit_at :: "string \<Rightarrow> nat \<Rightarrow> bool" where
  "digit_at s i \<longleftrightarrow> i < length s \<and> is_digit (s ! i)"

definition getnum :: "bool \<Rightarrow> string \<Rightarrow> (nat \<times> string) option" where
  "getnum fixed s =
     (if \<not> digit_at s 0 then None
      else if \<not> digit_at s 1 then (if fixed then None else Some (digit_value (s ! 0), drop 1 s))
      else Some (10 * digit_value (s ! 0) + digit_value (s ! 1), drop 2 s))"

definition get_year :: "string \<Rightarrow> (int \<times> string) option" where
  "get_year s =
     (if length s < 4 \<or> \<not> list_all is_digit (take 4 s) then None
      else Some (int (foldl (\<lambda>n c. 10 * n + digit_value c) 0 (take 4 s)), drop 4 s))"

definition in_bounds :: "nat \<Rightarrow> nat \<Rightarrow> (nat \<times> string) option \<Rightarrow> (nat \<times> string) option" where
  "in_bounds lo hi r = Option.bind r (\<lambda>(n, s). if lo \<le> n \<and> n \<le> hi then Some (n, s) else None)"

text \<open>A fraction after the seconds is taken although the layout has none.\<close>

definition get_fraction :: "string \<Rightarrow> (nat \<times> string) option" where
  "get_fraction s =
     (if s \<noteq> [] \<and> hd s = CHR ''.'' \<and> digit_at s 1 then
        (let ds = takeWhile is_digit (tl s) in
         if 9 < length ds then None
         else Some (foldl (\<lambda>n c. 10 * n + digit_value c) 0 ds * 10 ^ (9 - length ds), drop (length ds) (tl s)))
      else Some (0, s))"

text \<open>A number and the literal after it.\<close>

definition num_lit :: "(nat \<times> string) option \<Rightarrow> string \<Rightarrow> (nat \<times> string) option" where
  "num_lit r lit = Option.bind r (\<lambda>(n, s). map_option (Pair n) (skip_lit s lit))"

definition parse_date :: "string \<Rightarrow> string \<Rightarrow> ((int \<times> nat \<times> nat) \<times> string) option" where
  "parse_date lit s =
     Option.bind (get_year s) (\<lambda>(y, s1). Option.bind (skip_lit s1 ''-'') (\<lambda>s2.
     Option.bind (num_lit (in_bounds 1 12 (getnum True s2)) ''-'') (\<lambda>(m, s3).
     Option.bind (num_lit (getnum True s3) lit) (\<lambda>(d, s4). Some ((y, m, d), s4)))))"

definition parse_clock :: "string \<Rightarrow> string \<Rightarrow> ((nat \<times> nat \<times> nat \<times> nat) \<times> string) option" where
  "parse_clock lit s =
     Option.bind (num_lit (in_bounds 0 23 (getnum False s)) '':'') (\<lambda>(h, s1).
     Option.bind (num_lit (in_bounds 0 59 (getnum True s1)) '':'') (\<lambda>(mi, s2).
     Option.bind (in_bounds 0 59 (getnum True s2)) (\<lambda>(sc, s3).
     Option.bind (num_lit (get_fraction s3) lit) (\<lambda>(ns, s4). Some ((h, mi, sc, ns), s4)))))"

definition valid_day :: "int \<Rightarrow> nat \<Rightarrow> nat \<Rightarrow> bool" where
  "valid_day y m d \<longleftrightarrow> 1 \<le> d \<and> d \<le> days_in m y"

text \<open>The text of an error quotes layout and value; it is the argument \<open>err\<close>.\<close>

definition ParseInLocation_date :: "zone \<Rightarrow> goerr \<Rightarrow> string \<Rightarrow> go_time \<times> goerr option" where
  "ParseInLocation_date z err s =
     (case Option.bind (skip_lit s [DQuote]) (parse_date [DQuote]) of
        Some ((y, m, d), []) \<Rightarrow>
          if valid_day y m d then
            (local_Date z \<lparr>cv_year = y, cv_month = m, cv_day = d, cv_hour = 0, cv_min = 0, cv_sec = 0, cv_nsec = 0\<rparr>, None)
          else (zero_time, Some err)
      | _ \<Rightarrow> (zero_time, Some err))"

definition ParseInLocation_datetime :: "zone \<Rightarrow> goerr \<Rightarrow> string \<Rightarrow> go_time \<times> goerr option" where
  "ParseInLocation_datetime z err s =
     (case Option.bind (skip_lit s [DQuote]) (parse_date '' '') of
        None \<Rightarrow> (zero_time, Some err)
      | Some ((y, m, d), s1) \<Rightarrow>
          (case parse_clock [DQuote] s1 of
             Some ((h, mi, sc, ns), []) \<Rightarrow>
               if valid_day y m d then
                 (local_Date z \<lparr>cv_year = y, cv_month = m, cv_day = d, cv_hour = h, cv_min = mi, cv_sec = sc, cv_nsec = ns\<rparr>, None)
               else (zero_time, Some err)
           | _ \<Rightarrow> (zero_time, Some err)))"

section \<open>type.go\<close>

definition DateTime_String :: "go_time \<Rightarrow> string" where
  "DateTime_String t = format_date t @ '' '' @ format_clock t"

definition DateTime_MarshalJSON :: "go_time \<Rightarrow> string \<times> goerr option" where
  "DateTime_MarshalJSON t = (DQuote # format_date t @ '' '' @ format_clock t @ [DQuote], None)"

text \<open>The variable is set also when parsing failed.\<close>

definition DateTime_UnmarshalJSON :: "zone \<Rightarrow> (string \<Rightarrow> goerr) \<Rightarrow> string \<Rightarrow> go_time \<times> goerr option" where
  "DateTime_UnmarshalJSON z err data = ParseInLocation_datetime z (err data) data"

definition DateTime_Unix :: "go_time \<Rightarrow> int" where "DateTime_Unix t = time_Unix t"
definition DateTime_UnixNano :: "go_time \<Rightarrow> int" where "DateTime_UnixNano t = time_UnixNano t"

definition Date_String :: "go_time \<Rightarrow> string" where "Date_String t = format_date t"

definition Date_MarshalJSON :: "go_time \<Rightarrow> string \<times> goerr option" where
  "Date_MarshalJSON t = (DQuote # format_date t @ [DQuote], None)"

definition Date_UnmarshalJSON :: "zone \<Rightarrow> (string \<Rightarrow> goerr) \<Rightarrow> string \<Rightarrow> go_time \<times> goerr option" where
  "Date_UnmarshalJSON z err data = ParseInLocation_date z (err data) data"

definition Date_Unix :: "go_time \<Rightarrow> int" where "Date_Unix t = time_Unix t"
definition Date_UnixNano :: "go_time \<Rightarrow> int" where "Date_UnixNano t = time_UnixNano t"

section \<open>What is printed is parsed\<close>

lemma nat_dec_two: "n < 100 \<Longrightarrow> nat_dec n = (if n < 10 then [digit_char n] else [digit_char (n div 10), digit_char (n mod 10)])"
  by (subst nat_dec.simps) (simp add: nat_dec_less)

lemma pad_two: "n < 100 \<Longrightarrow> pad_int 2 n = [digit_char (n div 10), digit_char (n mod 10)]"
  by (auto simp: pad_int_def nat_dec_two digit_char_lits)

lemma pad_step:
  assumes "n < 10 ^ Suc w" "0 < w"
  shows "pad_int (Suc w) n = pad_int w (n div 10) @ [digit_char (n mod 10)]"
proof (cases "n < 10")
  case True
  with assms(2) show ?thesis by (cases w) (simp_all add: pad_int_def nat_dec_less digit_char_lits replicate_append_same)
next
  case False
  then show ?thesis by (simp add: pad_int_def nat_dec_step)
qed

lemma pad_four:
  assumes "n < 10000"
  shows "pad_int 4 n =
     [digit_char (n div 1000), digit_char (n div 100 mod 10), digit_char (n div 10 mod 10), digit_char (n mod 10)]"
proof -
  have "pad_int 4 n = pad_int 3 (n div 10) @ [digit_char (n mod 10)]" using assms pad_step [of n 3] by simp
  moreover have "pad_int 3 (n div 10) = pad_int 2 (n div 100) @ [digit_char (n div 10 mod 10)]"
    using assms pad_step [of "n div 10" 2] by (simp add: div_mult2_eq [symmetric])
  moreover have "pad_int 2 (n div 100) = [digit_char (n div 1000), digit_char (n div 100 mod 10)]"
    using assms pad_two [of "n div 100"] by (simp add: div_mult2_eq [symmetric])
  ultimately show ?thesis by simp
qed

lemma getnum_pad: "n < 100 \<Longrightarrow> getnum fixed (pad_int 2 n @ s) = Some (n, s)"
  by (simp add: getnum_def digit_at_def pad_two)

lemma get_year_digits:
  "a < 10 \<Longrightarrow> b < 10 \<Longrightarrow> c < 10 \<Longrightarrow> d < 10 \<Longrightarrow>
   get_year ([digit_char a, digit_char b, digit_char c, digit_char d] @ s) =
     Some (int (10 * (10 * (10 * a + b) + c) + d), s)"
  by (simp add: get_year_def)

lemma four_places: "10 * (10 * (10 * (m div 1000) + m div 100 mod 10) + m div 10 mod 10) + m mod 10 = (m :: nat)"
proof -
  have "m div 100 = 10 * (m div 1000) + m div 100 mod 10"
    using mult_div_mod_eq [of 10 "m div 100"] by (simp add: div_mult2_eq [symmetric])
  moreover have "m div 10 = 10 * (m div 100) + m div 10 mod 10"
    using mult_div_mod_eq [of 10 "m div 10"] by (simp add: div_mult2_eq [symmetric])
  moreover have "m = 10 * (m div 10) + m mod 10" by simp
  ultimately show ?thesis by presburger
qed

lemma get_year_pad:
  assumes "0 \<le> y" "y < 10000"
  shows "get_year (append_int 4 y @ s) = Some (y, s)"
proof -
  have n: "nat y < 10000" using assms by simp
  then have "nat y div 1000 < 10" by simp
  from get_year_digits [OF this, of "nat y div 100 mod 10" "nat y div 10 mod 10" "nat y mod 10" s]
  show ?thesis unfolding four_places using assms by (simp add: append_int_def pad_four [OF n])
qed

lemma skip_plain [simp]: "\<not> is_blank p \<Longrightarrow> skip_lit (p # v) [p] = Some v"
  by simp

lemma skip_blank: "v \<noteq> [] \<Longrightarrow> \<not> is_blank (hd v) \<Longrightarrow> skip_lit (CHR '' '' # v) '' '' = Some v"
  by (cases v) (simp_all add: is_blank_def)

text \<open>Fields that a time can have, and those that four digits can show.\<close>

definition civil_ok :: "'a civil_scheme \<Rightarrow> bool" where
  "civil_ok t \<longleftrightarrow>
     1 \<le> cv_month t \<and> cv_month t \<le> 12 \<and> valid_day (cv_year t) (cv_month t) (cv_day t) \<and>
     cv_hour t < 24 \<and> cv_min t < 60 \<and> cv_sec t < 60"

definition four_digits :: "int \<Rightarrow> bool" where "four_digits y \<longleftrightarrow> 0 \<le> y \<and> y < 10000"

lemma days_in_31: "1 \<le> m \<Longrightarrow> m \<le> 12 \<Longrightarrow> days_in m y \<le> 31"
proof -
  assume "1 \<le> m" "m \<le> 12"
  then have "m = 1 \<or> m = 2 \<or> m = 3 \<or> m = 4 \<or> m = 5 \<or> m = 6 \<or> m = 7 \<or> m = 8 \<or> m = 9 \<or> m = 10 \<or> m = 11 \<or> m = 12"
    by presburger
  then show ?thesis by (elim disjE) (simp_all add: days_in_def)
qed

lemma plain_chars [simp]:
  "\<not> is_blank CHR ''-''" "\<not> is_blank CHR '':''" "\<not> is_blank DQuote" "is_blank CHR '' ''"
  "d < 10 \<Longrightarrow> \<not> is_blank (digit_char d)"
  using digit_char_digit [of d] by (auto simp: is_blank_def DQuote_def is_digit_def less_eq_char_def)

lemma parse_date_format:
  assumes "civil_ok t" "four_digits (cv_year t)" "skip_lit s lit = Some s'"
  shows "parse_date lit (format_date t @ s) = Some ((cv_year t, cv_month t, cv_day t), s')"
proof -
  have d: "cv_day t < 100" using assms(1) days_in_31 [of "cv_month t" "cv_year t"]
    by (simp add: civil_ok_def valid_day_def)
  show ?thesis
    using assms d by (simp add: parse_date_def format_date_def four_digits_def civil_ok_def get_year_pad
        getnum_pad num_lit_def in_bounds_def)
qed

lemma parse_clock_format:
  assumes "civil_ok t" "skip_lit s lit = Some s'" "s \<noteq> []" "hd s \<noteq> CHR ''.''"
  shows "parse_clock lit (format_clock t @ s) = Some ((cv_hour t, cv_min t, cv_sec t, 0), s')"
  using assms
  by (simp add: parse_clock_def format_clock_def civil_ok_def getnum_pad num_lit_def in_bounds_def get_fraction_def)

lemma skip_quote [simp]: "skip_lit (DQuote # v) [DQuote] = Some v"
  by simp

text \<open>What is left of a time in its two forms.\<close>

definition to_second :: "'a civil_scheme \<Rightarrow> civil" where
  "to_second t = (civil.truncate t)\<lparr>cv_nsec := 0\<rparr>"

definition to_day :: "'a civil_scheme \<Rightarrow> civil" where
  "to_day t = (civil.truncate t)\<lparr>cv_hour := 0, cv_min := 0, cv_sec := 0, cv_nsec := 0\<rparr>"

lemma format_clock_head: "cv_hour t < 100 \<Longrightarrow> format_clock t \<noteq> [] \<and> \<not> is_blank (hd (format_clock t))"
  by (simp add: format_clock_def pad_two)

text \<open>
  C21. Times of a year of four digits come back from their JSON form, a \<open>DateTime\<close> to the second and
  a \<open>Date\<close> to its day, with the same fields in the local zone, whatever zone they were in.
\<close>

theorem dates_json_roundtrip:
  assumes "civil_ok t" "four_digits (cv_year t)"
  shows "DateTime_UnmarshalJSON z err (fst (DateTime_MarshalJSON t)) = (local_Date z (to_second t), None) \<and>
    Date_UnmarshalJSON z err (fst (Date_MarshalJSON t)) = (local_Date z (to_day t), None)"
proof
  have h: "cv_hour t < 100" using assms(1) by (simp add: civil_ok_def)
  have b: "skip_lit ('' '' @ format_clock t @ [DQuote]) '' '' = Some (format_clock t @ [DQuote])"
  proof -
    have "skip_lit (CHR '' '' # (format_clock t @ [DQuote])) '' '' = Some (format_clock t @ [DQuote])"
      by (rule skip_blank) (use format_clock_head [OF h] in simp_all)
    then show ?thesis by (simp del: skip_lit.simps)
  qed
  have v: "valid_day (cv_year t) (cv_month t) (cv_day t)" using assms(1) by (simp add: civil_ok_def)
  have q: "hd [DQuote] \<noteq> CHR ''.''" by (simp add: DQuote_def)
  show "DateTime_UnmarshalJSON z err (fst (DateTime_MarshalJSON t)) = (local_Date z (to_second t), None)"
    using parse_date_format [OF assms b] parse_clock_format [OF assms(1) skip_quote [of "[]"] _ q] v
    by (simp add: DateTime_UnmarshalJSON_def DateTime_MarshalJSON_def ParseInLocation_datetime_def
        to_second_def civil.defs del: skip_lit.simps)
  show "Date_UnmarshalJSON z err (fst (Date_MarshalJSON t)) = (local_Date z (to_day t), None)"
    using parse_date_format [OF assms skip_quote [of "[]"]] v
    by (simp add: Date_UnmarshalJSON_def Date_MarshalJSON_def ParseInLocation_date_def to_day_def civil.defs
        del: skip_lit.simps)
qed

definition sample_time :: go_time where
  "sample_time = \<lparr>cv_year = 2020, cv_month = 2, cv_day = 29, cv_hour = 7, cv_min = 5, cv_sec = 9, cv_nsec = 12,
     tm_offset = 0\<rparr>"

definition shanghai :: zone where
  "shanghai = \<lparr>zn_fields = (\<lambda>c. c), zn_offset = (\<lambda>_. 28800)\<rparr>"

lemma sample_time_ok: "civil_ok sample_time" "four_digits (cv_year sample_time)"
  by (simp_all add: civil_ok_def sample_time_def four_digits_def valid_day_def days_in_def is_leap_def)

theorem dates_json_roundtrip_witness:
  "fst (DateTime_MarshalJSON sample_time) = DQuote # ''2020-02-29 07:05:09'' @ [DQuote] \<and>
   Date_UnmarshalJSON shanghai Errorf (fst (Date_MarshalJSON sample_time)) =
     (local_Date shanghai (to_day sample_time), None)"
proof
  show "fst (DateTime_MarshalJSON sample_time) = DQuote # ''2020-02-29 07:05:09'' @ [DQuote]" by code_simp
qed (use dates_json_roundtrip [OF sample_time_ok, of shanghai Errorf] in simp)

text \<open>The instant moves by the difference of the zones: the JSON form has none.\<close>

lemma roundtrip_shifts_instant:
  "time_Unix (fst (DateTime_UnmarshalJSON shanghai Errorf (fst (DateTime_MarshalJSON sample_time)))) =
     time_Unix sample_time - 28800"
  by code_simp

text \<open>A null leaves an error and the zero time, where it should leave the value.\<close>

lemma null_overwrites: "DateTime_UnmarshalJSON z err ''null'' = (zero_time, Some (err ''null''))"
  by (simp add: DateTime_UnmarshalJSON_def ParseInLocation_datetime_def DQuote_def is_blank_def)

end
