(* ===== verification/SshExec.thy ===== *)
theory SshExec
  imports Ssh
begin

text \<open>
  \<open>ssh/exec.go\<close>: commands and shells on the terminal of the process. The terminal and the sessions
  are the record \<open>term_lib\<close>; \<open>tl_ends\<close> tells whether a command ends within the given seconds. The
  standard streams that a session is given are its argument.
\<close>

datatype stream = Stdin | Stdout | Stderr

datatype tty_mode = ECHO int | TTY_OP_ISPEED int | TTY_OP_OSPEED int

record 'd term_lib =
  tl_IsTerminal :: bool
  tl_GetSize :: "goerr + int \<times> int"
  tl_MakeRaw :: "'d \<Rightarrow> (goerr + nat) \<times> 'd"
  tl_Restore :: "nat \<Rightarrow> 'd \<Rightarrow> 'd"
  tl_NewSession :: "nat \<Rightarrow> 'd \<Rightarrow> (goerr + nat) \<times> 'd"
  tl_Close :: "nat \<Rightarrow> 'd \<Rightarrow> 'd"
  tl_Streams :: "nat \<Rightarrow> stream list \<Rightarrow> 'd \<Rightarrow> 'd"
  tl_RequestPty :: "nat \<Rightarrow> string \<Rightarrow> int \<Rightarrow> int \<Rightarrow> tty_mode list \<Rightarrow> 'd \<Rightarrow> goerr option \<times> 'd"
  tl_Start :: "nat \<Rightarrow> string \<Rightarrow> 'd \<Rightarrow> goerr option \<times> 'd"
  tl_Shell :: "nat \<Rightarrow> 'd \<Rightarrow> goerr option \<times> 'd"
  tl_ends :: "nat \<Rightarrow> int \<Rightarrow> 'd \<Rightarrow> bool"
  tl_Wait :: "nat \<Rightarrow> 'd \<Rightarrow> goerr option \<times> 'd"

text \<open>
  The frame of both functions: raw mode and a session, and at the end, however it ends, first the
  session is closed and then the terminal restored. The body gets the session, width and height.
\<close>

definition in_session_on_terminal ::
  "'d term_lib \<Rightarrow> nat option \<Rightarrow> (nat \<Rightarrow> int \<Rightarrow> int \<Rightarrow> 'd \<Rightarrow> goerr option \<times> 'd) \<Rightarrow> 'd \<Rightarrow> goerr option \<times> 'd" where
  "in_session_on_terminal lib c body d =
     (case c of
        None \<Rightarrow> (Some (Errorf ''nil client''), d)
      | Some cl \<Rightarrow>
          (if \<not> tl_IsTerminal lib then (Some (Errorf ''no terminal''), d)
           else case tl_GetSize lib of
             Inl e \<Rightarrow> (Some e, d)
           | Inr (w, h) \<Rightarrow>
               (case tl_MakeRaw lib d of
                  (Inl e, d1) \<Rightarrow> (Some e, d1)
                | (Inr old, d1) \<Rightarrow>
                    (case tl_NewSession lib cl d1 of
                       (Inl e, d2) \<Rightarrow> (Some e, tl_Restore lib old d2)
                     | (Inr s, d2) \<Rightarrow>
                         (let (e, d3) = body s w h d2 in (e, tl_Restore lib old (tl_Close lib s d3)))))))"

definition pty_modes :: "tty_mode list" where
  "pty_modes = [ECHO 0, TTY_OP_ISPEED 14400, TTY_OP_OSPEED 14400]"

text \<open>The timer closes the session of a command that takes too long, and the wait goes on.\<close>

definition wait_limited :: "'d term_lib \<Rightarrow> nat \<Rightarrow> int \<Rightarrow> 'd \<Rightarrow> goerr option \<times> 'd" where
  "wait_limited lib s timeout d =
     tl_Wait lib s (if 0 < timeout \<and> \<not> tl_ends lib s timeout d then tl_Close lib s d else d)"

text \<open>The error of \<open>Start\<close> is dropped.\<close>

definition ExecWithPty :: "'d term_lib \<Rightarrow> nat option \<Rightarrow> string \<Rightarrow> int \<Rightarrow> 'd \<Rightarrow> goerr option \<times> 'd" where
  "ExecWithPty lib c cmd timeout d =
     in_session_on_terminal lib c
       (\<lambda>s w h d.
          case tl_RequestPty lib s ''xterm'' h w pty_modes (tl_Streams lib s [Stdout, Stderr] d) of
            (Some e, d1) \<Rightarrow> (Some e, d1)
          | (None, d1) \<Rightarrow> wait_limited lib s timeout (snd (tl_Start lib s cmd d1))) d"

definition Shell :: "'d term_lib \<Rightarrow> nat option \<Rightarrow> 'd \<Rightarrow> goerr option \<times> 'd" where
  "Shell lib c d =
     in_session_on_terminal lib c
       (\<lambda>s w h d.
          case tl_RequestPty lib s ''xterm'' h w [ECHO 1] (tl_Streams lib s [Stdin, Stdout, Stderr] d) of
            (Some e, d1) \<Rightarrow> (Some e, d1)
          | (None, d1) \<Rightarrow>
              (case tl_Shell lib s d1 of (Some e, d2) \<Rightarrow> (Some e, d2) | (None, d2) \<Rightarrow> tl_Wait lib s d2)) d"

section \<open>The terminal afterwards\<close>

text \<open>
  What the library does to the mode of the terminal and to the sessions that are open: only
  \<open>MakeRaw\<close>, \<open>Restore\<close>, \<open>NewSession\<close> and \<open>Close\<close> change them, and a failed call changes nothing.
\<close>

definition term_laws :: "'d term_lib \<Rightarrow> ('d \<Rightarrow> 'm) \<Rightarrow> ('d \<Rightarrow> nat set) \<Rightarrow> bool" where
  "term_laws lib md opened \<longleftrightarrow>
     (\<forall>d old d1 d2. tl_MakeRaw lib d = (Inr old, d1) \<longrightarrow>
        opened d1 = opened d \<and> md (tl_Restore lib old d2) = md d \<and> opened (tl_Restore lib old d2) = opened d2) \<and>
     (\<forall>d e d1. tl_MakeRaw lib d = (Inl e, d1) \<longrightarrow> md d1 = md d \<and> opened d1 = opened d) \<and>
     (\<forall>cl d s d1. tl_NewSession lib cl d = (Inr s, d1) \<longrightarrow> s \<notin> opened d \<and> opened d1 = insert s (opened d)) \<and>
     (\<forall>cl d e d1. tl_NewSession lib cl d = (Inl e, d1) \<longrightarrow> opened d1 = opened d) \<and>
     (\<forall>s d. opened (tl_Close lib s d) = opened d - {s}) \<and>
     (\<forall>s x d. opened (tl_Streams lib s x d) = opened d) \<and>
     (\<forall>s t h w m d. opened (snd (tl_RequestPty lib s t h w m d)) = opened d) \<and>
     (\<forall>s cmd d. opened (snd (tl_Start lib s cmd d)) = opened d) \<and>
     (\<forall>s d. opened (snd (tl_Shell lib s d)) = opened d) \<and>
     (\<forall>s d. opened (snd (tl_Wait lib s d)) = opened d)"

lemma frame_keeps_terminal:
  assumes l: "term_laws lib md opened"
    and b: "\<And>s w h d. opened (snd (body s w h d)) - {s} = opened d - {s}"
  shows "md (snd (in_session_on_terminal lib c body d)) = md d \<and>
    opened (snd (in_session_on_terminal lib c body d)) = opened d"
proof (cases c)
  case None
  then show ?thesis by (simp add: in_session_on_terminal_def)
next
  case (Some cl)
  obtain r1 d1 where m: "tl_MakeRaw lib d = (r1, d1)" by fastforce
  obtain r2 d2 where n: "tl_NewSession lib cl d1 = (r2, d2)" by fastforce
  show ?thesis
  proof (cases r1)
    case (Inl e)
    with l m have "md d1 = md d" "opened d1 = opened d" by (simp_all add: term_laws_def)
    with Some m Inl show ?thesis
      by (simp add: in_session_on_terminal_def split: sum.splits prod.splits)
  next
    case (Inr old)
    with l m have r: "opened d1 = opened d" "md (tl_Restore lib old x) = md d"
      "opened (tl_Restore lib old x) = opened x" for x
      by (auto simp: term_laws_def)
    show ?thesis
    proof (cases r2)
      case (Inl e)
      with l n have "opened d2 = opened d1" by (simp add: term_laws_def)
      with Some m n Inl Inr r show ?thesis
        by (simp add: in_session_on_terminal_def split: sum.splits prod.splits)
    next
      case (Inr s)
      with l n have "s \<notin> opened d1" "opened d2 = insert s (opened d1)" by (auto simp: term_laws_def)
      moreover have "opened (tl_Close lib s x) = opened x - {s}" for x using l by (simp add: term_laws_def)
      ultimately have "opened (tl_Close lib s (snd (body s w h d2))) = opened d1" for w h
        using b [of s w h d2] by auto
      with Some m n Inr \<open>r1 = Inr old\<close> r show ?thesis
        by (simp add: in_session_on_terminal_def case_prod_beta split: sum.splits)
    qed
  qed
qed

text \<open>
  A command and a shell leave the terminal in the mode and the connection with the sessions that they found,
  whether they ran, ran out of time or failed at any step.
\<close>

theorem terminal_is_restored:
  assumes "term_laws lib md opened"
  shows "md (snd (ExecWithPty lib c cmd timeout d)) = md d \<and> opened (snd (ExecWithPty lib c cmd timeout d)) = opened d \<and>
    md (snd (Shell lib c d)) = md d \<and> opened (snd (Shell lib c d)) = opened d"
proof -
  have o: "opened (snd (tl_RequestPty lib s t h w m d)) = opened d" "opened (tl_Streams lib s x d) = opened d"
    "opened (snd (tl_Start lib s k d)) = opened d" "opened (snd (tl_Shell lib s d)) = opened d"
    "opened (snd (tl_Wait lib s d)) = opened d" "opened (tl_Close lib s d) = opened d - {s}" for s t h w m x k d
    using assms by (simp_all add: term_laws_def)
  show ?thesis
    unfolding ExecWithPty_def Shell_def
    using frame_keeps_terminal [OF assms, of "\<lambda>s w h d.
          case tl_RequestPty lib s ''xterm'' h w pty_modes (tl_Streams lib s [Stdout, Stderr] d) of
            (Some e, d1) \<Rightarrow> (Some e, d1)
          | (None, d1) \<Rightarrow> wait_limited lib s timeout (snd (tl_Start lib s cmd d1))" c d]
      frame_keeps_terminal [OF assms, of "\<lambda>s w h d.
          case tl_RequestPty lib s ''xterm'' h w [ECHO 1] (tl_Streams lib s [Stdin, Stdout, Stderr] d) of
            (Some e, d1) \<Rightarrow> (Some e, d1)
          | (None, d1) \<Rightarrow>
              (case tl_Shell lib s d1 of (Some e, d2) \<Rightarrow> (Some e, d2) | (None, d2) \<Rightarrow> tl_Wait lib s d2)" c d]
    by (simp add: o wait_limited_def case_prod_beta option.case_eq_if)
qed

text \<open>A terminal with its mode, the next number of a session, and the open ones.\<close>

type_synonym tty = "bool \<times> nat \<times> nat list"

definition tty_opened :: "tty \<Rightarrow> nat set" where
  "tty_opened d = {s \<in> set (snd (snd d)). s < fst (snd d)}"

definition tty_lib :: "tty term_lib" where
  "tty_lib =
     \<lparr>tl_IsTerminal = True, tl_GetSize = Inr (80, 25),
      tl_MakeRaw = (\<lambda>d. (Inr (if fst d then 1 else 0), (True, snd d))), tl_Restore = (\<lambda>old d. (old = 1, snd d)),
      tl_NewSession = (\<lambda>cl d. (Inr (fst (snd d)), (fst d, Suc (fst (snd d)), fst (snd d) # snd (snd d)))),
      tl_Close = (\<lambda>s d. (fst d, fst (snd d), removeAll s (snd (snd d)))), tl_Streams = (\<lambda>s x d. d),
      tl_RequestPty = (\<lambda>s t h w m d. (None, d)), tl_Start = (\<lambda>s cmd d. (None, d)), tl_Shell = (\<lambda>s d. (None, d)),
      tl_ends = (\<lambda>s n d. False), tl_Wait = (\<lambda>s d. (Some (Errorf ''closed''), d))\<rparr>"

lemma tty_laws: "term_laws tty_lib fst tty_opened"
  unfolding term_laws_def by (auto simp: tty_lib_def tty_opened_def)

theorem terminal_is_restored_witness:
  "ExecWithPty tty_lib (Some 1) ''top'' 3 (False, 5, [4]) = (Some (Errorf ''closed''), (False, 6, [4])) \<and>
   tty_opened (snd (Shell tty_lib (Some 1) (False, 5, [4]))) = {4}"
proof
  show "ExecWithPty tty_lib (Some 1) ''top'' 3 (False, 5, [4]) = (Some (Errorf ''closed''), (False, 6, [4]))"
    by code_simp
  have "tty_opened (False, 5, [4]) = {4}" by (auto simp: tty_opened_def)
  then show "tty_opened (snd (Shell tty_lib (Some 1) (False, 5, [4]))) = {4}"
    using terminal_is_restored [OF tty_laws, of "Some 1" "''top''" 3 "(False, 5, [4])"] by metis
qed

end
