(* ===== verification/Cron.thy ===== *)
theory Cron
  imports HTTPContext Interfaces
begin

text \<open>
  \<open>cron.go\<close>: the scheduler of the process and its jobs. The third-party scheduler is written out as
  far as the file uses it: it refuses a specification by \<open>cl_parse\<close>, numbers its entries, and runs an
  entry at its times while it is running. \<open>stack/stack.go\<close> follows: the dumps of all stacks on a signal.
\<close>

section \<open>cron.go\<close>

type_synonym ('s, 't) cron_job = "('s, 't) app \<Rightarrow> ('s, 't) app"

text \<open>A command gets its context and may end it; it returns an error or panics.\<close>

type_synonym ('s, 't) cron_cmd =
  "http_ctx \<Rightarrow> ('s, 't) app \<Rightarrow> goerr option outcome \<times> http_ctx \<times> ('s, 't) app"

record ('s, 't) cron_state =
  cr_entries :: "(nat \<times> string \<times> ('s, 't) cron_job) list"
  cr_next :: nat
  cr_running :: bool
  cr_started :: "('s, 't) cron_job list" \<comment> \<open>goroutines of \<open>DoWrapCron\<close>\<close>

record cron_lib =
  cl_parse :: "string \<Rightarrow> goerr option"
  cl_uuid :: string
  cl_w0 :: response_writer
  cl_r0 :: http_request

definition crontab :: "('s, 't) cron_state" where
  "crontab = \<lparr>cr_entries = [], cr_next = 1, cr_running = True, cr_started = []\<rparr>"

definition AddCron ::
  "cron_lib \<Rightarrow> string \<Rightarrow> ('s, 't) cron_job \<Rightarrow> ('s, 't) cron_state \<Rightarrow> (nat \<times> goerr option) \<times> ('s, 't) cron_state" where
  "AddCron lib spec cmd st =
     (case cl_parse lib spec of
        Some e \<Rightarrow> ((0, Some e), st)
      | None \<Rightarrow>
          ((cr_next st, None),
           st\<lparr>cr_entries := (cr_next st, spec, cmd) # cr_entries st, cr_next := cr_next st + 1\<rparr>))"

definition StopCron :: "('s, 't) cron_state \<Rightarrow> ('s, 't) cron_state" where
  "StopCron st = st\<lparr>cr_running := False\<rparr>"

text \<open>A job recovers every panic of its command; then its context is cancelled.\<close>

definition WrapCron :: "cron_lib \<Rightarrow> ('s, 't) cron_cmd \<Rightarrow> ('s, 't) cron_job" where
  "WrapCron lib cmd st =
     (let (ctx, st1) = NewHTTPContext (cl_uuid lib) (cl_w0 lib) (cl_r0 lib) st;
          (_, ctx2, st2) = cmd ctx st1
      in snd (HTTPContext_Cancel ctx2 st2))"

definition AddWrapCron ::
  "cron_lib \<Rightarrow> string \<Rightarrow> ('s, 't) cron_cmd \<Rightarrow> ('s, 't) cron_state \<Rightarrow> (nat \<times> goerr option) \<times> ('s, 't) cron_state" where
  "AddWrapCron lib spec cmd st = AddCron lib spec (WrapCron lib cmd) st"

text \<open>The job is started once whether its specification is accepted or not.\<close>

definition DoWrapCron ::
  "cron_lib \<Rightarrow> string \<Rightarrow> ('s, 't) cron_cmd \<Rightarrow> ('s, 't) cron_state \<Rightarrow> (nat \<times> goerr option) \<times> ('s, 't) cron_state" where
  "DoWrapCron lib spec cmd st =
     (let f = WrapCron lib cmd in AddCron lib spec f (st\<lparr>cr_started := f # cr_started st\<rparr>))"

text \<open>The time of an entry has come.\<close>

definition cron_tick :: "('s, 't) cron_state \<Rightarrow> nat \<Rightarrow> ('s, 't) app \<Rightarrow> ('s, 't) app" where
  "cron_tick st i a =
     (if cr_running st then (case map_of (cr_entries st) i of None \<Rightarrow> a | Some (_, job) \<Rightarrow> job a) else a)"

section \<open>Jobs and the wait group\<close>

text \<open>A command may end its own context, and keeps the wait group otherwise.\<close>

definition held :: "http_ctx \<Rightarrow> ('s, 't) app \<Rightarrow> int" where
  "held ctx st = ap_wg st - (if hc_isCanceled ctx then 0 else 1)"

definition cmd_keeps :: "('s, 't) cron_cmd \<Rightarrow> bool" where
  "cmd_keeps cmd \<longleftrightarrow> (\<forall>ctx st. held (fst (snd (cmd ctx st))) (snd (snd (cmd ctx st))) = held ctx st)"

definition job_keeps :: "('s, 't) cron_job \<Rightarrow> bool" where
  "job_keeps job \<longleftrightarrow> (\<forall>st. ap_wg (job st) = ap_wg st)"

lemma Cancel_wg: "ap_wg (snd (HTTPContext_Cancel ctx st)) = held ctx st"
  by (simp add: HTTPContext_Cancel_def held_def WgDone_def)

lemma WrapCron_keeps: "cmd_keeps cmd \<Longrightarrow> job_keeps (WrapCron lib cmd)"
  by (simp add: job_keeps_def WrapCron_def cmd_keeps_def case_prod_beta Cancel_wg NewHTTPContext_def)
    (simp add: held_def blank_ctx_def WgAdd_def)

definition cron_ok :: "('s, 't) cron_state \<Rightarrow> bool" where
  "cron_ok st \<longleftrightarrow> list_all (\<lambda>(_, _, job). job_keeps job) (cr_entries st)"

interpretation cron_wait: guarded_counter "cron_tick st" ap_wg "\<lambda>_. cron_ok st" for st :: "('s, 't) cron_state"
proof
  fix i and a :: "('s, 't) app" assume ok: "cron_ok st"
  show "ap_wg (cron_tick st i a) = ap_wg a"
  proof (cases "map_of (cr_entries st) i")
    case (Some e)
    with ok have "job_keeps (snd e)" by (auto simp: cron_ok_def list_all_iff dest!: map_of_SomeD)
    with Some show ?thesis by (simp add: cron_tick_def job_keeps_def case_prod_beta)
  qed (simp add: cron_tick_def)
qed

text \<open>What a process schedules.\<close>

datatype ('s, 't) cron_order = Schedule string "('s, 't) cron_cmd" | Do_now string "('s, 't) cron_cmd" | Stop

definition order :: "cron_lib \<Rightarrow> ('s, 't) cron_order \<Rightarrow> ('s, 't) cron_state \<Rightarrow> ('s, 't) cron_state" where
  "order lib x st =
     (case x of
        Schedule spec cmd \<Rightarrow> snd (AddWrapCron lib spec cmd st)
      | Do_now spec cmd \<Rightarrow> snd (DoWrapCron lib spec cmd st)
      | Stop \<Rightarrow> StopCron st)"

definition order_keeps :: "('s, 't) cron_order \<Rightarrow> bool" where
  "order_keeps x = (case x of Schedule _ cmd \<Rightarrow> cmd_keeps cmd | Do_now _ cmd \<Rightarrow> cmd_keeps cmd | Stop \<Rightarrow> True)"

lemma order_ok: "order_keeps x \<Longrightarrow> cron_ok st \<Longrightarrow> cron_ok (order lib x st)"
  by (auto simp: order_def order_keeps_def cron_ok_def AddWrapCron_def DoWrapCron_def AddCron_def StopCron_def
      WrapCron_keeps Let_def split: cron_order.splits option.splits)

lemma orders_ok: "list_all order_keeps xs \<Longrightarrow> cron_ok st \<Longrightarrow> cron_ok (fold (order lib) xs st)"
  by (induction xs arbitrary: st) (simp_all add: order_ok)

text \<open>
  The jobs of a process leave the wait group as it was, whatever was scheduled, however often the
  jobs ran, and whether their commands returned, failed, panicked or ended their context themselves; after
  a stop nothing runs.
\<close>

theorem cron_jobs_keep_wait_group:
  assumes "list_all order_keeps xs"
  shows "ap_wg (fold (cron_tick (fold (order lib) xs crontab)) ticks a) = ap_wg a \<and>
    fold (cron_tick (StopCron (fold (order lib) xs crontab))) ticks a = a"
proof
  have "cron_ok (fold (order lib) xs crontab)"
    by (rule orders_ok [OF assms]) (simp add: cron_ok_def crontab_def)
  then show "ap_wg (fold (cron_tick (fold (order lib) xs crontab)) ticks a) = ap_wg a"
    by (intro cron_wait.run_all_count) simp
  show "fold (cron_tick (StopCron (fold (order lib) xs crontab))) ticks a = a"
    by (induction ticks) (simp_all add: cron_tick_def StopCron_def)
qed

section \<open>stack/stack.go\<close>

datatype stack_signal = SigTrap | SigEnd \<comment> \<open>\<open>SIGHUP\<close>, \<open>SIGQUIT\<close>, \<open>SIGINT\<close>, \<open>SIGTERM\<close>\<close>

text \<open>A dump: the time, the number of goroutines and what \<open>runtime.Stack\<close> writes.\<close>

record stack_dump =
  sd_time :: string
  sd_goroutines :: nat
  sd_text :: string

definition stack_block :: "stack_dump \<Rightarrow> string" where
  "stack_block x =
     replicate 80 CHR ''='' @ [CHR 0x0A, CHR 0x0A] @ sd_time x @ '' total goroutine:'' @ nat_dec (sd_goroutines x) @
     '' stdout:'' @ [CHR 0x0A, CHR 0x0A] @ take 1638400 (sd_text x) @ [CHR 0x0A, CHR 0x0A]"

text \<open>\<open>None\<close> is a file that cannot be opened, on which every write fails unseen.\<close>

definition writeStack :: "stack_dump \<Rightarrow> string option \<Rightarrow> string option" where
  "writeStack x file = map_option (\<lambda>s. s @ stack_block x) file"

fun stack_loop :: "(stack_signal \<times> stack_dump) list \<Rightarrow> string option \<Rightarrow> string option" where
  "stack_loop [] file = file"
| "stack_loop ((SigTrap, x) # evs) file = stack_loop evs (writeStack x file)"
| "stack_loop ((SigEnd, x) # evs) file = file"

lemma stack_loop_blocks:
  "stack_loop evs (Some s) =
     Some (s @ concat (map (stack_block \<circ> snd) (takeWhile (\<lambda>e. fst e = SigTrap) evs)))"
  by (induction evs "Some s" arbitrary: s rule: stack_loop.induct) (simp_all add: writeStack_def)

end
