(* ===== verification/Spec2Isabelle.thy ===== *)
theory Spec2Isabelle
  imports LifecycleProps XormDao Signal HttpProxy Curl Register P2c GrpcServer ApiClient Mongo WebSocket Scp Environment Prometheus HttpServer Program Dates SshExec Cron
begin

text \<open>
  Verification development of \<open>hfw\<close>, a web framework in Go.

  THE PROGRAM. When the package is loaded, the process reads its command line and environment
  (\<open>common/env.go\<close>) and its configuration (\<open>configs\<close>) and sets up the log, Redis, the database and the
  metrics (\<open>init.go\<close>). It registers controllers under paths (\<open>router.go\<close>, \<open>router_map.go\<close>), listens,
  announces itself to Consul or etcd (\<open>grpc/discovery/register\<close>) and serves (\<open>run.go\<close>,
  \<open>server_http.go\<close>, \<open>server_grpc.go\<close>). A request gets a context (\<open>context.go\<close>), is counted and limited,
  is routed to a method of a controller, runs through \<open>Init\<close>, \<open>Before\<close>, the action, \<open>After\<close>,
  \<open>recoverPanic\<close> and \<open>Finish\<close> (\<open>router.go\<close>, \<open>controller.go\<close>) and is answered as JSON, as a page or as a
  file (\<open>output.go\<close>); a gRPC call goes through the interceptors of \<open>server_grpc.go\<close>. Controllers use
  sessions (\<open>session\<close>) in Redis (\<open>redis\<close>), a database through xorm (\<open>db\<close>), MongoDB (\<open>nosql\<close>), errors
  with a code (\<open>common/error.go\<close>), encodings (\<open>encoding\<close>, \<open>crypto\<close>), websockets (\<open>wslib\<close>), and other
  services: over HTTP (\<open>api\<close>, \<open>curl\<close>), whose addresses come from \<open>service/discovery\<close>, or over gRPC
  (\<open>grpc/client\<close>), whose connections resolve their addresses (\<open>grpc/discovery/resolver\<close>) and balance
  their calls (\<open>grpc/balancer/p2c\<close>). Every context, resolver and registration is a unit of work of the
  wait group of \<open>signal\<close>, which ends the process gracefully. Beside the server stand proxies: one in
  the server itself (\<open>proxy\<close>), and one for SOCKS5 and HTTP that goes out through a shared SSH
  connection (\<open>ssh\<close>) for the hosts of a table (\<open>pac\<close>); the connection also runs commands and uploads
  files. Jobs run at their times (\<open>cron.go\<close>).

  THE THEORIES, in the order in which they build on each other.
  \<open>Prelude\<close>: Go strings as lists of bytes with the functions of packages strings and strconv,
  64-bit integers with their wrap-around, errors, panics and the outcome of a call.
  \<open>Interfaces\<close>: the contracts that components share, as locales, interpreted in the theories of the
  components. \<open>keyed_cache\<close> (get or create): the pools of Redis, the cache of templates, the engines of
  the database, Consul clients, resolvers of services, gRPC connections, sessions of MongoDB.
  \<open>codec\<close> and \<open>codec_pair\<close>: addresses, the JSON forms of strings and numbers, base64, the file of
  \<open>pac\<close>, padding under CBC. \<open>guarded_counter\<close>: the requests of the router, gRPC calls, calls of other
  services, jobs, resolvers, registered servers, the sessions of the database object. \<open>simulation\<close>:
  the watch of etcd.
  \<open>NetHttp\<close> and \<open>Filepath\<close>: what is used of packages net/http and path/filepath.
  \<open>Common\<close>, \<open>RespError\<close>, \<open>ServerAddress\<close>, \<open>Environment\<close>: package \<open>common\<close>.
  \<open>Configs\<close>: package \<open>configs\<close>, the records, the loader and the defaults.
  \<open>Redis\<close>, \<open>RedisFunc\<close>, \<open>RedisProps\<close>: the client of package \<open>redis\<close>, its package functions, and their
  properties. \<open>Session\<close>: package \<open>session\<close>. \<open>RedisCache\<close>: \<open>db/cache/redis.go\<close>. \<open>Mongo\<close>: package \<open>nosql\<close>.
  \<open>Encoding\<close>: \<open>encoding/cased.go\<close> and the strings and numbers of \<open>encoding/type.go\<close>; \<open>Dates\<close>: its
  times. \<open>Crypto\<close>: \<open>crypto/aes.go\<close> and \<open>encoding/base64.go\<close>.
  \<open>HTTPContext\<close>: \<open>context.go\<close>. \<open>Route\<close>: the registration and the look-up of routes. \<open>Output\<close>: \<open>output.go\<close>
  and \<open>controller.go\<close>. \<open>Lifecycle\<close>: one request through \<open>router.go\<close>, with its deferred calls and panics;
  \<open>LifecycleProps\<close>: what holds of it. \<open>Cron\<close>: \<open>cron.go\<close> and \<open>stack/stack.go\<close>. \<open>WebSocket\<close>: package \<open>wslib\<close>.
  \<open>XormCond\<close>: the builder of conditions in \<open>db/xorm_dao.go\<close> with a reference definition. \<open>Db\<close>: \<open>db/db.go\<close>
  and the data source names. \<open>XormDao\<close>: the data access object, every operation of \<open>db/xorm_dao.go\<close>.
  \<open>Signal\<close>: \<open>signal/signal.go\<close> as a step relation on the state its goroutines share.
  \<open>Pac\<close>: package \<open>pac\<close>. \<open>Ssh\<close>: \<open>ssh/ssh.go\<close>, the shared connections; \<open>SshExec\<close>: \<open>ssh/exec.go\<close>; \<open>Scp\<close>:
  \<open>ssh/scp.go\<close>; \<open>SshProxy\<close>: \<open>ssh/proxy.go\<close> and \<open>ssh/forward.go\<close>. \<open>HttpProxy\<close>: package \<open>proxy\<close>.
  \<open>Curl\<close>: package \<open>curl\<close>. \<open>ServiceDiscovery\<close>: package \<open>service/discovery\<close>, the Consul clients and the
  resolver of a service. \<open>ApiClient\<close>: package \<open>api\<close> over both.
  \<open>Resolver\<close>: \<open>grpc/discovery/resolver\<close>, the builders of a gRPC client and what they tell a connection.
  \<open>Register\<close>: \<open>grpc/discovery/register\<close>. \<open>P2c\<close>: \<open>grpc/balancer/p2c\<close>. \<open>GrpcClient\<close>: \<open>grpc/auth\<close> and
  \<open>grpc/client\<close>. \<open>GrpcServer\<close>: \<open>grpc/server\<close> and the interceptors of \<open>server_grpc.go\<close>.
  \<open>Prometheus\<close>: package \<open>prometheus\<close>. \<open>HttpServer\<close>: \<open>server_http.go\<close>, \<open>run.go\<close> and \<open>RunGrpc\<close>, with the
  run of a server as a step relation over the one of \<open>Signal\<close>. \<open>Program\<close>: \<open>init.go\<close>, composed of the
  models of the packages that it calls, and the program as it runs.

  CONVENTIONS. A function of the source has its name (\<open>Client_Get\<close> for a method \<open>Get\<close> of \<open>Client\<close> where
  names would collide); a struct is a record; an error is a value of type \<open>goerr\<close>; a panic is the
  outcome \<open>Panics\<close>; state is passed and returned. Code that is not in the repository is a record of
  functions over a state of its own: radix and the Redis server (\<open>radix\<close>), xorm and the database
  (\<open>xorm\<close>), the driver of MongoDB (\<open>mgo_lib\<close>), the JSON encoder, the template engine and the file system
  (\<open>srv_env\<close>), the block cipher (\<open>block_cipher\<close>), the SSH library (\<open>ssh_lib\<close>, \<open>scp_lib\<close>, \<open>term_lib\<close>), the
  transports of the proxies, of curl (\<open>curl_env\<close>) and of the api client (\<open>api_env\<close>), Consul
  (\<open>consul_api\<close>) and etcd (\<open>etcd_api\<close>, \<open>etcd_kv\<close>), gRPC and its credentials (\<open>grpc_lib\<close>, \<open>tls_env\<close>),
  floating point (\<open>float_env\<close>), websockets (\<open>ws_lib\<close>), listening and serving (\<open>serve_lib\<close>), the
  scheduler (\<open>cron_lib\<close>) and the operating system (\<open>os_env\<close>, \<open>zone\<close>). What the code relies on there is a
  named hypothesis (\<open>store_ok\<close>, \<open>sessions_counted\<close>, \<open>block_ok\<close>, \<open>mean_ok\<close>, \<open>reads_bodies\<close>,
  \<open>remote_runs\<close>, \<open>term_laws\<close>, ...), and each property with one has a witness on a concrete instance.
  The iteration order of a Go map is the order of a list, and the theorems hold for each.

  WHAT IS SHOWN. Of a request: the counters come back whatever the controllers do, a panic is
  answered with 500 after \<open>After\<close> and before \<open>Finish\<close>, the limit answers 503; the same counters for
  gRPC calls and streams, whose panics become errors. Of routes: a registered method is found, later
  registrations keep routes. Of Redis and sessions: a client stays within its prefix, pools are shared,
  values are read back, sessions are isolated and survive a change of their identifier. Of the
  database: the loop over a condition computes the reference, in any order of the map, sessions of
  xorm are closed, and where the guards have gaps. Of the shutdown: an invariant of every reachable
  state, order and liveness without a timeout, a bound on the steps, and the second close after a
  timeout; a server returns only when the shutdown is over, and always gets to return. Of the set-up:
  without an error everything that the configuration asks for is there, an error is lost to the
  application, the flags and variables give the environment in their order, and the search for the
  directory of the application ends at the nearest one. Of discovery: resolvers and registrations
  balance the wait group, round robin is fair, what a connection is told refines what the events leave
  in etcd, and where keys and builders do not meet. Of the balancer: the calls under way are counted,
  success is a rate, an idle connection is tried. Of the clients: the tries of a gRPC call are those of
  the reference, and what is lost between the tries of a call over HTTP. Of the proxies: a SOCKS5
  client is connected to what it asks for however its request is segmented, nobody is connected
  without credentials, a shared SSH connection lives as long as it is held, and where a proxy gives it
  back too often or a short segment ends the process. Of the rest of SSH: an upload mirrors the tree,
  the terminal is restored. Of websockets: they are kept alive until their context ends. Of the
  encodings: the round trips. Some theorems state what the code does where that is not what it means
  to do; they are the findings of the manifest.

  BOUNDS. No definition takes fuel: the recursive ones are structural or end by a measure (the
  length of the text, the position in a list, the tries that are left), and loops over channels take
  the list of what the channel yields. Machine integers are words or reduced by \<open>i64\<close> where their width
  matters (the online counter and its limit, page offsets, time-outs, converted values). Package time
  is modelled for the two layouts that are used; a fraction of a second has at most nine digits.

  NOT MODELLED. The adapter of the logger for xorm (\<open>db/xorm_log.go\<close>), the codecs of gob and JSON
  (\<open>encoding/codec.go\<close>), the web view and the TOML helper: each function there is one call of a library.
  Within the components above: log output, the calls that feed the metrics from a request, the time a
  call takes, the exact text \<open>%v\<close> gives to a whole structure, data races on tables without a lock, and
  the slices that the Redis client overwrites in place.
\<close>

end
